(* ===== verification/Prelude.thy ===== *)
theory Prelude
  imports "HOL-Library.Word" "HOL-Library.Char_ord" "HOL-Library.List_Lexorder"
begin

section \<open>Shared vocabulary of the AbilityFramework model\<close>

text \<open>
  Types and generic facts every component theory uses: the exceptions the C++ code throws, the
  two-sided result type of the code's \<open>expected<T, E>\<close> (\<open>Inl\<close> the error, \<open>Inr\<close> the value),
  \<open>std::map\<close> as a key-sorted association list, and the byte-string helpers of the standard library.
\<close>

named_theorems result_simps \<open>unfolding rules of the result type\<close>
named_theorems omap_simps \<open>lookup laws of the ordered map\<close>

subsection \<open>Identifiers and time\<close>

text \<open>A \<open>uuids::uuid\<close> is sixteen bytes ordered lexicographically, that is a 128-bit big-endian word;
  the nil uuid is the zero word. A \<open>time_point\<close> is a count of milliseconds since the epoch of its clock.\<close>

type_synonym uuid = "128 word"
type_synonym time = int

subsection \<open>Exceptions\<close>

text \<open>The exception classes that the code throws and that its handlers tell apart. \<open>ProblemEx\<close> is
  the code's \<open>ProblemDetail\<close> with its status, type, title and detail. \<open>Undefined\<close> stands for a step whose
  behaviour the language or the JSON library leaves undefined; nothing is proved about what follows it.\<close>

datatype exn =
    InvalidArgument string
  | OutOfRange string
  | RuntimeError string
  | LogicError string
  | JsonError string
  | FormatError string string
  | SqliteError string
  | BadAccess string
  | ProblemEx nat string string string string
  | Undefined string

(* include/messagebus/messagebus.hpp:48-54 FormatError::what *)
fun what :: "exn \<Rightarrow> string" where
  "what (InvalidArgument m) = m"
| "what (OutOfRange m) = m"
| "what (RuntimeError m) = m"
| "what (LogicError m) = m"
| "what (JsonError m) = m"
| "what (FormatError m c) = ''FormatError: '' @ m"
| "what (SqliteError m) = m"
| "what (BadAccess m) = m"
| "what (ProblemEx st ty ti d i) = d"
| "what (Undefined m) = m"

subsection \<open>Results\<close>

fun rbind :: "'e + 'a \<Rightarrow> ('a \<Rightarrow> 'e + 'b) \<Rightarrow> 'e + 'b" where
  "rbind (Inl e) f = Inl e"
| "rbind (Inr x) f = f x"

fun is_ok :: "'e + 'a \<Rightarrow> bool" where
  "is_ok (Inl e) = False"
| "is_ok (Inr x) = True"

lemma rbind_eq_Inr [result_simps]: "rbind r f = Inr y \<longleftrightarrow> (\<exists>x. r = Inr x \<and> f x = Inr y)"
  by (cases r) auto

lemma rbind_eq_Inl [result_simps]:
  "rbind r f = Inl e \<longleftrightarrow> r = Inl e \<or> (\<exists>x. r = Inr x \<and> f x = Inl e)"
  by (cases r) auto

lemma rbind_assoc: "rbind (rbind r f) g = rbind r (\<lambda>x. rbind (f x) g)"
  by (cases r) auto

lemma is_ok_iff: "is_ok r \<longleftrightarrow> (\<exists>x. r = Inr x)"
  by (cases r) auto

lemma rbind_split:
  "P (rbind r f) \<longleftrightarrow> (\<forall>e. r = Inl e \<longrightarrow> P (Inl e)) \<and> (\<forall>x. r = Inr x \<longrightarrow> P (f x))"
  by (cases r) auto

lemma rbind_case: "rbind r f = (case r of Inl e \<Rightarrow> Inl e | Inr x \<Rightarrow> f x)"
  by (cases r) auto

text \<open>Run a fallible function over a list from the left, stopping at the first error.\<close>

fun mapM_r :: "('a \<Rightarrow> 'e + 'b) \<Rightarrow> 'a list \<Rightarrow> 'e + 'b list" where
  "mapM_r f [] = Inr []"
| "mapM_r f (x # xs) = rbind (f x) (\<lambda>y. rbind (mapM_r f xs) (\<lambda>ys. Inr (y # ys)))"

lemma rbind_cong [fundef_cong]: "r = r' \<Longrightarrow> (\<And>x. r' = Inr x \<Longrightarrow> f x = f' x) \<Longrightarrow> rbind r f = rbind r' f'"
  by (cases r') auto

lemma mapM_r_cong [fundef_cong]: "xs = ys \<Longrightarrow> (\<And>x. x \<in> set ys \<Longrightarrow> f x = g x) \<Longrightarrow> mapM_r f xs = mapM_r g ys"
  by (induction ys arbitrary: xs) auto

lemma mapM_r_map: "(\<And>x. x \<in> set xs \<Longrightarrow> f (g x) = Inr (h x)) \<Longrightarrow> mapM_r f (map g xs) = Inr (map h xs)"
  by (induction xs) auto

lemma mapM_r_Inr: "(\<And>x. x \<in> set xs \<Longrightarrow> f x = Inr (h x)) \<Longrightarrow> mapM_r f xs = Inr (map h xs)"
  by (induction xs) auto

lemma mapM_r_length: "mapM_r f xs = Inr ys \<Longrightarrow> length ys = length xs"
  by (induction xs arbitrary: ys) (auto simp: result_simps)

lemma size_list_nth: "i < length xs \<Longrightarrow> f (xs ! i) \<le> size_list f xs"
  by (induction xs arbitrary: i) (auto simp: nth_Cons' le_SucI trans_le_add2)

lemma size_list_last: "xs \<noteq> [] \<Longrightarrow> f (last xs) \<le> size_list f xs"
  by (simp add: last_conv_nth size_list_nth)

subsection \<open>Ordered maps\<close>

text \<open>\<open>std::map\<close> keeps one entry per key in key order, which is the order a range-for visits.\<close>

type_synonym ('k, 'v) omap = "('k \<times> 'v) list"

fun oput :: "'k::linorder \<Rightarrow> 'v \<Rightarrow> ('k, 'v) omap \<Rightarrow> ('k, 'v) omap" where
  "oput k v [] = [(k, v)]"
| "oput k v ((k', v') # m) =
    (if k = k' then (k, v) # m else if k < k' then (k, v) # (k', v') # m else (k', v') # oput k v m)"

definition odel :: "'k \<Rightarrow> ('k, 'v) omap \<Rightarrow> ('k, 'v) omap" where
  "odel k m = filter (\<lambda>p. fst p \<noteq> k) m"

definition omap_ok :: "('k::linorder, 'v) omap \<Rightarrow> bool" where
  "omap_ok m = sorted_wrt (<) (map fst m)"

lemma map_of_oput [omap_simps, simp]: "map_of (oput k v m) = (map_of m)(k \<mapsto> v)"
  by (induction k v m rule: oput.induct) (auto simp: fun_upd_twist)

lemma map_of_odel [omap_simps, simp]: "map_of (odel k m) = (map_of m)(k := None)"
  unfolding odel_def by (induction m) (auto simp: fun_upd_twist)

lemma set_fst_oput [simp]: "fst ` set (oput k v m) = insert k (fst ` set m)"
  by (induction k v m rule: oput.induct) auto

lemma oput_nonempty [simp]: "oput k v m \<noteq> []"
  by (induction k v m rule: oput.induct) auto

lemma set_oput_subset: "set (oput k v m) \<subseteq> insert (k, v) (set m)"
  by (induction k v m rule: oput.induct) auto

lemma set_odel [simp]: "set (odel k m) = {p \<in> set m. fst p \<noteq> k}"
  by (auto simp: odel_def)

lemma omap_ok_Nil [simp]: "omap_ok []"
  by (simp add: omap_ok_def)

lemma omap_ok_oput [simp]: "omap_ok m \<Longrightarrow> omap_ok (oput k v m)"
  unfolding omap_ok_def
proof (induction k v m rule: oput.induct)
  case (2 k v k' v' m)
  have "fst ` set (oput k v m) = insert k (fst ` set m)" by simp
  then show ?case using 2 by (auto simp: image_iff)
qed simp

lemma omap_ok_odel [simp]: "omap_ok m \<Longrightarrow> omap_ok (odel k m)"
  unfolding omap_ok_def odel_def by (induction m) auto

lemma omap_ok_filter: "omap_ok m \<Longrightarrow> omap_ok (filter P m)"
  unfolding omap_ok_def by (induction m) auto

lemma omap_ok_distinct: "omap_ok m \<Longrightarrow> distinct (map fst m)"
  unfolding omap_ok_def using strict_sorted_iff by blast

lemma omap_ok_set_eq:
  assumes "omap_ok m" "omap_ok m'" "set m = set m'"
  shows "m = m'"
proof (rule map_sorted_distinct_set_unique [of fst])
  have d: "distinct (map fst m)" "distinct (map fst m')" using assms omap_ok_distinct by blast+
  show "inj_on fst (set m \<union> set m')" using d assms(3) by (simp add: distinct_map)
  show "distinct (map fst m)" "distinct (map fst m')" by (rule d)+
  show "sorted (map fst m)" "sorted (map fst m')" using assms by (auto simp: omap_ok_def strict_sorted_iff)
qed (rule assms(3))

lemma omap_ok_eq:
  assumes "omap_ok m" "omap_ok m'" "map_of m = map_of m'"
  shows "m = m'"
proof -
  have d: "distinct (map fst m)" "distinct (map fst m')" using assms omap_ok_distinct by blast+
  have "set m = set m'"
    unfolding set_map_of_compr [OF d(1)] set_map_of_compr [OF d(2)] assms(3) by (rule refl)
  then show ?thesis using assms omap_ok_set_eq by blast
qed

text \<open>Filling a map from a list of entries.\<close>

definition oputs :: "('k::linorder \<times> 'v) list \<Rightarrow> ('k, 'v) omap \<Rightarrow> ('k, 'v) omap" where
  "oputs es m = fold (\<lambda>(k, v) m. oput k v m) es m"

lemma oputs_simps [simp]: "oputs [] m = m" "oputs ((k, v) # es) m = oputs es (oput k v m)"
  by (simp_all add: oputs_def)

lemma set_oput_fresh: "k \<notin> fst ` set m \<Longrightarrow> set (oput k v m) = insert (k, v) (set m)"
  by (induction k v m rule: oput.induct) auto

lemma fst_set_oputs: "fst ` set (oputs es m) = fst ` set es \<union> fst ` set m"
proof (induction es arbitrary: m)
  case (Cons e es)
  then show ?case by (cases e) (simp add: set_fst_oput)
qed simp

lemma omap_ok_oputs [simp]: "omap_ok m \<Longrightarrow> omap_ok (oputs es m)"
  by (induction es arbitrary: m) auto

lemma set_oputs:
  "distinct (map fst es) \<Longrightarrow> fst ` set es \<inter> fst ` set m = {} \<Longrightarrow> set (oputs es m) = set es \<union> set m"
proof (induction es arbitrary: m)
  case (Cons e es)
  obtain k v where e: "e = (k, v)" by (cases e)
  have k: "k \<notin> fst ` set m" using Cons.prems e by auto
  have "fst ` set es \<inter> fst ` set (oput k v m) = {}" using Cons.prems e by auto
  then show ?case using Cons.IH [of "oput k v m"] Cons.prems(1) k e by (simp add: set_oput_fresh)
qed simp

lemma oputs_id: "omap_ok m \<Longrightarrow> distinct (map fst es) \<Longrightarrow> set es = set m \<Longrightarrow> oputs es [] = m"
  by (rule omap_ok_set_eq) (simp_all add: set_oputs)

subsection \<open>Byte strings\<close>

definition ends_with :: "string \<Rightarrow> string \<Rightarrow> bool" where
  "ends_with s suf = (length suf \<le> length s \<and> drop (length s - length suf) s = suf)"

definition starts_with :: "string \<Rightarrow> string \<Rightarrow> bool" where
  "starts_with s pre = (take (length pre) s = pre)"

definition quoted :: "string \<Rightarrow> string" where
  "quoted s = CHR 0x27 # s @ [CHR 0x27]"

definition lower_char :: "char \<Rightarrow> char" where
  "lower_char c = (let n = of_char c :: nat in if 65 \<le> n \<and> n \<le> 90 then char_of (n + 32) else c)"

definition lower :: "string \<Rightarrow> string" where
  "lower s = map lower_char s"

lemma starts_with_append [simp]: "starts_with (pre @ s) pre"
  by (simp add: starts_with_def)

lemma ends_with_append [simp]: "ends_with (s @ suf) suf"
  by (simp add: ends_with_def)

text \<open>Decimal printing (\<open>std::to_string\<close>) and the digit loop of \<open>std::from_chars\<close> and \<open>std::stoi\<close>.\<close>

definition is_digit :: "char \<Rightarrow> bool" where
  "is_digit c = (let n = of_char c :: nat in 48 \<le> n \<and> n \<le> 57)"

definition digit_val :: "char \<Rightarrow> nat" where
  "digit_val c = of_char c - 48"

definition digit_char :: "nat \<Rightarrow> char" where
  "digit_char n = char_of (48 + n)"

fun dec :: "nat \<Rightarrow> string" where
  "dec n = (if n < 10 then [digit_char n] else dec (n div 10) @ [digit_char (n mod 10)])"

declare dec.simps [simp del]

definition dec_int :: "int \<Rightarrow> string" where
  "dec_int i = (if i < 0 then ''-'' @ dec (nat (- i)) else dec (nat i))"

definition undec :: "string \<Rightarrow> nat" where
  "undec s = foldl (\<lambda>a c. 10 * a + digit_val c) 0 s"

lemma digit_char_props [simp]:
  assumes "n < 10"
  shows "is_digit (digit_char n)" "digit_val (digit_char n) = n"
  using assms by (auto simp: is_digit_def digit_val_def digit_char_def Let_def of_char_of take_bit_eq_mod)

lemma dec_digits: "c \<in> set (dec n) \<Longrightarrow> is_digit c"
  by (induction n rule: dec.induct) (subst (asm) (2) dec.simps, auto split: if_splits)

lemma dec_nonempty [simp]: "dec n \<noteq> []"
  by (subst dec.simps) auto

lemma undec_append_digit: "undec (s @ [c]) = 10 * undec s + digit_val c"
  by (simp add: undec_def)

lemma undec_dec [simp]: "undec (dec n) = n"
proof (induction n rule: dec.induct)
  case (1 n)
  show ?case
  proof (cases "n < 10")
    case True
    then show ?thesis by (subst dec.simps) (simp add: undec_def)
  next
    case False
    then have "undec (dec n) = 10 * undec (dec (n div 10)) + n mod 10"
      by (subst dec.simps) (simp add: undec_append_digit)
    also have "\<dots> = n" using 1 False by simp
    finally show ?thesis .
  qed
qed

lemma dec_inj [simp]: "dec m = dec n \<longleftrightarrow> m = n"
  by (metis undec_dec)

text \<open>\<open>std::getline\<close> on a delimiter, until the end of the stream: a trailing delimiter adds no empty line.\<close>

function getlines :: "char \<Rightarrow> string \<Rightarrow> string list" where
  "getlines d s =
     (if s = [] then [] else takeWhile (\<lambda>c. c \<noteq> d) s # getlines d (tl (dropWhile (\<lambda>c. c \<noteq> d) s)))"
  by pat_completeness auto
termination
proof (relation "measure (\<lambda>(d, s). length s)")
  fix d and s :: string
  assume "s \<noteq> []"
  then have "length (tl (dropWhile (\<lambda>c. c \<noteq> d) s)) < length s"
    using length_dropWhile_le [of "\<lambda>c. c \<noteq> d" s] by (cases s) (auto simp: less_Suc_eq_le le_SucI)
  then show "((d, tl (dropWhile (\<lambda>c. c \<noteq> d) s)), (d, s)) \<in> measure (\<lambda>(d, s). length s)" by simp
qed simp

declare getlines.simps [simp del]

text \<open>The text before and after the first occurrence of a character.\<close>

definition split_at :: "char \<Rightarrow> string \<Rightarrow> (string \<times> string) option" where
  "split_at d s =
     (if d \<in> set s then Some (takeWhile (\<lambda>c. c \<noteq> d) s, tl (dropWhile (\<lambda>c. c \<noteq> d) s)) else None)"

lemma while_append_delim:
  "d \<notin> set a \<Longrightarrow> takeWhile (\<lambda>c. c \<noteq> d) (a @ d # b) = a"
  "d \<notin> set a \<Longrightarrow> dropWhile (\<lambda>c. c \<noteq> d) (a @ d # b) = d # b"
  by (induction a) auto

lemma split_at_append: "d \<notin> set a \<Longrightarrow> split_at d (a @ d # b) = Some (a, b)"
  by (simp add: split_at_def while_append_delim)

lemma getlines_append: "d \<notin> set a \<Longrightarrow> getlines d (a @ d # s) = a # getlines d s"
  by (subst getlines.simps) (simp add: while_append_delim)

lemma getlines_single: "d \<notin> set a \<Longrightarrow> a \<noteq> [] \<Longrightarrow> getlines d a = [a]"
  by (subst getlines.simps)
    (metis (mono_tags, lifting) dropWhile_eq_Nil_conv getlines.simps list.sel(2) takeWhile_eq_all_conv)

text \<open>All the pieces between the occurrences of a character, empty ones included.\<close>

fun split_all :: "char \<Rightarrow> string \<Rightarrow> string list" where
  "split_all d [] = [[]]"
| "split_all d (c # s) =
     (if c = d then [] # split_all d s else (case split_all d s of [] \<Rightarrow> [[c]] | x # xs \<Rightarrow> (c # x) # xs))"

lemma split_all_single: "d \<notin> set s \<Longrightarrow> split_all d s = [s]"
  by (induction s) auto

lemma split_all_append: "d \<notin> set a \<Longrightarrow> split_all d (a @ d # s) = a # split_all d s"
  by (induction a) auto

lemma split_all_join: "split_all d s = xs \<Longrightarrow> concat (map (\<lambda>x. d # x) xs) = d # s"
proof (induction d s arbitrary: xs rule: split_all.induct)
  case (2 d c s)
  then show ?case by (cases "split_all d s") (auto split: if_splits)
qed auto

lemma split_all_nonempty [simp]: "split_all d s \<noteq> []"
  by (induction s) (auto split: list.splits)

lemma split_all_prefix: "d \<notin> set k \<Longrightarrow> split_all d (k @ s) = (case split_all d s of x # xs \<Rightarrow> (k @ x) # xs)"
  by (induction k) (auto split: list.splits)

end
