(* ===== verification/Json.thy ===== *)
theory Json
  imports Prelude
begin

section \<open>JSON documents and the field macros\<close>

text \<open>
  The document type the code exchanges between its modules (\<open>nlohmann::json\<close>) as a datatype: an object
  is a \<open>std::map\<close>, hence a key-sorted association list. Only integer numbers occur in the modelled code.
  The accessors throw the library's documented exceptions (type errors 302, 304, 306 and the key error
  403), as values of \<^typ>\<open>exn\<close>. The field macros of \<open>include/util/json_codec_macros.hpp\<close>
  follow. Text parsing and printing of documents are parameters wherever the code uses them.
\<close>

named_theorems json_simps \<open>evaluation of document accessors\<close>

datatype json =
    JNull
  | JBool bool
  | JNum int
  | JStr string
  | JArr "json list"
  | JObj "(string \<times> json) list"

fun type_name :: "json \<Rightarrow> string" where
  "type_name JNull = ''null''"
| "type_name (JBool _) = ''boolean''"
| "type_name (JNum _) = ''number''"
| "type_name (JStr _) = ''string''"
| "type_name (JArr _) = ''array''"
| "type_name (JObj _) = ''object''"

definition type_error :: "string \<Rightarrow> json \<Rightarrow> exn" where
  "type_error want j = JsonError (''[json.exception.type_error.302] type must be '' @ want @ '', but is '' @ type_name j)"

definition key_error :: "string \<Rightarrow> exn" where
  "key_error k = JsonError (''[json.exception.out_of_range.403] key '' @ k @ '' not found'')"

subsection \<open>Element access\<close>

fun jfind :: "string \<Rightarrow> json \<Rightarrow> json option" where
  "jfind k (JObj m) = map_of m k"
| "jfind k _ = None"

definition jcontains :: "string \<Rightarrow> json \<Rightarrow> bool" where
  "jcontains k j = (jfind k j \<noteq> None)"

fun jat :: "string \<Rightarrow> json \<Rightarrow> exn + json" where
  "jat k (JObj m) = (case map_of m k of None \<Rightarrow> Inl (key_error k) | Some v \<Rightarrow> Inr v)"
| "jat k j = Inl (JsonError (''[json.exception.type_error.304] cannot use at() with '' @ type_name j))"

fun jvalue :: "string \<Rightarrow> json \<Rightarrow> json \<Rightarrow> exn + json" where
  "jvalue k d (JObj m) = Inr (case map_of m k of None \<Rightarrow> d | Some v \<Rightarrow> v)"
| "jvalue k d j = Inl (JsonError (''[json.exception.type_error.306] cannot use value() with '' @ type_name j))"

text \<open>\<open>empty()\<close>: null and the empty containers; never a scalar, in particular not the empty string.\<close>

fun jempty :: "json \<Rightarrow> bool" where
  "jempty JNull = True"
| "jempty (JArr xs) = (xs = [])"
| "jempty (JObj m) = (m = [])"
| "jempty _ = False"

text \<open>Writing a field: \<open>j[k] = v\<close> turns null into an object.\<close>

fun jput :: "string \<Rightarrow> json \<Rightarrow> json \<Rightarrow> json" where
  "jput k v (JObj m) = JObj (oput k v m)"
| "jput k v JNull = JObj [(k, v)]"
| "jput k v j = j"

definition jput_if :: "bool \<Rightarrow> string \<Rightarrow> json \<Rightarrow> json \<Rightarrow> json" where
  "jput_if b k v j = (if b then jput k v j else j)"

fun jput_opt :: "string \<Rightarrow> ('a \<Rightarrow> json) \<Rightarrow> 'a option \<Rightarrow> json \<Rightarrow> json" where
  "jput_opt k f None j = j"
| "jput_opt k f (Some x) j = jput k (f x) j"

definition jobject :: "(string \<times> json) list \<Rightarrow> json" where
  "jobject kvs = fold (\<lambda>(k, v) j. jput k v j) kvs (JObj [])"

text \<open>Appending to an array field: \<open>j[k].push_back(v)\<close> makes the array on first use.\<close>

definition jpush :: "string \<Rightarrow> json \<Rightarrow> json \<Rightarrow> json" where
  "jpush k v j = (case jfind k j of Some (JArr xs) \<Rightarrow> jput k (JArr (xs @ [v])) j | _ \<Rightarrow> jput k (JArr [v]) j)"

text \<open>A range-for visits the elements of an array, the values of an object, nothing of null and a scalar
  itself; \<open>items()\<close> pairs them with their keys.\<close>

fun jelems :: "json \<Rightarrow> json list" where
  "jelems (JArr xs) = xs"
| "jelems (JObj m) = map snd m"
| "jelems JNull = []"
| "jelems j = [j]"

fun jitems :: "json \<Rightarrow> (string \<times> json) list" where
  "jitems (JArr xs) = zip (map dec [0..<length xs]) xs"
| "jitems (JObj m) = m"
| "jitems JNull = []"
| "jitems j = [([], j)]"

subsection \<open>Conversions (\<open>get\<close>, \<open>get_to\<close>)\<close>

fun get_string :: "json \<Rightarrow> exn + string" where
  "get_string (JStr s) = Inr s"
| "get_string j = Inl (type_error ''string'' j)"

fun get_bool :: "json \<Rightarrow> exn + bool" where
  "get_bool (JBool b) = Inr b"
| "get_bool j = Inl (type_error ''boolean'' j)"

text \<open>\<open>get<int64_t>\<close> takes numbers only; \<open>get<int>\<close> also takes a boolean and narrows to 32 bits.\<close>

fun get_int64 :: "json \<Rightarrow> exn + int" where
  "get_int64 (JNum n) = Inr n"
| "get_int64 j = Inl (type_error ''number'' j)"

definition to_int32 :: "int \<Rightarrow> int" where
  "to_int32 n = sint (word_of_int n :: 32 word)"

fun get_int :: "json \<Rightarrow> exn + int" where
  "get_int (JNum n) = Inr (to_int32 n)"
| "get_int (JBool b) = Inr (if b then 1 else 0)"
| "get_int j = Inl (type_error ''number'' j)"

fun get_array :: "(json \<Rightarrow> exn + 'a) \<Rightarrow> json \<Rightarrow> exn + 'a list" where
  "get_array f (JArr xs) = mapM_r f xs"
| "get_array f j = Inl (type_error ''array'' j)"

text \<open>A string-to-string map: the \<open>unordered_map\<close> is read entry by entry.\<close>

fun get_string_map :: "json \<Rightarrow> exn + (string \<times> string) list" where
  "get_string_map (JObj m) = mapM_r (\<lambda>(k, v). rbind (get_string v) (\<lambda>s. Inr (k, s))) m"
| "get_string_map j = Inl (type_error ''object'' j)"

definition put_string_map :: "(string \<times> string) list \<Rightarrow> json" where
  "put_string_map m = JObj (map (\<lambda>(k, s). (k, JStr s)) m)"

subsection \<open>Field macros\<close>

text \<open>A reader takes the current value of the field (the member's initialiser) and the document. The
  macros of the header and the copies of them in \<open>task_status.cpp\<close>, \<open>service_cr.cpp\<close> and
  \<open>ability_crd.cpp\<close> agree on these four.\<close>

(* include/util/json_codec_macros.hpp:36-36 read_required *)
definition read_required :: "string \<Rightarrow> (json \<Rightarrow> exn + 'a) \<Rightarrow> json \<Rightarrow> exn + 'a" where
  "read_required k get j = rbind (jat k j) get"

(* include/util/json_codec_macros.hpp:37-41 read_optional *)
definition read_optional :: "string \<Rightarrow> (json \<Rightarrow> exn + 'a) \<Rightarrow> 'a \<Rightarrow> json \<Rightarrow> exn + 'a" where
  "read_optional k get cur j = (case jfind k j of None \<Rightarrow> Inr cur | Some v \<Rightarrow> get v)"

(* include/util/json_codec_macros.hpp:42-46 read_optional_unless_empty *)
definition read_optional_unless_empty ::
  "string \<Rightarrow> (json \<Rightarrow> exn + 'a) \<Rightarrow> 'a \<Rightarrow> json \<Rightarrow> exn + 'a" where
  "read_optional_unless_empty k get cur j =
     (case jfind k j of None \<Rightarrow> Inr cur | Some v \<Rightarrow> if jempty v then Inr cur else get v)"

(* include/util/json_codec_macros.hpp:18-27 ref_from_value *)
definition get_some :: "(json \<Rightarrow> exn + 'a) \<Rightarrow> json \<Rightarrow> exn + 'a option" where
  "get_some get j = rbind (get j) (\<lambda>x. Inr (Some x))"

subsection \<open>Lemmas\<close>

lemma jfind_jput [json_simps, simp]:
  "jfind k (jput k' v (JObj m)) = (if k = k' then Some v else map_of m k)"
  by simp

lemma jat_jfind: "jat k (JObj m) = (case jfind k (JObj m) of None \<Rightarrow> Inl (key_error k) | Some v \<Rightarrow> Inr v)"
  by simp

lemma jat_JObj [json_simps]: "map_of m k = Some v \<Longrightarrow> jat k (JObj m) = Inr v"
  by simp

definition is_obj :: "json \<Rightarrow> bool" where
  "is_obj j = (case j of JObj _ \<Rightarrow> True | _ \<Rightarrow> False)"

definition is_doc :: "json \<Rightarrow> bool" where
  "is_doc j = (case j of JObj _ \<Rightarrow> True | JNull \<Rightarrow> True | _ \<Rightarrow> False)"

text \<open>Documents are built by puts, from null or the empty object; the lookup laws below evaluate any such chain.\<close>

lemma is_obj_JObj [simp]: "is_obj (JObj m)"
  by (simp add: is_obj_def)

lemma is_doc_JNull [simp]: "is_doc JNull"
  by (simp add: is_doc_def)

lemma is_obj_is_doc: "is_obj j \<Longrightarrow> is_doc j"
  by (cases j) (auto simp: is_obj_def is_doc_def)

lemma is_doc_JObj [simp]: "is_doc (JObj m)"
  by (simp add: is_doc_def)

lemma is_obj_jput [simp]: "is_obj (jput k v j) \<longleftrightarrow> is_doc j"
  by (cases j) (auto simp: is_obj_def is_doc_def)

lemma is_doc_jput [simp]: "is_doc (jput k v j) \<longleftrightarrow> is_doc j"
  by (cases j) (auto simp: is_doc_def)

lemma is_obj_jput_if [simp]: "is_obj j \<Longrightarrow> is_obj (jput_if b k v j)"
  by (simp add: jput_if_def is_obj_is_doc)

lemma is_doc_jput_if [simp]: "is_doc (jput_if b k v j) \<longleftrightarrow> is_doc j"
  by (simp add: jput_if_def)

lemma is_obj_jput_opt [simp]: "is_obj j \<Longrightarrow> is_obj (jput_opt k f x j)"
  by (cases x) (auto simp: is_obj_is_doc)

lemma is_doc_jput_opt [simp]: "is_doc (jput_opt k f x j) \<longleftrightarrow> is_doc j"
  by (cases x) auto

lemma jfind_put [json_simps]: "is_doc j \<Longrightarrow> jfind k (jput k' v j) = (if k = k' then Some v else jfind k j)"
  by (cases j) (auto simp: is_doc_def)

lemma jfind_put_if [json_simps]:
  "is_doc j \<Longrightarrow> jfind k (jput_if b k' v j) = (if k = k' \<and> b then Some v else jfind k j)"
  by (auto simp: jput_if_def jfind_put)

lemma jfind_put_opt [json_simps]:
  "is_doc j \<Longrightarrow> jfind k (jput_opt k' f x j) = (if k = k' \<and> x \<noteq> None then Some (f (the x)) else jfind k j)"
  by (cases x) (auto simp: jfind_put)

lemma read_required_find [json_simps]:
  "is_obj j \<Longrightarrow> read_required k get j = (case jfind k j of None \<Rightarrow> Inl (key_error k) | Some v \<Rightarrow> get v)"
  by (cases j) (auto simp: is_obj_def read_required_def split: option.splits)

lemma jfind_JNull [json_simps]: "jfind k JNull = None"
  by simp

lemma jempty_jput [simp]: "is_doc j \<Longrightarrow> \<not> jempty (jput k v j)"
  by (cases j) (auto simp: is_doc_def)

lemmas doc_puts = jfind_put jfind_put_if jfind_put_opt jfind_JNull is_doc_JNull is_doc_jput is_doc_jput_if is_doc_jput_opt

lemma jfind_empty [json_simps, simp]: "jfind k (JObj []) = None"
  by simp

lemma jat_find [json_simps]:
  "is_obj j \<Longrightarrow> jat k j = (case jfind k j of None \<Rightarrow> Inl (key_error k) | Some v \<Rightarrow> Inr v)"
  by (cases j) (auto simp: is_obj_def)

lemma put_string_map_nonempty [simp]: "jempty (put_string_map m) \<longleftrightarrow> m = []"
  by (simp add: put_string_map_def)

lemma get_put_string_map [json_simps, simp]: "get_string_map (put_string_map m) = Inr m"
proof -
  have "mapM_r (\<lambda>(k, v). rbind (get_string v) (\<lambda>s. Inr (k, s))) (map (\<lambda>(k, s). (k, JStr s)) m) = Inr m"
    by (induction m) auto
  then show ?thesis by (simp add: put_string_map_def)
qed

lemma get_array_map [json_simps]:
  "(\<And>x. x \<in> set xs \<Longrightarrow> get (put x) = Inr x) \<Longrightarrow> get_array get (JArr (map put xs)) = Inr xs"
  using mapM_r_map [of xs get put "\<lambda>x. x"] by simp

lemma to_int32_id: "- (2 ^ 31) \<le> n \<Longrightarrow> n < 2 ^ 31 \<Longrightarrow> to_int32 n = n"
  unfolding to_int32_def by (simp add: sint_sbintrunc' signed_take_bit_int_eq_self)


lemma jfind_size: "jfind k j = Some v \<Longrightarrow> size v < size j"
proof (cases j)
  case (JObj m)
  assume "jfind k j = Some v"
  then have "(k, v) \<in> set m" using JObj by (simp add: map_of_SomeD)
  then have "size v < size_list (size_prod (\<lambda>x. 0) size) m"
    by (induction m) auto
  then show ?thesis using JObj by simp
qed auto

lemma jelems_size: "x \<in> set (jelems j) \<Longrightarrow> size x \<le> size j"
proof (cases j)
  case (JArr xs)
  assume "x \<in> set (jelems j)"
  then have "size x \<le> size_list size xs" using JArr by (metis jelems.simps(1) in_set_conv_nth size_list_nth)
  then show ?thesis using JArr by simp
next
  case (JObj m)
  assume "x \<in> set (jelems j)"
  then obtain k where "(k, x) \<in> set m" using JObj by auto
  then have "size x < size_list (size_prod (\<lambda>x. 0) size) m"
    by (induction m) auto
  then show ?thesis using JObj by simp
qed auto

subsection \<open>Third-party text conversions\<close>

text \<open>The uuid and JSON libraries convert to and from text. Their functions are parameters, gathered in
  one record; \<open>text_ok\<close> is the documented behaviour the code relies on: what is printed is read back.\<close>

record text_lib =
  show_uuid :: "uuid \<Rightarrow> string"
  read_uuid :: "string \<Rightarrow> uuid option"
  dump :: "json \<Rightarrow> string"
  parse :: "string \<Rightarrow> exn + json"

definition uuid_text_ok :: "text_lib \<Rightarrow> bool" where
  "uuid_text_ok L = (\<forall>u. read_uuid L (show_uuid L u) = Some u)"

definition json_text_ok :: "text_lib \<Rightarrow> json \<Rightarrow> bool" where
  "json_text_ok L j = (parse L (dump L j) = Inr j)"

(* include/util/uuid_json_convert.hpp:22-27 uuids::from_json *)
definition uuid_from_json :: "text_lib \<Rightarrow> json \<Rightarrow> exn + uuid" where
  "uuid_from_json L j =
     (case j of
        JStr s \<Rightarrow>
          (case read_uuid L s of
             None \<Rightarrow> Inl (InvalidArgument (''json is not valid uuid: '' @ dump L j))
           | Some u \<Rightarrow> Inr u)
      | _ \<Rightarrow> Inl (InvalidArgument (''json is not valid uuid string: '' @ dump L j)))"

(* include/util/uuid_json_convert.hpp:28-30 uuids::to_json *)
definition uuid_to_json :: "text_lib \<Rightarrow> uuid \<Rightarrow> json" where
  "uuid_to_json L u = JStr (show_uuid L u)"

lemma uuid_json_roundtrip [json_simps]:
  "uuid_text_ok L \<Longrightarrow> uuid_from_json L (uuid_to_json L u) = Inr u"
  by (simp add: uuid_text_ok_def uuid_from_json_def uuid_to_json_def)

lemma read_show_uuid [json_simps]: "uuid_text_ok L \<Longrightarrow> read_uuid L (show_uuid L u) = Some u"
  by (simp add: uuid_text_ok_def)

lemma parse_dump [json_simps]: "json_text_ok L j \<Longrightarrow> parse L (dump L j) = Inr j"
  by (simp add: json_text_ok_def)

text \<open>A text library that prints uuids and numbers in decimal.\<close>

definition decimal_lib :: text_lib where
  "decimal_lib = \<lparr>show_uuid = (\<lambda>u. dec (unat u)), read_uuid = (\<lambda>s. Some (word_of_nat (undec s))),
     dump = (\<lambda>j. case j of JNum n \<Rightarrow> dec (nat n) | _ \<Rightarrow> type_name j),
     parse = (\<lambda>s. if list_all is_digit s then Inr (JNum (int (undec s))) else Inl (JsonError s))\<rparr>"

lemma decimal_lib_json_ok [simp]: "0 \<le> n \<Longrightarrow> json_text_ok decimal_lib (JNum n)"
  by (simp add: json_text_ok_def decimal_lib_def list_all_iff dec_digits)

lemma decimal_lib_ok [simp]: "uuid_text_ok decimal_lib"
  by (simp add: uuid_text_ok_def decimal_lib_def)

end
