(* ===== verification/TaskStatus.thy ===== *)
theory TaskStatus
  imports Json
begin

section \<open>Task states, task status records and their store\<close>

text \<open>
  \<open>include/taskmgr/task.hpp\<close>, \<open>src/taskmgr/task.cpp\<close>: the task states and their text.
  \<open>src/taskmgr/task_status.cpp\<close>: the status record a task reports and its JSON codec.
  \<open>src/taskmgr/task_status_mgr.cpp\<close>: the \<open>TaskStatus\<close> table, its insert and its queries. A table is the
  list of its rows; a row keeps the text columns the statements bind.
\<close>

subsection \<open>Task states\<close>

(* include/taskmgr/task.hpp:25-33 TaskState *)
datatype task_state = Unstarted | Running | Pending | Fine | Finished | Errored | Cancelled

(* include/taskmgr/task.hpp:54-57 is_end *)
fun is_end :: "task_state \<Rightarrow> bool" where
  "is_end Finished = True"
| "is_end Errored = True"
| "is_end Cancelled = True"
| "is_end _ = False"

(* src/taskmgr/task.cpp:22-34 to_string(TaskState) *)
fun show_state :: "task_state \<Rightarrow> string" where
  "show_state Unstarted = ''unstarted''"
| "show_state Running = ''running''"
| "show_state Pending = ''pending''"
| "show_state Fine = ''fine''"
| "show_state Finished = ''finished''"
| "show_state Errored = ''error''"
| "show_state Cancelled = ''cancelled''"

(* src/taskmgr/task.cpp:40-49 task_state_from_string *)
definition state_from_string :: "string \<Rightarrow> exn + task_state" where
  "state_from_string sv =
     (if sv = ''unstarted'' then Inr Unstarted
      else if sv = ''running'' then Inr Running
      else if sv = ''pending'' then Inr Pending
      else if sv = ''fine'' then Inr Fine
      else if sv = ''finished'' then Inr Finished
      else if sv = ''error'' then Inr Errored
      else if sv = ''cancelled'' then Inr Cancelled
      else Inl (InvalidArgument (''invalid task state str: '' @ sv)))"

(* include/taskmgr/task.hpp:38-50 NLOHMANN_JSON_SERIALIZE_ENUM(TaskState) *)
definition state_from_json :: "json \<Rightarrow> exn + task_state" where
  "state_from_json j =
     (case j of
        JStr s \<Rightarrow> (case state_from_string s of Inr x \<Rightarrow> Inr x | Inl _ \<Rightarrow> Inr Unstarted)
      | _ \<Rightarrow> Inr Unstarted)"

lemma state_text_roundtrip [json_simps, simp]: "state_from_string (show_state s) = Inr s"
  by (cases s) (simp_all add: state_from_string_def)

lemma state_json_roundtrip [json_simps, simp]: "state_from_json (JStr (show_state s)) = Inr s"
  by (simp add: state_from_json_def)

subsection \<open>Executor types\<close>

(* include/taskmgr/task_status.hpp:32-32 ExecutorType *)
datatype executor_type = ExUnknown | ExAbility | ExController | ExFramework

(* src/taskmgr/task_status.cpp:72-80 to_string(ExecutorType) *)
fun show_executor :: "executor_type \<Rightarrow> string" where
  "show_executor ExAbility = ''ability''"
| "show_executor ExController = ''controller''"
| "show_executor ExFramework = ''framework''"
| "show_executor ExUnknown = ''unknown''"

(* src/taskmgr/task_status.cpp:86-92 executor_type_from_string *)
definition executor_from_string :: "string \<Rightarrow> executor_type" where
  "executor_from_string sv =
     (if sv = ''ability'' then ExAbility
      else if sv = ''controller'' then ExController
      else if sv = ''framework'' then ExFramework
      else ExUnknown)"

(* include/taskmgr/task_status.hpp:37-43 NLOHMANN_JSON_SERIALIZE_ENUM(ExecutorType) *)
definition executor_from_json :: "json \<Rightarrow> exn + executor_type" where
  "executor_from_json j = (case j of JStr s \<Rightarrow> Inr (executor_from_string s) | _ \<Rightarrow> Inr ExUnknown)"

lemma executor_text_roundtrip [json_simps, simp]: "executor_from_string (show_executor e) = e"
  by (cases e) (simp_all add: executor_from_string_def)

lemma executor_json_roundtrip [json_simps, simp]: "executor_from_json (JStr (show_executor e)) = Inr e"
  by (simp add: executor_from_json_def)

subsection \<open>Status records\<close>

(* include/taskmgr/task_status.hpp:45-61 TaskStatus *)
record task_status =
  ts_id :: uuid
  ts_executor_id :: uuid
  ts_executor_type :: executor_type
  ts_state :: task_state
  ts_start_time :: string
  ts_end_time :: string
  ts_timeout :: int
  ts_payload :: json
  ts_message :: string

(* src/taskmgr/task_status.cpp:57-68 to_json(TaskStatus) *)
definition status_to_json :: "text_lib \<Rightarrow> task_status \<Rightarrow> json" where
  "status_to_json L x =
     jput ''message'' (if ts_message x \<noteq> [] then JStr (ts_message x) else JNull)
      (jput ''payload'' (ts_payload x)
       (jput ''timeout'' (JNum (ts_timeout x))
        (jput ''end_time'' (if ts_end_time x \<noteq> [] then JStr (ts_end_time x) else JNull)
         (jput ''start_time'' (if ts_start_time x \<noteq> [] then JStr (ts_start_time x) else JNull)
          (jput ''state'' (JStr (show_state (ts_state x)))
           (jput ''executor_type'' (JStr (show_executor (ts_executor_type x)))
            (jput ''executor_id'' (uuid_to_json L (ts_executor_id x))
             (jput ''id'' (uuid_to_json L (ts_id x)) (JObj [])))))))))"

(* src/taskmgr/task_status.cpp:39-49 from_json(TaskStatus) *)
definition status_from_json :: "text_lib \<Rightarrow> json \<Rightarrow> exn + task_status" where
  "status_from_json L j =
     rbind (read_required ''id'' (uuid_from_json L) j) (\<lambda>i.
     rbind (read_required ''executor_id'' (uuid_from_json L) j) (\<lambda>ei.
     rbind (read_optional ''executor_type'' executor_from_json ExUnknown j) (\<lambda>et.
     rbind (read_required ''state'' state_from_json j) (\<lambda>st.
     rbind (read_optional_unless_empty ''start_time'' get_string [] j) (\<lambda>t0.
     rbind (read_optional_unless_empty ''end_time'' get_string [] j) (\<lambda>t1.
     rbind (read_required ''timeout'' get_int64 j) (\<lambda>tmo.
     rbind (read_optional ''payload'' Inr JNull j) (\<lambda>pl.
     rbind (read_optional_unless_empty ''message'' get_string [] j) (\<lambda>m.
       Inr \<lparr>ts_id = i, ts_executor_id = ei, ts_executor_type = et, ts_state = st, ts_start_time = t0,
            ts_end_time = t1, ts_timeout = tmo, ts_payload = pl, ts_message = m\<rparr>)))))))))"

text \<open>A task status written by \<open>to_json\<close> is read back unchanged by \<open>from_json\<close>, for every record, given that
  the uuid library reads back what it prints.\<close>
theorem task_status_roundtrip:
  assumes "uuid_text_ok L"
  shows "status_from_json L (status_to_json L x) = Inr x"
  using assms
  by (simp add: status_from_json_def status_to_json_def read_required_def read_optional_def
      read_optional_unless_empty_def jat_find json_simps del: jput.simps jat.simps jfind.simps)

text \<open>The round trip at a concrete record.\<close>

definition sample_status :: task_status where
  "sample_status = \<lparr>ts_id = 7, ts_executor_id = 9, ts_executor_type = ExFramework, ts_state = Running,
     ts_start_time = ''2025-03-29 16:18:06.952'', ts_end_time = '''', ts_timeout = 3600,
     ts_payload = JNum 5, ts_message = ''''\<rparr>"

lemma task_status_roundtrip_witness:
  "status_from_json decimal_lib (status_to_json decimal_lib sample_status) = Inr sample_status"
  by (rule task_status_roundtrip) simp

subsection \<open>The \<open>TaskStatus\<close> table\<close>

(* src/taskmgr/task_status_mgr.cpp:173-200 init_db *)
record status_row =
  sr_id :: string
  sr_executor_id :: string
  sr_executor_type :: string
  sr_state :: string
  sr_start_time :: "string option"
  sr_end_time :: "string option"
  sr_input_time :: int
  sr_timeout :: int
  sr_payload :: string
  sr_message :: string

definition null_if_empty :: "string \<Rightarrow> string option" where
  "null_if_empty s = (if s = [] then None else Some s)"

(* src/taskmgr/task_status_mgr.cpp:105-107 to_string_unless_null *)
definition to_string_unless_null :: "string option \<Rightarrow> string" where
  "to_string_unless_null p = (case p of None \<Rightarrow> [] | Some s \<Rightarrow> s)"

definition status_row_of :: "text_lib \<Rightarrow> int \<Rightarrow> task_status \<Rightarrow> status_row" where
  "status_row_of L now ts =
     \<lparr>sr_id = show_uuid L (ts_id ts), sr_executor_id = show_uuid L (ts_executor_id ts),
      sr_executor_type = show_executor (ts_executor_type ts), sr_state = show_state (ts_state ts),
      sr_start_time = null_if_empty (ts_start_time ts), sr_end_time = null_if_empty (ts_end_time ts),
      sr_input_time = now, sr_timeout = ts_timeout ts, sr_payload = dump L (ts_payload ts),
      sr_message = ts_message ts\<rparr>"

text \<open>\<open>REPLACE INTO\<close> drops the row with the same primary key \<open>(id, input_time)\<close> and adds the new one;
  \<open>now\<close> is the value of \<open>datetime('now')\<close>, in seconds.\<close>

(* src/taskmgr/task_status_mgr.cpp:40-97 insert *)
definition status_insert :: "text_lib \<Rightarrow> int \<Rightarrow> status_row list \<Rightarrow> task_status \<Rightarrow> status_row list" where
  "status_insert L now db ts =
     filter (\<lambda>r. \<not> (sr_id r = show_uuid L (ts_id ts) \<and> sr_input_time r = now)) db @ [status_row_of L now ts]"

(* src/taskmgr/task_status_mgr.cpp:99-103 parse_id *)
definition parse_id :: "text_lib \<Rightarrow> string \<Rightarrow> string \<Rightarrow> exn + uuid" where
  "parse_id L sv msg =
     (case read_uuid L sv of
        None \<Rightarrow> Inl (InvalidArgument (''invalid '' @ msg @ '' '' @ sv))
      | Some u \<Rightarrow> Inr u)"

(* src/taskmgr/task_status_mgr.cpp:125-139 from_db_row_except_id *)
definition from_db_row_except_id :: "text_lib \<Rightarrow> uuid \<Rightarrow> status_row \<Rightarrow> exn + task_status" where
  "from_db_row_except_id L i r =
     rbind (parse_id L (sr_executor_id r) ''executor_id'') (\<lambda>ei.
     rbind (state_from_string (sr_state r)) (\<lambda>st.
     rbind (parse L (sr_payload r)) (\<lambda>pl.
       Inr \<lparr>ts_id = i, ts_executor_id = ei, ts_executor_type = executor_from_string (sr_executor_type r),
            ts_state = st, ts_start_time = to_string_unless_null (sr_start_time r),
            ts_end_time = to_string_unless_null (sr_end_time r), ts_timeout = sr_timeout r,
            ts_payload = pl, ts_message = sr_message r\<rparr>)))"

(* src/taskmgr/task_status_mgr.cpp:108-123 from_db_row *)
definition from_db_row :: "text_lib \<Rightarrow> status_row \<Rightarrow> exn + task_status" where
  "from_db_row L r = rbind (parse_id L (sr_id r) ''id'') (\<lambda>i. from_db_row_except_id L i r)"

text \<open>\<open>ORDER BY input_time DESC\<close> with a stable order among equal times, then \<open>LIMIT n\<close>; a negative
  limit is no limit.\<close>

definition newest_first :: "status_row list \<Rightarrow> status_row list" where
  "newest_first rs = sort_key (\<lambda>r. - sr_input_time r) rs"

definition sql_limit :: "int \<Rightarrow> 'a list \<Rightarrow> 'a list" where
  "sql_limit n xs = (if n < 0 then xs else take (nat n) xs)"

(* src/taskmgr/task_status_mgr.cpp:141-171 query_task_status *)
definition query_task_status :: "text_lib \<Rightarrow> status_row list \<Rightarrow> uuid \<Rightarrow> exn + task_status option" where
  "query_task_status L db i =
     (case sql_limit 1 (newest_first (filter (\<lambda>r. sr_id r = show_uuid L i) db)) of
        [] \<Rightarrow> Inr None
      | r # _ \<Rightarrow> rbind (from_db_row_except_id L i r) (\<lambda>ts. Inr (Some ts)))"

text \<open>The range query steps the statement once, in an \<open>if\<close>, so it reads the first row only.\<close>

(* src/taskmgr/task_status_mgr.cpp:227-252 range_query *)
definition range_query :: "text_lib \<Rightarrow> status_row list \<Rightarrow> int \<Rightarrow> exn + task_status list" where
  "range_query L db limit =
     (case sql_limit limit (newest_first db) of
        [] \<Rightarrow> Inr []
      | r # _ \<Rightarrow> rbind (from_db_row L r) (\<lambda>ts. Inr [ts]))"

(* src/taskmgr/task_status_mgr.cpp:264-271 parse_limit *)
definition parse_limit :: "(string \<Rightarrow> int option) \<Rightarrow> (string \<Rightarrow> string option) \<Rightarrow> int option" where
  "parse_limit stoi params = (case params ''limit'' of None \<Rightarrow> None | Some s \<Rightarrow> stoi s)"

(* src/taskmgr/task_status_mgr.cpp:283-290 GET /api/task-status *)
definition api_task_status_list ::
  "text_lib \<Rightarrow> (string \<Rightarrow> int option) \<Rightarrow> status_row list \<Rightarrow> (string \<Rightarrow> string option) \<Rightarrow> exn + json" where
  "api_task_status_list L stoi db params =
     (let limit = (case parse_limit stoi params of Some n \<Rightarrow> if n > 0 then n else 20 | None \<Rightarrow> 20)
      in rbind (range_query L db limit) (\<lambda>tss. Inr (JArr (map (status_to_json L) tss))))"

(* src/taskmgr/task_status_mgr.cpp:277-282 POST /api/task-status *)
definition api_task_status_post ::
  "text_lib \<Rightarrow> int \<Rightarrow> status_row list \<Rightarrow> string \<Rightarrow> exn + status_row list" where
  "api_task_status_post L now db body =
     rbind (parse L body) (\<lambda>j. rbind (status_from_json L j) (\<lambda>ts. Inr (status_insert L now db ts)))"

(* src/taskmgr/task_status_mgr.cpp:291-303 GET /api/task/:id/status *)
definition api_task_status_get :: "text_lib \<Rightarrow> status_row list \<Rightarrow> string \<Rightarrow> exn + (nat \<times> json)" where
  "api_task_status_get L db id_str =
     (case read_uuid L id_str of
        None \<Rightarrow> Inl (InvalidArgument (''invalid id str: '' @ id_str))
      | Some i \<Rightarrow>
          rbind (query_task_status L db i) (\<lambda>r.
            Inr (case r of None \<Rightarrow> (404, JNull) | Some ts \<Rightarrow> (200, status_to_json L ts))))"

subsection \<open>The store returns what was pushed last\<close>

lemma from_db_row_of:
  assumes "uuid_text_ok L" "json_text_ok L (ts_payload ts)"
  shows "from_db_row_except_id L (ts_id ts) (status_row_of L now ts) = Inr ts"
  using assms
  by (auto simp: from_db_row_except_id_def status_row_of_def parse_id_def json_simps
      null_if_empty_def to_string_unless_null_def)

lemma sort_key_desc_snoc:
  assumes "\<And>r. r \<in> set rs \<Longrightarrow> f r > (f x :: int)"
  shows "hd (sort_key f (rs @ [x])) = x" "sort_key f (rs @ [x]) \<noteq> []"
proof -
  let ?s = "sort_key f (rs @ [x])"
  show ne: "?s \<noteq> []" by (metis append_is_Nil_conv length_0_conv length_sort list.distinct(1))
  have set: "set ?s = insert x (set rs)" by simp
  have "\<forall>y\<in>set ?s. f (hd ?s) \<le> f y"
    using sorted_sort_key [of f "rs @ [x]"] ne by (cases ?s) auto
  then have "f (hd ?s) \<le> f x" using set by simp
  moreover have "hd ?s \<in> insert x (set rs)" using ne set hd_in_set by metis
  ultimately show "hd ?s = x" using assms by fastforce
qed

lemma newest_first_snoc:
  assumes "\<And>r. r \<in> set rs \<Longrightarrow> sr_input_time r < sr_input_time x"
  obtains ys where "newest_first (rs @ [x]) = x # ys"
  using sort_key_desc_snoc [of rs "\<lambda>r. - sr_input_time r" x] assms that
  unfolding newest_first_def by (metis list.collapse neg_less_iff_less)

text \<open>After \<open>push_back\<close>, \<open>get\<close> of the same task id returns exactly the status just pushed, whatever
  older rows the table holds.\<close>
theorem status_get_after_push:
  assumes "uuid_text_ok L" "json_text_ok L (ts_payload ts)"
    and "\<forall>r\<in>set db. sr_input_time r \<le> now"
  shows "query_task_status L (status_insert L now db ts) (ts_id ts) = Inr (Some ts)"
proof -
  let ?old = "filter (\<lambda>r. sr_id r = show_uuid L (ts_id ts) \<and> sr_input_time r \<noteq> now) db"
  have filt: "filter (\<lambda>r. sr_id r = show_uuid L (ts_id ts)) (status_insert L now db ts)
      = ?old @ [status_row_of L now ts]"
    by (auto simp: status_insert_def status_row_of_def intro!: filter_cong)
  have "\<And>r. r \<in> set ?old \<Longrightarrow> sr_input_time r < sr_input_time (status_row_of L now ts)"
    using assms(3) by (fastforce simp: status_row_of_def)
  from newest_first_snoc [OF this] obtain ys
    where "newest_first (?old @ [status_row_of L now ts]) = status_row_of L now ts # ys" by blast
  then show ?thesis
    using assms by (simp add: query_task_status_def filt sql_limit_def from_db_row_of)
qed

lemma status_get_after_push_witness:
  "query_task_status decimal_lib (status_insert decimal_lib 20
     (status_insert decimal_lib 10 [] (sample_status\<lparr>ts_state := Unstarted\<rparr>)) sample_status) 7
   = Inr (Some sample_status)"
  using status_get_after_push [of decimal_lib sample_status
      "status_insert decimal_lib 10 [] (sample_status\<lparr>ts_state := Unstarted\<rparr>)" 20]
  by (simp add: sample_status_def status_insert_def status_row_of_def)

text \<open>Whatever positive limit the caller passes, the answer is the newest row alone.\<close>

lemma range_query_single:
  assumes "limit > 0" "db \<noteq> []"
  shows "range_query L db limit = rbind (from_db_row L (hd (newest_first db))) (\<lambda>ts. Inr [ts])"
proof -
  from assms(2) obtain r rs where nf: "newest_first db = r # rs"
    unfolding newest_first_def by (cases "sort_key (\<lambda>r. - sr_input_time r) db")
      (metis length_0_conv length_sort, blast)
  obtain k where "nat limit = Suc k" using assms(1) by (metis Suc_pred zero_less_nat_eq)
  then show ?thesis using assms(1) by (simp add: range_query_def sql_limit_def nf)
qed

end
