(* ===== verification/Tasks.thy ===== *)
theory Tasks
  imports TaskStatus
begin

section \<open>Tasks\<close>

text \<open>
  \<open>src/taskmgr/common_tasks.cpp\<close>: the kinds of task the framework composes, and the method \<open>resume\<close>
  that advances a task by one round. A closure the code captures is a function on a world \<^typ>\<open>'w\<close>
  that may throw. \<open>resume\<close> returns the new task, the new world, the status records it reported and the
  state it returned; \<^term>\<open>None\<close> is a call that never returns, which \<open>ParallelTask::find_first_running\<close>
  can cause. A subtask belongs to one parent, so a composite task is a tree.
\<close>

named_theorems resume_defs \<open>unfolding rules of the task bookkeeping\<close>

subsection \<open>The state every task has (\<open>TaskBase\<close>)\<close>

(* include/taskmgr/task.hpp:125-131 TaskBase *)
record tbase =
  tb_id :: uuid
  tb_name :: string
  tb_state :: task_state
  tb_exception :: "exn option"
  tb_start :: time
  tb_end :: time

text \<open>What the environment supplies to one call: the two clocks, the local date format and the id of
  the framework (\<open>global_vars::framework_id\<close>). The readings of one call are taken at one instant.\<close>

record task_env =
  te_sys_now :: time
  te_steady_now :: time
  te_format :: "time \<Rightarrow> string"
  te_framework :: uuid

(* include/taskmgr/task.hpp:111-115 TaskBase::set_state *)
definition set_state :: "task_env \<Rightarrow> task_state \<Rightarrow> tbase \<Rightarrow> tbase" where
  "set_state E s b = (let b' = b\<lparr>tb_state := s\<rparr> in if is_end s then b'\<lparr>tb_end := te_sys_now E\<rparr> else b')"

(* include/taskmgr/task.hpp:116-121 TaskBase::set_error *)
definition set_error :: "task_env \<Rightarrow> exn option \<Rightarrow> tbase \<Rightarrow> tbase" where
  "set_error E e b = b\<lparr>tb_exception := e, tb_state := Errored, tb_end := te_sys_now E\<rparr>"

(* include/taskmgr/task.hpp:99-107 TaskBase::message *)
definition base_message :: "tbase \<Rightarrow> string" where
  "base_message b = (case tb_exception b of None \<Rightarrow> [] | Some e \<Rightarrow> what e)"

(* src/taskmgr/task_status.cpp:94-112 format_as_task_datetime *)
definition format_as_task_datetime :: "task_env \<Rightarrow> time \<Rightarrow> string" where
  "format_as_task_datetime E t = (if t = 0 then [] else te_format E t)"

(* src/taskmgr/common_tasks.cpp:56-71 record_task_status *)
definition record_task_status :: "task_env \<Rightarrow> tbase \<Rightarrow> json \<Rightarrow> task_status" where
  "record_task_status E b payload =
     \<lparr>ts_id = tb_id b, ts_executor_id = te_framework E, ts_executor_type = ExFramework,
      ts_state = tb_state b, ts_start_time = format_as_task_datetime E (tb_start b),
      ts_end_time = format_as_task_datetime E (tb_end b), ts_timeout = 3600,
      ts_payload = payload, ts_message = base_message b\<rparr>"

(* src/taskmgr/common_tasks.cpp:85-90 record_start_time_if_first_try *)
definition first_try :: "task_env \<Rightarrow> json \<Rightarrow> tbase \<Rightarrow> tbase \<times> task_status list" where
  "first_try E payload b =
     (if tb_start b = 0 then
        (let b' = set_state E Running (b\<lparr>tb_start := te_sys_now E\<rparr>)
         in (b', [record_task_status E b' payload]))
      else (b, []))"

subsection \<open>The kinds of task\<close>

type_synonym ('w, 'a) closure = "'w \<Rightarrow> (exn + 'a) \<times> 'w"

(* src/taskmgr/common_tasks.cpp:92-441 AtomicTask, ValueAtomicTask, SequentialTask, WaitOnceTask, DelayTask, ThreadQueueWorkTask, ParallelTask *)
datatype 'w task =
    AtomicTask tbase "('w, unit) closure"
  | ValueAtomicTask tbase "('w, json) closure" json
  | SequentialTask tbase "'w task list" nat
  | WaitOnceTask tbase "('w, bool) closure" "('w, string) closure option" time
  | DelayTask tbase bool time time
  | ThreadQueueWorkTask tbase "('w, unit) closure" bool
  | ParallelTask tbase "'w task list" nat nat

primrec task_base :: "'w task \<Rightarrow> tbase" where
  "task_base (AtomicTask b f) = b"
| "task_base (ValueAtomicTask b f r) = b"
| "task_base (SequentialTask b subs c) = b"
| "task_base (WaitOnceTask b p h t) = b"
| "task_base (DelayTask b st d fin) = b"
| "task_base (ThreadQueueWorkTask b f q) = b"
| "task_base (ParallelTask b subs fin c) = b"

abbreviation task_state_of :: "'w task \<Rightarrow> task_state" where
  "task_state_of t \<equiv> tb_state (task_base t)"

abbreviation task_error :: "'w task \<Rightarrow> exn option" where
  "task_error t \<equiv> tb_exception (task_base t)"

(* src/taskmgr/common_tasks.cpp:164-171 result *)
function task_result :: "'w task \<Rightarrow> json" where
  "task_result (AtomicTask b f) = JNull"
| "task_result (ValueAtomicTask b f r) = r"
| "task_result (SequentialTask b subs c) = (if subs = [] then JNull else task_result (last subs))"
| "task_result (WaitOnceTask b p h t) = JNull"
| "task_result (DelayTask b st d fin) = JNull"
| "task_result (ThreadQueueWorkTask b f q) = JNull"
| "task_result (ParallelTask b subs fin c) = JNull"
  by pat_completeness auto
termination
  by (relation "measure size") (auto simp: less_Suc_eq_le intro!: trans_le_add2 size_list_last)

definition fresh_base :: "uuid \<Rightarrow> string \<Rightarrow> tbase" where
  "fresh_base i n = \<lparr>tb_id = i, tb_name = n, tb_state = Unstarted, tb_exception = None, tb_start = 0, tb_end = 0\<rparr>"

text \<open>The factory functions of namespace \<open>tasks\<close>; the id is the \<open>make_uuid()\<close> of the new object.\<close>

(* src/taskmgr/common_tasks.cpp:446-448 tasks::atomic *)
definition tasks_atomic :: "uuid \<Rightarrow> string \<Rightarrow> ('w, unit) closure \<Rightarrow> 'w task" where
  "tasks_atomic i n f = AtomicTask (fresh_base i n) f"

(* src/taskmgr/common_tasks.cpp:449-454 tasks::atomic_with_return_value *)
definition tasks_atomic_with_return_value :: "uuid \<Rightarrow> string \<Rightarrow> ('w, json) closure \<Rightarrow> 'w task" where
  "tasks_atomic_with_return_value i n f = ValueAtomicTask (fresh_base i n) f JNull"

(* src/taskmgr/common_tasks.cpp:456-458 tasks::sequence *)
definition tasks_sequence :: "uuid \<Rightarrow> string \<Rightarrow> 'w task list \<Rightarrow> 'w task" where
  "tasks_sequence i n subs = SequentialTask (fresh_base i n) subs 0"

(* src/taskmgr/common_tasks.cpp:459-461 tasks::delay *)
definition tasks_delay :: "uuid \<Rightarrow> time \<Rightarrow> 'w task" where
  "tasks_delay i d = DelayTask (fresh_base i ''delay'') False d 0"

(* src/taskmgr/common_tasks.cpp:462-469 tasks::wait_once *)
definition tasks_wait_once ::
  "task_env \<Rightarrow> uuid \<Rightarrow> string \<Rightarrow> ('w, bool) closure \<Rightarrow> time \<Rightarrow> ('w, string) closure option \<Rightarrow> 'w task" where
  "tasks_wait_once E i n p tmo h = WaitOnceTask (fresh_base i n) p h (te_steady_now E + tmo)"

(* src/taskmgr/common_tasks.cpp:471-473 tasks::on_thread_queue *)
definition tasks_on_thread_queue :: "uuid \<Rightarrow> string \<Rightarrow> ('w, unit) closure \<Rightarrow> 'w task" where
  "tasks_on_thread_queue i n f = ThreadQueueWorkTask (fresh_base i n) f False"

(* src/taskmgr/common_tasks.cpp:475-477 tasks::parallel *)
definition tasks_parallel :: "uuid \<Rightarrow> string \<Rightarrow> 'w task list \<Rightarrow> 'w task" where
  "tasks_parallel i n subs = ParallelTask (fresh_base i n) subs 0 0"

subsection \<open>One round of a task\<close>

text \<open>The macros \<open>record_status_and_return\<close> and \<open>record_error_and_return\<close>: the new base, what was
  reported and the state returned.\<close>

(* src/taskmgr/common_tasks.cpp:72-77 record_status_and_return *)
definition ret_status :: "task_env \<Rightarrow> task_state \<Rightarrow> json \<Rightarrow> tbase \<Rightarrow> tbase \<times> task_status list" where
  "ret_status E s payload b = (let b' = set_state E s b in (b', [record_task_status E b' payload]))"

(* src/taskmgr/common_tasks.cpp:78-83 record_error_and_return *)
definition ret_error :: "task_env \<Rightarrow> exn option \<Rightarrow> json \<Rightarrow> tbase \<Rightarrow> tbase \<times> task_status list" where
  "ret_error E e payload b = (let b' = set_error E e b in (b', [record_task_status E b' payload]))"

type_synonym 'w round = "'w task \<times> 'w \<times> task_status list \<times> task_state"

(* src/taskmgr/common_tasks.cpp:103-113 AtomicTask::resume *)
definition resume_atomic :: "task_env \<Rightarrow> tbase \<Rightarrow> ('w, unit) closure \<Rightarrow> 'w \<Rightarrow> 'w round" where
  "resume_atomic E b f w =
     (let (b1, l1) = first_try E JNull b; (r, w') = f w;
          (b2, l2) = (case r of Inr _ \<Rightarrow> ret_status E Finished JNull b1 | Inl e \<Rightarrow> ret_error E (Some e) JNull b1)
      in (AtomicTask b2 f, w', l1 @ l2, tb_state b2))"

(* src/taskmgr/common_tasks.cpp:135-145 ValueAtomicTask::resume *)
definition resume_value :: "task_env \<Rightarrow> tbase \<Rightarrow> ('w, json) closure \<Rightarrow> json \<Rightarrow> 'w \<Rightarrow> 'w round" where
  "resume_value E b f r0 w =
     (let (b1, l1) = first_try E r0 b; (r, w') = f w in
      case r of
        Inr v \<Rightarrow> (let (b2, l2) = ret_status E Finished v b1 in (ValueAtomicTask b2 f v, w', l1 @ l2, tb_state b2))
      | Inl e \<Rightarrow> (let (b2, l2) = ret_error E (Some e) r0 b1 in (ValueAtomicTask b2 f r0, w', l1 @ l2, tb_state b2)))"

(* src/taskmgr/common_tasks.cpp:230-235 TimeoutError *)
definition TimeoutError :: "string option \<Rightarrow> exn" where
  "TimeoutError info = RuntimeError (case info of None \<Rightarrow> ''timeout'' | Some s \<Rightarrow> s)"

(* src/taskmgr/common_tasks.cpp:259-277 WaitOnceTask::resume *)
definition resume_wait_once ::
  "task_env \<Rightarrow> tbase \<Rightarrow> ('w, bool) closure \<Rightarrow> ('w, string) closure option \<Rightarrow> time \<Rightarrow> 'w \<Rightarrow> 'w round" where
  "resume_wait_once E b p h deadline w =
     (let (b1, l1) = first_try E JNull b;
          (b2, l2, w') =
            (if te_steady_now E > deadline then
               (case h of
                  Some on_timeout \<Rightarrow>
                    (case on_timeout w of
                       (Inr info, w1) \<Rightarrow> (let (x, l) = ret_error E (Some (TimeoutError (Some info))) JNull b1 in (x, l, w1))
                     | (Inl e, w1) \<Rightarrow> (let (x, l) = ret_error E (Some e) JNull b1 in (x, l, w1)))
                | None \<Rightarrow> (let (x, l) = ret_error E (Some (TimeoutError None)) JNull b1 in (x, l, w)))
             else
               (case p w of
                  (Inl e, w1) \<Rightarrow> (let (x, l) = ret_error E (Some e) JNull b1 in (x, l, w1))
                | (Inr True, w1) \<Rightarrow> (let (x, l) = ret_status E Finished JNull b1 in (x, l, w1))
                | (Inr False, w1) \<Rightarrow> (set_state E Running b1, [], w1)))
      in (WaitOnceTask b2 p h deadline, w', l1 @ l2, tb_state b2))"

(* src/taskmgr/common_tasks.cpp:299-310 DelayTask::resume *)
definition resume_delay :: "task_env \<Rightarrow> tbase \<Rightarrow> bool \<Rightarrow> time \<Rightarrow> time \<Rightarrow> 'w \<Rightarrow> 'w round" where
  "resume_delay E b started dur fin w =
     (let fin' = (if started then fin else te_steady_now E + dur) in
      if te_steady_now E \<ge> fin' then
        (let (b2, l) = ret_status E Finished JNull b in (DelayTask b2 True dur fin', w, l, Finished))
      else (DelayTask b True dur fin', w, [], Running))"

(* src/taskmgr/common_tasks.cpp:363-379 ThreadQueueWorkTask::resume *)
definition resume_work :: "task_env \<Rightarrow> tbase \<Rightarrow> ('w, unit) closure \<Rightarrow> bool \<Rightarrow> 'w \<Rightarrow> 'w round" where
  "resume_work E b f queued w =
     (let b1 = (if tb_start b = 0 then b\<lparr>tb_start := te_sys_now E\<rparr> else b);
          (b2, l, q) = (if tb_state b1 = Unstarted
                        then (let x = set_state E Running b1 in (x, [record_task_status E x JNull], True))
                        else (b1, [], queued))
      in (ThreadQueueWorkTask b2 f q, w, l, if tb_exception b2 \<noteq> None then Errored else tb_state b2))"

text \<open>The work item runs on a pool thread after \<open>resume\<close> queued it.\<close>

(* src/taskmgr/common_tasks.cpp:327-350 ThreadQueueWorkTask work callback *)
definition run_work :: "task_env \<Rightarrow> tbase \<Rightarrow> ('w, unit) closure \<Rightarrow> 'w \<Rightarrow> 'w round" where
  "run_work E b f w =
     (let (r, w') = f w;
          (b2, l) = (case r of Inr _ \<Rightarrow> ret_status E Finished JNull b | Inl e \<Rightarrow> ret_error E (Some e) JNull b)
      in (ThreadQueueWorkTask b2 f False, w', l, tb_state b2))"

text \<open>The search loop of \<open>ParallelTask\<close>: \<open>start\<close> is not advanced in the loop body. \<open>Inl\<close> is the exception
  after the loop.\<close>

(* src/taskmgr/common_tasks.cpp:399-402 ParallelTask::find_first_running loop *)
partial_function (option) ffr_loop :: "'w task list \<Rightarrow> nat \<Rightarrow> nat \<Rightarrow> (exn + nat) option" where
  "ffr_loop subs current start =
     (if start = current then Some (Inl (RuntimeError ''invalid parallel task state''))
      else if \<not> is_end (task_state_of (subs ! start)) then Some (Inr start)
      else ffr_loop subs current start)"

(* src/taskmgr/common_tasks.cpp:395-403 ParallelTask::find_first_running *)
definition find_first_running :: "'w task list \<Rightarrow> nat \<Rightarrow> (exn + nat) option" where
  "find_first_running subs current =
     (if \<not> is_end (task_state_of (subs ! current)) then Some (Inr current)
      else ffr_loop subs current ((current + 1) mod length subs))"

text \<open>What \<open>SequentialTask\<close> does with the state \<open>s\<close> of its current subtask \<open>t\<close>.\<close>

(* src/taskmgr/common_tasks.cpp:203-226 SequentialTask::resume switch *)
definition sequence_after :: "task_env \<Rightarrow> tbase \<Rightarrow> 'w task list \<Rightarrow> nat \<Rightarrow> task_state \<Rightarrow> 'w task \<times> task_status list" where
  "sequence_after E b subs cur s =
     (let payload = task_result (SequentialTask b subs cur) in
      case s of
        Finished \<Rightarrow>
          if cur + 1 \<ge> length subs
          then (let (b', l) = ret_status E Finished payload b in (SequentialTask b' subs (cur + 1), l))
          else (SequentialTask (set_state E Running b) subs (cur + 1), [])
      | Fine \<Rightarrow> (SequentialTask (set_state E Fine b) subs cur, [])
      | Running \<Rightarrow> (SequentialTask (set_state E Running b) subs cur, [])
      | Errored \<Rightarrow> (let (b', l) = ret_error E (task_error (subs ! cur)) payload b in (SequentialTask b' subs cur, l))
      | Pending \<Rightarrow> (let (b', l) = ret_status E Pending payload b in (SequentialTask b' subs cur, l))
      | Cancelled \<Rightarrow> (let (b', l) = ret_status E Cancelled payload b in (SequentialTask b' subs cur, l))
      | Unstarted \<Rightarrow> (let (b', l) = ret_status E Running payload b in (SequentialTask b' subs cur, l)))"

text \<open>What \<open>ParallelTask\<close> does after its subtask \<open>i\<close> returned \<open>s\<close>.\<close>

(* src/taskmgr/common_tasks.cpp:416-423 ParallelTask::resume after the subtask *)
definition parallel_after ::
  "task_env \<Rightarrow> tbase \<Rightarrow> 'w task list \<Rightarrow> nat \<Rightarrow> nat \<Rightarrow> task_state \<Rightarrow> 'w task \<times> task_status list" where
  "parallel_after E b subs fin i s =
     (if s = Errored then
        (let (b', l) = ret_error E (task_error (subs ! i)) JNull b in (ParallelTask b' subs fin i, l))
      else
        (let fin' = (if s = Finished then fin + 1 else fin) in
         if s = Finished \<and> fin' \<ge> length subs
         then (let (b', l) = ret_status E Finished JNull b in (ParallelTask b' subs fin' i, l))
         else (ParallelTask (set_state E Running b) subs fin' ((i + 1) mod length subs), [])))"

(* src/taskmgr/common_tasks.cpp:189-227 SequentialTask::resume *)
(* src/taskmgr/common_tasks.cpp:411-427 ParallelTask::resume *)
function resume :: "task_env \<Rightarrow> 'w task \<Rightarrow> 'w \<Rightarrow> 'w round option" where
  "resume E (AtomicTask b f) w = Some (resume_atomic E b f w)"
| "resume E (ValueAtomicTask b f r) w = Some (resume_value E b f r w)"
| "resume E (WaitOnceTask b p h t) w = Some (resume_wait_once E b p h t w)"
| "resume E (DelayTask b st d fin) w = Some (resume_delay E b st d fin w)"
| "resume E (ThreadQueueWorkTask b f q) w = Some (resume_work E b f q w)"
| "resume E (SequentialTask b subs cur) w =
     (let (b1, l1) = first_try E (task_result (SequentialTask b subs cur)) b in
      if cur < length subs then
        (let s = task_state_of (subs ! cur) in
         if s = Unstarted \<or> s = Running \<or> s = Fine then
           (case resume E (subs ! cur) w of
              None \<Rightarrow> None
            | Some (t, w', l2, s') \<Rightarrow>
                (let (me, l3) = sequence_after E b1 (subs[cur := t]) cur s'
                 in Some (me, w', l1 @ l2 @ l3, task_state_of me)))
         else (let (me, l3) = sequence_after E b1 subs cur s in Some (me, w, l1 @ l3, task_state_of me)))
      else (let (b', l) = ret_status E Finished (task_result (SequentialTask b subs cur)) b1
            in Some (SequentialTask b' subs cur, w, l1 @ l, Finished)))"
| "resume E (ParallelTask b subs fin cur) w =
     (let (b1, l1) = first_try E JNull b in
      if fin \<ge> length subs then
        (let b' = set_state E Finished b1 in Some (ParallelTask b' subs fin cur, w, l1, Finished))
      else
        (case find_first_running subs cur of
           None \<Rightarrow> None
         | Some (Inl e) \<Rightarrow>
             (let (b', l) = ret_error E (Some e) JNull b1 in Some (ParallelTask b' subs fin cur, w, l1 @ l, Errored))
         | Some (Inr i) \<Rightarrow>
             if i < length subs then
               (case resume E (subs ! i) w of
                  None \<Rightarrow> None
                | Some (t, w', l2, s) \<Rightarrow>
                    (let (me, l3) = parallel_after E b1 (subs[i := t]) fin i s
                     in Some (me, w', l1 @ l2 @ l3, task_state_of me)))
             else None))"
  by pat_completeness auto
termination
  by (relation "measure (\<lambda>(E, t, w). size t)")
    (auto simp: less_Suc_eq_le intro!: trans_le_add2 size_list_nth)

subsection \<open>Bookkeeping facts\<close>

lemma state_set_state [resume_defs, simp]: "tb_state (set_state E s b) = s"
  by (simp add: set_state_def Let_def)

lemma state_set_error [resume_defs, simp]: "tb_state (set_error E e b) = Errored"
  by (simp add: set_error_def)

lemma exception_set_state [resume_defs, simp]: "tb_exception (set_state E s b) = tb_exception b"
  by (simp add: set_state_def Let_def)

lemma exception_set_error [resume_defs, simp]: "tb_exception (set_error E e b) = e"
  by (simp add: set_error_def)

lemma state_ret [resume_defs, simp]:
  "tb_state (fst (ret_status E s p b)) = s" "tb_state (fst (ret_error E e p b)) = Errored"
  by (simp_all add: ret_status_def ret_error_def Let_def)

lemma exception_ret [resume_defs, simp]:
  "tb_exception (fst (ret_status E s p b)) = tb_exception b" "tb_exception (fst (ret_error E e p b)) = e"
  by (simp_all add: ret_status_def ret_error_def Let_def)

lemma first_try_state [resume_defs]:
  "tb_state (fst (first_try E p b)) = (if tb_start b = 0 then Running else tb_state b)"
  "tb_exception (fst (first_try E p b)) = tb_exception b"
  by (simp_all add: first_try_def Let_def)

lemma sequence_after_shape:
  "sequence_after E b subs cur s = (t, l) \<Longrightarrow>
     \<exists>b'. t = SequentialTask b' subs (if s = Finished then cur + 1 else cur)"
  by (cases s) (auto simp: sequence_after_def ret_status_def ret_error_def Let_def split: if_splits)

lemma sequence_after_state:
  "task_state_of (fst (sequence_after E b subs cur s)) =
     (if s = Finished then (if cur + 1 \<ge> length subs then Finished else Running)
      else if s = Unstarted then Running else s)"
  by (cases s) (auto simp: sequence_after_def ret_status_def ret_error_def Let_def)

lemma sequence_after_exception:
  "task_error (fst (sequence_after E b subs cur s)) =
     (if s = Errored then task_error (subs ! cur) else tb_exception b)"
  by (cases s) (auto simp: sequence_after_def ret_status_def ret_error_def Let_def)

lemma mod_in_range: "(i::nat) < n \<Longrightarrow> j mod n < n"
  by (rule mod_less_divisor) simp

lemma parallel_after_shape:
  "parallel_after E b subs fin i s = (t, l) \<Longrightarrow> \<exists>b' fin' c. t = ParallelTask b' subs fin' c \<and>
     (i < length subs \<longrightarrow> c < length subs) \<and> (tb_state b' = Errored \<or> tb_state b' = Finished \<or> tb_state b' = Running)"
  by (auto simp: parallel_after_def ret_status_def ret_error_def Let_def split: if_splits intro: mod_in_range)

subsection \<open>No task of the library is ever pending\<close>

text \<open>\<open>TaskManager::update\<close> does not get past a task whose state is \<open>pending\<close>; the tasks the factory
  functions build never have that state, at any depth.\<close>

fun never_pending :: "'w task \<Rightarrow> bool" where
  "never_pending (SequentialTask b subs c) \<longleftrightarrow> tb_state b \<noteq> Pending \<and> (\<forall>t\<in>set subs. never_pending t)"
| "never_pending (ParallelTask b subs fin c) \<longleftrightarrow> tb_state b \<noteq> Pending \<and> (\<forall>t\<in>set subs. never_pending t)"
| "never_pending t \<longleftrightarrow> task_state_of t \<noteq> Pending"

lemma never_pending_state: "never_pending t \<Longrightarrow> task_state_of t \<noteq> Pending"
  by (cases t) auto

lemma never_pending_update:
  "\<forall>t\<in>set subs. never_pending t \<Longrightarrow> never_pending t' \<Longrightarrow> \<forall>t\<in>set (subs[i := t']). never_pending t"
  by (auto dest!: set_update_subset_insert [THEN subsetD])

lemma never_pending_leaf_rounds:
  "tb_state b \<noteq> Pending \<Longrightarrow> resume_atomic E b f w = (t', w', l, s) \<Longrightarrow> never_pending t' \<and> s \<noteq> Pending"
  "tb_state b \<noteq> Pending \<Longrightarrow> resume_value E b g r w = (t', w', l, s) \<Longrightarrow> never_pending t' \<and> s \<noteq> Pending"
  "tb_state b \<noteq> Pending \<Longrightarrow> resume_wait_once E b p h d w = (t', w', l, s) \<Longrightarrow> never_pending t' \<and> s \<noteq> Pending"
  "tb_state b \<noteq> Pending \<Longrightarrow> resume_delay E b st du fin w = (t', w', l, s) \<Longrightarrow> never_pending t' \<and> s \<noteq> Pending"
  "tb_state b \<noteq> Pending \<Longrightarrow> resume_work E b f q w = (t', w', l, s) \<Longrightarrow> never_pending t' \<and> s \<noteq> Pending"
  by (auto simp: resume_atomic_def resume_value_def resume_wait_once_def resume_delay_def resume_work_def
      ret_status_def ret_error_def Let_def split: prod.splits sum.splits if_splits option.splits bool.splits)

lemma sequence_after_never_pending:
  assumes "sequence_after E b subs cur s = (me, l)" "s \<noteq> Pending" "\<forall>t\<in>set subs. never_pending t"
  shows "never_pending me"
  using sequence_after_shape [OF assms(1)] sequence_after_state [of E b subs cur s] assms
  by (auto split: if_splits)

lemma parallel_after_never_pending:
  assumes "parallel_after E b subs fin i s = (me, l)" "\<forall>t\<in>set subs. never_pending t"
  shows "never_pending me"
  using parallel_after_shape [OF assms(1)] assms(2) by auto

lemma resume_never_pending:
  "never_pending t \<Longrightarrow> resume E t w = Some (t', w', l, s) \<Longrightarrow> never_pending t' \<and> s \<noteq> Pending"
proof (induction E t w arbitrary: t' w' l s rule: resume.induct)
  case (6 E b subs cur w)
  show ?case
  proof (cases "cur < length subs")
    case False
    then show ?thesis using "6.prems"
      by (auto simp: ret_status_def Let_def split: prod.splits if_splits)
  next
    case True
    obtain b1 l1 where ft: "first_try E (task_result (SequentialTask b subs cur)) b = (b1, l1)" by fastforce
    let ?s = "task_state_of (subs ! cur)"
    have np: "never_pending (subs ! cur)" and all: "\<forall>t\<in>set subs. never_pending t"
      using "6.prems" True by auto
    show ?thesis
    proof (cases "?s = Unstarted \<or> ?s = Running \<or> ?s = Fine")
      case False
      then obtain l3 where "sequence_after E b1 subs cur ?s = (t', l3)" and "s = task_state_of t'"
        using "6.prems"(2) True ft by (auto simp: Let_def split: prod.splits)
      then have "never_pending t'"
        using sequence_after_never_pending [OF _ never_pending_state [OF np] all] by simp
      then show ?thesis using \<open>s = task_state_of t'\<close> never_pending_state by simp
    next
      case run: True
      obtain x w1 l2 s1 l3 where r: "resume E (subs ! cur) w = Some (x, w1, l2, s1)"
        and a: "sequence_after E b1 (subs[cur := x]) cur s1 = (t', l3)" and s: "s = task_state_of t'"
        using "6.prems"(2) True run ft by (auto simp: Let_def split: prod.splits option.splits)
      have "never_pending x \<and> s1 \<noteq> Pending"
        using "6.IH" [OF ft [symmetric] refl True refl run np r] .
      then show ?thesis
        using sequence_after_never_pending [OF a _ never_pending_update [OF all]] never_pending_state s by metis
    qed
  qed
next
  case (7 E b subs fin cur w)
  have all: "\<forall>t\<in>set subs. never_pending t" and b: "tb_state b \<noteq> Pending" using "7.prems" by auto
  obtain b1 l1 where ft: "first_try E JNull b = (b1, l1)" by fastforce
  show ?case
  proof (cases "length subs \<le> fin \<or> (\<exists>e. find_first_running subs cur = Some (Inl e))")
    case True
    then show ?thesis using "7.prems"(2) ft all
      by (auto simp: Let_def ret_error_def split: prod.splits if_splits)
  next
    case False
    then obtain i where i: "find_first_running subs cur = Some (Inr i)" and len: "i < length subs"
      using "7.prems"(2) by (auto simp: Let_def split: prod.splits option.splits sum.splits if_splits)
    obtain x w1 l2 s1 l3 where r: "resume E (subs ! i) w = Some (x, w1, l2, s1)"
      and a: "parallel_after E b1 (subs[i := x]) fin i s1 = (t', l3)" and s: "s = task_state_of t'"
      using "7.prems"(2) False i len ft by (auto simp: Let_def split: prod.splits option.splits)
    have "never_pending x"
      using "7.IH" [OF ft [symmetric] refl _ i refl len _ r] False all len by auto
    then show ?thesis
      using parallel_after_never_pending [OF a never_pending_update [OF all]] never_pending_state s by metis
  qed
qed (auto dest: never_pending_leaf_rounds)

lemma factories_never_pending [simp]:
  "never_pending (tasks_atomic i n f)" "never_pending (tasks_atomic_with_return_value i n g)"
  "never_pending (tasks_delay i d)" "never_pending (tasks_wait_once E i n p tmo h)"
  "never_pending (tasks_on_thread_queue i n f)"
  "never_pending (tasks_sequence i n subs) \<longleftrightarrow> (\<forall>t\<in>set subs. never_pending t)"
  "never_pending (tasks_parallel i n subs) \<longleftrightarrow> (\<forall>t\<in>set subs. never_pending t)"
  by (simp_all add: tasks_atomic_def tasks_atomic_with_return_value_def tasks_delay_def tasks_wait_once_def
      tasks_on_thread_queue_def tasks_sequence_def tasks_parallel_def fresh_base_def)

subsection \<open>Driving a task to its end\<close>

text \<open>The task manager resumes a task at successive instants until its state is an end state.\<close>

fun drive :: "task_env list \<Rightarrow> 'w task \<Rightarrow> 'w \<Rightarrow> ('w task \<times> 'w) option" where
  "drive [] t w = Some (t, w)"
| "drive (E # Es) t w =
     (if is_end (task_state_of t) then Some (t, w)
      else (case resume E t w of None \<Rightarrow> None | Some (t', w', l, s) \<Rightarrow> drive Es t' w'))"

lemma drive_ended [simp]: "is_end (task_state_of t) \<Longrightarrow> drive Es t w = Some (t, w)"
  by (cases Es) auto

text \<open>The specification of a sequence of actions: run them in order, stop at the first exception.\<close>

fun run_actions :: "('w, unit) closure list \<Rightarrow> 'w \<Rightarrow> exn option \<times> 'w" where
  "run_actions [] w = (None, w)"
| "run_actions (f # fs) w = (case f w of (Inl e, w') \<Rightarrow> (Some e, w') | (Inr _, w') \<Rightarrow> run_actions fs w')"

type_synonym 'w step_spec = "uuid \<times> string \<times> ('w, unit) closure"

definition step_action :: "'w step_spec \<Rightarrow> ('w, unit) closure" where
  "step_action p = snd (snd p)"

definition atomic_of :: "'w step_spec \<Rightarrow> 'w task" where
  "atomic_of p = (case p of (i, n, f) \<Rightarrow> tasks_atomic i n f)"

lemma atomic_of_state [simp]: "task_state_of (atomic_of p) = Unstarted"
  by (cases p) (simp add: atomic_of_def tasks_atomic_def fresh_base_def)

lemma resume_atomic_of:
  "resume E (atomic_of p) w =
     (let (r, w') = snd (snd p) w in
      let t = fst (resume_atomic E (fresh_base (fst p) (fst (snd p))) (snd (snd p)) w) in
      Some (t, w', fst (snd (snd (resume_atomic E (fresh_base (fst p) (fst (snd p))) (snd (snd p)) w))),
            (case r of Inr _ \<Rightarrow> Finished | Inl e \<Rightarrow> Errored)))"
  by (cases p) (auto simp: atomic_of_def tasks_atomic_def resume_atomic_def Let_def ret_status_def
      ret_error_def split: prod.splits sum.splits)

lemma resume_atomic_error:
  assumes "f w = (Inl e, w')"
  shows "task_error (fst (resume_atomic E b f w)) = Some e"
  using assms by (simp add: resume_atomic_def Let_def ret_error_def split: prod.splits)

lemma drive_sequence_suffix:
  assumes "length done = cur" "\<not> is_end (tb_state b)" "ps \<noteq> []" "tb_exception b = None"
    and "length ps \<le> length Es"
  shows "\<exists>t'. drive Es (SequentialTask b (done @ map atomic_of ps) cur) w
              = Some (t', snd (run_actions (map step_action ps) w))
          \<and> task_error t' = fst (run_actions (map step_action ps) w)
          \<and> task_state_of t' = (if task_error t' = None then Finished else Errored)"
  using assms
proof (induction ps arbitrary: "done" cur b w Es)
  case (Cons p ps)
  then obtain E Es' where Es: "Es = E # Es'" by (cases Es) auto
  let ?subs = "done @ map atomic_of (p # ps)"
  let ?f = "step_action p"
  obtain r w1 where f: "?f w = (r, w1)" by fastforce
  obtain b1 l1 where ft: "first_try E (task_result (SequentialTask b ?subs cur)) b = (b1, l1)" by fastforce
  have b1: "tb_exception b1 = None"
    using first_try_state(2) [of E "task_result (SequentialTask b ?subs cur)" b] ft Cons.prems by simp
  define x where "x = fst (resume_atomic E (fresh_base (fst p) (fst (snd p))) ?f w)"
  have cur: "cur < length ?subs" "?subs ! cur = atomic_of p" "?subs[cur := x] = (done @ [x]) @ map atomic_of ps"
    using Cons.prems by (auto simp: nth_append list_update_append)
  have "\<exists>l2. resume E (atomic_of p) w = Some (x, w1, l2, case r of Inr _ \<Rightarrow> Finished | Inl e \<Rightarrow> Errored)"
    using resume_atomic_of [of E p w] f by (simp add: x_def Let_def step_action_def)
  then obtain l2 where r: "resume E (?subs ! cur) w
      = Some (x, w1, l2, case r of Inr _ \<Rightarrow> Finished | Inl e \<Rightarrow> Errored)"
    unfolding cur(2) by blast
  obtain me l3 where a: "sequence_after E b1 (?subs[cur := x]) cur
      (case r of Inr _ \<Rightarrow> Finished | Inl e \<Rightarrow> Errored) = (me, l3)" by fastforce
  have res: "resume E (SequentialTask b ?subs cur) w = Some (me, w1, l1 @ l2 @ l3, task_state_of me)"
    using cur(1) ft r a cur(2) by (simp add: Let_def)
  have st: "task_state_of me = (case r of Inr _ \<Rightarrow> if ps = [] then Finished else Running | Inl e \<Rightarrow> Errored)"
    using sequence_after_state [of E b1 "?subs[cur := x]" cur "case r of Inr _ \<Rightarrow> Finished | Inl e \<Rightarrow> Errored"] a
      Cons.prems(1) by (cases r) (auto simp: Suc_le_eq)
  have ex: "task_error me = (case r of Inr _ \<Rightarrow> None | Inl e \<Rightarrow> Some e)"
    using sequence_after_exception [of E b1 "?subs[cur := x]" cur "case r of Inr _ \<Rightarrow> Finished | Inl e \<Rightarrow> Errored"] a
      b1 resume_atomic_error f cur(1) by (cases r) (auto simp: x_def)
  have step: "drive Es (SequentialTask b ?subs cur) w = drive Es' me w1"
    using Cons.prems(2) res Es by simp
  show ?case
  proof (cases "ps = [] \<or> (\<exists>e. r = Inl e)")
    case True
    then show ?thesis using step st ex f by (cases r) (auto simp: drive_ended)
  next
    case False
    then obtain u where ru: "r = Inr u" "ps \<noteq> []" by (cases r) auto
    from sequence_after_shape [OF a] obtain b' where
      me: "me = SequentialTask b' ((done @ [x]) @ map atomic_of ps) (cur + 1)"
      using ru cur(3) by auto
    have "\<exists>t'. drive Es' me w1 = Some (t', snd (run_actions (map step_action ps) w1))
          \<and> task_error t' = fst (run_actions (map step_action ps) w1)
          \<and> task_state_of t' = (if task_error t' = None then Finished else Errored)"
      unfolding me
      by (rule Cons.IH) (use Cons.prems Es me st ex ru in auto)
    then show ?thesis using step f ru by simp
  qed
qed simp

text \<open>C7: a sequence of actions, driven for at least as many rounds as it has actions, runs them in order on the
  world, stops at the first one that throws, and ends finished, or in error with that exception.\<close>
theorem sequence_runs_actions_in_order:
  assumes "length ps \<le> length Es" "ps \<noteq> []"
  shows "\<exists>t'. drive Es (tasks_sequence i n (map atomic_of ps)) w
              = Some (t', snd (run_actions (map step_action ps) w))
          \<and> task_error t' = fst (run_actions (map step_action ps) w)
          \<and> task_state_of t' = (if task_error t' = None then Finished else Errored)"
  using drive_sequence_suffix [of "[]" 0 "fresh_base i n" ps Es w] assms
  by (simp add: tasks_sequence_def fresh_base_def)

definition env_at :: "time \<Rightarrow> task_env" where
  "env_at t = \<lparr>te_sys_now = t, te_steady_now = t, te_format = dec_int, te_framework = 1\<rparr>"

text \<open>Two counters and a failing third action on a world that is a number.\<close>

definition sample_steps :: "int step_spec list" where
  "sample_steps = [(1, ''a'', \<lambda>w. (Inr (), w + 1)), (2, ''b'', \<lambda>w. (Inr (), 10 * w)),
     (3, ''c'', \<lambda>w. (Inl (RuntimeError ''no''), w)), (4, ''d'', \<lambda>w. (Inr (), 0))]"

lemma sequence_runs_actions_in_order_witness:
  "\<exists>t'. drive (map env_at [1, 2, 3, 4]) (tasks_sequence 9 ''seq'' (map atomic_of sample_steps)) 1 = Some (t', 20)
      \<and> task_error t' = Some (RuntimeError ''no'') \<and> task_state_of t' = Errored"
  using sequence_runs_actions_in_order [of sample_steps "map env_at [1, 2, 3, 4]" 9 "''seq''" 1]
  by (auto simp: sample_steps_def step_action_def)

subsection \<open>A round of a sequence touches its current subtask only\<close>

text \<open>One round of a sequence leaves every subtask but the current one untouched, and moves on by at most one.\<close>
lemma sequence_round_order:
  assumes "resume E (SequentialTask b subs cur) w = Some (t', w', l, s)"
  obtains b' subs' cur' where "t' = SequentialTask b' subs' cur'" "length subs' = length subs"
    "\<forall>i. i \<noteq> cur \<longrightarrow> subs' ! i = subs ! i"
    "cur' = cur \<or> cur' = cur + 1 \<and> cur < length subs" "tb_state b' = s"
proof (cases "cur < length subs")
  case False
  then show ?thesis using assms that
    by (auto simp: ret_status_def Let_def split: prod.splits)
next
  case True
  obtain b1 l1 where ft: "first_try E (task_result (SequentialTask b subs cur)) b = (b1, l1)" by fastforce
  obtain subs' s1 l3 where a: "sequence_after E b1 subs' cur s1 = (t', l3)" and "s = task_state_of t'"
    and "length subs' = length subs" "\<forall>i. i \<noteq> cur \<longrightarrow> subs' ! i = subs ! i"
    using assms True ft by (auto simp: Let_def split: prod.splits option.splits if_splits)
  then show ?thesis using sequence_after_shape [OF a] that True by (metis task_base.simps(3))
qed

subsection \<open>Waiting\<close>

lemma resume_wait_once_state:
  assumes "p w = (Inr ok, w1)" "\<forall>h'. h = Some h' \<longrightarrow> (\<exists>info w2. h' w = (Inr info, w2))"
  shows "(\<lambda>(t, w', l, s). (task_state_of t, s)) (resume_wait_once E b p h d w) =
     (let x = (if te_steady_now E > d then Errored else if ok then Finished else Running) in (x, x))"
  using assms
  by (cases ok; cases h)
    (auto simp: resume_wait_once_def Let_def ret_status_def ret_error_def first_try_def split: prod.splits)

lemma resume_wait_once_shape:
  "resume_wait_once E b p h d w = (t, w', l, s) \<Longrightarrow> \<exists>b'. t = WaitOnceTask b' p h d"
  by (auto simp: resume_wait_once_def Let_def split: prod.splits)

lemma resume_wait_once_late:
  assumes "te_steady_now E > d"
  shows "task_state_of (fst (resume_wait_once E b p h d w)) = Errored"
  using assms
  by (cases h) (auto simp: resume_wait_once_def Let_def ret_error_def split: prod.splits sum.splits)

text \<open>C28: a wait task ends, finished or in error, in any run that is polled at an instant after its deadline,
  whatever its condition and its timeout callback do.\<close>
theorem wait_once_ends_after_deadline:
  assumes "\<exists>E\<in>set Es. te_steady_now E > te_steady_now E0 + tmo"
  shows "\<exists>t' w'. drive Es (tasks_wait_once E0 i n p tmo h) w = Some (t', w') \<and> is_end (task_state_of t')"
proof -
  let ?d = "te_steady_now E0 + tmo"
  have "\<exists>t' w'. drive Es (WaitOnceTask b p h ?d) w = Some (t', w') \<and> is_end (task_state_of t')" for b
    using assms
  proof (induction Es arbitrary: b w)
    case (Cons E Es)
    obtain t1 w1 l s where r: "resume_wait_once E b p h ?d w = (t1, w1, l, s)" by (metis prod_cases4)
    obtain b' where t1: "t1 = WaitOnceTask b' p h ?d" using resume_wait_once_shape [OF r] by blast
    show ?case
    proof (cases "is_end (tb_state b) \<or> is_end (tb_state b')")
      case True
      then show ?thesis using r t1 by auto
    next
      case False
      have "\<not> te_steady_now E > ?d"
        using resume_wait_once_late [of ?d E b p h w] r t1 False by auto
      then have "\<exists>E\<in>set Es. te_steady_now E > ?d" using Cons.prems by auto
      then show ?thesis using Cons.IH [of b' w1] r t1 False by auto
    qed
  qed simp
  then show ?thesis by (simp add: tasks_wait_once_def)
qed

lemma wait_once_ends_after_deadline_witness:
  "\<exists>t' w'. drive (map env_at [10, 90, 161]) (tasks_wait_once (env_at 0) 5 ''w'' (\<lambda>w. (Inr False, w)) 150 None) ()
     = Some (t', w') \<and> is_end (task_state_of t')"
  by (rule wait_once_ends_after_deadline) (simp add: env_at_def)

subsection \<open>The search of a parallel task\<close>

lemma ffr_loop_stuck:
  assumes "start \<noteq> current" "is_end (task_state_of (subs ! start))"
  shows "ffr_loop subs current start = None"
proof (rule ccontr)
  assume "ffr_loop subs current start \<noteq> None"
  then obtain y where y: "ffr_loop subs current start = Some y" by blast
  have "start = current \<or> \<not> is_end (task_state_of (subs ! start))"
    by (rule ffr_loop.raw_induct [OF _ y]) (auto split: if_splits)
  then show False using assms by blast
qed

lemma find_first_running_None:
  "find_first_running subs current = None \<longleftrightarrow>
     is_end (task_state_of (subs ! current)) \<and> (current + 1) mod length subs \<noteq> current
     \<and> is_end (task_state_of (subs ! ((current + 1) mod length subs)))"
proof -
  let ?next = "(current + 1) mod length subs"
  have "ffr_loop subs current ?next = None \<longleftrightarrow> ?next \<noteq> current \<and> is_end (task_state_of (subs ! ?next))"
  proof (cases "?next = current \<or> \<not> is_end (task_state_of (subs ! ?next))")
    case True
    then show ?thesis by (subst ffr_loop.simps) auto
  next
    case False
    then show ?thesis using ffr_loop_stuck [of ?next current subs] by blast
  qed
  then show ?thesis by (simp add: find_first_running_def)
qed

lemma find_first_running_live [simp]:
  "\<not> is_end (task_state_of (subs ! current)) \<Longrightarrow> find_first_running subs current = Some (Inr current)"
  by (simp add: find_first_running_def)

text \<open>A parallel task over two actions and a wait whose condition stays false: the first three rounds
  finish the actions and poll the wait, and the fourth round, back at the first subtask, never returns.\<close>

lemma resume_atomic_ok:
  assumes "f w = (Inr (), w')"
  obtains b' l where "resume_atomic E b f w = (AtomicTask b' f, w', l, Finished)" "tb_state b' = Finished"
proof -
  obtain b1 l1 where "first_try E JNull b = (b1, l1)" by fastforce
  then show ?thesis using that assms by (simp add: resume_atomic_def ret_status_def Let_def)
qed

lemma drive_parallel_round:
  assumes "find_first_running subs cur = Some (Inr k)" "k < length subs" "fin < length subs"
    and "resume E (subs ! k) w = Some (x, w', l, s)" "s = Running \<or> s = Finished \<and> fin + 1 < length subs"
    and "\<not> is_end (tb_state b)"
  obtains b' where "drive (E # Es) (ParallelTask b subs fin cur) w
      = drive Es (ParallelTask b' (subs[k := x]) (if s = Finished then fin + 1 else fin) ((k + 1) mod length subs)) w'"
    "tb_state b' = Running"
proof -
  obtain b1 l1 where ft: "first_try E JNull b = (b1, l1)" by fastforce
  have "resume E (ParallelTask b subs fin cur) w
      = Some (ParallelTask (set_state E Running b1) (subs[k := x]) (if s = Finished then fin + 1 else fin)
          ((k + 1) mod length subs), w', l1 @ l, Running)"
    using ft assms by (auto simp: Let_def parallel_after_def)
  then show ?thesis using that assms(6) by simp
qed

lemma drive_parallel_atomic_round:
  assumes "f w = (Inr (), w')" "find_first_running subs cur = Some (Inr k)" "k < length subs" "fin + 1 < length subs"
    and "subs ! k = AtomicTask bk f" "\<not> is_end (tb_state b)"
  obtains b' bk' where "drive (E # Es) (ParallelTask b subs fin cur) w
      = drive Es (ParallelTask b' (subs[k := AtomicTask bk' f]) (fin + 1) ((k + 1) mod length subs)) w'"
    "tb_state b' = Running" "tb_state bk' = Finished"
proof -
  from resume_atomic_ok [of f, OF assms(1)] obtain bk' l
    where r: "resume_atomic E bk f w = (AtomicTask bk' f, w', l, Finished)" "tb_state bk' = Finished" .
  then have res: "resume E (subs ! k) w = Some (AtomicTask bk' f, w', l, Finished)" using assms(5) by simp
  have fin: "fin < length subs" "Finished = Running \<or> Finished = Finished \<and> fin + 1 < length subs" using assms(4) by simp_all
  obtain b' where d: "drive (E # Es) (ParallelTask b subs fin cur) w = drive Es (ParallelTask b' (subs[k := AtomicTask bk' f])
      (if Finished = Finished then fin + 1 else fin) ((k + 1) mod length subs)) w'" "tb_state b' = Running"
    by (rule drive_parallel_round [OF assms(2,3) fin(1) res fin(2) assms(6)])
  show ?thesis by (rule that [OF _ d(2) r(2)]) (use d(1) in simp)
qed

text \<open>C32: the fourth round of a parallel task over two successful actions and a wait whose condition stays false
  never returns: \<open>find_first_running\<close> does not advance its index.\<close>
theorem parallel_of_three_hangs:
  assumes "f w = (Inr (), w1)" "g w1 = (Inr (), w2)" "\<And>v. p v = (Inr False, v)"
    and "te_steady_now E3 \<le> te_steady_now E0 + tmo"
  shows "drive [E1, E2, E3, E4] (tasks_parallel i n
           [tasks_atomic i1 n1 f, tasks_atomic i2 n2 g, tasks_wait_once E0 i3 n3 p tmo h]) w = None"
proof -
  let ?d = "te_steady_now E0 + tmo"
  let ?A = "tasks_atomic i1 n1 f" and ?B = "tasks_atomic i2 n2 g"
  let ?W = "\<lambda>b. WaitOnceTask b p h ?d"
  have fresh: "task_state_of ?A = Unstarted" "task_state_of ?B = Unstarted" "tb_state (fresh_base i3 n3) = Unstarted"
    by (simp_all add: tasks_atomic_def fresh_base_def)
  let ?s0 = "[?A, ?B, ?W (fresh_base i3 n3)]"
  have A: "?A = AtomicTask (fresh_base i1 n1) f" and B: "?B = AtomicTask (fresh_base i2 n2) g"
    by (simp_all add: tasks_atomic_def)
  have "find_first_running ?s0 0 = Some (Inr 0)" using fresh by simp
  from drive_parallel_atomic_round [of f, OF assms(1) this, of 0 "fresh_base i1 n1" "fresh_base i n" E1 "[E2, E3, E4]"]
  obtain b1 a1 where s1: "drive [E1, E2, E3, E4] (ParallelTask (fresh_base i n) ?s0 0 0) w
      = drive [E2, E3, E4] (ParallelTask b1 [AtomicTask a1 f, ?B, ?W (fresh_base i3 n3)] 1 1) w1"
    "tb_state b1 = Running" "tb_state a1 = Finished"
    by (auto simp: A fresh_base_def)
  let ?s1 = "[AtomicTask a1 f, ?B, ?W (fresh_base i3 n3)]"
  have "find_first_running ?s1 1 = Some (Inr 1)" using fresh by simp
  from drive_parallel_atomic_round [of g, OF assms(2) this, of 1 "fresh_base i2 n2" b1 E2 "[E3, E4]"]
  obtain b2 a2 where s2: "drive [E2, E3, E4] (ParallelTask b1 ?s1 1 1) w1
      = drive [E3, E4] (ParallelTask b2 [AtomicTask a1 f, AtomicTask a2 g, ?W (fresh_base i3 n3)] 2 2) w2"
    "tb_state b2 = Running" "tb_state a2 = Finished"
    using s1(2) by (auto simp: B numeral_2_eq_2)
  let ?s2 = "[AtomicTask a1 f, AtomicTask a2 g, ?W (fresh_base i3 n3)]"
  have f2: "find_first_running ?s2 2 = Some (Inr 2)" using fresh by simp
  obtain x w' l s where r: "resume_wait_once E3 (fresh_base i3 n3) p h ?d w2 = (x, w', l, s)" by (metis prod_cases4)
  have w': "w' = w2" "s = Running"
    using r assms(3,4) by (auto simp: resume_wait_once_def Let_def split: prod.splits if_splits)
  have "resume E3 (?s2 ! 2) w2 = Some (x, w2, l, Running)" using r w' by simp
  from drive_parallel_round [of _ 2 2 2, OF f2 _ _ this, of b2 "[E4]"]
  obtain b3 where b3: "drive [E3, E4] (ParallelTask b2 ?s2 2 2) w2
      = drive [E4] (ParallelTask b3 [AtomicTask a1 f, AtomicTask a2 g, x] 2 0) w2" "tb_state b3 = Running"
    using s2(2) by auto
  have "find_first_running [AtomicTask a1 f, AtomicTask a2 g, x] 0 = None"
    using s1(3) s2(3) by (simp add: find_first_running_None)
  then show ?thesis
    using s1(1) s2(1) b3 by (simp add: tasks_parallel_def tasks_wait_once_def Let_def split: prod.splits)
qed

lemma parallel_of_three_hangs_witness:
  "drive (map env_at [1, 2, 3, 4]) (tasks_parallel 9 ''par'' [tasks_atomic 1 ''a'' (\<lambda>w. (Inr (), w + 1)),
     tasks_atomic 2 ''b'' (\<lambda>w. (Inr (), 2 * w)), tasks_wait_once (env_at 0) 3 ''c'' (\<lambda>w. (Inr False, w)) 100 None]) (0 :: int)
   = None"
  using parallel_of_three_hangs [of "\<lambda>w :: int. (Inr (), w + 1)" 0 1 "\<lambda>w. (Inr (), 2 * w)" 2 "\<lambda>w. (Inr False, w)"
      "env_at 3" "env_at 0" 100 "env_at 1" "env_at 2" "env_at 4" 9 "''par''" 1 "''a''" 2 "''b''" 3 "''c''" None]
  by (simp add: env_at_def)

subsection \<open>An action followed by a wait\<close>

text \<open>Between two rounds the rest of the program changes the world: each round comes with the change made
  before it.\<close>

fun drive_among :: "(task_env \<times> ('w \<Rightarrow> 'w)) list \<Rightarrow> 'w task \<Rightarrow> 'w \<Rightarrow> ('w task \<times> 'w) option" where
  "drive_among [] t w = Some (t, w)"
| "drive_among ((E, g) # rs) t w =
     (if is_end (task_state_of t) then Some (t, w)
      else (case resume E t (g w) of None \<Rightarrow> None | Some (t', w', l, s) \<Rightarrow> drive_among rs t' w'))"

lemma drive_among_ended [simp]: "is_end (task_state_of t) \<Longrightarrow> drive_among rs t w = Some (t, w)"
  by (cases rs) (auto split: prod.splits)

text \<open>The specification of polling a condition until a deadline, and of an action followed by it.\<close>

fun poll_spec :: "time \<Rightarrow> ('w \<Rightarrow> bool) \<Rightarrow> (task_env \<times> ('w \<Rightarrow> 'w)) list \<Rightarrow> 'w \<Rightarrow> task_state \<times> 'w" where
  "poll_spec d c [] w = (Running, w)"
| "poll_spec d c ((E, g) # rs) w =
     (if te_steady_now E > d then (Errored, g w)
      else if c (g w) then (Finished, g w) else poll_spec d c rs (g w))"

fun act_then_poll ::
  "('w, unit) closure \<Rightarrow> time \<Rightarrow> ('w \<Rightarrow> bool) \<Rightarrow> (task_env \<times> ('w \<Rightarrow> 'w)) list \<Rightarrow> 'w \<Rightarrow> task_state \<times> 'w" where
  "act_then_poll f d c [] w = (Unstarted, w)"
| "act_then_poll f d c ((E, g) # rs) w =
     (case f (g w) of (Inl e, w') \<Rightarrow> (Errored, w') | (Inr _, w') \<Rightarrow> poll_spec d c rs w')"

lemma resume_wait_once_pure:
  assumes "p = (\<lambda>w. (Inr (c w), w))" "h = Some (\<lambda>w. (Inr msg, w))"
  obtains b' l where "resume_wait_once E b p h d w
      = (WaitOnceTask b' p h d, w, l, if te_steady_now E > d then Errored else if c w then Finished else Running)"
    "tb_state b' = (if te_steady_now E > d then Errored else if c w then Finished else Running)"
proof -
  obtain b1 l1 where "first_try E JNull b = (b1, l1)" by fastforce
  then have "\<exists>b' l. resume_wait_once E b p h d w
      = (WaitOnceTask b' p h d, w, l, if te_steady_now E > d then Errored else if c w then Finished else Running)
    \<and> tb_state b' = (if te_steady_now E > d then Errored else if c w then Finished else Running)"
    using assms by (cases "c w") (simp_all add: resume_wait_once_def ret_status_def ret_error_def Let_def)
  then show ?thesis using that by blast
qed

lemma drive_wait_in_sequence:
  assumes "p = (\<lambda>w. (Inr (c w), w))" "h = Some (\<lambda>w. (Inr msg, w))"
    and "tb_state b = Running" "tb_state bw \<in> {Unstarted, Running}"
  shows "\<exists>t'. drive_among rs (SequentialTask b [x, WaitOnceTask bw p h d] 1) w
      = Some (t', snd (poll_spec d c rs w)) \<and> task_state_of t' = fst (poll_spec d c rs w)"
  using assms(3,4)
proof (induction rs arbitrary: b bw w)
  case (Cons r rs)
  obtain E g where r: "r = (E, g)" by fastforce
  let ?subs = "[x, WaitOnceTask bw p h d]"
  let ?s = "if te_steady_now E > d then Errored else if c (g w) then Finished else Running"
  obtain b1 l1 where ft: "first_try E (task_result (SequentialTask b ?subs 1)) b = (b1, l1)" by fastforce
  from resume_wait_once_pure [OF assms(1,2)] obtain bw' l2
    where w: "resume_wait_once E bw p h d (g w) = (WaitOnceTask bw' p h d, g w, l2, ?s)" "tb_state bw' = ?s" .
  obtain me l3 where a: "sequence_after E b1 [x, WaitOnceTask bw' p h d] 1 ?s = (me, l3)" by fastforce
  have res: "resume E (SequentialTask b ?subs 1) (g w) = Some (me, g w, l1 @ l2 @ l3, task_state_of me)"
    using ft w(1) a Cons.prems(2) by (simp add: Let_def) (metis list_update_code(3) list_update_code(2))
  have st: "task_state_of me = ?s"
    using sequence_after_state [of E b1 "[x, WaitOnceTask bw' p h d]" 1 ?s] a by (simp split: if_splits)
  show ?case
  proof (cases "?s = Running")
    case False
    then have "is_end (task_state_of me)" using st by (auto split: if_splits)
    then show ?thesis using res st Cons.prems(1) r False by (auto split: if_splits)
  next
    case True
    from sequence_after_shape [OF a] obtain b' where me: "me = SequentialTask b' [x, WaitOnceTask bw' p h d] 1"
      using True by auto
    have "tb_state b' = Running" using st True me by simp
    from Cons.IH [OF this, of bw' "g w"] w(2) True
    show ?thesis using res Cons.prems(1) r me by (auto split: if_splits)
  qed
qed simp

lemma resume_atomic_round:
  assumes "f w = (r, w')"
  shows "\<exists>x l. resume_atomic E b f w = (x, w', l, case r of Inr _ \<Rightarrow> Finished | Inl _ \<Rightarrow> Errored)"
proof -
  obtain b1 l1 where "first_try E JNull b = (b1, l1)" by fastforce
  then show ?thesis using assms
    by (cases r) (simp_all add: resume_atomic_def ret_status_def ret_error_def Let_def)
qed

lemma drive_act_then_wait:
  assumes "p = (\<lambda>w. (Inr (c w), w))" "h = Some (\<lambda>w. (Inr msg, w))"
  shows "\<exists>t'. drive_among rs (tasks_sequence i n [tasks_atomic i1 n1 f, WaitOnceTask (fresh_base i2 n2) p h d]) w
      = Some (t', snd (act_then_poll f d c rs w)) \<and> task_state_of t' = fst (act_then_poll f d c rs w)"
proof (cases rs)
  case Nil
  then show ?thesis by (simp add: tasks_sequence_def fresh_base_def)
next
  case (Cons r rs')
  obtain E g where r: "r = (E, g)" by fastforce
  let ?b = "fresh_base i n" and ?W = "WaitOnceTask (fresh_base i2 n2) p h d"
  let ?A = "tasks_atomic i1 n1 f"
  obtain b1 l1 where ft: "first_try E (task_result (SequentialTask ?b [?A, ?W] 0)) ?b = (b1, l1)" by fastforce
  obtain r1 w' where fw: "f (g w) = (r1, w')" by fastforce
  let ?s = "case r1 of Inr _ \<Rightarrow> Finished | Inl _ \<Rightarrow> Errored"
  obtain x l2 where ra: "resume_atomic E (fresh_base i1 n1) f (g w) = (x, w', l2, ?s)"
    using resume_atomic_round [of f, OF fw] by blast
  obtain me l3 where a: "sequence_after E b1 [x, ?W] 0 ?s = (me, l3)" by fastforce
  have fs: "task_state_of ?A = Unstarted" "\<not> is_end (tb_state ?b)" by (simp_all add: tasks_atomic_def fresh_base_def)
  have res: "resume E (SequentialTask ?b [?A, ?W] 0) (g w) = Some (me, w', l1 @ l2 @ l3, task_state_of me)"
    using ft ra a fs by (simp add: Let_def tasks_atomic_def)
  have st: "task_state_of me = (if ?s = Finished then Running else ?s)"
    using sequence_after_state [of E b1 "[x, ?W]" 0 ?s] a by (cases r1) auto
  show ?thesis
  proof (cases r1)
    case (Inl e)
    then show ?thesis using res st fw fs Cons r by (simp add: tasks_sequence_def)
  next
    case (Inr u)
    from sequence_after_shape [OF a] obtain b' where me: "me = SequentialTask b' [x, ?W] 1"
      using Inr by auto
    have "tb_state b' = Running" using st me Inr by simp
    from drive_wait_in_sequence [OF assms this, of "fresh_base i2 n2" rs' x d w']
    show ?thesis using res me fw fs Cons r Inr by (simp add: tasks_sequence_def fresh_base_def)
  qed
qed

end
