(* ===== verification/MessageBus.thy ===== *)
theory MessageBus
  imports Json
begin

section \<open>The message bus\<close>

text \<open>
  \<open>include/messagebus/messagebus.hpp\<close>, \<open>src/messagebus/messagebus.cpp\<close>: modules register under a name,
  messages are delivered to the module a name maps to, and a synchronous send waits for one reply.
  A module's \<open>on_receive\<close> is a function on a world \<^typ>\<open>'w\<close>: it says which replies it makes through the
  message, in order, and then how it ends. The promise of a synchronous send takes the first value
  it is given; a second one is a \<open>future_error\<close>, and a promise that is dropped unset is broken.
\<close>

subsection \<open>Messages\<close>

(* include/messagebus/messagebus.hpp:35-35 Status *)
datatype msg_status = StOK | StFailed | StNotExist

(* include/messagebus/messagebus.hpp:69-74 Header *)
record header =
  hd_id :: uuid
  hd_parent_id :: uuid
  hd_timestamp :: time
  hd_synchronous :: bool
  hd_status :: msg_status

text \<open>\<open>rt_on_response\<close> says whether the callback is set.\<close>

(* include/messagebus/messagebus.hpp:56-63 RouteInfo *)
record route =
  rt_source :: string
  rt_destination :: string
  rt_operation :: string
  rt_on_response :: bool

(* include/messagebus/messagebus.hpp:103-112 Message *)
record 'x message =
  msg_header :: header
  msg_router :: route
  msg_content :: string
  msg_extra :: "'x option"

abbreviation msg_operation :: "'x message \<Rightarrow> string" where
  "msg_operation m \<equiv> rt_operation (msg_router m)"

(* include/messagebus/messagebus.hpp:169-169 Message::success *)
definition msg_success :: "'x message \<Rightarrow> bool" where
  "msg_success m = (hd_status (msg_header m) = StOK)"

(* include/messagebus/messagebus.hpp:173-186 Message::parse_as *)
definition parse_as :: "text_lib \<Rightarrow> (json \<Rightarrow> exn + 'a) \<Rightarrow> 'x message \<Rightarrow> exn + 'a" where
  "parse_as L get m =
     (case rbind (parse L (msg_content m)) get of
        Inl (JsonError e) \<Rightarrow> Inl (FormatError e (msg_content m))
      | r \<Rightarrow> r)"

(* include/messagebus/messagebus.hpp:191-200 Message::try_parse *)
definition try_parse :: "text_lib \<Rightarrow> (json \<Rightarrow> exn + 'a) \<Rightarrow> 'x message \<Rightarrow> exn + (string + 'a)" where
  "try_parse L get m =
     (if \<not> msg_success m then Inr (Inl (msg_content m))
      else (case rbind (parse L (msg_content m)) get of
              Inl (JsonError e) \<Rightarrow> Inr (Inl (''invalid format: '' @ e))
            | Inl e \<Rightarrow> Inl e
            | Inr x \<Rightarrow> Inr (Inr x)))"

(* include/messagebus/messagebus.hpp:204-206 err_invalid_operation *)
definition err_invalid_operation :: "'x message \<Rightarrow> string" where
  "err_invalid_operation m = ''invalid operation: '' @ msg_operation m"

(* include/messagebus/message_client.hpp:21-60 make_message *)
definition make_message :: "uuid \<Rightarrow> time \<Rightarrow> string \<Rightarrow> string \<Rightarrow> string \<Rightarrow> string \<Rightarrow> 'x message" where
  "make_message i now from to op content =
     \<lparr>msg_header = \<lparr>hd_id = i, hd_parent_id = 0, hd_timestamp = now, hd_synchronous = False, hd_status = StOK\<rparr>,
      msg_router = \<lparr>rt_source = from, rt_destination = to, rt_operation = op, rt_on_response = False\<rparr>,
      msg_content = content, msg_extra = None\<rparr>"

(* src/messagebus/messagebus.cpp:186-190 reply_from(RouteInfo) *)
definition reply_route :: "route \<Rightarrow> route" where
  "reply_route r = r\<lparr>rt_source := rt_destination r, rt_destination := rt_source r\<rparr>"

(* src/messagebus/messagebus.cpp:192-200 reply_from(Header) *)
definition reply_header :: "uuid \<Rightarrow> time \<Rightarrow> header \<Rightarrow> msg_status \<Rightarrow> header" where
  "reply_header i now h st =
     \<lparr>hd_id = i, hd_parent_id = hd_id h, hd_timestamp = now, hd_synchronous = False, hd_status = st\<rparr>"

(* src/messagebus/messagebus.cpp:136-185 Message::respond, Message::respond_error *)
definition make_reply :: "uuid \<Rightarrow> time \<Rightarrow> 'x message \<Rightarrow> msg_status \<Rightarrow> string \<Rightarrow> exn + 'x message" where
  "make_reply i now m st data =
     (if \<not> rt_on_response (msg_router m) then Inl (LogicError ''non-responsible message'')
      else Inr \<lparr>msg_header = reply_header i now (msg_header m) st, msg_router = reply_route (msg_router m),
                msg_content = data, msg_extra = None\<rparr>)"

subsection \<open>Handlers\<close>

text \<open>What a call of \<open>on_receive\<close> does: the replies it makes, then it returns a value or throws.\<close>

datatype ending = Returns "string + unit" | Throws exn

record outcome =
  oc_replies :: "(msg_status \<times> string) list"
  oc_ending :: ending

type_synonym ('x, 'w) handler = "'x message \<Rightarrow> 'w \<Rightarrow> outcome \<times> 'w"

abbreviation quiet :: "ending \<Rightarrow> outcome" where
  "quiet e \<equiv> \<lparr>oc_replies = [], oc_ending = e\<rparr>"

abbreviation ok_reply :: "string \<Rightarrow> outcome" where
  "ok_reply s \<equiv> \<lparr>oc_replies = [(StOK, s)], oc_ending = Returns (Inr ())\<rparr>"

abbreviation err_reply :: "string \<Rightarrow> outcome" where
  "err_reply s \<equiv> \<lparr>oc_replies = [(StFailed, s)], oc_ending = Returns (Inr ())\<rparr>"

text \<open>On a message without callback the first reply throws, and the handler ends there.\<close>

definition ending_without_callback :: "outcome \<Rightarrow> ending" where
  "ending_without_callback oc =
     (if oc_replies oc = [] then oc_ending oc else Throws (LogicError ''non-responsible message''))"

subsection \<open>The bus\<close>

(* src/messagebus/messagebus.cpp:30-33 ModuleMap, ModuleStack *)
record 'm bus =
  bus_map :: "string \<rightharpoonup> 'm"
  bus_stack :: "'m list"

definition empty_bus :: "'m bus" where
  "empty_bus = \<lparr>bus_map = Map.empty, bus_stack = []\<rparr>"

text \<open>\<open>rcv mod\<close> is the module's \<open>on_receive\<close>.\<close>

(* src/messagebus/messagebus.cpp:40-62 send *)
definition send ::
  "('m \<Rightarrow> ('x, 'w) handler) \<Rightarrow> 'm bus \<Rightarrow> 'x message \<Rightarrow> 'w \<Rightarrow> (string + unit) \<times> 'w" where
  "send rcv B m w =
     (let dest = rt_destination (msg_router m) in
      if dest = [] then (Inl ''need destination'', w)
      else (case bus_map B dest of
              None \<Rightarrow> (Inl (''no such module: '' @ dest), w)
            | Some md \<Rightarrow>
                (let (oc, w') = rcv md m w in
                 (case (if rt_on_response (msg_router m) then oc_ending oc else ending_without_callback oc) of
                    Returns r \<Rightarrow> (r, w')
                  | Throws e \<Rightarrow> (Inr (), w')))))"

text \<open>The worker's part of a synchronous send: the values it gives to the promise. A second reply throws
  inside the handler, which the worker turns into one more (refused) value.\<close>

definition failed_content :: "text_lib \<Rightarrow> exn \<Rightarrow> string" where
  "failed_content L e =
     (case e of
        FormatError m c \<Rightarrow> dump L (jobject [(''reason'', JStr (what e)), (''content'', JStr c)])
      | _ \<Rightarrow> what e)"

(* src/messagebus/messagebus.cpp:83-96 send_sync worker *)
definition promise_values ::
  "text_lib \<Rightarrow> uuid \<Rightarrow> time \<Rightarrow> 'x message \<Rightarrow> outcome \<Rightarrow> (string + 'x message) list" where
  "promise_values L i now m oc =
     map (\<lambda>(st, data). case make_reply i now (m\<lparr>msg_router := (msg_router m)\<lparr>rt_on_response := True\<rparr>\<rparr>) st data of
                         Inr r \<Rightarrow> Inr r | Inl e \<Rightarrow> Inl (what e)) (oc_replies oc)
     @ (case oc_ending oc of
          Returns (Inr _) \<Rightarrow> []
        | Returns (Inl e) \<Rightarrow> [Inl e]
        | Throws e \<Rightarrow> [Inl (failed_content L e)])"

text \<open>\<open>elapsed\<close> is when the promise is first set, or dropped unset; a dropped promise makes \<open>fut.get()\<close>
  throw. \<open>Inl\<close> is an exception that leaves \<open>send_sync\<close>.\<close>

(* src/messagebus/messagebus.cpp:64-101 send_sync *)
definition send_sync ::
  "text_lib \<Rightarrow> ('m \<Rightarrow> ('x, 'w) handler) \<Rightarrow> 'm bus \<Rightarrow> uuid \<Rightarrow> time \<Rightarrow> time \<Rightarrow> time \<Rightarrow> 'x message \<Rightarrow> 'w
     \<Rightarrow> (exn + (string + 'x message)) \<times> 'w" where
  "send_sync L rcv B i now elapsed timeout m w =
     (let dest = rt_destination (msg_router m) in
      if dest = [] then (Inr (Inl ''need destination''), w)
      else (case bus_map B dest of
              None \<Rightarrow> (Inr (Inl (''no such module: '' @ dest)), w)
            | Some md \<Rightarrow>
                (let (oc, w') = rcv md (m\<lparr>msg_router := (msg_router m)\<lparr>rt_on_response := True\<rparr>\<rparr>) w in
                 if elapsed > timeout then (Inr (Inl ''timeout''), w')
                 else (case promise_values L i now m oc of
                         [] \<Rightarrow> (Inl (LogicError ''broken promise''), w')
                       | v # _ \<Rightarrow> (Inr v, w')))))"

text \<open>\<open>nm\<close> is \<open>module_name()\<close>, \<open>reg\<close> the effect of \<open>on_register\<close> and \<open>ex\<close> that of \<open>on_exit\<close>.\<close>

(* src/messagebus/messagebus.cpp:103-112 add_module *)
definition add_module :: "('m \<Rightarrow> string) \<Rightarrow> ('m \<Rightarrow> 'w \<Rightarrow> 'w) \<Rightarrow> 'm \<Rightarrow> 'm bus \<Rightarrow> 'w \<Rightarrow> 'm bus \<times> 'w" where
  "add_module nm reg md B w =
     (B\<lparr>bus_map := (bus_map B)(nm md \<mapsto> md), bus_stack := bus_stack B @ [md]\<rparr>, reg md w)"

text \<open>\<open>it\<close> is used after the element it points to was erased: what is read through it is an argument.\<close>

(* src/messagebus/messagebus.cpp:114-128 remove_module *)
definition remove_module :: "'m \<Rightarrow> string \<Rightarrow> 'm bus \<Rightarrow> bool \<times> 'm bus" where
  "remove_module dangling name B =
     (if bus_map B name = None then (False, B)
      else (True, B\<lparr>bus_map := (bus_map B)(name := None), bus_stack := remove1 dangling (bus_stack B)\<rparr>))"

(* src/messagebus/messagebus.cpp:206-209 stop_all_modules loop *)
function stop_loop :: "('m \<Rightarrow> 'w \<Rightarrow> 'w) \<Rightarrow> 'm list \<Rightarrow> 'w \<Rightarrow> 'w" where
  "stop_loop ex stack w = (if stack = [] then w else stop_loop ex (butlast stack) (ex (last stack) w))"
  by pat_completeness auto
termination
  by (relation "measure (\<lambda>(ex, stack, w). length stack)") auto

declare stop_loop.simps [simp del]

(* src/messagebus/messagebus.cpp:202-211 stop_all_modules *)
definition stop_all_modules :: "('m \<Rightarrow> 'w \<Rightarrow> 'w) \<Rightarrow> 'm bus \<Rightarrow> 'w \<Rightarrow> 'm bus \<times> 'w" where
  "stop_all_modules ex B w = (B\<lparr>bus_map := Map.empty, bus_stack := []\<rparr>, stop_loop ex (bus_stack B) w)"

subsection \<open>Basic modules\<close>

text \<open>\<open>BasicModule::on_receive\<close> looks the operation up among the registered handlers.\<close>

(* include/messagebus/basic_module.hpp:116-120 BasicModule::on_receive *)
definition basic_on_receive :: "(string \<rightharpoonup> ('x, 'w) handler) \<Rightarrow> ('x, 'w) handler" where
  "basic_on_receive hs m w =
     (case hs (msg_operation m) of
        None \<Rightarrow> (quiet (Returns (Inl (err_invalid_operation m))), w)
      | Some h \<Rightarrow> h m w)"

(* include/messagebus/basic_module.hpp:126-137 _impl_add_event_handler *)
definition event_handler :: "text_lib \<Rightarrow> (json \<Rightarrow> exn + 'a) \<Rightarrow> ('a \<Rightarrow> 'w \<Rightarrow> (exn + unit) \<times> 'w) \<Rightarrow> ('x, 'w) handler" where
  "event_handler L get f m w =
     (case parse_as L get m of
        Inl e \<Rightarrow> (quiet (Throws e), w)
      | Inr x \<Rightarrow> (case f x w of
                    (Inl e, w') \<Rightarrow> (quiet (Throws e), w')
                  | (Inr _, w') \<Rightarrow> (quiet (Returns (Inr ())), w')))"

text \<open>The result a query handler answers with: \<open>Inl\<close> an error of an \<open>expected\<close>, \<open>Inr\<close> the document, null
  for an empty optional.\<close>

(* include/messagebus/basic_module.hpp:29-50 write_response *)
definition write_response :: "text_lib \<Rightarrow> string + json \<Rightarrow> outcome" where
  "write_response L r = (case r of Inl e \<Rightarrow> err_reply e | Inr j \<Rightarrow> ok_reply (dump L j))"

(* include/messagebus/basic_module.hpp:138-151 _impl_add_query_handler *)
definition query_handler ::
  "text_lib \<Rightarrow> (json \<Rightarrow> exn + 'a) \<Rightarrow> ('a \<Rightarrow> 'w \<Rightarrow> (exn + (string + json)) \<times> 'w) \<Rightarrow> ('x, 'w) handler" where
  "query_handler L get f m w =
     (case parse_as L get m of
        Inl e \<Rightarrow> (quiet (Throws e), w)
      | Inr x \<Rightarrow> (case f x w of
                    (Inl e, w') \<Rightarrow> (quiet (Throws e), w')
                  | (Inr r, w') \<Rightarrow> (write_response L r, w')))"

subsection \<open>Delivery\<close>

lemma send_delivered:
  assumes "rt_destination (msg_router m) \<noteq> []" "bus_map B (rt_destination (msg_router m)) = Some md"
    and "rcv md m w = (oc, w')" "\<not> rt_on_response (msg_router m)"
  shows "send rcv B m w = (case ending_without_callback oc of Returns r \<Rightarrow> r | Throws e \<Rightarrow> Inr (), w')"
  using assms by (simp add: send_def Let_def split: ending.splits)

text \<open>C22: a synchronous send whose handler replies in time returns the first reply, addressed back to the sender and
  carrying the id of the request as parent id.\<close>
theorem send_sync_reply_correlated:
  assumes "rt_destination (msg_router m) \<noteq> []" "bus_map B (rt_destination (msg_router m)) = Some md"
    and "rcv md (m\<lparr>msg_router := (msg_router m)\<lparr>rt_on_response := True\<rparr>\<rparr>) w = (oc, w')"
    and "oc_replies oc = (st, data) # rest" "elapsed \<le> timeout"
  shows "\<exists>r. send_sync L rcv B i now elapsed timeout m w = (Inr (Inr r), w')
      \<and> msg_content r = data \<and> hd_status (msg_header r) = st \<and> hd_parent_id (msg_header r) = hd_id (msg_header m)
      \<and> rt_source (msg_router r) = rt_destination (msg_router m)
      \<and> rt_destination (msg_router r) = rt_source (msg_router m) \<and> msg_operation r = msg_operation m"
  using assms
  by (simp add: send_sync_def Let_def promise_values_def make_reply_def reply_header_def reply_route_def)

definition echo_module :: "nat \<Rightarrow> ('x, nat) handler" where
  "echo_module k m w = (ok_reply (msg_content m), w + k)"

definition sample_message :: "unit message" where
  "sample_message = make_message 3 100 ''ResourceMgr'' ''LifecycleMgr'' ''get-heartbeat'' ''hi''"

lemma send_sync_reply_correlated_witness:
  "\<exists>r. send_sync decimal_lib echo_module \<lparr>bus_map = [''LifecycleMgr'' \<mapsto> 2], bus_stack = [2]\<rparr> 4 101 5 10000
      sample_message 1 = (Inr (Inr r), 3) \<and> msg_content r = ''hi'' \<and> hd_parent_id (msg_header r) = 3"
  using send_sync_reply_correlated [of sample_message "\<lparr>bus_map = [''LifecycleMgr'' \<mapsto> 2], bus_stack = [2]\<rparr>" 2
      echo_module 1 "ok_reply ''hi''" 3 StOK "''hi''" "[]" 5 10000 decimal_lib 4 101]
  by (auto simp: sample_message_def make_message_def echo_module_def)

text \<open>The reply keeps the callback of the request, although the header file says that it has none.\<close>

lemma reply_route_keeps_callback: "rt_on_response (reply_route r) = rt_on_response r"
  by (simp add: reply_route_def)

text \<open>A handler that neither replies nor fails makes the waiting side throw.\<close>

lemma send_sync_no_reply:
  assumes "rt_destination (msg_router m) \<noteq> []" "bus_map B (rt_destination (msg_router m)) = Some md"
    and "rcv md (m\<lparr>msg_router := (msg_router m)\<lparr>rt_on_response := True\<rparr>\<rparr>) w = (quiet (Returns (Inr ())), w')"
    and "elapsed \<le> timeout"
  shows "send_sync L rcv B i now elapsed timeout m w = (Inl (LogicError ''broken promise''), w')"
  using assms by (simp add: send_sync_def Let_def promise_values_def)

subsection \<open>Registration and shutdown\<close>

lemma stop_loop_rev: "stop_loop ex stack w = fold ex (rev stack) w"
proof (induction stack arbitrary: w rule: rev_induct)
  case (snoc md stack)
  then show ?case by (subst stop_loop.simps) simp
qed (simp add: stop_loop.simps)

definition add_modules ::
  "('m \<Rightarrow> string) \<Rightarrow> ('m \<Rightarrow> 'w \<Rightarrow> 'w) \<Rightarrow> 'm list \<Rightarrow> 'm bus \<times> 'w \<Rightarrow> 'm bus \<times> 'w" where
  "add_modules nm reg ms = fold (\<lambda>md (B, w). add_module nm reg md B w) ms"

lemma add_modules_stack [simp]:
  "bus_stack (fst (add_modules nm reg ms (B, w))) = bus_stack B @ ms"
  unfolding add_modules_def by (induction ms arbitrary: B w) (auto simp: add_module_def)

lemma add_modules_map:
  "bus_map (fst (add_modules nm reg ms (B, w))) n =
     (case filter (\<lambda>md. nm md = n) ms of [] \<Rightarrow> bus_map B n | ms' \<Rightarrow> Some (last ms'))"
  unfolding add_modules_def
proof (induction ms arbitrary: B w)
  case (Cons md ms)
  show ?case
    using Cons.IH [of "fst (add_module nm reg md B w)" "snd (add_module nm reg md B w)"]
    by (cases "filter (\<lambda>md. nm md = n) ms") (auto simp: add_module_def split: list.splits)
qed simp

text \<open>Shutdown calls \<open>on_exit\<close> once for every module added, in the reverse order of addition, and leaves
  the bus empty.\<close>
theorem stop_exits_in_reverse_order:
  "stop_all_modules ex (fst (add_modules nm reg ms (empty_bus, w0))) w
     = (\<lparr>bus_map = Map.empty, bus_stack = []\<rparr>, fold ex (rev ms) w)"
  by (simp add: stop_all_modules_def stop_loop_rev empty_bus_def)

text \<open>A module removed by name stays on the stack when the dangling read does not give its pointer, so
  \<open>on_exit\<close> is still called for it.\<close>

lemma remove_module_may_leave_stack:
  assumes "bus_map B name = Some md" "md \<in> set (bus_stack B)" "dangling \<noteq> md"
  shows "\<exists>B'. remove_module dangling name B = (True, B') \<and> md \<in> set (bus_stack B')"
  using assms by (auto simp: remove_module_def)

end
