(* ===== verification/TaskMgr.thy ===== *)
theory TaskMgr
  imports Tasks MessageBus
begin

section \<open>The task manager\<close>

text \<open>
  \<open>src/taskmgr/task_entry.cpp\<close>: the table of tasks, the handles of the active ones, the periodic
  \<open>update\<close> that signals every runnable task and closes the ended ones, the task factories, and the
  HTTP and message interfaces. A handle is the id of its task; a signalled handle later resumes its
  task once (\<open>uv_async_send\<close> coalesces signals).
\<close>

text \<open>A factory makes a task from its parameters (the uuid is the \<open>make_uuid()\<close> of the new task), throws,
  or returns a null pointer.\<close>

(* include/taskmgr/task.hpp:138-138 TaskFactory *)
type_synonym 'w task_factory = "uuid \<Rightarrow> json \<Rightarrow> exn + 'w task option"

(* include/taskmgr/task_mgr.hpp:28-63 TaskManager *)
record 'w task_mgr =
  tm_tasks :: "(uuid, 'w task) omap"
  tm_last_updated :: "(uuid, time) omap"
  tm_active :: "(uuid, unit) omap"
  tm_signalled :: "uuid list"
  tm_factories :: "string \<rightharpoonup> 'w task_factory"

definition empty_task_mgr :: "'w task_mgr" where
  "empty_task_mgr = \<lparr>tm_tasks = [], tm_last_updated = [], tm_active = [], tm_signalled = [], tm_factories = Map.empty\<rparr>"

definition signal :: "uuid \<Rightarrow> uuid list \<Rightarrow> uuid list" where
  "signal i q = (if i \<in> set q then q else q @ [i])"

text \<open>The loop of \<open>update\<close> over the active handles: what remains active and what was signalled. A pending
  task leaves the switch through \<open>default\<close> without advancing the iterator.\<close>

(* src/taskmgr/task_entry.cpp:40-65 TaskManager::update loop *)
partial_function (option) update_loop ::
  "(uuid \<Rightarrow> task_state) \<Rightarrow> (uuid, unit) omap \<Rightarrow> uuid list \<Rightarrow> ((uuid, unit) omap \<times> uuid list) option" where
  "update_loop st hs q =
     (case hs of
        [] \<Rightarrow> Some ([], q)
      | h # hs' \<Rightarrow>
          if st (fst h) = Unstarted \<or> st (fst h) = Running \<or> st (fst h) = Fine then
            Option.bind (update_loop st hs' (signal (fst h) q)) (\<lambda>(keep, q'). Some (h # keep, q'))
          else if is_end (st (fst h)) then update_loop st hs' q
          else update_loop st hs q)"

definition state_of_id :: "(uuid, 'w task) omap \<Rightarrow> uuid \<Rightarrow> task_state" where
  "state_of_id ts i = (case map_of ts i of Some t \<Rightarrow> task_state_of t | None \<Rightarrow> Finished)"

(* src/taskmgr/task_entry.cpp:38-66 TaskManager::update *)
definition tm_update :: "'w task_mgr \<Rightarrow> 'w task_mgr option" where
  "tm_update M =
     (case update_loop (state_of_id (tm_tasks M)) (tm_active M) (tm_signalled M) of
        None \<Rightarrow> None
      | Some (keep, q) \<Rightarrow> Some (M\<lparr>tm_active := keep, tm_signalled := q\<rparr>))"

(* src/taskmgr/task_entry.cpp:69-108 TaskManager::add *)
definition tm_add :: "time \<Rightarrow> 'w task \<Rightarrow> 'w task_mgr \<Rightarrow> 'w task_mgr" where
  "tm_add now t M =
     (let i = tb_id (task_base t) in
      M\<lparr>tm_tasks := oput i t (tm_tasks M), tm_last_updated := oput i now (tm_last_updated M),
        tm_active := oput i () (tm_active M)\<rparr>)"

(* src/taskmgr/task_entry.cpp:102-106 async_event handler *)
definition tm_fire :: "task_env \<Rightarrow> uuid \<Rightarrow> 'w task_mgr \<Rightarrow> 'w \<Rightarrow> ('w task_mgr \<times> 'w \<times> task_status list) option" where
  "tm_fire E i M w =
     (case map_of (tm_tasks M) i of
        None \<Rightarrow> Some (M, w, [])
      | Some t \<Rightarrow>
          (case resume E t w of
             None \<Rightarrow> None
           | Some (t', w', l, s) \<Rightarrow>
               Some (M\<lparr>tm_tasks := oput i t' (tm_tasks M), tm_signalled := removeAll i (tm_signalled M)\<rparr>, w', l)))"

(* src/taskmgr/task_entry.cpp:109-114 TaskManager::at *)
definition tm_at :: "'w task_mgr \<Rightarrow> uuid \<Rightarrow> 'w task option" where
  "tm_at M i = map_of (tm_tasks M) i"

text \<open>An empty \<open>std::function\<close> is \<^term>\<open>None\<close>.\<close>

(* src/taskmgr/task_entry.cpp:115-127 TaskManager::add_task_factory *)
definition tm_add_task_factory ::
  "string \<Rightarrow> 'w task_factory option \<Rightarrow> 'w task_mgr \<Rightarrow> (string + unit) \<times> 'w task_mgr" where
  "tm_add_task_factory ty f M =
     (case f of
        None \<Rightarrow> (Inl (''adding empty factory for '' @ ty), M)
      | Some g \<Rightarrow> (Inr (), M\<lparr>tm_factories := (tm_factories M)(ty \<mapsto> g)\<rparr>))"

subsection \<open>HTTP interface\<close>

(* src/taskmgr/task_entry.cpp:135-149 GET /api/task *)
definition api_task_ids :: "text_lib \<Rightarrow> bool \<Rightarrow> 'w task_mgr \<Rightarrow> json" where
  "api_task_ids L only_active M =
     (let ids = (if only_active then map fst (tm_active M) else map fst (tm_tasks M))
      in if ids = [] then JNull else JArr (map (\<lambda>i. JStr (show_uuid L i)) ids))"

text \<open>\<open>status()\<close> of each kind of task.\<close>

function task_status_json :: "'w task \<Rightarrow> json" where
  "task_status_json t =
     (let common = (\<lambda>ty. [(''name'', JStr (tb_name (task_base t))),
                          (''state'', JStr (show_state (task_state_of t))), (''type'', JStr ty)]) in
      case t of
        AtomicTask b f \<Rightarrow> jobject (common ''atomic'')
      | ValueAtomicTask b f r \<Rightarrow> jobject (common ''atomic'')
      | SequentialTask b subs cur \<Rightarrow>
          fold (\<lambda>s j. jpush ''subtasks'' s j) (map task_status_json subs)
            (jobject (common ''sequence'' @ [(''total'', JNum (int (length subs))), (''current'', JNum (int cur))]))
      | WaitOnceTask b p h d \<Rightarrow> jobject (common ''wait_once'')
      | DelayTask b st d fin \<Rightarrow> jobject (common ''delay'')
      | ThreadQueueWorkTask b f q \<Rightarrow> jobject (common ''thread_queue_work'')
      | ParallelTask b subs fin cur \<Rightarrow>
          fold (\<lambda>s j. jpush ''subtasks'' s j) (map task_status_json subs)
            (jobject (common ''parallel'' @ [(''total'', JNum (int (length subs))), (''finished'', JNum (int fin))])))"
  by pat_completeness auto
termination
  by (relation "measure size") (auto simp: less_Suc_eq_le intro!: trans_le_add2 size_list_estimation')

(* src/taskmgr/task_entry.cpp:152-162 GET /api/task/:id *)
definition api_task_get :: "text_lib \<Rightarrow> string \<Rightarrow> 'w task_mgr \<Rightarrow> exn + json" where
  "api_task_get L id_str M =
     (case read_uuid L id_str of
        None \<Rightarrow> Inl (InvalidArgument ''input is not valid uuid'')
      | Some i \<Rightarrow>
          (case map_of (tm_tasks M) i of
             None \<Rightarrow> Inl (InvalidArgument (''no such task of uuid '' @ show_uuid L i))
           | Some t \<Rightarrow> Inr (task_status_json t)))"

(* src/taskmgr/task_entry.cpp:193-227 POST /api/task *)
definition api_task_post ::
  "text_lib \<Rightarrow> uuid \<Rightarrow> time \<Rightarrow> string \<Rightarrow> 'w task_mgr \<Rightarrow> (exn + json) \<times> 'w task_mgr" where
  "api_task_post L i now body M =
     (case parse L body of
        Inl e \<Rightarrow> (Inl e, M)
      | Inr j \<Rightarrow>
          (case jat ''task_type'' j of
             Inl _ \<Rightarrow> (Inl (InvalidArgument (''need '' @ quoted ''task_type'')), M)
           | Inr (JStr ty) \<Rightarrow>
               (case tm_factories M ty of
                  None \<Rightarrow> (Inl (InvalidArgument (''unknown task type: '' @ ty)), M)
                | Some factory \<Rightarrow>
                    (case rbind (jvalue ''payload'' JNull j) (factory i) of
                       Inl e \<Rightarrow> (Inl e, M)
                     | Inr None \<Rightarrow>
                         (Inl (RuntimeError (''during creating task of type '' @ ty @ '', factory returned empty taskptr'')), M)
                     | Inr (Some t) \<Rightarrow>
                         (Inr (jobject [(''taskId'', JStr (show_uuid L (tb_id (task_base t))))]), tm_add now t M)))
           | Inr _ \<Rightarrow> (Inl (InvalidArgument (''need '' @ quoted ''task_type'' @ '' be string'')), M)))"

(* src/taskmgr/task_entry.cpp:229-236 test.hello factory *)
definition test_hello_factory :: "'w task_factory" where
  "test_hello_factory i j =
     rbind (rbind (jat ''a'' j) get_int) (\<lambda>a. rbind (rbind (jat ''b'' j) get_int) (\<lambda>b.
       Inr (Some (tasks_atomic_with_return_value i ''test-add'' (\<lambda>w. (Inr (JNum (to_int32 (a + b))), w))))))"

subsection \<open>Message interface\<close>

datatype 'w task_extra = TaskPtrExtra "'w task" | FactoryExtra "'w task_factory option"

(* src/taskmgr/task_entry.cpp:240-325 TaskManager::on_receive *)
definition tm_on_receive ::
  "text_lib \<Rightarrow> uuid \<Rightarrow> time \<Rightarrow> ('w task_extra, 'w task_mgr) handler" where
  "tm_on_receive L i now m M =
     (let op = msg_operation m in
      if op = ''add_task/json'' then
        (case rbind (parse L (msg_content m)) (\<lambda>j.
                rbind (rbind (jat ''name'' j) get_string) (\<lambda>n.
                rbind (rbind (jat ''type'' j) get_string) (\<lambda>ty.
                rbind (rbind (jat ''function'' j) get_string) (\<lambda>_. Inr (n, ty))))) of
           Inl e \<Rightarrow> (quiet (Throws e), M)
         | Inr (n, ty) \<Rightarrow>
             if ty = ''atomic'' then
               (quiet (Returns (Inr ())), tm_add now (tasks_atomic i n (\<lambda>w. (Inr (), w))) M)
             else if ty = ''sequence'' \<or> ty = ''parallel'' then (quiet (Returns (Inr ())), M)
             else (quiet (Returns (Inl ''Unknown task type'')), M))
      else if op = ''make_task/json'' then
        (case rbind (parse L (msg_content m)) (\<lambda>j.
                rbind (rbind (jat ''name'' j) get_string) (\<lambda>n. rbind (jat ''type'' j) get_string)) of
           Inl e \<Rightarrow> (quiet (Throws e), M)
         | Inr _ \<Rightarrow> (quiet (Returns (Inr ())), M))
      else if op = ''add_task/raw'' then
        (case msg_extra m of
           Some (TaskPtrExtra t) \<Rightarrow>
             (ok_reply (dump L (JStr ''OK'')), tm_add now t M)
         | _ \<Rightarrow> (quiet (Returns (Inl ''extra is not TaskPtr'')), M))
      else if op = ''add_task_factory/raw'' then
        (case msg_extra m of
           Some (FactoryExtra f) \<Rightarrow>
             (case parse L (msg_content m) of
                Inl e \<Rightarrow> (quiet (Throws e), M)
              | Inr j \<Rightarrow>
                  if \<not> jcontains ''task_type'' j then (quiet (Returns (Inl ''need task_type in payload'')), M)
                  else (case rbind (jat ''task_type'' j) get_string of
                          Inl e \<Rightarrow> (quiet (Throws e), M)
                        | Inr ty \<Rightarrow>
                            (case tm_add_task_factory ty f M of
                               (Inl e, M') \<Rightarrow> (err_reply e, M')
                             | (Inr _, M') \<Rightarrow> (ok_reply (dump L (JStr ''OK'')), M'))))
         | _ \<Rightarrow> (quiet (Returns (Inl ''extra is not TaskFactory'')), M))
      else (quiet (Returns (Inl ''Unknown operation'')), M))"

subsection \<open>The loop of \<open>update\<close>\<close>

lemma update_loop_pending:
  assumes "st i = Pending" "(i, u) \<in> set hs"
  shows "update_loop st hs q = None"
proof (rule ccontr)
  assume "update_loop st hs q \<noteq> None"
  then obtain y where y: "update_loop st hs q = Some y" by blast
  have "\<forall>h\<in>set hs. st (fst h) \<noteq> Pending"
    by (rule update_loop.raw_induct [OF _ y])
      (auto split: list.splits if_splits bind_splits prod.splits)
  then show False using assms by fastforce
qed

lemma update_loop_result:
  assumes "\<forall>h\<in>set hs. st (fst h) \<noteq> Pending"
  shows "update_loop st hs q = Some (filter (\<lambda>h. \<not> is_end (st (fst h))) hs,
    fold signal (map fst (filter (\<lambda>h. \<not> is_end (st (fst h))) hs)) q)"
  using assms
proof (induction hs arbitrary: q)
  case Nil
  show ?case by (subst update_loop.simps) simp
next
  case (Cons h hs)
  show ?case
  proof (cases "st (fst h)")
    case Pending
    then show ?thesis using Cons.prems by simp
  qed (subst update_loop.simps, use Cons in simp)+
qed

text \<open>C33: one \<open>update\<close> of the task manager fails to return exactly when some active task is pending.\<close>
theorem update_hangs_iff_pending:
  "tm_update M = None \<longleftrightarrow> (\<exists>h\<in>set (tm_active M). state_of_id (tm_tasks M) (fst h) = Pending)"
proof (cases "\<exists>h\<in>set (tm_active M). state_of_id (tm_tasks M) (fst h) = Pending")
  case False
  then show ?thesis by (simp add: tm_update_def update_loop_result)
next
  case True
  then obtain i u where "(i, u) \<in> set (tm_active M)" "state_of_id (tm_tasks M) i = Pending" by fastforce
  then show ?thesis using True update_loop_pending by (force simp: tm_update_def)
qed

subsection \<open>Runs of the manager\<close>

text \<open>The steps of a running manager. Factories and callers outside the library supply tasks that are
  never pending, as all tasks built by the \<open>tasks\<close> functions are.\<close>

datatype 'w tm_event =
    EvAdd time "'w task"
  | EvUpdate
  | EvFire task_env uuid

fun tm_step :: "'w tm_event \<Rightarrow> 'w task_mgr \<times> 'w \<Rightarrow> ('w task_mgr \<times> 'w) option" where
  "tm_step (EvAdd now t) (M, w) = Some (tm_add now t M, w)"
| "tm_step EvUpdate (M, w) = map_option (\<lambda>M'. (M', w)) (tm_update M)"
| "tm_step (EvFire E i) (M, w) = map_option (\<lambda>(M', w', l). (M', w')) (tm_fire E i M w)"

inductive tm_reach :: "'w task_mgr \<times> 'w \<Rightarrow> bool" where
  start: "tm_reach (empty_task_mgr, w)"
| add: "tm_reach c \<Longrightarrow> never_pending t \<Longrightarrow> tm_step (EvAdd now t) c = Some c' \<Longrightarrow> tm_reach c'"
| update: "tm_reach c \<Longrightarrow> tm_step EvUpdate c = Some c' \<Longrightarrow> tm_reach c'"
| fire: "tm_reach c \<Longrightarrow> tm_step (EvFire E i) c = Some c' \<Longrightarrow> tm_reach c'"

definition tm_inv :: "'w task_mgr \<Rightarrow> bool" where
  "tm_inv M \<longleftrightarrow> (\<forall>i t. map_of (tm_tasks M) i = Some t \<longrightarrow> never_pending t)
     \<and> (\<forall>i. (i, ()) \<in> set (tm_active M) \<longrightarrow> map_of (tm_tasks M) i \<noteq> None)
     \<and> omap_ok (tm_active M) \<and> omap_ok (tm_tasks M)"

lemma tm_inv_add: "tm_inv M \<Longrightarrow> never_pending t \<Longrightarrow> tm_inv (tm_add now t M)"
  by (auto simp: tm_inv_def tm_add_def Let_def dest: set_oput_subset [THEN subsetD])

lemma tm_inv_fire: "tm_inv M \<Longrightarrow> tm_fire E i M w = Some (M', w', l) \<Longrightarrow> tm_inv M'"
proof (cases "map_of (tm_tasks M) i")
  case (Some t)
  assume inv: "tm_inv M" and "tm_fire E i M w = Some (M', w', l)"
  then obtain t' s where r: "resume E t w = Some (t', w', l, s)"
    and M': "M' = M\<lparr>tm_tasks := oput i t' (tm_tasks M), tm_signalled := removeAll i (tm_signalled M)\<rparr>"
    using Some by (auto simp: tm_fire_def split: option.splits)
  have "never_pending t'" using resume_never_pending [OF _ r] inv Some by (auto simp: tm_inv_def)
  then show "tm_inv M'" using inv by (auto simp: tm_inv_def M')
qed (auto simp: tm_fire_def)

lemma tm_inv_no_pending: "tm_inv M \<Longrightarrow> \<forall>h\<in>set (tm_active M). state_of_id (tm_tasks M) (fst h) \<noteq> Pending"
  by (auto simp: tm_inv_def state_of_id_def dest: never_pending_state split: option.splits)

lemma tm_inv_update:
  assumes "tm_inv M" "tm_update M = Some M'"
  shows "tm_inv M'"
  using assms tm_inv_no_pending [OF assms(1)]
  by (auto simp: tm_inv_def tm_update_def update_loop_result omap_ok_filter)

lemma tm_reach_inv: "tm_reach c \<Longrightarrow> tm_inv (fst c)"
proof (induction rule: tm_reach.induct)
  case (start w)
  then show ?case by (simp add: tm_inv_def empty_task_mgr_def)
next
  case (add c t now c')
  then show ?case using tm_inv_add by (cases c) auto
next
  case (update c c')
  then show ?case using tm_inv_update by (cases c) auto
next
  case (fire c E i c')
  then show ?case using tm_inv_fire by (cases c) auto
qed

text \<open>C8: in every reachable state of a manager whose tasks come from the \<open>tasks\<close> functions, \<open>update\<close> returns,
  and keeps active exactly the tasks that have not ended.\<close>
theorem update_always_returns_on_library_tasks:
  assumes "tm_reach (M, w)"
  shows "\<exists>M'. tm_update M = Some M' \<and> tm_tasks M' = tm_tasks M
     \<and> map fst (tm_active M') = filter (\<lambda>i. \<not> is_end (state_of_id (tm_tasks M) i)) (map fst (tm_active M))"
proof -
  have "tm_inv M" using tm_reach_inv [OF assms] by simp
  from tm_inv_no_pending [OF this] show ?thesis
    by (simp add: tm_update_def update_loop_result filter_map comp_def)
qed

lemma update_always_returns_on_library_tasks_witness:
  "\<exists>M'. tm_update (tm_add 5 (tasks_sequence 9 ''s'' [tasks_delay 2 10]) (empty_task_mgr :: int task_mgr)) = Some M'
     \<and> map fst (tm_active M') = [9]"
proof -
  let ?t = "tasks_sequence 9 ''s'' [tasks_delay 2 10] :: int task"
  have "tm_reach (tm_add 5 ?t empty_task_mgr, 0 :: int)"
    by (rule tm_reach.add [OF tm_reach.start, of ?t 5]) simp_all
  from update_always_returns_on_library_tasks [OF this] show ?thesis
    by (auto simp: tm_add_def empty_task_mgr_def state_of_id_def tasks_sequence_def fresh_base_def Let_def)
qed

subsection \<open>Creating a task over HTTP\<close>

text \<open>\<open>POST /api/task\<close> either adds the task that the registered factory of the requested type made from the
  payload, or answers with an error and leaves the manager unchanged.\<close>
theorem post_task_creates_or_leaves:
  "(\<exists>j t. api_task_post L i now body M = (Inr j, tm_add now t M)
      \<and> (\<exists>doc ty f p. parse L body = Inr doc \<and> jat ''task_type'' doc = Inr (JStr ty) \<and> tm_factories M ty = Some f
          \<and> jvalue ''payload'' JNull doc = Inr p \<and> f i p = Inr (Some t)))
   \<or> (\<exists>e. api_task_post L i now body M = (Inl e, M))"
  by (auto simp: api_task_post_def result_simps split: sum.splits json.splits option.splits)

end
