(* ===== verification/ConcurrentMap.thy ===== *)
theory ConcurrentMap
  imports Prelude
begin

section \<open>The concurrent maps\<close>

text \<open>
  \<open>include/util/concurrent_map.hpp\<close> and \<open>.tpp\<close>. \<open>ShardedLockMap\<close> spreads its keys over a fixed number
  of maps by their hash; \<open>DoubleBufferedMap\<close> writes to a buffer and reads from the last snapshot of it.
  Each operation holds the locks it needs for its whole body, so it is one atomic step. The hash
  function is a parameter. The contract both implement is the locale \<open>kv_store\<close>.
\<close>

subsection \<open>The contract of a key-value store\<close>

locale kv_store =
  fixes empty :: 'm
    and lookup :: "'m \<Rightarrow> 'k \<Rightarrow> 'v option"
    and put :: "'k \<Rightarrow> 'v \<Rightarrow> 'm \<Rightarrow> 'm"
    and del :: "'k \<Rightarrow> 'm \<Rightarrow> 'm"
    and ok :: "'m \<Rightarrow> bool"
  assumes lookup_empty: "lookup empty k = None"
    and lookup_put: "ok m \<Longrightarrow> lookup (put k v m) = (lookup m)(k \<mapsto> v)"
    and lookup_del: "ok m \<Longrightarrow> lookup (del k m) = (lookup m)(k := None)"
    and ok_empty: "ok empty"
    and ok_put: "ok m \<Longrightarrow> ok (put k v m)"
    and ok_del: "ok m \<Longrightarrow> ok (del k m)"
begin

lemmas laws = lookup_empty lookup_put lookup_del ok_empty ok_put ok_del

text \<open>Erasing a list of keys, and loading a list of entries where a later one wins.\<close>

lemma fold_del:
  "ok m \<Longrightarrow> ok (fold del ks m) \<and> lookup (fold del ks m) k = (if k \<in> set ks then None else lookup m k)"
  by (induction ks arbitrary: m) (auto simp: laws)

lemma fold_put:
  "ok m \<Longrightarrow> ok (fold (\<lambda>(k, v). put k v) kvs m)
     \<and> lookup (fold (\<lambda>(k, v). put k v) kvs m) = lookup m ++ map_of (rev kvs)"
  by (induction kvs arbitrary: m) (auto simp: laws map_add_def fun_eq_iff split: option.splits)

lemma put_del_commute: "ok m \<Longrightarrow> k \<noteq> k' \<Longrightarrow> lookup (put k v (del k' m)) = lookup (del k' (put k v m))"
  by (auto simp: laws fun_eq_iff)

end

interpretation ordered: kv_store "[]" map_of oput odel "\<lambda>_. True"
  by unfold_locales auto

subsection \<open>\<open>ShardedLockMap\<close>\<close>

type_synonym ('k, 'v) sharded = "('k, 'v) omap list"

(* include/util/concurrent_map.hpp:322-322 get_shard_index *)
definition sm_index :: "('k \<Rightarrow> nat) \<Rightarrow> ('k, 'v) sharded \<Rightarrow> 'k \<Rightarrow> nat" where
  "sm_index hash m k = hash k mod length m"

definition sm_empty :: "nat \<Rightarrow> ('k, 'v) sharded" where
  "sm_empty n = replicate n []"

(* include/util/concurrent_map.hpp:192-198 ShardedLockMap::find *)
definition sm_find :: "('k \<Rightarrow> nat) \<Rightarrow> ('k::linorder, 'v) sharded \<Rightarrow> 'k \<Rightarrow> 'v option" where
  "sm_find hash m k = map_of (m ! sm_index hash m k) k"

(* include/util/concurrent_map.hpp:201-205 ShardedLockMap::contains *)
definition sm_contains :: "('k \<Rightarrow> nat) \<Rightarrow> ('k::linorder, 'v) sharded \<Rightarrow> 'k \<Rightarrow> bool" where
  "sm_contains hash m k = (sm_find hash m k \<noteq> None)"

(* include/util/concurrent_map.hpp:214-224 ShardedLockMap::insert_or_assign *)
definition sm_insert_or_assign ::
  "('k \<Rightarrow> nat) \<Rightarrow> 'k::linorder \<Rightarrow> 'v \<Rightarrow> ('k, 'v) sharded \<Rightarrow> ('k, 'v) sharded" where
  "sm_insert_or_assign hash k v m =
     (let i = sm_index hash m k in m[i := oput k v (m ! i)])"

(* include/util/concurrent_map.hpp:230-239 ShardedLockMap::emplace *)
definition sm_emplace ::
  "('k \<Rightarrow> nat) \<Rightarrow> 'k::linorder \<Rightarrow> 'v \<Rightarrow> ('k, 'v) sharded \<Rightarrow> bool \<times> ('k, 'v) sharded" where
  "sm_emplace hash k v m =
     (if sm_find hash m k \<noteq> None then (False, m) else (True, sm_insert_or_assign hash k v m))"

(* include/util/concurrent_map.hpp:242-246 ShardedLockMap::erase *)
definition sm_erase :: "('k \<Rightarrow> nat) \<Rightarrow> 'k::linorder \<Rightarrow> ('k, 'v) sharded \<Rightarrow> ('k, 'v) sharded" where
  "sm_erase hash k m = (let i = sm_index hash m k in m[i := odel k (m ! i)])"

(* include/util/concurrent_map.hpp:249-254 ShardedLockMap::clear *)
definition sm_clear :: "('k, 'v) sharded \<Rightarrow> ('k, 'v) sharded" where
  "sm_clear m = map (\<lambda>_. []) m"

(* include/util/concurrent_map.hpp:257-264 ShardedLockMap::size *)
definition sm_size :: "('k, 'v) sharded \<Rightarrow> nat" where
  "sm_size m = sum_list (map length m)"

(* include/util/concurrent_map.hpp:267-273 ShardedLockMap::empty *)
fun sm_is_empty :: "('k, 'v) sharded \<Rightarrow> bool" where
  "sm_is_empty [] = True"
| "sm_is_empty (s # m) = (if s \<noteq> [] then False else sm_is_empty m)"

text \<open>The entries in the order \<open>for_each\<close> visits them.\<close>

(* include/util/concurrent_map.hpp:289-297 ShardedLockMap::for_each *)
definition sm_entries :: "('k, 'v) sharded \<Rightarrow> ('k \<times> 'v) list" where
  "sm_entries m = concat m"

text \<open>\<open>exec_on_key\<close> applies a function to the value of the key, which is made by default when absent.\<close>

(* include/util/concurrent_map.hpp:304-309 ShardedLockMap::exec_on_key *)
definition sm_exec_on_key ::
  "('k \<Rightarrow> nat) \<Rightarrow> 'v \<Rightarrow> 'k::linorder \<Rightarrow> ('v \<Rightarrow> 'v) \<Rightarrow> ('k, 'v) sharded \<Rightarrow> ('k, 'v) sharded" where
  "sm_exec_on_key hash dflt k f m =
     sm_insert_or_assign hash k (f (case sm_find hash m k of None \<Rightarrow> dflt | Some v \<Rightarrow> v)) m"

text \<open>Well-formed: as many shards as configured, every key once and in the shard of its hash.\<close>

definition sm_ok :: "nat \<Rightarrow> ('k \<Rightarrow> nat) \<Rightarrow> ('k::linorder, 'v) sharded \<Rightarrow> bool" where
  "sm_ok n hash m \<longleftrightarrow> n > 0 \<and> length m = n \<and>
     (\<forall>i<n. omap_ok (m ! i)) \<and> (\<forall>i k v. i < n \<longrightarrow> (k, v) \<in> set (m ! i) \<longrightarrow> hash k mod n = i)"

lemma sm_index_less [simp]: "sm_ok n hash m \<Longrightarrow> sm_index hash m k < length m"
  by (simp add: sm_ok_def sm_index_def)

lemma sm_find_insert: "sm_ok n hash m \<Longrightarrow> sm_find hash (sm_insert_or_assign hash k v m) = (sm_find hash m)(k \<mapsto> v)"
  using sm_index_less [of n hash m k]
  by (auto simp: sm_find_def sm_insert_or_assign_def sm_index_def Let_def nth_list_update fun_eq_iff)

lemma sm_find_erase: "sm_ok n hash m \<Longrightarrow> sm_find hash (sm_erase hash k m) = (sm_find hash m)(k := None)"
  using sm_index_less [of n hash m k]
  by (auto simp: sm_find_def sm_erase_def sm_index_def Let_def nth_list_update fun_eq_iff)

lemma sm_ok_insert:
  assumes "sm_ok n hash m"
  shows "sm_ok n hash (sm_insert_or_assign hash k v m)"
proof -
  have "hash k mod n < n" using assms by (simp add: sm_ok_def)
  then show ?thesis
    using assms
    by (auto simp: sm_ok_def sm_insert_or_assign_def sm_index_def Let_def nth_list_update
        dest!: set_oput_subset [THEN subsetD])
qed

lemma sm_ok_erase: "sm_ok n hash m \<Longrightarrow> sm_ok n hash (sm_erase hash k m)"
  by (auto simp: sm_ok_def sm_erase_def sm_index_def Let_def nth_list_update)

text \<open>The shard count of the heartbeat map.\<close>

(* include/lifecyclemgr/lifecycle_mgr.hpp:30-32 HEARTBEAT_SHARD_COUNT *)
definition HEARTBEAT_SHARD_COUNT :: nat where
  "HEARTBEAT_SHARD_COUNT = 8"

interpretation sharded: kv_store "sm_empty HEARTBEAT_SHARD_COUNT" "sm_find hash" "sm_insert_or_assign hash"
    "sm_erase hash" "sm_ok HEARTBEAT_SHARD_COUNT hash" for hash :: "'k::linorder \<Rightarrow> nat"
proof unfold_locales
  show "sm_find hash (sm_empty HEARTBEAT_SHARD_COUNT) k = None" for k
    by (simp add: sm_find_def sm_empty_def sm_index_def HEARTBEAT_SHARD_COUNT_def)
  show "sm_ok HEARTBEAT_SHARD_COUNT hash (sm_empty HEARTBEAT_SHARD_COUNT)"
    by (simp add: sm_ok_def sm_empty_def HEARTBEAT_SHARD_COUNT_def)
qed (simp_all add: sm_find_insert sm_find_erase sm_ok_insert sm_ok_erase)

lemma sm_entries_find:
  assumes "sm_ok n hash m"
  shows "(k, v) \<in> set (sm_entries m) \<longleftrightarrow> sm_find hash m k = Some v"
proof
  assume "(k, v) \<in> set (sm_entries m)"
  then obtain s where "s \<in> set m" "(k, v) \<in> set s" by (auto simp: sm_entries_def)
  then obtain i where i: "i < length m" "(k, v) \<in> set (m ! i)" by (metis in_set_conv_nth)
  then have "hash k mod length m = i" "distinct (map fst (m ! i))"
    using assms omap_ok_distinct by (force simp: sm_ok_def)+
  then show "sm_find hash m k = Some v" using i by (simp add: sm_find_def sm_index_def)
next
  assume "sm_find hash m k = Some v"
  then have "(k, v) \<in> set (m ! sm_index hash m k)" by (auto simp: sm_find_def dest: map_of_SomeD)
  then show "(k, v) \<in> set (sm_entries m)"
    using sm_index_less [OF assms] nth_mem by (auto simp: sm_entries_def)
qed

lemma sm_keys_distinct: "sm_ok n hash m \<Longrightarrow> distinct (map fst (sm_entries m))"
proof -
  assume ok: "sm_ok n hash m"
  have "distinct (map fst (concat (take j m)))" if "j \<le> length m" for j
    using that
  proof (induction j)
    case (Suc j)
    then have "set (map fst (concat (take j m))) \<inter> set (map fst (m ! j)) = {}"
    proof -
      have "hash k mod n < j" if k: "k \<in> set (map fst (concat (take j m)))" for k
      proof -
        obtain s where "s \<in> set (take j m)" "k \<in> fst ` set s" using k by auto
        then obtain i where "i < j" "k \<in> fst ` set (m ! i)"
          using Suc.prems by (metis in_set_conv_nth length_take min.absorb2 Suc_leD nth_take)
        then obtain v where "(k, v) \<in> set (m ! i)" by auto
        moreover have "i < n" using ok Suc.prems \<open>i < j\<close> unfolding sm_ok_def by auto
        ultimately have "hash k mod n = i" using ok unfolding sm_ok_def by blast
        then show ?thesis using \<open>i < j\<close> by simp
      qed
      moreover have "hash k mod n = j" if kj: "k \<in> set (map fst (m ! j))" for k
      proof -
        obtain v where "(k, v) \<in> set (m ! j)" using kj by auto
        moreover have "j < n" using ok Suc.prems unfolding sm_ok_def by auto
        ultimately show ?thesis using ok unfolding sm_ok_def by blast
      qed
      ultimately show ?thesis by (metis disjoint_iff less_irrefl)
    qed
    moreover have "distinct (map fst (m ! j))"
      using ok Suc.prems omap_ok_distinct [of "m ! j"] by (auto simp: sm_ok_def)
    ultimately show ?case using Suc by (simp add: take_Suc_conv_app_nth)
  qed simp
  from this [of "length m"] show ?thesis by (simp add: sm_entries_def)
qed



subsection \<open>\<open>DoubleBufferedMap\<close>\<close>

(* include/util/concurrent_map.hpp:107-126 DoubleBufferedMap *)
record ('k, 'v) dbmap =
  db_write_buf :: "('k, 'v) omap"
  db_read_snp :: "('k, 'v) omap"
  db_last_sync :: time

(* include/util/concurrent_map.tpp:20-27 DoubleBufferedMap::DoubleBufferedMap *)
definition db_new :: "time \<Rightarrow> ('k, 'v) dbmap" where
  "db_new now = \<lparr>db_write_buf = [], db_read_snp = [], db_last_sync = now\<rparr>"

(* include/util/concurrent_map.tpp:186-199 sync_locked *)
definition db_sync :: "('k, 'v) dbmap \<Rightarrow> ('k, 'v) dbmap" where
  "db_sync m = m\<lparr>db_read_snp := db_write_buf m\<rparr>"

(* include/util/concurrent_map.tpp:162-184 maybe_sync *)
definition db_maybe_sync :: "nat \<Rightarrow> time \<Rightarrow> ('k, 'v) dbmap \<Rightarrow> ('k, 'v) dbmap" where
  "db_maybe_sync interval now m =
     (if interval = 0 then m
      else if now - db_last_sync m < int interval then m
      else (db_sync m)\<lparr>db_last_sync := now\<rparr>)"

(* include/util/concurrent_map.tpp:46-52 DoubleBufferedMap::find *)
definition db_find :: "('k, 'v) dbmap \<Rightarrow> 'k \<Rightarrow> 'v option" where
  "db_find m k = map_of (db_read_snp m) k"

(* include/util/concurrent_map.tpp:60-71 DoubleBufferedMap::at *)
definition db_at :: "('k, 'v) dbmap \<Rightarrow> 'k \<Rightarrow> exn + 'v" where
  "db_at m k = (case db_find m k of None \<Rightarrow> Inl (OutOfRange ''key not found'') | Some v \<Rightarrow> Inr v)"

(* include/util/concurrent_map.tpp:73-89 DoubleBufferedMap::insert_or_assign *)
definition db_insert_or_assign ::
  "nat \<Rightarrow> time \<Rightarrow> 'k::linorder \<Rightarrow> 'v \<Rightarrow> ('k, 'v) dbmap \<Rightarrow> ('k, 'v) dbmap" where
  "db_insert_or_assign interval now k v m =
     db_maybe_sync interval now (m\<lparr>db_write_buf := oput k v (db_write_buf m)\<rparr>)"

(* include/util/concurrent_map.tpp:91-105 DoubleBufferedMap::emplace *)
definition db_emplace ::
  "nat \<Rightarrow> time \<Rightarrow> 'k::linorder \<Rightarrow> 'v \<Rightarrow> ('k, 'v) dbmap \<Rightarrow> bool \<times> ('k, 'v) dbmap" where
  "db_emplace interval now k v m =
     (if map_of (db_write_buf m) k = None then (True, db_insert_or_assign interval now k v m) else (False, m))"

(* include/util/concurrent_map.tpp:107-114 DoubleBufferedMap::erase *)
definition db_erase :: "nat \<Rightarrow> time \<Rightarrow> 'k \<Rightarrow> ('k, 'v) dbmap \<Rightarrow> ('k, 'v) dbmap" where
  "db_erase interval now k m = db_maybe_sync interval now (m\<lparr>db_write_buf := odel k (db_write_buf m)\<rparr>)"

(* include/util/concurrent_map.tpp:116-123 DoubleBufferedMap::clear *)
definition db_clear :: "nat \<Rightarrow> time \<Rightarrow> ('k, 'v) dbmap \<Rightarrow> ('k, 'v) dbmap" where
  "db_clear interval now m = db_maybe_sync interval now (m\<lparr>db_write_buf := []\<rparr>)"

(* include/util/concurrent_map.tpp:146-154 DoubleBufferedMap::exec_on_key *)
definition db_exec_on_key ::
  "nat \<Rightarrow> time \<Rightarrow> 'v \<Rightarrow> 'k::linorder \<Rightarrow> ('v \<Rightarrow> 'v) \<Rightarrow> ('k, 'v) dbmap \<Rightarrow> ('k, 'v) dbmap" where
  "db_exec_on_key interval now dflt k f m =
     db_insert_or_assign interval now k (f (case map_of (db_write_buf m) k of None \<Rightarrow> dflt | Some v \<Rightarrow> v)) m"

text \<open>Seen through an explicit \<open>sync\<close>, the double buffer is a store.\<close>

interpretation synced: kv_store "db_new now" "\<lambda>m. db_find (db_sync m)" "db_insert_or_assign interval now"
    "db_erase interval now" "\<lambda>_. True" for now :: time and interval :: nat
  by unfold_locales
    (auto simp: db_find_def db_sync_def db_new_def db_insert_or_assign_def db_erase_def db_maybe_sync_def fun_eq_iff)

datatype ('k, 'v) db_op = DbPut 'k 'v | DbErase 'k | DbClear

fun db_apply :: "nat \<Rightarrow> ('k::linorder, 'v) dbmap \<Rightarrow> time \<times> ('k, 'v) db_op \<Rightarrow> ('k, 'v) dbmap" where
  "db_apply n m (now, DbPut k v) = db_insert_or_assign n now k v m"
| "db_apply n m (now, DbErase k) = db_erase n now k m"
| "db_apply n m (now, DbClear) = db_clear n now m"

fun buf_apply :: "('k::linorder, 'v) omap \<Rightarrow> ('k, 'v) db_op \<Rightarrow> ('k, 'v) omap" where
  "buf_apply m (DbPut k v) = oput k v m"
| "buf_apply m (DbErase k) = odel k m"
| "buf_apply m DbClear = []"

lemma db_apply_buf: "db_write_buf (db_apply n m (now, d)) = buf_apply (db_write_buf m) d"
  by (cases d) (auto simp: db_insert_or_assign_def db_erase_def db_clear_def db_maybe_sync_def db_sync_def)

lemma db_apply_snp:
  "n > 0 \<Longrightarrow> db_read_snp (db_apply n m (now, d)) =
     (if now - db_last_sync m \<ge> int n then buf_apply (db_write_buf m) d else db_read_snp m)
   \<and> db_last_sync (db_apply n m (now, d)) = (if now - db_last_sync m \<ge> int n then now else db_last_sync m)"
  by (cases d) (auto simp: db_insert_or_assign_def db_erase_def db_clear_def db_maybe_sync_def db_sync_def)

text \<open>Reads of the double-buffered map are at most one interval stale: the snapshot is the state of the
  writes after some prefix of the operations, and every operation left out of it came less than one sync interval
  after the last sync.\<close>
theorem double_buffer_staleness:
  assumes "interval > 0"
  shows "\<exists>i\<le>length ops. db_read_snp (foldl (db_apply interval) (db_new t0) ops) = foldl buf_apply [] (map snd (take i ops))
     \<and> (\<nexists>x. x \<in> set (drop i ops) \<and> fst x - db_last_sync (foldl (db_apply interval) (db_new t0) ops) \<ge> int interval)
     \<and> db_write_buf (foldl (db_apply interval) (db_new t0) ops) = foldl buf_apply [] (map snd ops)"
proof (induction ops rule: rev_induct)
  case Nil
  show ?case by (simp add: db_new_def)
next
  case (snoc x ops)
  obtain now d where x: "x = (now, d)" by fastforce
  let ?m = "foldl (db_apply interval) (db_new t0) ops"
  from snoc obtain i where i: "i \<le> length ops" "db_read_snp ?m = foldl buf_apply [] (map snd (take i ops))"
    "\<nexists>x. x \<in> set (drop i ops) \<and> fst x - db_last_sync ?m \<ge> int interval"
    and w: "db_write_buf ?m = foldl buf_apply [] (map snd ops)" by blast
  show ?case
  proof (cases "now - db_last_sync ?m \<ge> int interval")
    case True
    then show ?thesis
      using db_apply_snp [OF assms, of ?m now d] db_apply_buf [of interval ?m now d] w
      by (intro exI [of _ "length ops + 1"]) (simp add: x)
  next
    case False
    then show ?thesis
      using db_apply_snp [OF assms, of ?m now d] db_apply_buf [of interval ?m now d] i w
      by (intro exI [of _ i]) (auto simp: x)
  qed
qed

definition sample_ops :: "(time \<times> (nat, string) db_op) list" where
  "sample_ops = [(12, DbPut 1 ''a''), (15, DbErase 1)]"

lemma double_buffer_staleness_witness:
  "\<exists>i\<le>2. db_read_snp (foldl (db_apply 10) (db_new 0) sample_ops) = foldl buf_apply [] (map snd (take i sample_ops))"
proof -
  have "length sample_ops = 2" by (simp add: sample_ops_def)
  then show ?thesis using double_buffer_staleness [of 10 sample_ops 0] by (metis zero_less_numeral)
qed

end
