(* ===== verification/Heartbeat.thy ===== *)
theory Heartbeat
  imports Json
begin

section \<open>Heartbeats and lifecycle requests\<close>

text \<open>
  \<open>include/lifecyclemgr/heartbeat.hpp\<close>, \<open>src/lifecyclemgr/heartbeat.cpp\<close>: the lifecycle states with their
  numeric codes and texts, and the heartbeat an ability posts. \<open>src/lifecyclemgr/lifecycle_request.cpp\<close>: the
  request to change the state of an ability.
\<close>

(* include/lifecyclemgr/heartbeat.hpp:22-31 LifecycleState *)
datatype lifecycle_state =
  LsUnknown | LsInactive | LsInit | LsStandby | LsRunning | LsSuspend | LsTerminated | LsError

(* include/lifecyclemgr/heartbeat.hpp:22-31 LifecycleState (underlying values) *)
fun state_code :: "lifecycle_state \<Rightarrow> nat" where
  "state_code LsUnknown = 65"
| "state_code LsInactive = 0"
| "state_code LsInit = 1"
| "state_code LsStandby = 2"
| "state_code LsRunning = 3"
| "state_code LsSuspend = 4"
| "state_code LsTerminated = 5"
| "state_code LsError = 66"

(* include/lifecyclemgr/heartbeat.hpp:37-41 is_active *)
definition is_active :: "lifecycle_state \<Rightarrow> bool" where
  "is_active s = (state_code s \<ge> state_code LsInit \<and> state_code s \<le> state_code LsSuspend)"

(* src/lifecyclemgr/heartbeat.cpp:18-33 to_string(LifecycleState) *)
fun show_lifecycle :: "lifecycle_state \<Rightarrow> string" where
  "show_lifecycle LsUnknown = ''Unknown''"
| "show_lifecycle LsInactive = ''Inactive''"
| "show_lifecycle LsInit = ''Init''"
| "show_lifecycle LsStandby = ''Standby''"
| "show_lifecycle LsRunning = ''Running''"
| "show_lifecycle LsSuspend = ''Suspend''"
| "show_lifecycle LsTerminated = ''Terminated''"
| "show_lifecycle LsError = ''Error''"

(* src/lifecyclemgr/heartbeat.cpp:36-51 from_sv<LifecycleState> *)
definition lifecycle_from_sv :: "string \<Rightarrow> exn + lifecycle_state" where
  "lifecycle_from_sv sv =
     (case filter (\<lambda>s. show_lifecycle s = sv)
             [LsUnknown, LsInactive, LsInit, LsStandby, LsRunning, LsSuspend, LsTerminated, LsError] of
        s # _ \<Rightarrow> Inr s
      | [] \<Rightarrow> Inl (InvalidArgument (''invalid lifecycleState '' @ sv)))"

text \<open>The JSON enumeration falls back to its first entry.\<close>

(* include/lifecyclemgr/heartbeat.hpp:43-51 NLOHMANN_JSON_SERIALIZE_ENUM(LifecycleState) *)
definition lifecycle_from_json :: "json \<Rightarrow> exn + lifecycle_state" where
  "lifecycle_from_json j =
     (case j of JStr s \<Rightarrow> (case lifecycle_from_sv s of Inr x \<Rightarrow> Inr x | Inl _ \<Rightarrow> Inr LsInactive) | _ \<Rightarrow> Inr LsInactive)"

lemma lifecycle_text_roundtrip [json_simps, simp]: "lifecycle_from_sv (show_lifecycle s) = Inr s"
  by (cases s) (simp_all add: lifecycle_from_sv_def)

lemma lifecycle_json_roundtrip [json_simps, simp]: "lifecycle_from_json (JStr (show_lifecycle s)) = Inr s"
  by (simp add: lifecycle_from_json_def)

lemma is_active_iff: "is_active s \<longleftrightarrow> s \<in> {LsInit, LsStandby, LsRunning, LsSuspend}"
  by (cases s) (simp_all add: is_active_def)

subsection \<open>Protocols\<close>

(* include/lifecyclemgr/heartbeat.hpp:53-53 ProtocolType *)
datatype protocol = Http | Coap

(* include/lifecyclemgr/heartbeat.hpp:57-63 to_string(ProtocolType) *)
fun show_protocol :: "protocol \<Rightarrow> string" where
  "show_protocol Http = ''http''"
| "show_protocol Coap = ''coap''"

(* src/lifecyclemgr/heartbeat.cpp:55-65 from_sv<ProtocolType> *)
definition protocol_from_sv :: "string \<Rightarrow> exn + protocol" where
  "protocol_from_sv sv =
     (if sv = ''http'' then Inr Http else if sv = ''coap'' then Inr Coap
      else Inl (InvalidArgument (''invalid ProtocolType '' @ sv)))"

(* include/lifecyclemgr/heartbeat.hpp:66-69 NLOHMANN_JSON_SERIALIZE_ENUM(ProtocolType) *)
definition protocol_from_json :: "json \<Rightarrow> exn + protocol" where
  "protocol_from_json j = Inr (if j = JStr ''coap'' then Coap else Http)"

lemma protocol_json_roundtrip [json_simps, simp]: "protocol_from_json (JStr (show_protocol p)) = Inr p"
  by (cases p) (simp_all add: protocol_from_json_def)

subsection \<open>Heartbeats\<close>

type_synonym port = "16 word"

(* include/lifecyclemgr/heartbeat.hpp:71-79 Heartbeat *)
record heartbeat =
  hb_abilityName :: string
  hb_version :: string
  hb_instanceName :: string
  hb_id :: uuid
  hb_state :: lifecycle_state
  hb_IPCProtocol :: protocol
  hb_IPCPort :: port
  hb_abilityPort :: port

text \<open>A number is narrowed to the 16 bits of the field.\<close>

definition get_port :: "json \<Rightarrow> exn + port" where
  "get_port j = (case j of
     JNum n \<Rightarrow> Inr (word_of_int n) | JBool b \<Rightarrow> Inr (if b then 1 else 0) | _ \<Rightarrow> Inl (type_error ''number'' j))"

(* include/lifecyclemgr/heartbeat.hpp:80-82 NLOHMANN_DEFINE_TYPE_INTRUSIVE(Heartbeat) to_json *)
definition heartbeat_to_json :: "text_lib \<Rightarrow> heartbeat \<Rightarrow> json" where
  "heartbeat_to_json L x =
     jput ''abilityPort'' (JNum (uint (hb_abilityPort x)))
      (jput ''IPCPort'' (JNum (uint (hb_IPCPort x)))
       (jput ''IPCProtocol'' (JStr (show_protocol (hb_IPCProtocol x)))
        (jput ''state'' (JStr (show_lifecycle (hb_state x)))
         (jput ''id'' (uuid_to_json L (hb_id x))
          (jput ''instanceName'' (JStr (hb_instanceName x))
           (jput ''version'' (JStr (hb_version x))
            (jput ''abilityName'' (JStr (hb_abilityName x)) (JObj []))))))))"

(* include/lifecyclemgr/heartbeat.hpp:80-82 NLOHMANN_DEFINE_TYPE_INTRUSIVE(Heartbeat) from_json *)
definition heartbeat_from_json :: "text_lib \<Rightarrow> json \<Rightarrow> exn + heartbeat" where
  "heartbeat_from_json L j =
     rbind (read_required ''abilityName'' get_string j) (\<lambda>an.
     rbind (read_required ''version'' get_string j) (\<lambda>v.
     rbind (read_required ''instanceName'' get_string j) (\<lambda>nm.
     rbind (read_required ''id'' (uuid_from_json L) j) (\<lambda>i.
     rbind (read_required ''state'' lifecycle_from_json j) (\<lambda>st.
     rbind (read_required ''IPCProtocol'' protocol_from_json j) (\<lambda>pr.
     rbind (read_required ''IPCPort'' get_port j) (\<lambda>p1.
     rbind (read_required ''abilityPort'' get_port j) (\<lambda>p2.
       Inr \<lparr>hb_abilityName = an, hb_version = v, hb_instanceName = nm, hb_id = i, hb_state = st,
            hb_IPCProtocol = pr, hb_IPCPort = p1, hb_abilityPort = p2\<rparr>))))))))"

lemma heartbeat_json_roundtrip:
  "uuid_text_ok L \<Longrightarrow> heartbeat_from_json L (heartbeat_to_json L x) = Inr x"
  by (simp add: heartbeat_from_json_def heartbeat_to_json_def read_required_def jat_find json_simps get_port_def
      del: jput.simps jat.simps jfind.simps)

subsection \<open>Lifecycle requests\<close>

(* include/lifecyclemgr/lifecycle_request.hpp:22-27 LifecycleRequest *)
record lifecycle_request =
  lr_abilityInstanceId :: uuid
  lr_command :: string

(* src/lifecyclemgr/lifecycle_request.cpp:27-33 is_legal *)
definition is_legal :: "string \<Rightarrow> bool" where
  "is_legal cmd = (cmd \<in> {''start'', ''connect'', ''disconnect'', ''terminate''})"

text \<open>The command is checked in lower case and kept as it was written.\<close>

(* src/lifecyclemgr/lifecycle_request.cpp:36-41 from_json(LifecycleRequest) *)
definition request_from_json :: "text_lib \<Rightarrow> json \<Rightarrow> exn + lifecycle_request" where
  "request_from_json L j =
     rbind (rbind (jat ''command'' j) get_string) (\<lambda>c.
       if \<not> is_legal (lower c) then Inl (InvalidArgument (''invalid command: '' @ lower c))
       else
         rbind (read_required ''abilityInstanceId'' (uuid_from_json L) j) (\<lambda>i.
         rbind (read_required ''command'' get_string j) (\<lambda>cmd.
           Inr \<lparr>lr_abilityInstanceId = i, lr_command = cmd\<rparr>)))"

(* src/lifecyclemgr/lifecycle_request.cpp:43-46 to_json(LifecycleRequest) *)
definition request_to_json :: "text_lib \<Rightarrow> lifecycle_request \<Rightarrow> json" where
  "request_to_json L r =
     jput ''command'' (JStr (lr_command r)) (jput ''abilityInstanceId'' (uuid_to_json L (lr_abilityInstanceId r)) (JObj []))"

text \<open>The lifecycle state a command leads to (\<open>src/lifecyclemgr/lifecycle_mgr.cpp\<close>).\<close>

(* src/lifecyclemgr/lifecycle_mgr.cpp:147-153 desired_state *)
definition desired_state :: "string \<Rightarrow> exn + lifecycle_state" where
  "desired_state c =
     (if c = ''start'' then Inr LsStandby
      else if c = ''connect'' then Inr LsRunning
      else if c = ''disconnect'' then Inr LsSuspend
      else if c = ''terminate'' then Inr LsTerminated
      else Inl (InvalidArgument (''unknown comand: '' @ c)))"

lemma desired_state_legal: "is_ok (desired_state c) \<longleftrightarrow> is_legal c"
  by (simp add: desired_state_def is_legal_def)

text \<open>A request that the codec accepted has a target state exactly when its command is in lower case.\<close>

lemma lower_char_idem [simp]: "lower_char (lower_char c) = lower_char c"
  by (auto simp: lower_char_def Let_def of_char_of take_bit_eq_mod)

lemma legal_lower: "is_legal c \<Longrightarrow> lower c = c"
  by (auto simp: is_legal_def lower_def lower_char_def)

text \<open>A lifecycle request that the codec accepts has a target state if and only if its command was written in
  lower case: \<open>START\<close> passes the check of the codec and is rejected later.\<close>
theorem accepted_request_has_target_iff_lower:
  assumes "request_from_json L j = Inr r"
  shows "is_ok (desired_state (lr_command r)) \<longleftrightarrow> lower (lr_command r) = lr_command r"
proof -
  have "is_legal (lower (lr_command r))"
    using assms by (auto simp: request_from_json_def result_simps read_required_def split: if_splits)
  then show ?thesis using legal_lower [of "lr_command r"] by (auto simp: desired_state_legal)
qed

lemma accepted_request_has_target_iff_lower_witness:
  "request_from_json decimal_lib (jobject [(''abilityInstanceId'', JStr ''7''), (''command'', JStr ''START'')])
     = Inr \<lparr>lr_abilityInstanceId = 7, lr_command = ''START''\<rparr>
   \<and> \<not> is_ok (desired_state ''START'')"
proof -
  have r: "request_from_json decimal_lib (jobject [(''abilityInstanceId'', JStr ''7''), (''command'', JStr ''START'')])
     = Inr \<lparr>lr_abilityInstanceId = 7, lr_command = ''START''\<rparr>"
    by code_simp
  have "lower ''START'' \<noteq> ''START''" by code_simp
  then show ?thesis using accepted_request_has_target_iff_lower [OF r] r by simp
qed

end
