(* ===== verification/Lifecycle.thy ===== *)
theory Lifecycle
  imports Heartbeat ConcurrentMap Tasks
begin

section \<open>The lifecycle manager of abilities\<close>

text \<open>
  \<open>src/lifecyclemgr/lifecycle_mgr.cpp\<close> and \<open>ability_client.cpp\<close>: the map from ability instances to their
  last heartbeat, the tasks that start an ability or move it to another lifecycle state, the purge of
  stale heartbeats and the HTTP interface. The other modules, the abilities and the file system are
  reached through \<open>lext\<close>: each field is one message or call the code makes, on a rest state \<^typ>\<open>'r\<close>.
\<close>

subsection \<open>The client of an ability\<close>

(* src/lifecyclemgr/ability_client.cpp:33-46 HttpClient *)
record ability_client =
  ac_hostname :: string
  ac_port :: int

(* src/lifecyclemgr/ability_client.cpp:62-68 is_valid_lifecycle_command *)
definition is_valid_lifecycle_command :: "string \<Rightarrow> bool" where
  "is_valid_lifecycle_command c = list_ex (\<lambda>x. x = c) [''start'', ''connect'', ''disconnect'', ''terminate'']"

text \<open>The URL parser gives the protocol, the host name and the port of a valid URL.\<close>

type_synonym url_parser = "string \<Rightarrow> (string \<times> string \<times> string) option"

(* src/lifecyclemgr/ability_client.cpp:80-109 AbilityClient::make *)
definition make_client :: "url_parser \<Rightarrow> string \<Rightarrow> ability_client option" where
  "make_client parse_url url =
     (case parse_url url of
        None \<Rightarrow> None
      | Some (proto, host, port) \<Rightarrow>
          if proto = ''http:'' then
            (if host = [] then None
             else if port = [] then None
             else Some \<lparr>ac_hostname = host, ac_port = int (undec port)\<rparr>)
          else None)"

subsection \<open>State and surroundings\<close>

(* include/lifecyclemgr/lifecycle_mgr.hpp:41-47 Entry *)
record entry =
  en_heartbeat :: heartbeat
  en_last_update :: time
  en_last_connect :: "time option"
  en_client :: "ability_client option"

text \<open>The value-initialised entry that \<open>exec_on_key\<close> makes for a new key.\<close>

definition default_entry :: entry where
  "default_entry =
     \<lparr>en_heartbeat = \<lparr>hb_abilityName = [], hb_version = [], hb_instanceName = [], hb_id = 0, hb_state = LsInactive,
        hb_IPCProtocol = Http, hb_IPCPort = 0, hb_abilityPort = 0\<rparr>,
      en_last_update = 0, en_last_connect = None, en_client = None\<rparr>"

(* include/lifecyclemgr/lifecycle_mgr.hpp:38-49 LifecycleManager *)
record 'r lmgr =
  lm_heartbeats :: "(uuid, entry) sharded"
  lm_rest :: 'r

(* include/param/process_option.hpp:20-27 ProcessOption *)
record process_option =
  po_path :: string
  po_args :: "string list"
  po_envs :: "(string \<times> string) list"
  po_labels :: "(string \<times> string) list"

(* include/param/ability_storage_info.hpp:22-32 AbilityStorageInfo *)
record storage_info =
  si_package_path :: string
  si_executable_path :: string
  si_controller_path :: string

text \<open>A reply is \<open>Inl\<close> the error of the bus, or the success flag and the content of the reply message.\<close>

type_synonym bus_reply = "string + (bool \<times> string)"

record 'r lext =
  le_lib :: text_lib
  le_hash :: "uuid \<Rightarrow> nat"
  le_parse_url :: url_parser
  le_heartbeat_event :: "heartbeat \<Rightarrow> 'r \<Rightarrow> bus_reply \<times> 'r"
  le_find_instance :: "uuid \<Rightarrow> 'r \<Rightarrow> string + unit"
  le_find_storage :: "uuid \<Rightarrow> 'r \<Rightarrow> string + storage_info"
  le_find_parent :: "uuid \<Rightarrow> 'r \<Rightarrow> string + uuid"
  le_subability_error :: "port \<Rightarrow> json \<Rightarrow> 'r \<Rightarrow> 'r"
  le_instance_exited :: "uuid \<Rightarrow> 'r \<Rightarrow> 'r"
  le_start_process :: "process_option \<Rightarrow> 'r \<Rightarrow> bus_reply \<times> 'r"
  le_post_command :: "ability_client \<Rightarrow> string \<Rightarrow> 'r \<Rightarrow> (string + unit) \<times> 'r"
  le_framework_address :: json
  le_instance_dir :: "uuid \<Rightarrow> exn + string"
  le_assets_exist :: "string \<Rightarrow> bool"

subsection \<open>Heartbeats\<close>

text \<open>What the reply of ResourceMgr says about a heartbeat; anything but a readable \<open>true\<close> is a refusal.\<close>

(* src/lifecyclemgr/lifecycle_mgr.cpp:41-57 LifecycleManager::on_heartbeat (reply) *)
definition heartbeat_accepted :: "'r lext \<Rightarrow> heartbeat \<Rightarrow> 'r \<Rightarrow> bool \<times> 'r" where
  "heartbeat_accepted X hb r =
     (case le_heartbeat_event X hb r of
        (Inr (True, body), r') \<Rightarrow>
          (case rbind (parse (le_lib X) body) (jvalue ''accepted'' (JBool False)) of
             Inr (JBool b) \<Rightarrow> (b, r')
           | _ \<Rightarrow> (False, r'))
      | (_, r') \<Rightarrow> (False, r'))"

definition client_url :: "heartbeat \<Rightarrow> string" where
  "client_url hb = show_protocol (hb_IPCProtocol hb) @ ''://localhost:'' @ dec (unat (hb_IPCPort hb))"

(* src/lifecyclemgr/lifecycle_mgr.cpp:64-83 LifecycleManager::on_heartbeat (update of the entry) *)
definition update_entry :: "'r lext \<Rightarrow> time \<Rightarrow> heartbeat \<Rightarrow> entry \<Rightarrow> entry" where
  "update_entry X now hb e =
     (let old_port = hb_IPCPort (en_heartbeat e);
          e1 = e\<lparr>en_heartbeat := hb, en_last_update := now\<rparr>;
          e2 = (if hb_state hb = LsRunning then e1\<lparr>en_last_connect := Some now\<rparr> else e1)
      in if en_client e2 = None then e2\<lparr>en_client := make_client (le_parse_url X) (client_url hb)\<rparr>
         else if old_port \<noteq> hb_IPCPort hb then e2\<lparr>en_client := make_client (le_parse_url X) (client_url hb)\<rparr>
         else e2)"

(* src/lifecyclemgr/lifecycle_mgr.cpp:33-85 LifecycleManager::on_heartbeat *)
definition on_heartbeat :: "'r lext \<Rightarrow> time \<Rightarrow> heartbeat \<Rightarrow> 'r lmgr \<Rightarrow> bool \<times> 'r lmgr" where
  "on_heartbeat X now hb M =
     (let (accepted, r') = heartbeat_accepted X hb (lm_rest M) in
      if \<not> accepted then (False, M\<lparr>lm_rest := r'\<rparr>)
      else (True, M\<lparr>lm_rest := r',
              lm_heartbeats := sm_exec_on_key (le_hash X) default_entry (hb_id hb) (update_entry X now hb) (lm_heartbeats M)\<rparr>))"

abbreviation find_entry :: "'r lext \<Rightarrow> 'r lmgr \<Rightarrow> uuid \<Rightarrow> entry option" where
  "find_entry X M \<equiv> sm_find (le_hash X) (lm_heartbeats M)"

(* src/lifecyclemgr/lifecycle_mgr.cpp:273-277 LifecycleManager::contains_active *)
definition contains_active :: "'r lext \<Rightarrow> 'r lmgr \<Rightarrow> uuid \<Rightarrow> bool" where
  "contains_active X M i =
     (case find_entry X M i of None \<Rightarrow> False | Some e \<Rightarrow> is_active (hb_state (en_heartbeat e)))"

(* src/lifecyclemgr/lifecycle_mgr.cpp:279-283 LifecycleManager::get_heartbeat *)
definition get_heartbeat :: "'r lext \<Rightarrow> 'r lmgr \<Rightarrow> uuid \<Rightarrow> heartbeat option" where
  "get_heartbeat X M i = map_option en_heartbeat (find_entry X M i)"

(* src/lifecyclemgr/lifecycle_mgr.cpp:290-297 LifecycleManager::get_running_abilities *)
definition get_running_abilities :: "'r lmgr \<Rightarrow> heartbeat list" where
  "get_running_abilities M = map (\<lambda>(i, e). en_heartbeat e) (sm_entries (lm_heartbeats M))"

(* src/lifecyclemgr/lifecycle_mgr.cpp:459-461 MAX_HEARTBEAT_VALID_TIME *)
definition MAX_HEARTBEAT_VALID_TIME :: time where
  "MAX_HEARTBEAT_VALID_TIME = 60000"

(* src/lifecyclemgr/lifecycle_mgr.cpp:463-473 LifecycleManager::clear_stale_heartbeats *)
definition clear_stale_heartbeats :: "'r lext \<Rightarrow> time \<Rightarrow> 'r lmgr \<Rightarrow> 'r lmgr" where
  "clear_stale_heartbeats X now M =
     (let stale = map fst (filter (\<lambda>(i, e). now - en_last_update e > MAX_HEARTBEAT_VALID_TIME) (sm_entries (lm_heartbeats M)))
      in M\<lparr>lm_heartbeats := fold (sm_erase (le_hash X)) stale (lm_heartbeats M)\<rparr>)"

subsection \<open>Exit of an ability\<close>

(* src/lifecyclemgr/lifecycle_mgr.cpp:211-229 send_subability_error *)
definition subability_error_payload :: "text_lib \<Rightarrow> uuid \<Rightarrow> lifecycle_state \<Rightarrow> json" where
  "subability_error_payload L i final =
     jobject [(''abilityInstanceId'', uuid_to_json L i), (''lifecycleState'', JStr (show_lifecycle final))]"

(* src/lifecyclemgr/lifecycle_mgr.cpp:233-258 LifecycleManager::try_inform_parent_ability *)
definition try_inform_parent_ability :: "'r lext \<Rightarrow> uuid \<Rightarrow> 'r lmgr \<Rightarrow> 'r lmgr" where
  "try_inform_parent_ability X i M =
     (let final = (case get_heartbeat X M i of Some hb \<Rightarrow> hb_state hb | None \<Rightarrow> LsUnknown) in
      case le_find_parent X i (lm_rest M) of
        Inl _ \<Rightarrow> M
      | Inr parent \<Rightarrow>
          (case get_heartbeat X M parent of
             None \<Rightarrow> M
           | Some phb \<Rightarrow>
               M\<lparr>lm_rest := le_subability_error X (hb_IPCPort phb) (subability_error_payload (le_lib X) i final) (lm_rest M)\<rparr>))"

(* src/lifecyclemgr/lifecycle_mgr.cpp:260-271 LifecycleManager::on_ability_exit *)
definition on_ability_exit :: "'r lext \<Rightarrow> uuid \<Rightarrow> 'r lmgr \<Rightarrow> 'r lmgr" where
  "on_ability_exit X i M =
     (let M1 = try_inform_parent_ability X i M;
          M2 = M1\<lparr>lm_heartbeats := sm_erase (le_hash X) i (lm_heartbeats M1)\<rparr>
      in M2\<lparr>lm_rest := le_instance_exited X i (lm_rest M2)\<rparr>)"

subsection \<open>Lifecycle requests\<close>

text \<open>Calling \<open>execute\<close> through a null client is undefined behaviour; the model throws.\<close>

(* src/lifecyclemgr/ability_client.cpp:72-78 AbilityClient::execute *)
definition client_execute ::
  "'r lext \<Rightarrow> ability_client option \<Rightarrow> string \<Rightarrow> 'r lmgr \<Rightarrow> (exn + (string + unit)) \<times> 'r lmgr" where
  "client_execute X c cmd M =
     (case c of
        None \<Rightarrow> (Inl (LogicError ''null client''), M)
      | Some cl \<Rightarrow>
          if \<not> is_valid_lifecycle_command cmd then (Inr (Inl (''invalid lifecycle command: '' @ cmd)), M)
          else (let (res, r') = le_post_command X cl cmd (lm_rest M) in (Inr res, M\<lparr>lm_rest := r'\<rparr>)))"

(* src/lifecyclemgr/lifecycle_mgr.cpp:87-104 task_send_lifecycle_operation *)
definition task_send_lifecycle_operation ::
  "'r lext \<Rightarrow> uuid \<Rightarrow> lifecycle_request \<Rightarrow> 'r lmgr \<Rightarrow> exn + 'r lmgr task" where
  "task_send_lifecycle_operation X tid req M =
     (case find_entry X M (lr_abilityInstanceId req) of
        None \<Rightarrow> Inl (OutOfRange ''ability instance not found'')
      | Some e \<Rightarrow>
          Inr (tasks_on_thread_queue tid ''send-lifecycle-operation'' (\<lambda>M'.
            case client_execute X (en_client e) (lr_command req) M' of
              (Inl ex, M'') \<Rightarrow> (Inl ex, M'')
            | (Inr (Inl err), M'') \<Rightarrow> (Inl (RuntimeError (''error reading from ability http server: '' @ err)), M'')
            | (Inr (Inr _), M'') \<Rightarrow> (Inr (), M''))))"

(* src/lifecyclemgr/lifecycle_mgr.cpp:106-113 make_wait_timeout_callback *)
definition wait_timeout_text :: "'r lext \<Rightarrow> uuid \<Rightarrow> string" where
  "wait_timeout_text X i = ''wait ability '' @ show_uuid (le_lib X) i @ ''heartbeat timeout ''"

definition WAIT_TIMEOUT :: time where "WAIT_TIMEOUT = 15000"

(* src/lifecyclemgr/lifecycle_mgr.cpp:116-135 task_wait_for_lifecycle_state *)
definition task_wait_for_lifecycle_state ::
  "'r lext \<Rightarrow> task_env \<Rightarrow> uuid \<Rightarrow> uuid \<Rightarrow> lifecycle_state \<Rightarrow> 'r lmgr task" where
  "task_wait_for_lifecycle_state X E tid i desired =
     tasks_wait_once E tid ''wait-task-state''
       (\<lambda>M. (Inr (case find_entry X M i of None \<Rightarrow> False | Some e \<Rightarrow> hb_state (en_heartbeat e) = desired), M))
       WAIT_TIMEOUT (Some (\<lambda>M. (Inr (wait_timeout_text X i), M)))"

(* src/lifecyclemgr/lifecycle_mgr.cpp:137-145 task_wait_for_heartbeat *)
definition task_wait_for_heartbeat :: "'r lext \<Rightarrow> task_env \<Rightarrow> uuid \<Rightarrow> uuid \<Rightarrow> 'r lmgr task" where
  "task_wait_for_heartbeat X E tid i =
     tasks_wait_once E tid ''wait-task-state'' (\<lambda>M. (Inr (sm_contains (le_hash X) (lm_heartbeats M) i), M))
       WAIT_TIMEOUT (Some (\<lambda>M. (Inr (wait_timeout_text X i), M)))"

(* src/lifecyclemgr/lifecycle_mgr.cpp:176-198 gather_process_args *)
definition gather_process_args :: "'r lext \<Rightarrow> storage_info \<Rightarrow> uuid \<Rightarrow> exn + process_option" where
  "gather_process_args X st i =
     rbind (le_instance_dir X i) (\<lambda>dir.
       (let argv2 = jput ''instanceDirectory'' (JStr dir) (le_framework_address X);
            assets = si_package_path st @ ''/assets'';
            argv2' = (if le_assets_exist X assets then jput ''assetsDirectory'' (JStr assets) argv2 else argv2)
        in Inr \<lparr>po_path = si_executable_path st, po_args = [show_uuid (le_lib X) i, dump (le_lib X) argv2'],
                po_envs = [], po_labels = [(''ability'', show_uuid (le_lib X) i)]\<rparr>))"

(* src/lifecyclemgr/lifecycle_mgr.cpp:328-353 start-process task *)
definition start_process_action :: "'r lext \<Rightarrow> process_option \<Rightarrow> ('r lmgr, unit) closure" where
  "start_process_action X args M =
     (case le_start_process X args (lm_rest M) of
        (Inl err, r') \<Rightarrow> (Inl (RuntimeError (''send msg to subprocessmgr failed: '' @ err)), M\<lparr>lm_rest := r'\<rparr>)
      | (Inr (False, body), r') \<Rightarrow> (Inl (RuntimeError (''start process failed'' @ body)), M\<lparr>lm_rest := r'\<rparr>)
      | (Inr (True, _), r') \<Rightarrow> (Inr (), M\<lparr>lm_rest := r'\<rparr>))"

text \<open>The ids are those of the two subtasks and of the sequence.\<close>

(* src/lifecyclemgr/lifecycle_mgr.cpp:298-358 make_start_ability_request *)
definition make_start_ability_request ::
  "'r lext \<Rightarrow> task_env \<Rightarrow> uuid \<times> uuid \<times> uuid \<Rightarrow> lifecycle_request \<Rightarrow> 'r lmgr \<Rightarrow> exn + (string + 'r lmgr task)" where
  "make_start_ability_request X E ids req M =
     (let i = lr_abilityInstanceId req in
      if contains_active X M i then
        Inr (Inl (''ability '' @ show_uuid (le_lib X) i @ '' is already active''))
      else
        (case le_find_instance X i (lm_rest M) of
           Inl err \<Rightarrow> Inr (Inl err)
         | Inr _ \<Rightarrow>
             (case le_find_storage X i (lm_rest M) of
                Inl err \<Rightarrow> Inr (Inl err)
              | Inr st \<Rightarrow>
                  rbind (gather_process_args X st i) (\<lambda>args.
                    Inr (Inr (tasks_sequence (snd (snd ids)) ''lifecycle-adjust''
                      [tasks_atomic (fst ids) ''start-process'' (start_process_action X args),
                       task_wait_for_heartbeat X E (fst (snd ids)) i]))))))"

(* src/lifecyclemgr/lifecycle_mgr.cpp:360-375 make_lifecycle_adjust_request *)
definition make_lifecycle_adjust_request ::
  "'r lext \<Rightarrow> task_env \<Rightarrow> uuid \<times> uuid \<times> uuid \<Rightarrow> lifecycle_request \<Rightarrow> 'r lmgr \<Rightarrow> exn + (string + 'r lmgr task)" where
  "make_lifecycle_adjust_request X E ids req M =
     (let i = lr_abilityInstanceId req in
      if \<not> contains_active X M i then Inr (Inl (''no such ability of id '' @ show_uuid (le_lib X) i))
      else
        rbind (task_send_lifecycle_operation X (fst ids) req M) (\<lambda>t1.
        rbind (desired_state (lr_command req)) (\<lambda>target.
          Inr (Inr (tasks_sequence (snd (snd ids)) ''lifecycle-adjust''
            [t1, task_wait_for_lifecycle_state X E (fst (snd ids)) i target])))))"

(* src/lifecyclemgr/lifecycle_mgr.cpp:389-404 LifecycleManager::on_lifecycle_request *)
definition on_lifecycle_request ::
  "'r lext \<Rightarrow> task_env \<Rightarrow> uuid \<times> uuid \<times> uuid \<Rightarrow> lifecycle_request \<Rightarrow> 'r lmgr \<Rightarrow> exn + (string + 'r lmgr task)" where
  "on_lifecycle_request X E ids req M =
     (if lr_command req = ''start'' then
        rbind (make_start_ability_request X E ids req M) (\<lambda>r.
          Inr (case r of Inl e \<Rightarrow> Inl (''make start task failed: '' @ e) | Inr t \<Rightarrow> Inr t))
      else
        rbind (make_lifecycle_adjust_request X E ids req M) (\<lambda>r.
          Inr (case r of Inl e \<Rightarrow> Inl (''make adjust task failed: '' @ e) | Inr t \<Rightarrow> Inr t)))"

subsection \<open>HTTP interface\<close>

record http_reply =
  hr_status :: nat
  hr_body :: string

(* src/lifecyclemgr/lifecycle_mgr.cpp:477-481 read_json_by_content_type *)
definition read_json_by_content_type ::
  "text_lib \<Rightarrow> (string \<Rightarrow> exn + json) \<Rightarrow> string \<Rightarrow> string \<Rightarrow> exn + json" where
  "read_json_by_content_type L from_cbor ct body =
     (if ct = ''application/json'' then parse L body
      else if ct = ''application/cbor'' then from_cbor body
      else Inl (InvalidArgument (''invalid content-type: '' @ ct)))"

definition unknown_instance_body :: string where
  "unknown_instance_body =
     ''{\"error\":\"unknown instance\",\"hint\":\"instance_id is not registered with this framework; sender should self-terminate\"}''"

(* src/lifecyclemgr/lifecycle_mgr.cpp:533-550 POST /api/ability-heartbeat *)
definition api_heartbeat_post ::
  "'r lext \<Rightarrow> (string \<Rightarrow> exn + json) \<Rightarrow> time \<Rightarrow> string option \<Rightarrow> string \<Rightarrow> 'r lmgr \<Rightarrow> (exn + http_reply) \<times> 'r lmgr" where
  "api_heartbeat_post X from_cbor now content_type body M =
     (let ct = (case content_type of Some c \<Rightarrow> c | None \<Rightarrow> ''application/json'') in
      case rbind (read_json_by_content_type (le_lib X) from_cbor ct body) (heartbeat_from_json (le_lib X)) of
        Inl e \<Rightarrow> (Inl e, M)
      | Inr hb \<Rightarrow>
          (let (accepted, M') = on_heartbeat X now hb M in
           (Inr (if accepted then \<lparr>hr_status = 200, hr_body = ''OK''\<rparr>
                 else \<lparr>hr_status = 410, hr_body = unknown_instance_body\<rparr>), M')))"

(* src/lifecyclemgr/lifecycle_mgr.cpp:551-559 GET /api/ability-heartbeat *)
definition api_heartbeat_list :: "'r lext \<Rightarrow> 'r lmgr \<Rightarrow> json" where
  "api_heartbeat_list X M = JArr (map (heartbeat_to_json (le_lib X)) (get_running_abilities M))"

(* src/lifecyclemgr/lifecycle_mgr.cpp:560-576 GET /api/ability-heartbeat/:id *)
definition api_heartbeat_get :: "'r lext \<Rightarrow> string \<Rightarrow> 'r lmgr \<Rightarrow> exn + (nat \<times> json)" where
  "api_heartbeat_get X id_str M =
     (case read_uuid (le_lib X) id_str of
        None \<Rightarrow> Inl (InvalidArgument (''invalid id: '' @ id_str))
      | Some i \<Rightarrow>
          (case find_entry X M i of
             None \<Rightarrow> Inr (404, JNull)
           | Some e \<Rightarrow> Inr (200, heartbeat_to_json (le_lib X) (en_heartbeat e))))"

text \<open>\<open>submit\<close> hands the task to the task manager.\<close>

(* src/lifecyclemgr/lifecycle_mgr.cpp:577-593 POST /api/lifecycle-request *)
definition api_lifecycle_request ::
  "'r lext \<Rightarrow> task_env \<Rightarrow> uuid \<times> uuid \<times> uuid \<Rightarrow> ('r lmgr task \<Rightarrow> string + uuid) \<Rightarrow> string option \<Rightarrow> string
     \<Rightarrow> 'r lmgr \<Rightarrow> exn + http_reply" where
  "api_lifecycle_request X E ids submit content_type body M =
     (let ct = (case content_type of Some c \<Rightarrow> c | None \<Rightarrow> ''application/json'') in
      if ct \<noteq> ''application/json'' then Inl (InvalidArgument ''unsupported content type'')
      else
        rbind (parse (le_lib X) body) (\<lambda>j.
        rbind (request_from_json (le_lib X) j) (\<lambda>req.
        rbind (on_lifecycle_request X E ids req M) (\<lambda>r.
          (case (case r of Inl e \<Rightarrow> Inl e | Inr t \<Rightarrow> submit t) of
             Inr tid \<Rightarrow> Inr \<lparr>hr_status = 200, hr_body = dump (le_lib X) (jobject [(''taskId'', uuid_to_json (le_lib X) tid)])\<rparr>
           | Inl e \<Rightarrow> Inr \<lparr>hr_status = 404, hr_body = e\<rparr>)))))"

text \<open>\<open>call\<close> is the HTTP request to the ability: method, port, path and body.\<close>

(* src/lifecyclemgr/lifecycle_mgr.cpp:488-527 delegate_to_ability *)
definition delegate_to_ability ::
  "'r lext \<Rightarrow> (string \<Rightarrow> nat \<Rightarrow> string \<Rightarrow> string \<Rightarrow> string + http_reply) \<Rightarrow> uuid \<Rightarrow> string \<Rightarrow> string \<Rightarrow> string
     \<Rightarrow> 'r lmgr \<Rightarrow> exn + http_reply" where
  "delegate_to_ability X call i meth path body M =
     (case get_heartbeat X M i of
        None \<Rightarrow> Inr \<lparr>hr_status = 404, hr_body = []\<rparr>
      | Some hb \<Rightarrow>
          if hb_abilityPort hb = 0
          then Inl (RuntimeError (''ability '' @ show_uuid (le_lib X) i @ '' has invalid ability_port 0''))
          else if meth \<in> {''get'', ''post'', ''put'', ''delete''} then
            (case call meth (unat (hb_abilityPort hb)) (CHR ''/'' # path) body of
               Inl err \<Rightarrow> Inl (RuntimeError (''connect to subability failed'' @ err))
             | Inr res \<Rightarrow> Inr res)
          else Inl (InvalidArgument (''invalid method type '' @ meth)))"

subsection \<open>The map of heartbeats\<close>

definition lm_ok :: "'r lext \<Rightarrow> 'r lmgr \<Rightarrow> bool" where
  "lm_ok X M = sm_ok HEARTBEAT_SHARD_COUNT (le_hash X) (lm_heartbeats M)"

lemma lm_ok_start: "lm_ok X \<lparr>lm_heartbeats = sm_empty HEARTBEAT_SHARD_COUNT, lm_rest = r\<rparr>"
  by (simp add: lm_ok_def sharded.ok_empty)

lemma find_exec_on_key:
  "sm_ok HEARTBEAT_SHARD_COUNT h m \<Longrightarrow>
     sm_find h (sm_exec_on_key h d k f m) = (sm_find h m)(k \<mapsto> f (case sm_find h m k of None \<Rightarrow> d | Some v \<Rightarrow> v))"
  by (simp add: sm_exec_on_key_def sharded.lookup_put)

lemma lm_ok_on_heartbeat: "lm_ok X M \<Longrightarrow> lm_ok X (snd (on_heartbeat X now hb M))"
  by (auto simp: lm_ok_def on_heartbeat_def sm_exec_on_key_def sharded.ok_put split: prod.splits)

lemma find_on_heartbeat:
  "lm_ok X M \<Longrightarrow> on_heartbeat X now hb M = (b, M') \<Longrightarrow> find_entry X M' =
     (if b then (find_entry X M)(hb_id hb \<mapsto> update_entry X now hb
         (case find_entry X M (hb_id hb) of None \<Rightarrow> default_entry | Some e \<Rightarrow> e))
      else find_entry X M)"
  by (auto simp: on_heartbeat_def lm_ok_def find_exec_on_key split: prod.splits if_splits)

lemma update_entry_fields [simp]:
  "en_heartbeat (update_entry X now hb e) = hb" "en_last_update (update_entry X now hb e) = now"
  "en_last_connect (update_entry X now hb e) = (if hb_state hb = LsRunning then Some now else en_last_connect e)"
  by (simp_all add: update_entry_def Let_def)


text \<open>C20: the purge removes exactly the heartbeats that were not renewed for more than a minute.\<close>
theorem clear_stale_exact:
  assumes "lm_ok X M"
  shows "find_entry X (clear_stale_heartbeats X now M) i =
     (case find_entry X M i of
        None \<Rightarrow> None
      | Some e \<Rightarrow> if now - en_last_update e > MAX_HEARTBEAT_VALID_TIME then None else Some e)"
proof -
  let ?m = "lm_heartbeats M"
  let ?stale = "map fst (filter (\<lambda>(i, e). now - en_last_update e > MAX_HEARTBEAT_VALID_TIME) (sm_entries ?m))"
  have ok: "sm_ok HEARTBEAT_SHARD_COUNT (le_hash X) ?m" using assms by (simp add: lm_ok_def)
  have "i \<in> set ?stale \<longleftrightarrow> (\<exists>e. find_entry X M i = Some e \<and> now - en_last_update e > MAX_HEARTBEAT_VALID_TIME)"
    using sm_entries_find [OF ok] by force
  then show ?thesis
    using sharded.fold_del [OF ok, of ?stale i]
    by (auto simp: clear_stale_heartbeats_def Let_def split: option.splits)
qed

subsection \<open>Commands go to the port of the last heartbeat\<close>

text \<open>What the code relies on in the URL parser: it splits the client URLs, and drops the default port of
  the http scheme.\<close>

definition url_parser_ok :: "url_parser \<Rightarrow> bool" where
  "url_parser_ok P = (\<forall>p :: port.
     P (''http://localhost:'' @ dec (unat p)) = Some (''http:'', ''localhost'', if p = 80 then [] else dec (unat p))
     \<and> P (''coap://localhost:'' @ dec (unat p)) = Some (''coap:'', ''localhost'', dec (unat p)))"

lemma make_client_port:
  "url_parser_ok P \<Longrightarrow> make_client P (client_url hb) =
     (if hb_IPCProtocol hb = Http \<and> hb_IPCPort hb \<noteq> 80
      then Some \<lparr>ac_hostname = ''localhost'', ac_port = uint (hb_IPCPort hb)\<rparr> else None)"
  by (cases "hb_IPCProtocol hb") (auto simp: make_client_def client_url_def url_parser_ok_def)

definition clients_current :: "'r lext \<Rightarrow> 'r lmgr \<Rightarrow> bool" where
  "clients_current X M = (\<forall>i e c. find_entry X M i = Some e \<longrightarrow> en_client e = Some c \<longrightarrow>
     ac_port c = uint (hb_IPCPort (en_heartbeat e)))"

lemma update_entry_client:
  assumes "url_parser_ok (le_parse_url X)" "en_client (update_entry X now hb e) = Some c"
    and "\<And>c. en_client e = Some c \<Longrightarrow> ac_port c = uint (hb_IPCPort (en_heartbeat e))"
  shows "ac_port c = uint (hb_IPCPort hb)"
  using assms by (auto simp: update_entry_def Let_def make_client_port split: if_splits)

datatype 'r lm_event = EvHeartbeat time heartbeat | EvExit uuid | EvClear time | EvRest "'r \<Rightarrow> 'r"

fun lm_step :: "'r lext \<Rightarrow> 'r lm_event \<Rightarrow> 'r lmgr \<Rightarrow> 'r lmgr" where
  "lm_step X (EvHeartbeat now hb) M = snd (on_heartbeat X now hb M)"
| "lm_step X (EvExit i) M = on_ability_exit X i M"
| "lm_step X (EvClear now) M = clear_stale_heartbeats X now M"
| "lm_step X (EvRest g) M = M\<lparr>lm_rest := g (lm_rest M)\<rparr>"

inductive lm_reach :: "'r lext \<Rightarrow> 'r lmgr \<Rightarrow> bool" for X where
  init: "lm_reach X \<lparr>lm_heartbeats = sm_empty HEARTBEAT_SHARD_COUNT, lm_rest = r\<rparr>"
| step: "lm_reach X M \<Longrightarrow> lm_reach X (lm_step X ev M)"

lemma find_on_ability_exit:
  "lm_ok X M \<Longrightarrow> find_entry X (on_ability_exit X i M) = (find_entry X M)(i := None)"
  by (auto simp: on_ability_exit_def try_inform_parent_ability_def Let_def lm_ok_def sharded.lookup_del
      split: sum.splits option.splits)

lemma lm_ok_step: "lm_ok X M \<Longrightarrow> lm_ok X (lm_step X ev M)"
proof (cases ev)
  case (EvHeartbeat now hb)
  then show "lm_ok X M \<Longrightarrow> ?thesis" using lm_ok_on_heartbeat by simp
next
  case (EvExit i)
  then show "lm_ok X M \<Longrightarrow> ?thesis"
    by (auto simp: on_ability_exit_def try_inform_parent_ability_def Let_def lm_ok_def sharded.ok_del
        split: sum.splits option.splits)
next
  case (EvClear now)
  then show "lm_ok X M \<Longrightarrow> ?thesis"
    using sharded.fold_del by (auto simp: clear_stale_heartbeats_def Let_def lm_ok_def)
qed (simp add: lm_ok_def)

lemma find_clear_stale_Some:
  assumes "lm_ok X M" "find_entry X (clear_stale_heartbeats X now M) i = Some e"
  shows "find_entry X M i = Some e"
proof -
  have ok: "sm_ok HEARTBEAT_SHARD_COUNT (le_hash X) (lm_heartbeats M)" using assms(1) by (simp add: lm_ok_def)
  show ?thesis
    using assms(2) sharded.fold_del [OF ok] by (auto simp: clear_stale_heartbeats_def Let_def split: if_splits)
qed

lemma clients_current_step:
  assumes "url_parser_ok (le_parse_url X)" "lm_ok X M" "clients_current X M"
  shows "clients_current X (lm_step X ev M)"
proof (cases ev)
  case (EvHeartbeat now hb)
  obtain b M' where h: "on_heartbeat X now hb M = (b, M')" by fastforce
  have "ac_port c = uint (hb_IPCPort hb)"
    if "en_client (update_entry X now hb (case find_entry X M (hb_id hb) of None \<Rightarrow> default_entry | Some e \<Rightarrow> e)) = Some c" for c
    by (rule update_entry_client [OF assms(1) that])
      (use assms(3) in \<open>auto simp: clients_current_def default_entry_def split: option.splits\<close>)
  then show ?thesis
    using find_on_heartbeat [OF assms(2) h] assms(3) h EvHeartbeat
    by (auto simp: clients_current_def split: if_splits)
next
  case (EvExit i)
  then show ?thesis using assms find_on_ability_exit [OF assms(2)] by (auto simp: clients_current_def split: if_splits)
next
  case (EvClear now)
  then show ?thesis
    using assms(3) find_clear_stale_Some [OF assms(2)] unfolding clients_current_def by (metis lm_step.simps(3))
qed (use assms(3) in \<open>simp add: clients_current_def\<close>)

lemma lm_reach_inv:
  assumes "url_parser_ok (le_parse_url X)"
  shows "lm_reach X M \<Longrightarrow> lm_ok X M \<and> clients_current X M"
proof (induction rule: lm_reach.induct)
  case (init r)
  then show ?case
    by (auto simp: lm_ok_start clients_current_def sharded.lookup_empty)
next
  case (step M ev)
  then show ?case using lm_ok_step clients_current_step [OF assms] by blast
qed

text \<open>In every reachable state of the lifecycle manager, the client through which the commands of an
  ability are sent is connected to the port that its last accepted heartbeat announced.\<close>
theorem client_port_is_current:
  assumes "url_parser_ok (le_parse_url X)" "lm_reach X M"
    and "find_entry X M i = Some e" "en_client e = Some c"
  shows "ac_port c = uint (hb_IPCPort (en_heartbeat e))"
  using lm_reach_inv [OF assms(1,2)] assms(3,4) by (auto simp: clients_current_def)

subsection \<open>Starting an ability\<close>

lemma wait_for_heartbeat_shape:
  "task_wait_for_heartbeat X E tid i = WaitOnceTask (fresh_base tid ''wait-task-state'')
     (\<lambda>M. (Inr (sm_contains (le_hash X) (lm_heartbeats M) i), M))
     (Some (\<lambda>M. (Inr (wait_timeout_text X i), M))) (te_steady_now E + WAIT_TIMEOUT)"
  by (simp add: task_wait_for_heartbeat_def tasks_wait_once_def)

text \<open>The task of an accepted start request, driven among arbitrary changes of the rest of the program,
  starts the process once; if that fails the task ends in error, otherwise it finishes at the first round at which a
  heartbeat of the instance is known, and ends in error at the first round after fifteen seconds without one. A start
  of an instance that is already active is refused before anything is sent.\<close>
theorem start_request_outcome:
  assumes "lr_command req = ''start''" "on_lifecycle_request X E ids req M = Inr (Inr t)"
  shows "\<not> contains_active X M (lr_abilityInstanceId req)
    \<and> (\<exists>args t'. drive_among rs t M' = Some (t', snd (act_then_poll (start_process_action X args)
            (te_steady_now E + 15000) (\<lambda>N. find_entry X N (lr_abilityInstanceId req) \<noteq> None) rs M'))
          \<and> task_state_of t' = fst (act_then_poll (start_process_action X args)
            (te_steady_now E + 15000) (\<lambda>N. find_entry X N (lr_abilityInstanceId req) \<noteq> None) rs M'))"
proof -
  let ?i = "lr_abilityInstanceId req"
  have "make_start_ability_request X E ids req M = Inr (Inr t)"
    using assms
    by (cases "make_start_ability_request X E ids req M") (auto simp: on_lifecycle_request_def split: sum.splits)
  then have na: "\<not> contains_active X M ?i" and "\<exists>args. t = tasks_sequence (snd (snd ids)) ''lifecycle-adjust''
      [tasks_atomic (fst ids) ''start-process'' (start_process_action X args), task_wait_for_heartbeat X E (fst (snd ids)) ?i]"
    by (auto simp: make_start_ability_request_def Let_def result_simps split: sum.splits if_splits)
  then obtain args where t: "t = tasks_sequence (snd (snd ids)) ''lifecycle-adjust''
      [tasks_atomic (fst ids) ''start-process'' (start_process_action X args), task_wait_for_heartbeat X E (fst (snd ids)) ?i]"
    by blast
  have "(\<lambda>N. sm_contains (le_hash X) (lm_heartbeats N) ?i) = (\<lambda>N. find_entry X N ?i \<noteq> None)"
    by (simp add: sm_contains_def)
  then show ?thesis
    using na drive_act_then_wait [OF refl refl, of rs "snd (snd ids)" "''lifecycle-adjust''" "fst ids" "''start-process''"
        "start_process_action X args" "fst (snd ids)" "''wait-task-state''"
        "\<lambda>N. sm_contains (le_hash X) (lm_heartbeats N) ?i" "wait_timeout_text X ?i" "te_steady_now E + WAIT_TIMEOUT" M']
    by (auto simp: t wait_for_heartbeat_shape WAIT_TIMEOUT_def)
qed

subsection \<open>A concrete surrounding\<close>

text \<open>A ResourceMgr that accepts every heartbeat and counts the started processes.\<close>

definition split_url :: url_parser where
  "split_url u =
     (if starts_with u ''http://localhost:''
      then Some (''http:'', ''localhost'', if drop 17 u = dec 80 then [] else drop 17 u)
      else if starts_with u ''coap://localhost:'' then Some (''coap:'', ''localhost'', drop 17 u)
      else None)"

lemma split_url_ok: "url_parser_ok split_url"
proof -
  have "unat p = 80 \<longleftrightarrow> p = 80" for p :: port
    by (simp add: word_unat_eq_iff)
  then show ?thesis
    by (simp add: url_parser_ok_def split_url_def starts_with_def)
qed

definition sample_heartbeat :: heartbeat where
  "sample_heartbeat = \<lparr>hb_abilityName = ''nav'', hb_version = ''1.0.0'', hb_instanceName = ''nav-1'', hb_id = 7,
     hb_state = LsStandby, hb_IPCProtocol = Http, hb_IPCPort = 9001, hb_abilityPort = 9002\<rparr>"

definition sample_ext :: "nat lext" where
  "sample_ext = \<lparr>
     le_lib = decimal_lib\<lparr>parse := (\<lambda>s. if s = ''yes'' then Inr (jobject [(''accepted'', JBool True)])
                                  else Inr (heartbeat_to_json decimal_lib sample_heartbeat))\<rparr>,
     le_hash = unat, le_parse_url = split_url,
     le_heartbeat_event = (\<lambda>hb r. (Inr (True, ''yes''), r)),
     le_find_instance = (\<lambda>i r. Inr ()),
     le_find_storage = (\<lambda>i r. Inr \<lparr>si_package_path = ''/p'', si_executable_path = ''/p/run'', si_controller_path = []\<rparr>),
     le_find_parent = (\<lambda>i r. Inl ''none''), le_subability_error = (\<lambda>p j r. r), le_instance_exited = (\<lambda>i r. r),
     le_start_process = (\<lambda>po r. (Inr (True, []), r + 1)), le_post_command = (\<lambda>c cmd r. (Inr (), r)),
     le_framework_address = JObj [], le_instance_dir = (\<lambda>i. Inr ''/d''), le_assets_exist = (\<lambda>p. False)\<rparr>"

definition sample_lmgr :: "nat lmgr" where
  "sample_lmgr = \<lparr>lm_heartbeats = sm_empty HEARTBEAT_SHARD_COUNT, lm_rest = 0\<rparr>"

lemma sample_reach: "lm_reach sample_ext sample_lmgr"
  unfolding sample_lmgr_def by (rule lm_reach.init)

lemma sample_accepts [simp]: "heartbeat_accepted sample_ext hb r = (True, r)"
  by (simp add: heartbeat_accepted_def sample_ext_def jobject_def)

lemma sample_lib_ok [simp]: "uuid_text_ok (le_lib sample_ext)"
  using decimal_lib_ok by (simp add: uuid_text_ok_def sample_ext_def decimal_lib_def)


lemma clear_stale_exact_witness:
  "find_entry sample_ext (clear_stale_heartbeats sample_ext 90000 (snd (on_heartbeat sample_ext 5 sample_heartbeat sample_lmgr))) 7
     = None"
proof -
  let ?M = "snd (on_heartbeat sample_ext 5 sample_heartbeat sample_lmgr)"
  have ok: "lm_ok sample_ext sample_lmgr" by (simp add: sample_lmgr_def lm_ok_start)
  then have "lm_ok sample_ext ?M" by (rule lm_ok_on_heartbeat)
  moreover have "on_heartbeat sample_ext 5 sample_heartbeat sample_lmgr = (True, ?M)"
    by (simp add: on_heartbeat_def)
  from find_on_heartbeat [OF ok this] have "\<exists>e. find_entry sample_ext ?M 7 = Some e \<and> en_last_update e = 5"
    by (simp add: sample_heartbeat_def)
  ultimately show ?thesis
    using clear_stale_exact [of sample_ext ?M 90000 7] by (auto simp: MAX_HEARTBEAT_VALID_TIME_def)
qed

lemma client_port_is_current_witness:
  "\<exists>e c. find_entry sample_ext (lm_step sample_ext (EvHeartbeat 5 sample_heartbeat) sample_lmgr) 7 = Some e
     \<and> en_client e = Some c \<and> ac_port c = 9001"
proof -
  let ?M = "lm_step sample_ext (EvHeartbeat 5 sample_heartbeat) sample_lmgr"
  have url: "url_parser_ok (le_parse_url sample_ext)" by (simp add: sample_ext_def split_url_ok)
  have ok: "lm_ok sample_ext sample_lmgr" by (simp add: sample_lmgr_def lm_ok_start)
  have "on_heartbeat sample_ext 5 sample_heartbeat sample_lmgr = (True, ?M)"
    by (simp add: on_heartbeat_def)
  from find_on_heartbeat [OF ok this]
  have f: "find_entry sample_ext ?M 7 = Some (update_entry sample_ext 5 sample_heartbeat default_entry)"
    by (simp add: sample_heartbeat_def sample_lmgr_def sharded.lookup_empty)
  have "\<exists>c. en_client (update_entry sample_ext 5 sample_heartbeat default_entry) = Some c"
    using make_client_port [OF url] by (auto simp: update_entry_def default_entry_def sample_heartbeat_def)
  then obtain c where c: "en_client (update_entry sample_ext 5 sample_heartbeat default_entry) = Some c" ..
  have "lm_reach sample_ext ?M" by (rule lm_reach.step [OF sample_reach])
  from client_port_is_current [OF url this f c] have "ac_port c = 9001" by (simp add: sample_heartbeat_def)
  then show ?thesis using f c by blast
qed

definition sample_env :: task_env where "sample_env = env_at 1000"

lemma start_request_outcome_witness:
  "\<exists>t. on_lifecycle_request sample_ext sample_env (1, 2, 3) \<lparr>lr_abilityInstanceId = 7, lr_command = ''start''\<rparr> sample_lmgr = Inr (Inr t)
     \<and> (\<exists>t'. drive_among [(env_at 1001, \<lambda>M. M), (env_at 1002, \<lambda>M. M), (env_at 17000, \<lambda>M. M)] t sample_lmgr
            = Some (t', sample_lmgr\<lparr>lm_rest := 1\<rparr>) \<and> task_state_of t' = Errored)"
proof -
  let ?req = "\<lparr>lr_abilityInstanceId = 7, lr_command = ''start''\<rparr>"
  let ?rs = "[(env_at 1001, \<lambda>M. M), (env_at 1002, \<lambda>M. M), (env_at 17000, \<lambda>M. M)]"
  have none: "find_entry sample_ext (sample_lmgr\<lparr>lm_rest := r\<rparr>) 7 = None" for r
    by (simp add: sample_lmgr_def sharded.lookup_empty)
  have na: "\<not> contains_active sample_ext sample_lmgr 7"
    by (simp add: contains_active_def sample_lmgr_def sharded.lookup_empty)
  then obtain t where t: "on_lifecycle_request sample_ext sample_env (1, 2, 3) ?req sample_lmgr = Inr (Inr t)"
    by (simp add: on_lifecycle_request_def make_start_ability_request_def sample_ext_def gather_process_args_def)
  have act: "start_process_action sample_ext args sample_lmgr = (Inr (), sample_lmgr\<lparr>lm_rest := 1\<rparr>)" for args
    by (simp add: start_process_action_def sample_ext_def sample_lmgr_def)
  have "act_then_poll (start_process_action sample_ext args) (te_steady_now sample_env + 15000)
      (\<lambda>N. find_entry sample_ext N 7 \<noteq> None) ?rs sample_lmgr = (Errored, sample_lmgr\<lparr>lm_rest := 1\<rparr>)" for args
    using act none [of 1] by (simp add: sample_env_def env_at_def)
  with start_request_outcome [OF _ t, of ?rs sample_lmgr] t show ?thesis by auto
qed

end
