(* ===== verification/Semver.thy ===== *)
theory Semver
  imports Prelude "HOL-Library.Product_Lexorder"
begin

section \<open>Versions\<close>

text \<open>
  \<open>include/util/semver.hpp\<close>: the versions of packages and definitions, their text and their order. The
  numbers are 16-bit. \<open>from_chars\<close> consumes a prefix of its input, here a function from the input to the
  value and the rest; a number longer than the code's 32-bit accumulator holds is not considered.
\<close>

(* include/util/semver.hpp:86-86 prerelease *)
datatype prerelease = Alpha | Beta | Rc | NoPre

(* include/util/semver.hpp:253-287 version *)
datatype version = Version
  (ver_major: "16 word") (ver_minor: "16 word") (ver_patch: "16 word")
  (ver_pre: prerelease) (ver_num: "16 word option")

fun pre_code :: "prerelease \<Rightarrow> nat" where
  "pre_code Alpha = 0"
| "pre_code Beta = 1"
| "pre_code Rc = 2"
| "pre_code NoPre = 3"

(* include/util/semver.hpp:260-270 version::version *)
definition make_version :: "16 word \<Rightarrow> 16 word \<Rightarrow> 16 word \<Rightarrow> prerelease \<Rightarrow> 16 word option \<Rightarrow> version" where
  "make_version mj mn pt p n = Version mj mn pt p (if p = NoPre then None else n)"

text \<open>What the constructors establish.\<close>

definition version_ok :: "version \<Rightarrow> bool" where
  "version_ok v = (ver_pre v = NoPre \<longrightarrow> ver_num v = None)"

subsection \<open>Text\<close>

fun pre_text :: "prerelease \<Rightarrow> string" where
  "pre_text Alpha = ''alpha''"
| "pre_text Beta = ''beta''"
| "pre_text Rc = ''rc''"
| "pre_text NoPre = []"

(* include/util/semver.hpp:349-383 version::to_chars, version::to_string *)
definition version_to_string :: "version \<Rightarrow> string" where
  "version_to_string v =
     dec (unat (ver_major v)) @ ''.'' @ dec (unat (ver_minor v)) @ ''.'' @ dec (unat (ver_patch v))
     @ (if ver_pre v = NoPre then []
        else ''-'' @ pre_text (ver_pre v) @ (case ver_num v of None \<Rightarrow> [] | Some n \<Rightarrow> ''.'' @ dec (unat n)))"

(* include/util/semver.hpp:191-204 detail::from_chars(uint16_t) *)
definition num_from_chars :: "string \<Rightarrow> (16 word \<times> string) option" where
  "num_from_chars s =
     (let ds = takeWhile is_digit s in
      if ds = [] then None
      else if undec ds \<le> 65535 then Some (word_of_nat (undec ds), dropWhile is_digit s) else None)"

text \<open>The bound is compared as an integer when a version is evaluated: \<^typ>\<open>nat\<close> is unary there.\<close>

lemma num_from_chars_code [code]:
  "num_from_chars s =
     (let ds = takeWhile is_digit s in
      if ds = [] then None
      else let n = undec ds in if int n \<le> 65535 then Some (word_of_int (int n), dropWhile is_digit s) else None)"
  by (simp add: num_from_chars_def Let_def)

text \<open>Comparison without case of the input with a name, up to the shorter of the two.\<close>

(* include/util/semver.hpp:156-162 detail::equals *)
fun pre_equals :: "string \<Rightarrow> string \<Rightarrow> bool" where
  "pre_equals [] str = True"
| "pre_equals s [] = True"
| "pre_equals (c # s) (d # str) = (lower_char c = lower_char d \<and> pre_equals s str)"

text \<open>An input that ends within a name makes the code step over its end; the model rejects it.\<close>

definition skip_name :: "string \<Rightarrow> prerelease \<Rightarrow> (prerelease \<times> string) option" where
  "skip_name s p = (if length (pre_text p) \<le> length s then Some (p, drop (length (pre_text p)) s) else None)"

(* include/util/semver.hpp:223-240 detail::from_chars(prerelease) *)
definition pre_from_chars :: "string \<Rightarrow> (prerelease \<times> string) option" where
  "pre_from_chars s0 =
     (let s = (if s0 \<noteq> [] \<and> hd s0 = CHR ''-'' then tl s0 else s0) in
      if pre_equals s ''alpha'' then skip_name s Alpha
      else if pre_equals s ''beta'' then skip_name s Beta
      else if pre_equals s ''rc'' then skip_name s Rc
      else None)"

(* include/util/semver.hpp:242-244 detail::check_delimiter *)
definition check_delimiter :: "string \<Rightarrow> char \<Rightarrow> bool" where
  "check_delimiter s d = (s \<noteq> [] \<and> hd s = d)"

(* include/util/semver.hpp:313-347 version::from_chars *)
definition version_from_string :: "string \<Rightarrow> version option" where
  "version_from_string s =
     (if length s < 5 then None
      else
        (case num_from_chars s of
           None \<Rightarrow> None
         | Some (mj, s1) \<Rightarrow>
             if \<not> check_delimiter s1 CHR ''.'' then None
             else
               (case num_from_chars (tl s1) of
                  None \<Rightarrow> None
                | Some (mn, s2) \<Rightarrow>
                    if \<not> check_delimiter s2 CHR ''.'' then None
                    else
                      (case num_from_chars (tl s2) of
                         None \<Rightarrow> None
                       | Some (pt, s3) \<Rightarrow>
                           if s3 = [] then Some (Version mj mn pt NoPre None)
                           else if check_delimiter s3 CHR ''-'' then
                             (case pre_from_chars s3 of
                                None \<Rightarrow> None
                              | Some (p, s4) \<Rightarrow>
                                  if s4 = [] then Some (Version mj mn pt p None)
                                  else if check_delimiter s4 CHR ''.'' then
                                    (case num_from_chars (tl s4) of
                                       None \<Rightarrow> None
                                     | Some (n, s5) \<Rightarrow> if s5 = [] then Some (Version mj mn pt p (Some n)) else None)
                                  else None)
                           else None))))"

(* include/util/semver.hpp:289-292 version(string_view), from_string *)
definition version_of :: "string \<Rightarrow> exn + version" where
  "version_of s =
     (case version_from_string s of
        None \<Rightarrow> Inl (InvalidArgument ''semver::version::from_string invalid version.'')
      | Some v \<Rightarrow> Inr v)"

subsection \<open>Round trip\<close>

lemma dec_takeWhile:
  "(s = [] \<or> \<not> is_digit (hd s)) \<Longrightarrow> takeWhile is_digit (dec n @ s) = dec n \<and> dropWhile is_digit (dec n @ s) = s"
proof -
  assume s: "s = [] \<or> \<not> is_digit (hd s)"
  have all: "\<forall>c\<in>set (dec n). is_digit c" using dec_digits by blast
  have "takeWhile is_digit s = []" "dropWhile is_digit s = s" using s by (cases s; simp)+
  then show ?thesis using all by (simp add: takeWhile_append2 dropWhile_append2)
qed

lemma num_from_chars_dec:
  "(s = [] \<or> \<not> is_digit (hd s)) \<Longrightarrow> num_from_chars (dec (unat (n :: 16 word)) @ s) = Some (n, s)"
proof -
  assume s: "s = [] \<or> \<not> is_digit (hd s)"
  have "unat n < 2 ^ 16" using unsigned_less [of n] by simp
  then have "unat n \<le> 65535" by simp
  then show ?thesis using dec_takeWhile [OF s, of "unat n"] by (simp add: num_from_chars_def Let_def)
qed

lemma not_digit_delims [simp]: "\<not> is_digit CHR ''.''" "\<not> is_digit CHR ''-''"
  by (simp_all add: is_digit_def)

lemma pre_equals_Nil [simp]: "pre_equals s []"
  by (cases s) simp_all

lemma pre_from_chars_text:
  "p \<noteq> NoPre \<Longrightarrow> pre_from_chars (CHR ''-'' # pre_text p @ s) = Some (p, s)"
  by (cases p) (simp_all add: pre_from_chars_def Let_def skip_name_def lower_char_def char_of_def)

lemma dec_length_pos: "1 \<le> length (dec n)"
  by (metis One_nat_def Suc_leI dec_nonempty length_greater_0_conv)

lemma num_from_chars_dec_end: "num_from_chars (dec (unat (n :: 16 word))) = Some (n, [])"
  using num_from_chars_dec [of "[]" n] by simp

lemma version_text:
  assumes "version_ok v"
  shows "version_from_string (version_to_string v) = Some v"
proof -
  have "5 \<le> length (version_to_string v)"
    using dec_length_pos [of "unat (ver_major v)"] dec_length_pos [of "unat (ver_minor v)"]
      dec_length_pos [of "unat (ver_patch v)"] by (simp add: version_to_string_def)
  then show ?thesis
    using assms
    by (cases v; cases "ver_pre v = NoPre"; cases "ver_num v")
      (simp_all add: version_from_string_def version_to_string_def num_from_chars_dec num_from_chars_dec_end
        check_delimiter_def pre_from_chars_text version_ok_def pre_from_chars_text [where s = "[]", simplified])
qed

text \<open>The text of every version that the constructors can build is parsed back to the same version.\<close>
theorem version_roundtrip:
  assumes "version_ok v"
  shows "version_of (version_to_string v) = Inr v"
  using version_text [OF assms] by (simp add: version_of_def)

lemma version_roundtrip_witness:
  "version_of (version_to_string (Version 1 20 3 Rc (Some 4))) = Inr (Version 1 20 3 Rc (Some 4))"
  by (rule version_roundtrip) (simp add: version_ok_def)

subsection \<open>Order\<close>

(* include/util/semver.hpp:401-422 version::compare *)
definition compare :: "version \<Rightarrow> version \<Rightarrow> int" where
  "compare v w =
     (if ver_major v \<noteq> ver_major w then uint (ver_major v) - uint (ver_major w)
      else if ver_minor v \<noteq> ver_minor w then uint (ver_minor v) - uint (ver_minor w)
      else if ver_patch v \<noteq> ver_patch w then uint (ver_patch v) - uint (ver_patch w)
      else if ver_pre v \<noteq> ver_pre w then int (pre_code (ver_pre v)) - int (pre_code (ver_pre w))
      else (case ver_num v of
              Some n \<Rightarrow> (case ver_num w of Some m \<Rightarrow> uint n - uint m | None \<Rightarrow> 1)
            | None \<Rightarrow> (case ver_num w of Some m \<Rightarrow> - 1 | None \<Rightarrow> 0)))"

definition version_key :: "version \<Rightarrow> int \<times> int \<times> int \<times> nat \<times> int" where
  "version_key v = (uint (ver_major v), uint (ver_minor v), uint (ver_patch v), pre_code (ver_pre v),
     case ver_num v of None \<Rightarrow> - 1 | Some n \<Rightarrow> uint n)"

lemma pre_code_inj [simp]: "pre_code p = pre_code q \<longleftrightarrow> p = q"
  by (cases p; cases q) auto

lemma uint_not_neg [simp]: "uint (n :: 16 word) \<noteq> - 1" "- 1 \<noteq> uint n" "- 1 < uint n" "\<not> uint n < - 1"
  using uint_ge_0 [of n] by linarith+

lemma version_key_inj: "version_key v = version_key w \<longleftrightarrow> v = w"
  by (cases v; cases w) (auto simp: version_key_def word_uint_eq_iff split: option.splits)

lemma pre_code_less: "pre_code p \<le> pre_code q \<Longrightarrow> p \<noteq> q \<Longrightarrow> pre_code p < pre_code q"
  by (simp add: le_neq_implies_less)

lemma compare_key: "compare v w < 0 \<longleftrightarrow> version_key v < version_key w"
  by (auto simp: compare_def version_key_def word_uint_eq_iff pre_code_less split: option.splits)

lemma compare_eq_0: "compare v w = 0 \<longleftrightarrow> v = w"
  by (cases v; cases w) (auto simp: compare_def word_uint_eq_iff split: option.splits)

lemma compare_swap: "compare v w = - compare w v"
  by (auto simp: compare_def split: option.splits)

instantiation version :: linorder
begin

definition less_version :: "version \<Rightarrow> version \<Rightarrow> bool" where
  "less_version v w = (compare v w < 0)"

definition less_eq_version :: "version \<Rightarrow> version \<Rightarrow> bool" where
  "less_eq_version v w = (compare v w \<le> 0)"

instance
proof
  fix u v w :: version
  have le: "x \<le> y \<longleftrightarrow> version_key x \<le> version_key y" for x y
    using compare_key [of x y] compare_eq_0 [of x y] version_key_inj [of x y]
    by (auto simp: less_eq_version_def le_less)
  show "v < w \<longleftrightarrow> v \<le> w \<and> \<not> w \<le> v"
    using compare_swap [of v w] by (auto simp: less_version_def less_eq_version_def)
  show "v \<le> v" by (simp add: le)
  show "u \<le> v \<Longrightarrow> v \<le> w \<Longrightarrow> u \<le> w" by (simp add: le)
  show "v \<le> w \<Longrightarrow> w \<le> v \<Longrightarrow> v = w" by (metis le antisym version_key_inj)
  show "v \<le> w \<or> w \<le> v" by (simp add: le linear)
qed

end

end
