(* ===== verification/AbilityCR.thy ===== *)
theory AbilityCR
  imports Heartbeat Semver
begin

section \<open>Ability resources\<close>

text \<open>
  \<open>include/resourcemgr/ability_cr.hpp\<close>, \<open>src/resourcemgr/ability_cr.cpp\<close> and \<open>cr_crd_common.hpp\<close>: the resource
  that describes an ability, its specification with nested sub-abilities, and the conversions of both from and to
  JSON. A reader starts from a default-initialised object, so a missing optional field keeps the default.
\<close>

subsection \<open>Enumerations\<close>

(* include/resourcemgr/cr_crd_common.hpp:18-24 BindMode *)
datatype bind_mode = BindLocal | BindAny | BindRemote

(* include/resourcemgr/cr_crd_common.hpp:26-31 OwnershipMode *)
datatype ownership_mode = Unique | Shared

fun show_bind :: "bind_mode \<Rightarrow> string" where
  "show_bind BindLocal = ''local''"
| "show_bind BindAny = ''any''"
| "show_bind BindRemote = ''remote''"

fun show_ownership :: "ownership_mode \<Rightarrow> string" where
  "show_ownership Unique = ''unique''"
| "show_ownership Shared = ''shared''"

text \<open>The JSON enumerations fall back to their first entry.\<close>

(* include/resourcemgr/cr_crd_common.hpp:22-22 NLOHMANN_JSON_SERIALIZE_ENUM(BindMode) *)
definition bind_from_json :: "json \<Rightarrow> exn + bind_mode" where
  "bind_from_json j =
     Inr (if j = JStr ''any'' then BindAny else if j = JStr ''remote'' then BindRemote else BindLocal)"

(* include/resourcemgr/cr_crd_common.hpp:29-29 NLOHMANN_JSON_SERIALIZE_ENUM(OwnershipMode) *)
definition ownership_from_json :: "json \<Rightarrow> exn + ownership_mode" where
  "ownership_from_json j = Inr (if j = JStr ''shared'' then Shared else Unique)"

lemma bind_roundtrip [json_simps, simp]: "bind_from_json (JStr (show_bind b)) = Inr b"
  by (cases b) (simp_all add: bind_from_json_def)

lemma ownership_roundtrip [json_simps, simp]: "ownership_from_json (JStr (show_ownership b)) = Inr b"
  by (cases b) (simp_all add: ownership_from_json_def)

subsection \<open>Metadata\<close>

text \<open>The labels and annotations are hash maps; their model keeps one entry per key, in key order.\<close>

(* include/resourcemgr/ability_cr.hpp:85-91 AbilityCR::Metadata *)
record metadata =
  md_name :: string
  md_labels :: "(string, string) omap"
  md_annotations :: "(string, string) omap"

definition empty_metadata :: metadata where
  "empty_metadata = \<lparr>md_name = [], md_labels = [], md_annotations = []\<rparr>"

(* src/resourcemgr/ability_cr.cpp:20-24 from_json(AbilityCR::Metadata) *)
definition metadata_from_json :: "json \<Rightarrow> exn + metadata" where
  "metadata_from_json j =
     rbind (read_required ''name'' get_string j) (\<lambda>n.
     rbind (read_optional ''labels'' get_string_map [] j) (\<lambda>l.
     rbind (read_optional ''annotations'' get_string_map [] j) (\<lambda>a.
       Inr \<lparr>md_name = n, md_labels = l, md_annotations = a\<rparr>)))"

(* src/resourcemgr/ability_cr.cpp:26-30 to_json(AbilityCR::Metadata) *)
definition metadata_to_json :: "metadata \<Rightarrow> json" where
  "metadata_to_json m =
     jput_if (md_annotations m \<noteq> []) ''annotations'' (put_string_map (md_annotations m))
      (jput_if (md_labels m \<noteq> []) ''labels'' (put_string_map (md_labels m))
       (jput ''name'' (JStr (md_name m)) JNull))"

lemma metadata_roundtrip [json_simps, simp]: "metadata_from_json (metadata_to_json m) = Inr m"
  by (cases m)
    (simp add: metadata_from_json_def metadata_to_json_def read_optional_def json_simps del: jput.simps)

subsection \<open>Device and model entries of a specification\<close>

(* include/resourcemgr/ability_cr.hpp:56-64 AbilitySpec::DeviceEntry *)
record spec_device =
  sd_deviceName :: string
  sd_instanceName :: string
  sd_ownership :: ownership_mode
  sd_bind :: bind_mode

(* src/resourcemgr/ability_cr.cpp:217-222 from_json(AbilitySpec::DeviceEntry) *)
definition spec_device_from_json :: "json \<Rightarrow> exn + spec_device" where
  "spec_device_from_json j =
     rbind (read_required ''deviceName'' get_string j) (\<lambda>d.
     rbind (read_required ''instanceName'' get_string j) (\<lambda>i.
     rbind (read_optional ''ownership'' ownership_from_json Unique j) (\<lambda>ow.
     rbind (read_optional ''bind'' bind_from_json BindLocal j) (\<lambda>b.
       Inr \<lparr>sd_deviceName = d, sd_instanceName = i, sd_ownership = ow, sd_bind = b\<rparr>))))"

(* src/resourcemgr/ability_cr.cpp:223-228 to_json(AbilitySpec::DeviceEntry) *)
definition spec_device_to_json :: "spec_device \<Rightarrow> json" where
  "spec_device_to_json x =
     jput ''bind'' (JStr (show_bind (sd_bind x)))
      (jput ''ownership'' (JStr (show_ownership (sd_ownership x)))
       (jput ''instanceName'' (JStr (sd_instanceName x))
        (jput ''deviceName'' (JStr (sd_deviceName x)) JNull)))"

lemma spec_device_roundtrip [json_simps, simp]: "spec_device_from_json (spec_device_to_json x) = Inr x"
  by (cases x)
    (simp add: spec_device_from_json_def spec_device_to_json_def read_optional_def json_simps
      del: jput.simps)

text \<open>A model is named by its id, kept as text; a number is accepted and printed in decimal.\<close>

(* src/resourcemgr/ability_cr.cpp:230-234 read_as_string *)
definition read_as_string :: "text_lib \<Rightarrow> json \<Rightarrow> exn + string" where
  "read_as_string L j =
     (case j of JStr s \<Rightarrow> Inr s
      | JNum n \<Rightarrow> Inr (dec_int n)
      | _ \<Rightarrow> Inl (RuntimeError (''need model id be either number or string, but get: '' @ dump L j)))"

(* src/resourcemgr/ability_cr.cpp:236-238 from_json(AbilitySpec::ModelEntry) *)
definition spec_model_from_json :: "text_lib \<Rightarrow> json \<Rightarrow> exn + string" where
  "spec_model_from_json L j = rbind (jat ''id'' j) (read_as_string L)"

(* src/resourcemgr/ability_cr.cpp:239-241 to_json(AbilitySpec::ModelEntry) *)
definition spec_model_to_json :: "string \<Rightarrow> json" where
  "spec_model_to_json i = jput ''id'' (JStr i) JNull"

lemma spec_model_roundtrip [json_simps, simp]: "spec_model_from_json L (spec_model_to_json i) = Inr i"
  by (simp add: spec_model_from_json_def spec_model_to_json_def read_as_string_def)

subsection \<open>Specifications\<close>

(* include/resourcemgr/ability_cr.hpp:30-53 AbilitySpec (own fields) *)
record spec_fields =
  sf_id :: "uuid option"
  sf_status :: "json option"
  sf_package :: string
  sf_version :: version
  sf_abilityName :: string
  sf_position :: string
  sf_priority :: "int option"
  sf_activityCondition :: json
  sf_autoStart :: "bool option"
  sf_keepAlive :: "bool option"
  sf_singleton :: "bool option"
  sf_config :: json
  sf_debugOption :: json
  sf_devices :: "spec_device list"
  sf_models :: "string list"

(* include/resourcemgr/ability_cr.hpp:54-55 AbilitySpec::subabilities *)
datatype ability_spec = AbilitySpec (spec_own: spec_fields) (spec_subs: "ability_spec list")

(* src/resourcemgr/ability_cr.cpp:51-69 from_json(AbilitySpec), up to the models *)
definition spec_fields_from_json :: "text_lib \<Rightarrow> json \<Rightarrow> exn + spec_fields" where
  "spec_fields_from_json L j =
     rbind (read_optional ''id'' (get_some (uuid_from_json L)) None j) (\<lambda>i.
     rbind (read_optional ''status'' (get_some Inr) None j) (\<lambda>st.
     rbind (read_required ''package'' get_string j) (\<lambda>pk.
     rbind (read_required ''version'' (\<lambda>v. rbind (get_string v) version_of) j) (\<lambda>v.
     rbind (read_required ''abilityName'' get_string j) (\<lambda>an.
     rbind (read_optional ''position'' get_string ''localhost'' j) (\<lambda>pos.
     rbind (read_optional ''config'' Inr JNull j) (\<lambda>cfg.
     rbind (read_optional ''debugOption'' Inr JNull j) (\<lambda>dbg.
     rbind (read_optional_unless_empty ''activityCondition'' Inr JNull j) (\<lambda>act.
     rbind (read_optional ''priority'' (get_some get_int) None j) (\<lambda>pr.
     rbind (read_optional_unless_empty ''devices'' (get_array spec_device_from_json) [] j) (\<lambda>dv.
     rbind (read_optional_unless_empty ''models'' (get_array (spec_model_from_json L)) [] j) (\<lambda>ml.
       Inr \<lparr>sf_id = i, sf_status = st, sf_package = pk, sf_version = v, sf_abilityName = an, sf_position = pos,
            sf_priority = pr, sf_activityCondition = act, sf_autoStart = None, sf_keepAlive = None,
            sf_singleton = None, sf_config = cfg, sf_debugOption = dbg, sf_devices = dv, sf_models = ml\<rparr>))))))))))))"

(* src/resourcemgr/ability_cr.cpp:80-83 from_json(AbilitySpec), the flags *)
definition spec_flags_from_json :: "json \<Rightarrow> spec_fields \<Rightarrow> exn + spec_fields" where
  "spec_flags_from_json j x =
     rbind (read_optional ''autoStart'' (get_some get_bool) (sf_autoStart x) j) (\<lambda>a.
     rbind (read_optional ''keepAlive'' (get_some get_bool) (sf_keepAlive x) j) (\<lambda>k.
     rbind (read_optional ''singleton'' (get_some get_bool) (sf_singleton x) j) (\<lambda>s.
       Inr (x\<lparr>sf_autoStart := a, sf_keepAlive := k, sf_singleton := s\<rparr>))))"

text \<open>Sub-abilities are specifications too; a range-for over the field visits documents inside it.\<close>

(* src/resourcemgr/ability_cr.cpp:50-83 from_json(AbilitySpec) *)
function spec_from_json :: "text_lib \<Rightarrow> json \<Rightarrow> exn + ability_spec" where
  "spec_from_json L j =
     rbind (spec_fields_from_json L j) (\<lambda>x.
     rbind (case jfind ''subabilities'' j of
              None \<Rightarrow> Inr []
            | Some v \<Rightarrow> if jempty v then Inr [] else mapM_r (spec_from_json L) (jelems v)) (\<lambda>subs.
     rbind (spec_flags_from_json j x) (\<lambda>x'.
       Inr (AbilitySpec x' subs))))"
  by pat_completeness auto
termination
  by (relation "measure (\<lambda>(L, j). size j)") (auto dest!: jfind_size jelems_size)

declare spec_from_json.simps [simp del]

(* src/resourcemgr/ability_cr.cpp:86-102 to_json(AbilitySpec), up to the models *)
definition spec_fields_to_json :: "text_lib \<Rightarrow> spec_fields \<Rightarrow> json" where
  "spec_fields_to_json L x =
     jput_if (sf_models x \<noteq> []) ''models'' (JArr (map spec_model_to_json (sf_models x)))
      (jput_if (sf_devices x \<noteq> []) ''devices'' (JArr (map spec_device_to_json (sf_devices x)))
       (jput_if (\<not> jempty (sf_debugOption x)) ''debugOption'' (sf_debugOption x)
        (jput ''config'' (sf_config x)
         (jput ''position'' (JStr (sf_position x))
          (jput ''abilityName'' (JStr (sf_abilityName x))
           (jput ''version'' (JStr (version_to_string (sf_version x)))
            (jput ''package'' (JStr (sf_package x))
             (jput_opt ''singleton'' JBool (sf_singleton x)
              (jput_opt ''keepAlive'' JBool (sf_keepAlive x)
               (jput_opt ''autoStart'' JBool (sf_autoStart x)
                (jput_if (\<not> jempty (sf_activityCondition x)) ''activityCondition'' (sf_activityCondition x)
                 (jput_opt ''priority'' JNum (sf_priority x)
                  (jput_opt ''status'' (\<lambda>s. s) (sf_status x)
                   (jput_opt ''id'' (uuid_to_json L) (sf_id x) JNull))))))))))))))"

(* src/resourcemgr/ability_cr.cpp:85-113 to_json(AbilitySpec) *)
fun spec_to_json :: "text_lib \<Rightarrow> ability_spec \<Rightarrow> json" where
  "spec_to_json L (AbilitySpec x subs) =
     jput_if (subs \<noteq> []) ''subabilities'' (JArr (map (spec_to_json L) subs)) (spec_fields_to_json L x)"

text \<open>What the JSON form keeps: empty documents are not written and read back as null, and a priority has the 32
  bits of an \<open>int\<close>.\<close>

definition fields_ok :: "spec_fields \<Rightarrow> bool" where
  "fields_ok x = (version_ok (sf_version x) \<and> (jempty (sf_debugOption x) \<longrightarrow> sf_debugOption x = JNull)
     \<and> (jempty (sf_activityCondition x) \<longrightarrow> sf_activityCondition x = JNull)
     \<and> (case sf_priority x of None \<Rightarrow> True | Some p \<Rightarrow> - (2 ^ 31) \<le> p \<and> p < 2 ^ 31))"

fun spec_ok :: "ability_spec \<Rightarrow> bool" where
  "spec_ok (AbilitySpec x subs) = (fields_ok x \<and> list_all spec_ok subs)"

lemma version_of_text [json_simps]: "version_ok v \<Longrightarrow> version_of (version_to_string v) = Inr v"
proof -
  assume "version_ok v"
  then have "version_from_string (version_to_string v) = Some v" by (rule version_text)
  then show ?thesis by (simp add: version_of_def)
qed

lemma is_obj_spec_fields [simp]: "is_obj (spec_fields_to_json L x)"
  by (simp add: spec_fields_to_json_def del: jput.simps)

lemma is_doc_spec_fields [simp]: "is_doc (spec_fields_to_json L x)"
  by (rule is_obj_is_doc) simp

lemma spec_models_roundtrip [json_simps]: "get_array (spec_model_from_json L) (JArr (map spec_model_to_json xs)) = Inr xs"
  by (rule get_array_map) simp

lemma spec_devices_roundtrip [json_simps]: "get_array spec_device_from_json (JArr (map spec_device_to_json xs)) = Inr xs"
  by (rule get_array_map) simp

lemma read_opt_some:
  assumes "is_doc j" "jfind k j = map_option f x" "\<And>y. x = Some y \<Longrightarrow> get (f y) = Inr y"
  shows "read_optional k (get_some get) None j = Inr x"
  using assms by (cases x) (auto simp: read_optional_def get_some_def)

lemma read_opt_found:
  assumes "jfind k j = (if b then Some v else None)" "b \<Longrightarrow> get v = Inr x" "\<not> b \<Longrightarrow> d = x"
  shows "read_optional k get d j = Inr x"
  using assms by (auto simp: read_optional_def)

lemma read_opt_ne_found:
  assumes "jfind k j = (if b then Some v else None)" "b \<Longrightarrow> \<not> jempty v" "b \<Longrightarrow> get v = Inr x" "\<not> b \<Longrightarrow> d = x"
  shows "read_optional_unless_empty k get d j = Inr x"
  using assms by (auto simp: read_optional_unless_empty_def)

lemma read_req_found:
  assumes "is_obj j" "jfind k j = Some v" "get v = Inr x"
  shows "read_required k get j = Inr x"
  using assms by (simp add: read_required_find)

lemma jfind_spec_fields:
  "jfind k (spec_fields_to_json L x) =
     (if k = ''models'' \<and> sf_models x \<noteq> [] then Some (JArr (map spec_model_to_json (sf_models x)))
      else if k = ''devices'' \<and> sf_devices x \<noteq> [] then Some (JArr (map spec_device_to_json (sf_devices x)))
      else if k = ''debugOption'' \<and> \<not> jempty (sf_debugOption x) then Some (sf_debugOption x)
      else if k = ''config'' then Some (sf_config x)
      else if k = ''position'' then Some (JStr (sf_position x))
      else if k = ''abilityName'' then Some (JStr (sf_abilityName x))
      else if k = ''version'' then Some (JStr (version_to_string (sf_version x)))
      else if k = ''package'' then Some (JStr (sf_package x))
      else if k = ''singleton'' \<and> sf_singleton x \<noteq> None then Some (JBool (the (sf_singleton x)))
      else if k = ''keepAlive'' \<and> sf_keepAlive x \<noteq> None then Some (JBool (the (sf_keepAlive x)))
      else if k = ''autoStart'' \<and> sf_autoStart x \<noteq> None then Some (JBool (the (sf_autoStart x)))
      else if k = ''activityCondition'' \<and> \<not> jempty (sf_activityCondition x) then Some (sf_activityCondition x)
      else if k = ''priority'' \<and> sf_priority x \<noteq> None then Some (JNum (the (sf_priority x)))
      else if k = ''status'' \<and> sf_status x \<noteq> None then Some (the (sf_status x))
      else if k = ''id'' \<and> sf_id x \<noteq> None then Some (uuid_to_json L (the (sf_id x)))
      else None)"
  unfolding spec_fields_to_json_def
  by (simp only: doc_puts)

lemma spec_fields_roundtrip:
  assumes L: "uuid_text_ok L" and ok: "fields_ok x"
    and j: "is_obj j" "\<And>k. k \<noteq> ''subabilities'' \<Longrightarrow> jfind k j = jfind k (spec_fields_to_json L x)"
  shows "spec_fields_from_json L j = Inr (x\<lparr>sf_autoStart := None, sf_keepAlive := None, sf_singleton := None\<rparr>)"
    "spec_flags_from_json j (x\<lparr>sf_autoStart := None, sf_keepAlive := None, sf_singleton := None\<rparr>) = Inr x"
proof -
  note f = j(1) j(2) jfind_spec_fields
  have "read_optional ''id'' (get_some (uuid_from_json L)) None j = Inr (sf_id x)"
    "read_optional ''status'' (get_some Inr) None j = Inr (sf_status x)"
    "read_optional ''autoStart'' (get_some get_bool) None j = Inr (sf_autoStart x)"
    "read_optional ''keepAlive'' (get_some get_bool) None j = Inr (sf_keepAlive x)"
    "read_optional ''singleton'' (get_some get_bool) None j = Inr (sf_singleton x)"
    "read_optional ''priority'' (get_some get_int) None j = Inr (sf_priority x)"
    using L ok by (auto simp: read_optional_def f get_some_def json_simps fields_ok_def to_int32_id)
  moreover have "read_optional ''position'' get_string ''localhost'' j = Inr (sf_position x)"
    "read_optional ''config'' Inr JNull j = Inr (sf_config x)"
    "read_optional ''debugOption'' Inr JNull j = Inr (sf_debugOption x)"
    "read_optional_unless_empty ''activityCondition'' Inr JNull j = Inr (sf_activityCondition x)"
    using ok by (auto simp: read_optional_def read_optional_unless_empty_def f fields_ok_def)
  moreover have "read_optional_unless_empty ''devices'' (get_array spec_device_from_json) [] j = Inr (sf_devices x)"
    "read_optional_unless_empty ''models'' (get_array (spec_model_from_json L)) [] j = Inr (sf_models x)"
    by (simp_all add: read_optional_unless_empty_def f spec_devices_roundtrip spec_models_roundtrip del: get_array.simps)
  moreover have "read_required ''package'' get_string j = Inr (sf_package x)"
    "read_required ''abilityName'' get_string j = Inr (sf_abilityName x)"
    "read_required ''version'' (\<lambda>v. rbind (get_string v) version_of) j = Inr (sf_version x)"
    using ok by (auto simp: read_required_find f version_of_text fields_ok_def)
  ultimately show "spec_fields_from_json L j = Inr (x\<lparr>sf_autoStart := None, sf_keepAlive := None, sf_singleton := None\<rparr>)"
    "spec_flags_from_json j (x\<lparr>sf_autoStart := None, sf_keepAlive := None, sf_singleton := None\<rparr>) = Inr x"
    by (simp_all add: spec_fields_from_json_def spec_flags_from_json_def)
qed

lemma spec_json_roundtrip: "uuid_text_ok L \<Longrightarrow> spec_ok s \<Longrightarrow> spec_from_json L (spec_to_json L s) = Inr s"
proof (induction s)
  case (AbilitySpec x subs)
  let ?j = "spec_to_json L (AbilitySpec x subs)"
  have j: "is_obj ?j" "\<And>k. k \<noteq> ''subabilities'' \<Longrightarrow> jfind k ?j = jfind k (spec_fields_to_json L x)"
    by (simp_all add: jfind_put_if)
  have ok: "fields_ok x" "list_all spec_ok subs" using AbilitySpec.prems by simp_all
  have none: "jfind ''subabilities'' (spec_fields_to_json L x) = None" by (simp add: jfind_spec_fields)
  have "mapM_r (spec_from_json L) (map (spec_to_json L) subs) = Inr subs"
    using AbilitySpec.IH AbilitySpec.prems(1) ok(2) mapM_r_map [of subs "spec_from_json L" "spec_to_json L" "\<lambda>x. x"]
    by (simp add: list_all_iff)
  then have "(case jfind ''subabilities'' ?j of None \<Rightarrow> Inr []
      | Some v \<Rightarrow> if jempty v then Inr [] else mapM_r (spec_from_json L) (jelems v)) = Inr subs"
    by (simp add: jfind_put_if none)
  then show ?case
    using spec_fields_roundtrip [OF AbilitySpec.prems(1) ok(1) j] by (subst spec_from_json.simps) simp
qed

subsection \<open>Owner and sharers\<close>

text \<open>An owner is the id and the position of an ability instance; the sharers are a map from id to position.
  Both can be given as a label, as text \<open>id@position\<close>, and as a field of the document, which wins.\<close>

type_synonym owner = "uuid \<times> string"

(* src/resourcemgr/ability_cr.cpp:115-131 parse_sharers *)
definition parse_sharers :: "text_lib \<Rightarrow> string \<Rightarrow> (uuid, string) omap" where
  "parse_sharers L input =
     fold (\<lambda>token result.
       case split_at CHR ''@'' token of
         None \<Rightarrow> result
       | Some (u, pos) \<Rightarrow> (case read_uuid L u of Some i \<Rightarrow> oput i pos result | None \<Rightarrow> result))
       (getlines CHR '';'' input) []"

(* src/resourcemgr/ability_cr.cpp:133-135 judge_owner_validity *)
definition judge_owner_validity :: "string \<Rightarrow> bool" where
  "judge_owner_validity s = (CHR '';'' \<notin> set s)"

(* src/resourcemgr/ability_cr.cpp:137-146 parse_owner *)
definition parse_owner :: "string \<Rightarrow> json" where
  "parse_owner input =
     (case split_at CHR ''@'' input of
        None \<Rightarrow> JNull
      | Some (u, pos) \<Rightarrow> jput ''position'' (JStr pos) (jput ''abilityInstanceId'' (JStr u) JNull))"

(* include/resourcemgr/ability_cr.hpp:94-98 AbilityCR::OwnerEntry from_json *)
definition owner_from_json :: "text_lib \<Rightarrow> json \<Rightarrow> exn + owner" where
  "owner_from_json L j =
     rbind (read_required ''abilityInstanceId'' (uuid_from_json L) j) (\<lambda>i.
     rbind (read_required ''position'' get_string j) (\<lambda>p. Inr (i, p)))"

definition owner_to_json :: "text_lib \<Rightarrow> owner \<Rightarrow> json" where
  "owner_to_json L x = jput ''position'' (JStr (snd x)) (jput ''abilityInstanceId'' (uuid_to_json L (fst x)) JNull)"

text \<open>A label owner that is no \<open>id@position\<close> converts null to an owner, which throws. In the field, a key that is no
  uuid dereferences an empty optional; the model throws.\<close>

(* src/resourcemgr/ability_cr.cpp:166-182 from_json(AbilityCR), the sharers *)
definition read_sharers :: "text_lib \<Rightarrow> (string, string) omap \<Rightarrow> json \<Rightarrow> exn + (uuid, string) omap" where
  "read_sharers L labels j =
     (let from_label = (case map_of labels ''fwk.io/sharers'' of None \<Rightarrow> [] | Some s \<Rightarrow> parse_sharers L s) in
      case jfind ''sharers'' j of
        None \<Rightarrow> Inr from_label
      | Some v \<Rightarrow>
          if jempty v then Inr from_label
          else rbind (mapM_r (\<lambda>(u, p). case read_uuid L u of
                         None \<Rightarrow> Inl (BadAccess u)
                       | Some i \<Rightarrow> rbind (get_string p) (\<lambda>s. Inr (i, s))) (jitems v))
                 (\<lambda>es. Inr (oputs es [])))"

(* src/resourcemgr/ability_cr.cpp:171-183 from_json(AbilityCR), the owner *)
definition read_owner :: "text_lib \<Rightarrow> (string, string) omap \<Rightarrow> json \<Rightarrow> exn + owner" where
  "read_owner L labels j =
     rbind (case map_of labels ''fwk.io/owner'' of
              None \<Rightarrow> Inr (0, [])
            | Some s \<Rightarrow> if judge_owner_validity s then owner_from_json L (parse_owner s) else Inr (0, []))
       (\<lambda>from_label. read_optional_unless_empty ''owner'' (owner_from_json L) from_label j)"

(* src/resourcemgr/ability_cr.cpp:206-210 to_json(AbilityCR), the sharers *)
definition sharers_to_json :: "text_lib \<Rightarrow> (uuid, string) omap \<Rightarrow> json" where
  "sharers_to_json L m = fold (\<lambda>(i, p) j. jput (show_uuid L i) (JStr p) j) m (JObj [])"

(* src/resourcemgr/ability_cr.cpp:211-214 to_json(AbilityCR), the owner *)
definition owner_field :: "text_lib \<Rightarrow> owner \<Rightarrow> json" where
  "owner_field L ow = (if snd ow \<noteq> [] then owner_to_json L ow else JObj [])"

lemma owner_roundtrip [json_simps]: "uuid_text_ok L \<Longrightarrow> owner_from_json L (owner_to_json L x) = Inr x"
  by (simp add: owner_from_json_def owner_to_json_def json_simps del: jput.simps)

lemma owner_label_roundtrip:
  assumes "uuid_text_ok L" "CHR ''@'' \<notin> set (show_uuid L i)"
  shows "owner_from_json L (parse_owner (show_uuid L i @ ''@'' @ p)) = Inr (i, p)"
  using assms
  by (simp add: parse_owner_def split_at_append owner_from_json_def json_simps uuid_from_json_def del: jput.simps)

lemma parse_sharers_ok: "omap_ok (parse_sharers L s)"
proof -
  have "omap_ok m \<Longrightarrow> omap_ok (fold (\<lambda>token result. case split_at CHR ''@'' token of None \<Rightarrow> result
      | Some (u, pos) \<Rightarrow> (case read_uuid L u of Some i \<Rightarrow> oput i pos result | None \<Rightarrow> result)) ts m)" for ts m
    by (induction ts arbitrary: m) (auto split: option.splits)
  then show ?thesis by (simp add: parse_sharers_def)
qed

lemma show_uuid_inj [simp]: "uuid_text_ok L \<Longrightarrow> show_uuid L i = show_uuid L j \<longleftrightarrow> i = j"
  by (metis option.inject read_show_uuid)

lemma sharers_to_json_obj:
  "sharers_to_json L m = JObj (oputs (map (\<lambda>(i, p). (show_uuid L i, JStr p)) m) [])"
proof -
  have "fold (\<lambda>(i, p) j. jput (show_uuid L i) (JStr p) j) m (JObj k)
      = JObj (oputs (map (\<lambda>(i, p). (show_uuid L i, JStr p)) m) k)" for k
    by (induction m arbitrary: k) auto
  then show ?thesis by (simp add: sharers_to_json_def)
qed

text \<open>The map of sharers written as an object is read back, whatever the order of the texts of its ids.\<close>

lemma sharers_roundtrip:
  assumes L: "uuid_text_ok L" and m: "omap_ok m"
    and j: "jfind ''sharers'' j = Some (sharers_to_json L m)" "map_of labels ''fwk.io/sharers'' = None"
  shows "read_sharers L labels j = Inr m"
proof -
  let ?f = "\<lambda>(i, p). (show_uuid L i, JStr p)" and ?g = "\<lambda>(u, v). (the (read_uuid L u), case v of JStr s \<Rightarrow> s | _ \<Rightarrow> [])"
  let ?K = "oputs (map ?f m) []"
  have g: "?g (?f e) = e" for e using L by (cases e) (simp add: read_show_uuid)
  have "inj_on (\<lambda>e. fst (?f e)) (set m)"
    using L omap_ok_distinct [OF m] by (fastforce simp: distinct_map inj_on_def)
  then have "distinct (map fst (map ?f m))"
    using omap_ok_distinct [OF m] by (simp add: distinct_map comp_def)
  then have K: "set ?K = ?f ` set m" by (simp add: set_oputs)
  have "distinct (map fst ?K)" by (rule omap_ok_distinct) simp
  then have dK: "distinct ?K" by (simp add: distinct_map)
  have sK: "set (map ?g ?K) = set m" using g by (simp add: K image_image)
  have "inj_on (fst \<circ> ?g) (set ?K)"
    using omap_ok_distinct [OF m] g by (auto simp: K distinct_map inj_on_def)
  then have "distinct (map fst (map ?g ?K))" using dK by (simp add: distinct_map)
  then have put: "oputs (map ?g ?K) [] = m" using oputs_id [OF m _ sK] by blast
  have "mapM_r (\<lambda>(u, p). case read_uuid L u of None \<Rightarrow> Inl (BadAccess u)
      | Some i \<Rightarrow> rbind (get_string p) (\<lambda>s. Inr (i, s))) ?K = Inr (map ?g ?K)"
    by (rule mapM_r_Inr) (use L in \<open>auto simp: K read_show_uuid\<close>)
  then show ?thesis
    using j put by (cases "?K = []") (simp_all add: read_sharers_def sharers_to_json_obj)
qed

subsection \<open>Ability resources\<close>

(* include/resourcemgr/ability_cr.hpp:107-115 AbilityCR::RunInfo *)
record run_info =
  ri_lifecycleState :: lifecycle_state
  ri_lastUpdate :: time
  ri_lastConnect :: time

(* src/resourcemgr/ability_cr.cpp:32-42 from_json(AbilityCR::RunInfo) *)
definition run_info_from_json :: "json \<Rightarrow> exn + run_info" where
  "run_info_from_json j =
     rbind (read_required ''lifecycleState'' lifecycle_from_json j) (\<lambda>s.
     rbind (read_required ''lastUpdate'' get_int64 j) (\<lambda>u.
     rbind (read_required ''lastConnect'' get_int64 j) (\<lambda>c.
       Inr \<lparr>ri_lifecycleState = s, ri_lastUpdate = u, ri_lastConnect = c\<rparr>)))"

(* src/resourcemgr/ability_cr.cpp:44-48 to_json(AbilityCR::RunInfo) *)
definition run_info_to_json :: "run_info \<Rightarrow> json" where
  "run_info_to_json r =
     jput ''lastConnect'' (JNum (ri_lastConnect r))
      (jput ''lastUpdate'' (JNum (ri_lastUpdate r))
       (jput ''lifecycleState'' (JStr (show_lifecycle (ri_lifecycleState r))) JNull))"

lemma run_info_roundtrip [json_simps, simp]: "run_info_from_json (run_info_to_json r) = Inr r"
  by (cases r) (simp add: run_info_from_json_def run_info_to_json_def json_simps del: jput.simps)

text \<open>Started sub-abilities and devices in use: an id and a host.\<close>

type_synonym placed = "uuid \<times> string"

(* include/resourcemgr/ability_cr.hpp:117-130 AbilityCR::SubAbilityEntry, DeviceEntry from_json *)
definition placed_from_json :: "text_lib \<Rightarrow> json \<Rightarrow> exn + placed" where
  "placed_from_json L j =
     rbind (read_required ''id'' (uuid_from_json L) j) (\<lambda>i.
     rbind (read_required ''position'' get_string j) (\<lambda>p. Inr (i, p)))"

definition placed_to_json :: "text_lib \<Rightarrow> placed \<Rightarrow> json" where
  "placed_to_json L x = jput ''position'' (JStr (snd x)) (jput ''id'' (uuid_to_json L (fst x)) JNull)"

(* include/resourcemgr/ability_cr.hpp:79-83 AbilityCR::Tag *)
record cr_tag =
  tag_source :: string
  tag_parent :: string

(* include/resourcemgr/ability_cr.hpp:77-136 AbilityCR *)
record ability_cr =
  acr_tag :: cr_tag
  acr_sharers :: "(uuid, string) omap"
  acr_owner :: owner
  acr_metadata :: metadata
  acr_id :: uuid
  acr_kind :: string
  acr_status :: json
  acr_runInfo :: "run_info option"
  acr_subabilities :: "placed list"
  acr_devices :: "placed list"
  acr_spec :: "ability_spec option"

definition empty_tag :: cr_tag where
  "empty_tag = \<lparr>tag_source = [], tag_parent = []\<rparr>"

definition tag_from_json :: "json \<Rightarrow> exn + cr_tag" where
  "tag_from_json j =
     rbind (read_required ''source'' get_string j) (\<lambda>s.
     rbind (read_required ''parent'' get_string j) (\<lambda>p. Inr \<lparr>tag_source = s, tag_parent = p\<rparr>))"

definition tag_to_json :: "cr_tag \<Rightarrow> json" where
  "tag_to_json t = jput ''parent'' (JStr (tag_parent t)) (jput ''source'' (JStr (tag_source t)) JNull)"

(* src/resourcemgr/ability_cr.cpp:148-191 from_json(AbilityCR) *)
definition ability_cr_from_json :: "text_lib \<Rightarrow> json \<Rightarrow> exn + ability_cr" where
  "ability_cr_from_json L j =
     rbind (read_optional ''tag'' tag_from_json empty_tag j) (\<lambda>tg.
     rbind (read_required ''metadata'' metadata_from_json j) (\<lambda>md.
     rbind (read_optional ''id'' (uuid_from_json L) 0 j) (\<lambda>i.
     rbind (read_required ''kind'' get_string j) (\<lambda>kd.
     rbind (read_optional ''status'' Inr JNull j) (\<lambda>st.
     rbind (read_optional_unless_empty ''runInfo'' (get_some run_info_from_json) None j) (\<lambda>ri.
     rbind (read_optional_unless_empty ''subabilities'' (get_array (placed_from_json L)) [] j) (\<lambda>sa.
     rbind (read_optional_unless_empty ''devices'' (get_array (placed_from_json L)) [] j) (\<lambda>dv.
     rbind (read_sharers L (md_labels md) j) (\<lambda>sh.
     rbind (read_owner L (md_labels md) j) (\<lambda>ow.
     rbind (read_required ''spec'' (spec_from_json L) j) (\<lambda>sp.
       Inr \<lparr>acr_tag = tg, acr_sharers = sh, acr_owner = ow, acr_metadata = md, acr_id = i, acr_kind = kd,
            acr_status = st, acr_runInfo = ri, acr_subabilities = sa, acr_devices = dv, acr_spec = Some sp\<rparr>)))))))))))"

(* src/resourcemgr/ability_cr.cpp:193-215 to_json(AbilityCR) *)
definition ability_cr_to_json :: "text_lib \<Rightarrow> ability_cr \<Rightarrow> json" where
  "ability_cr_to_json L x =
     jput ''owner'' (owner_field L (acr_owner x))
      (jput ''sharers'' (sharers_to_json L (acr_sharers x))
       (jput_opt ''spec'' (spec_to_json L) (acr_spec x)
        (jput_if (acr_devices x \<noteq> []) ''devices'' (JArr (map (placed_to_json L) (acr_devices x)))
         (jput_if (acr_subabilities x \<noteq> []) ''subabilities'' (JArr (map (placed_to_json L) (acr_subabilities x)))
          (jput_opt ''runInfo'' run_info_to_json (acr_runInfo x)
           (jput ''status'' (acr_status x)
            (jput ''kind'' (JStr (acr_kind x))
             (jput ''id'' (uuid_to_json L (acr_id x))
              (jput ''metadata'' (metadata_to_json (acr_metadata x))
               (jput ''tag'' (tag_to_json (acr_tag x)) JNull))))))))))"

text \<open>A resource whose labels name neither owner nor sharers, with a specification and a canonical owner.\<close>

definition ability_cr_ok :: "ability_cr \<Rightarrow> bool" where
  "ability_cr_ok x = (omap_ok (acr_sharers x) \<and> map_of (md_labels (acr_metadata x)) ''fwk.io/sharers'' = None
     \<and> map_of (md_labels (acr_metadata x)) ''fwk.io/owner'' = None \<and> (snd (acr_owner x) = [] \<longrightarrow> fst (acr_owner x) = 0)
     \<and> (case acr_spec x of None \<Rightarrow> False | Some s \<Rightarrow> spec_ok s))"

lemma placed_roundtrip [json_simps]: "uuid_text_ok L \<Longrightarrow> placed_from_json L (placed_to_json L x) = Inr x"
  by (simp add: placed_from_json_def placed_to_json_def json_simps del: jput.simps)

lemma placed_list_roundtrip [json_simps]:
  "uuid_text_ok L \<Longrightarrow> get_array (placed_from_json L) (JArr (map (placed_to_json L) xs)) = Inr xs"
  by (rule get_array_map) (simp add: placed_roundtrip)

lemma tag_roundtrip [json_simps]: "tag_from_json (tag_to_json x) = Inr x"
  by (cases x) (simp add: tag_from_json_def tag_to_json_def json_simps del: jput.simps)

lemma jempty_owner [simp]: "\<not> jempty (owner_to_json L x)" "\<not> jempty (run_info_to_json r)"
  by (simp_all add: owner_to_json_def run_info_to_json_def del: jput.simps)

lemma owner_field_read:
  assumes "uuid_text_ok L" "jfind ''owner'' j = Some (owner_field L x)" "map_of labels ''fwk.io/owner'' = None"
    and "snd x = [] \<longrightarrow> fst x = 0"
  shows "read_owner L labels j = Inr x"
  using assms
  by (cases x) (simp add: read_owner_def read_optional_unless_empty_def owner_field_def owner_roundtrip
      jempty_owner split: if_splits)

lemma ability_cr_json:
  assumes "uuid_text_ok L" "ability_cr_ok x"
  shows "ability_cr_from_json L (ability_cr_to_json L x) = Inr x"
proof -
  obtain s where s: "acr_spec x = Some s" "spec_ok s" using assms(2) by (auto simp: ability_cr_ok_def split: option.splits)
  have f: "\<And>k. jfind k (ability_cr_to_json L x) =
     (if k = ''owner'' then Some (owner_field L (acr_owner x))
      else if k = ''sharers'' then Some (sharers_to_json L (acr_sharers x))
      else if k = ''spec'' \<and> acr_spec x \<noteq> None then Some (spec_to_json L (the (acr_spec x)))
      else if k = ''devices'' \<and> acr_devices x \<noteq> [] then Some (JArr (map (placed_to_json L) (acr_devices x)))
      else if k = ''subabilities'' \<and> acr_subabilities x \<noteq> [] then Some (JArr (map (placed_to_json L) (acr_subabilities x)))
      else if k = ''runInfo'' \<and> acr_runInfo x \<noteq> None then Some (run_info_to_json (the (acr_runInfo x)))
      else if k = ''status'' then Some (acr_status x)
      else if k = ''kind'' then Some (JStr (acr_kind x))
      else if k = ''id'' then Some (uuid_to_json L (acr_id x))
      else if k = ''metadata'' then Some (metadata_to_json (acr_metadata x))
      else if k = ''tag'' then Some (tag_to_json (acr_tag x))
      else None)"
    unfolding ability_cr_to_json_def by (simp only: doc_puts)
  have [simp]: "is_obj (ability_cr_to_json L x)" by (simp add: ability_cr_to_json_def del: jput.simps)
  have "read_sharers L (md_labels (acr_metadata x)) (ability_cr_to_json L x) = Inr (acr_sharers x)"
    using assms by (intro sharers_roundtrip) (auto simp: f ability_cr_ok_def)
  moreover have "read_owner L (md_labels (acr_metadata x)) (ability_cr_to_json L x) = Inr (acr_owner x)"
    using assms by (intro owner_field_read) (auto simp: f ability_cr_ok_def)
  moreover have "read_optional_unless_empty ''runInfo'' (get_some run_info_from_json) None (ability_cr_to_json L x)
      = Inr (acr_runInfo x)"
    by (cases "acr_runInfo x") (simp_all add: read_optional_unless_empty_def f get_some_def)
  ultimately show ?thesis
    using assms(1) s
    by (simp add: ability_cr_from_json_def read_optional_def read_optional_unless_empty_def read_required_find f
        tag_roundtrip uuid_json_roundtrip placed_list_roundtrip spec_json_roundtrip del: get_array.simps)
qed


definition sample_fields :: spec_fields where
  "sample_fields = \<lparr>sf_id = Some 4, sf_status = None, sf_package = ''pkg'', sf_version = Version 1 2 0 NoPre None,
     sf_abilityName = ''Camera'', sf_position = ''localhost'', sf_priority = Some (- 3), sf_activityCondition = JNull,
     sf_autoStart = Some True, sf_keepAlive = None, sf_singleton = None, sf_config = JObj [], sf_debugOption = JNull,
     sf_devices = [\<lparr>sd_deviceName = ''cam'', sd_instanceName = ''cam0'', sd_ownership = Shared, sd_bind = BindAny\<rparr>],
     sf_models = [''7'']\<rparr>"

definition sample_cr :: ability_cr where
  "sample_cr = \<lparr>acr_tag = empty_tag, acr_sharers = [(3, ''edge'')], acr_owner = (9, ''localhost''),
     acr_metadata = \<lparr>md_name = ''c0'', md_labels = [(''room'', ''12'')], md_annotations = []\<rparr>, acr_id = 5,
     acr_kind = ''AtomAbility'', acr_status = JNull, acr_runInfo = None, acr_subabilities = [],
     acr_devices = [(8, ''localhost'')], acr_spec = Some (AbilitySpec sample_fields [AbilitySpec sample_fields []])\<rparr>"

lemma sample_cr_ok: "ability_cr_ok sample_cr"
  by (simp add: ability_cr_ok_def sample_cr_def sample_fields_def fields_ok_def version_ok_def omap_ok_def)


text \<open>An owner that was cleared is written as an empty object, which the reader skips: when a label of the resource
  names an owner, reading the written resource brings that owner back.\<close>

lemma cleared_owner_revives:
  assumes "uuid_text_ok L" "acr_owner x = (0, [])" "CHR ''@'' \<notin> set (show_uuid L i)"
    and "CHR '';'' \<notin> set (show_uuid L i @ p)"
    and "map_of (md_labels (acr_metadata x)) ''fwk.io/owner'' = Some (show_uuid L i @ ''@'' @ p)"
  shows "read_owner L (md_labels (acr_metadata x)) (ability_cr_to_json L x) = Inr (i, p)"
proof -
  have "jfind ''owner'' (ability_cr_to_json L x) = Some (JObj [])"
    unfolding ability_cr_to_json_def by (simp only: doc_puts) (simp add: owner_field_def assms)
  then show ?thesis
    using assms owner_label_roundtrip [of L i p]
    by (simp add: read_owner_def judge_owner_validity_def read_optional_unless_empty_def)
qed

end
