(* ===== verification/ServiceCR.thy ===== *)
theory ServiceCR
  imports AbilityCR
begin

section \<open>Service resources\<close>

text \<open>
  \<open>include/resourcemgr/service_cr.hpp\<close>, \<open>src/resourcemgr/service_cr.cpp\<close> and
  \<open>include/lifecyclemgr/service_state.hpp\<close>: a service with its restart policy and its health probes, and its
  conversions from and to JSON.
\<close>

(* include/lifecyclemgr/service_state.hpp:20-26 ServiceState *)
datatype service_state = SStopped | SStarting | SRunning | SFailed | SRestarting

(* include/lifecyclemgr/service_state.hpp:28-37 to_string(ServiceState) *)
fun show_service_state :: "service_state \<Rightarrow> string" where
  "show_service_state SStopped = ''Stopped''"
| "show_service_state SStarting = ''Starting''"
| "show_service_state SRunning = ''Running''"
| "show_service_state SFailed = ''Failed''"
| "show_service_state SRestarting = ''Restarting''"

(* include/lifecyclemgr/service_state.hpp:39-45 NLOHMANN_JSON_SERIALIZE_ENUM(ServiceState) *)
definition service_state_from_json :: "json \<Rightarrow> exn + service_state" where
  "service_state_from_json j =
     Inr (case filter (\<lambda>s. j = JStr (show_service_state s)) [SStopped, SStarting, SRunning, SFailed, SRestarting] of
            s # _ \<Rightarrow> s | [] \<Rightarrow> SStopped)"

lemma service_state_roundtrip [json_simps, simp]: "service_state_from_json (JStr (show_service_state s)) = Inr s"
  by (cases s) (simp_all add: service_state_from_json_def)

subsection \<open>Probes\<close>

(* include/resourcemgr/service_cr.hpp:43-51 ServiceSpec::Probe *)
record probe =
  pb_type :: string
  pb_path :: string
  pb_port :: int
  pb_intervalSeconds :: int
  pb_failureThreshold :: int

(* src/resourcemgr/service_cr.cpp:28-34 from_json(ServiceSpec::Probe) *)
definition probe_from_json :: "json \<Rightarrow> exn + probe" where
  "probe_from_json j =
     rbind (read_required ''type'' get_string j) (\<lambda>t.
     rbind (read_optional ''path'' get_string [] j) (\<lambda>p.
     rbind (read_optional ''port'' get_int 0 j) (\<lambda>pt.
     rbind (read_optional ''intervalSeconds'' get_int 10 j) (\<lambda>iv.
     rbind (read_optional ''failureThreshold'' get_int 3 j) (\<lambda>f.
       Inr \<lparr>pb_type = t, pb_path = p, pb_port = pt, pb_intervalSeconds = iv, pb_failureThreshold = f\<rparr>)))))"

(* src/resourcemgr/service_cr.cpp:36-42 to_json(ServiceSpec::Probe) *)
definition probe_to_json :: "probe \<Rightarrow> json" where
  "probe_to_json x =
     jput ''failureThreshold'' (JNum (pb_failureThreshold x))
      (jput ''intervalSeconds'' (JNum (pb_intervalSeconds x))
       (jput_if (pb_port x \<noteq> 0) ''port'' (JNum (pb_port x))
        (jput_if (pb_path x \<noteq> []) ''path'' (JStr (pb_path x))
         (jput ''type'' (JStr (pb_type x)) JNull))))"

(* include/resourcemgr/service_cr.hpp:52-57 ServiceSpec::HealthCheck *)
record health_check =
  hc_liveness :: "probe option"
  hc_readiness :: "probe option"

(* src/resourcemgr/service_cr.cpp:44-47 from_json(ServiceSpec::HealthCheck) *)
definition health_from_json :: "json \<Rightarrow> exn + health_check" where
  "health_from_json j =
     rbind (read_optional ''liveness'' (get_some probe_from_json) None j) (\<lambda>l.
     rbind (read_optional ''readiness'' (get_some probe_from_json) None j) (\<lambda>r.
       Inr \<lparr>hc_liveness = l, hc_readiness = r\<rparr>))"

(* src/resourcemgr/service_cr.cpp:49-52 to_json(ServiceSpec::HealthCheck) *)
definition health_to_json :: "health_check \<Rightarrow> json" where
  "health_to_json x =
     jput_opt ''readiness'' probe_to_json (hc_readiness x) (jput_opt ''liveness'' probe_to_json (hc_liveness x) JNull)"

subsection \<open>Specification\<close>

(* include/resourcemgr/service_cr.hpp:30-66 ServiceSpec *)
record service_spec =
  ss_package :: string
  ss_version :: version
  ss_serviceName :: string
  ss_position :: string
  ss_config :: json
  ss_restartPolicy :: string
  ss_maxRestarts :: int
  ss_restartBackoffSeconds :: int
  ss_healthCheck :: "health_check option"
  ss_devices :: "spec_device list"
  ss_models :: "string list"

(* src/resourcemgr/service_cr.cpp:54-66 from_json(ServiceSpec) *)
definition service_spec_from_json :: "text_lib \<Rightarrow> json \<Rightarrow> exn + service_spec" where
  "service_spec_from_json L j =
     rbind (read_required ''package'' get_string j) (\<lambda>pk.
     rbind (read_required ''version'' (\<lambda>v. rbind (get_string v) version_of) j) (\<lambda>v.
     rbind (read_required ''serviceName'' get_string j) (\<lambda>n.
     rbind (read_optional ''position'' get_string ''localhost'' j) (\<lambda>pos.
     rbind (read_optional ''config'' Inr JNull j) (\<lambda>cfg.
     rbind (read_optional ''restartPolicy'' get_string ''always'' j) (\<lambda>rp.
     rbind (read_optional ''maxRestarts'' get_int 5 j) (\<lambda>mr.
     rbind (read_optional ''restartBackoffSeconds'' get_int 10 j) (\<lambda>bo.
     rbind (read_optional ''healthCheck'' (get_some health_from_json) None j) (\<lambda>hc.
     rbind (read_optional ''devices'' (get_array spec_device_from_json) [] j) (\<lambda>dv.
     rbind (read_optional ''models'' (get_array (spec_model_from_json L)) [] j) (\<lambda>ml.
       Inr \<lparr>ss_package = pk, ss_version = v, ss_serviceName = n, ss_position = pos, ss_config = cfg,
            ss_restartPolicy = rp, ss_maxRestarts = mr, ss_restartBackoffSeconds = bo, ss_healthCheck = hc,
            ss_devices = dv, ss_models = ml\<rparr>)))))))))))"

(* src/resourcemgr/service_cr.cpp:68-80 to_json(ServiceSpec) *)
definition service_spec_to_json :: "service_spec \<Rightarrow> json" where
  "service_spec_to_json x =
     jput_if (ss_models x \<noteq> []) ''models'' (JArr (map spec_model_to_json (ss_models x)))
      (jput_if (ss_devices x \<noteq> []) ''devices'' (JArr (map spec_device_to_json (ss_devices x)))
       (jput_opt ''healthCheck'' health_to_json (ss_healthCheck x)
        (jput ''restartBackoffSeconds'' (JNum (ss_restartBackoffSeconds x))
         (jput ''maxRestarts'' (JNum (ss_maxRestarts x))
          (jput ''restartPolicy'' (JStr (ss_restartPolicy x))
           (jput_if (ss_config x \<noteq> JNull) ''config'' (ss_config x)
            (jput ''position'' (JStr (ss_position x))
             (jput ''serviceName'' (JStr (ss_serviceName x))
              (jput ''version'' (JStr (version_to_string (ss_version x)))
               (jput ''package'' (JStr (ss_package x)) JNull))))))))))"

subsection \<open>Resource\<close>

(* include/resourcemgr/service_cr.hpp:68-88 ServiceCR *)
record service_cr =
  scr_id :: uuid
  scr_kind :: string
  scr_metadata :: metadata
  scr_spec :: "service_spec option"
  scr_state :: service_state
  scr_restartCount :: int

text \<open>The metadata of a service has the fields and the codec of an ability's.\<close>

(* src/resourcemgr/service_cr.cpp:82-86 from_json(ServiceCR::Metadata) *)
definition service_metadata_from_json :: "json \<Rightarrow> exn + metadata" where
  "service_metadata_from_json j =
     rbind (read_required ''name'' get_string j) (\<lambda>n.
     rbind (read_optional ''labels'' get_string_map [] j) (\<lambda>l.
     rbind (read_optional ''annotations'' get_string_map [] j) (\<lambda>a.
       Inr \<lparr>md_name = n, md_labels = l, md_annotations = a\<rparr>)))"

(* src/resourcemgr/service_cr.cpp:88-92 to_json(ServiceCR::Metadata) *)
definition service_metadata_to_json :: "metadata \<Rightarrow> json" where
  "service_metadata_to_json m =
     jput_if (md_annotations m \<noteq> []) ''annotations'' (put_string_map (md_annotations m))
      (jput_if (md_labels m \<noteq> []) ''labels'' (put_string_map (md_labels m))
       (jput ''name'' (JStr (md_name m)) JNull))"

(* src/resourcemgr/service_cr.cpp:94-103 from_json(ServiceCR) *)
definition service_cr_from_json :: "text_lib \<Rightarrow> json \<Rightarrow> exn + service_cr" where
  "service_cr_from_json L j =
     rbind (read_required ''kind'' get_string j) (\<lambda>k.
     rbind (read_required ''metadata'' service_metadata_from_json j) (\<lambda>m.
     rbind (read_optional ''spec'' (get_some (service_spec_from_json L)) None j) (\<lambda>sp.
     rbind (read_optional ''id'' (uuid_from_json L) 0 j) (\<lambda>i.
     rbind (read_optional ''state'' service_state_from_json SStopped j) (\<lambda>st.
     rbind (read_optional ''restartCount'' get_int 0 j) (\<lambda>rc.
       Inr \<lparr>scr_id = i, scr_kind = k, scr_metadata = m, scr_spec = sp, scr_state = st, scr_restartCount = rc\<rparr>))))))"

(* src/resourcemgr/service_cr.cpp:105-112 to_json(ServiceCR) *)
definition service_cr_to_json :: "text_lib \<Rightarrow> service_cr \<Rightarrow> json" where
  "service_cr_to_json L x =
     jput ''restartCount'' (JNum (scr_restartCount x))
      (jput ''state'' (JStr (show_service_state (scr_state x)))
       (jput_if (scr_id x \<noteq> 0) ''id'' (JStr (show_uuid L (scr_id x)))
        (jput_opt ''spec'' service_spec_to_json (scr_spec x)
         (jput ''metadata'' (service_metadata_to_json (scr_metadata x))
          (jput ''kind'' (JStr (scr_kind x)) JNull)))))"

subsection \<open>Round trip\<close>

definition int32 :: "int \<Rightarrow> bool" where
  "int32 n = (- (2 ^ 31) \<le> n \<and> n < 2 ^ 31)"

definition probe_ok :: "probe \<Rightarrow> bool" where
  "probe_ok p = (int32 (pb_port p) \<and> int32 (pb_intervalSeconds p) \<and> int32 (pb_failureThreshold p))"

definition health_ok :: "health_check \<Rightarrow> bool" where
  "health_ok h = (pred_option probe_ok (hc_liveness h) \<and> pred_option probe_ok (hc_readiness h))"

definition service_spec_ok :: "service_spec \<Rightarrow> bool" where
  "service_spec_ok x = (version_ok (ss_version x) \<and> int32 (ss_maxRestarts x) \<and> int32 (ss_restartBackoffSeconds x)
     \<and> pred_option health_ok (ss_healthCheck x))"

definition service_cr_ok :: "service_cr \<Rightarrow> bool" where
  "service_cr_ok x = (pred_option service_spec_ok (scr_spec x) \<and> int32 (scr_restartCount x))"

lemma to_int32_int32 [simp]: "int32 n \<Longrightarrow> to_int32 n = n"
  by (simp add: int32_def to_int32_id)

lemma int32_numerals [simp]: "int32 0" "int32 1" "int32 3" "int32 5" "int32 10"
  by (simp_all add: int32_def)

lemma probe_roundtrip: "probe_ok p \<Longrightarrow> probe_from_json (probe_to_json p) = Inr p"
  by (cases p)
    (auto simp: probe_from_json_def probe_to_json_def probe_ok_def read_optional_def json_simps simp del: jput.simps)

lemma health_roundtrip: "health_ok h \<Longrightarrow> health_from_json (health_to_json h) = Inr h"
  by (cases h; cases "hc_liveness h"; cases "hc_readiness h")
    (simp_all add: health_from_json_def health_to_json_def health_ok_def read_optional_def get_some_def
      doc_puts probe_roundtrip del: jput.simps)

lemma service_metadata_roundtrip [json_simps, simp]:
  "service_metadata_from_json (service_metadata_to_json m) = Inr m"
  by (cases m)
    (simp add: service_metadata_from_json_def service_metadata_to_json_def read_optional_def json_simps del: jput.simps)

lemma service_spec_roundtrip:
  assumes "service_spec_ok x"
  shows "service_spec_from_json L (service_spec_to_json x) = Inr x"
proof -
  let ?j = "service_spec_to_json x"
  have f: "\<And>k. jfind k ?j =
     (if k = ''models'' \<and> ss_models x \<noteq> [] then Some (JArr (map spec_model_to_json (ss_models x)))
      else if k = ''devices'' \<and> ss_devices x \<noteq> [] then Some (JArr (map spec_device_to_json (ss_devices x)))
      else if k = ''healthCheck'' \<and> ss_healthCheck x \<noteq> None then Some (health_to_json (the (ss_healthCheck x)))
      else if k = ''restartBackoffSeconds'' then Some (JNum (ss_restartBackoffSeconds x))
      else if k = ''maxRestarts'' then Some (JNum (ss_maxRestarts x))
      else if k = ''restartPolicy'' then Some (JStr (ss_restartPolicy x))
      else if k = ''config'' \<and> ss_config x \<noteq> JNull then Some (ss_config x)
      else if k = ''position'' then Some (JStr (ss_position x))
      else if k = ''serviceName'' then Some (JStr (ss_serviceName x))
      else if k = ''version'' then Some (JStr (version_to_string (ss_version x)))
      else if k = ''package'' then Some (JStr (ss_package x))
      else None)"
    unfolding service_spec_to_json_def by (simp only: doc_puts)
  have [simp]: "is_obj ?j" by (simp add: service_spec_to_json_def del: jput.simps)
  have "read_optional ''models'' (get_array (spec_model_from_json L)) [] ?j = Inr (ss_models x)"
    "read_optional ''devices'' (get_array spec_device_from_json) [] ?j = Inr (ss_devices x)"
    by (simp_all add: read_optional_def f spec_models_roundtrip spec_devices_roundtrip del: get_array.simps)
  moreover have "read_optional ''healthCheck'' (get_some health_from_json) None ?j = Inr (ss_healthCheck x)"
    using assms by (cases "ss_healthCheck x") (simp_all add: read_optional_def f get_some_def health_roundtrip service_spec_ok_def)
  moreover have "read_optional ''config'' Inr JNull ?j = Inr (ss_config x)"
    by (simp add: read_optional_def f)
  ultimately show ?thesis
    using assms
    by (simp add: service_spec_from_json_def read_optional_def [of _ get_string] read_optional_def [of _ get_int]
        read_required_find f version_of_text service_spec_ok_def)
qed

text \<open>A service resource written as JSON is read back unchanged, with its restart policy, its probes and its
  runtime state.\<close>
theorem service_cr_roundtrip:
  assumes "uuid_text_ok L" "service_cr_ok x"
  shows "service_cr_from_json L (service_cr_to_json L x) = Inr x"
proof -
  let ?j = "service_cr_to_json L x"
  have f: "\<And>k. jfind k ?j =
     (if k = ''restartCount'' then Some (JNum (scr_restartCount x))
      else if k = ''state'' then Some (JStr (show_service_state (scr_state x)))
      else if k = ''id'' \<and> scr_id x \<noteq> 0 then Some (JStr (show_uuid L (scr_id x)))
      else if k = ''spec'' \<and> scr_spec x \<noteq> None then Some (service_spec_to_json (the (scr_spec x)))
      else if k = ''metadata'' then Some (service_metadata_to_json (scr_metadata x))
      else if k = ''kind'' then Some (JStr (scr_kind x))
      else None)"
    unfolding service_cr_to_json_def by (simp only: doc_puts)
  have [simp]: "is_obj ?j" by (simp add: service_cr_to_json_def del: jput.simps)
  have "read_optional ''id'' (uuid_from_json L) 0 ?j = Inr (scr_id x)"
    using uuid_json_roundtrip [OF assms(1)] by (simp add: read_optional_def f uuid_to_json_def)
  moreover have "read_optional ''spec'' (get_some (service_spec_from_json L)) None ?j = Inr (scr_spec x)"
    using assms(2)
    by (cases "scr_spec x") (simp_all add: read_optional_def f get_some_def service_spec_roundtrip service_cr_ok_def)
  ultimately show ?thesis
    using assms(2)
    by (simp add: service_cr_from_json_def read_optional_def [of _ service_state_from_json]
        read_optional_def [of _ get_int] read_required_find f service_cr_ok_def)
qed

definition sample_service :: service_cr where
  "sample_service = \<lparr>scr_id = 6, scr_kind = ''Service'',
     scr_metadata = \<lparr>md_name = ''db'', md_labels = [], md_annotations = [(''note'', ''x'')]\<rparr>,
     scr_spec = Some \<lparr>ss_package = ''pkg'', ss_version = Version 1 0 0 Rc (Some 2), ss_serviceName = ''db'',
       ss_position = ''localhost'', ss_config = JNull, ss_restartPolicy = ''on-failure'', ss_maxRestarts = 3,
       ss_restartBackoffSeconds = 5,
       ss_healthCheck = Some \<lparr>hc_liveness = Some \<lparr>pb_type = ''http'', pb_path = ''/ok'', pb_port = 10,
         pb_intervalSeconds = 10, pb_failureThreshold = 1\<rparr>, hc_readiness = None\<rparr>,
       ss_devices = [], ss_models = [''m1'']\<rparr>,
     scr_state = SRunning, scr_restartCount = 1\<rparr>"

lemma service_cr_roundtrip_witness:
  "service_cr_from_json decimal_lib (service_cr_to_json decimal_lib sample_service) = Inr sample_service"
  by (rule service_cr_roundtrip)
    (simp_all add: service_cr_ok_def service_spec_ok_def sample_service_def health_ok_def probe_ok_def version_ok_def)

end
