(* ===== verification/ServiceLifecycle.thy ===== *)
theory ServiceLifecycle
  imports ServiceCR
begin

section \<open>Service lifecycle\<close>

text \<open>
  \<open>src/lifecyclemgr/service_lifecycle.cpp\<close>: starting and stopping services, the restart policy applied when a
  process exits, and the periodic health checks. The function that starts a process and the HTTP client of the
  probes are parameters over a state \<open>'w\<close> of the surroundings; the exit callback a start registers comes back as
  a later call of \<open>on_service_exit\<close> with the id of the service. Every operation holds the mutex from its start to
  its end, so a run is a sequence of operations. Dereferencing the null specification of a service that has
  none is undefined behaviour; the model throws.
\<close>

(* include/lifecyclemgr/service_lifecycle.hpp:64-72 ServiceLifecycleManager::ServiceEntry *)
record svc_entry =
  se_cr :: service_cr
  se_path :: string
  se_handle :: uuid
  se_state :: service_state
  se_restartCount :: int
  se_failures :: int
  se_lastRestart :: time

(* include/lifecyclemgr/service_lifecycle.hpp:77-79 ServiceLifecycleManager (members) *)
record 'w svc_mgr =
  sv_services :: "(uuid, svc_entry) omap"
  sv_world :: 'w

text \<open>\<open>start\<close> is the constructor's \<open>StartProcessFn\<close>; \<open>probe_get\<close> is the status of a GET on a port and path of
  localhost, if there was an answer.\<close>

record 'w svc_env =
  sx_start :: "string \<Rightarrow> 'w \<Rightarrow> (exn + uuid) \<times> 'w"
  sx_probe_get :: "int \<Rightarrow> string \<Rightarrow> 'w \<Rightarrow> int option"

definition null_spec :: exn where
  "null_spec = LogicError ''null specification''"

(* src/lifecyclemgr/service_lifecycle.cpp:20-21 ServiceLifecycleManager::ServiceLifecycleManager *)
definition new_svc_mgr :: "'w \<Rightarrow> 'w svc_mgr" where
  "new_svc_mgr w = \<lparr>sv_services = [], sv_world = w\<rparr>"

(* src/lifecyclemgr/service_lifecycle.cpp:23-51 ServiceLifecycleManager::start_service *)
definition start_service :: "'w svc_env \<Rightarrow> time \<Rightarrow> service_cr \<Rightarrow> string \<Rightarrow> 'w svc_mgr \<Rightarrow> 'w svc_mgr" where
  "start_service X now cr path M =
     (let e0 = \<lparr>se_cr = cr, se_path = path, se_handle = 0, se_state = SStarting, se_restartCount = 0, se_failures = 0,
                se_lastRestart = now\<rparr>;
          (r, w) = sx_start X path (sv_world M);
          e = (case r of Inr h \<Rightarrow> e0\<lparr>se_handle := h, se_state := SRunning\<rparr> | Inl _ \<Rightarrow> e0\<lparr>se_state := SFailed\<rparr>)
      in \<lparr>sv_services = oput (scr_id cr) e (sv_services M), sv_world = w\<rparr>)"

(* src/lifecyclemgr/service_lifecycle.cpp:53-62 ServiceLifecycleManager::stop_service *)
definition stop_service :: "uuid \<Rightarrow> 'w svc_mgr \<Rightarrow> 'w svc_mgr" where
  "stop_service i M =
     (case map_of (sv_services M) i of
        None \<Rightarrow> M
      | Some e \<Rightarrow> M\<lparr>sv_services := oput i (e\<lparr>se_state := SStopped\<rparr>) (sv_services M)\<rparr>)"

(* src/lifecyclemgr/service_lifecycle.cpp:89-97 ServiceLifecycleManager::should_restart *)
definition should_restart :: "svc_entry \<Rightarrow> int \<Rightarrow> exn + bool" where
  "should_restart e exit_code =
     (case scr_spec (se_cr e) of
        None \<Rightarrow> Inl null_spec
      | Some sp \<Rightarrow>
          Inr (if ss_restartPolicy sp = ''never'' then False
               else if ss_restartPolicy sp = ''on-failure'' \<and> exit_code = 0 then False
               else se_restartCount e < ss_maxRestarts sp))"

text \<open>The delay is only logged; it is computed in 32 bits, where the shift and the product can overflow (undefined
  behaviour, here the wrap-around of the machine).\<close>

(* src/lifecyclemgr/service_lifecycle.cpp:103-105 ServiceLifecycleManager::do_restart (delay) *)
definition restart_delay :: "int \<Rightarrow> int \<Rightarrow> int" where
  "restart_delay backoff n = min (to_int32 (backoff * to_int32 (2 ^ nat (n - 1)))) 300"

(* src/lifecyclemgr/service_lifecycle.cpp:99-124 ServiceLifecycleManager::do_restart *)
definition do_restart :: "'w svc_env \<Rightarrow> time \<Rightarrow> svc_entry \<Rightarrow> 'w \<Rightarrow> svc_entry \<times> 'w" where
  "do_restart X now e w =
     (let e1 = e\<lparr>se_restartCount := se_restartCount e + 1, se_state := SRestarting\<rparr>;
          (r, w') = sx_start X (se_path e) w
      in (case r of
            Inr h \<Rightarrow> (e1\<lparr>se_handle := h, se_state := SRunning, se_failures := 0, se_lastRestart := now\<rparr>, w')
          | Inl _ \<Rightarrow> (e1\<lparr>se_state := SFailed\<rparr>, w')))"

text \<open>What follows a failure: a restart if the policy allows one.\<close>

(* src/lifecyclemgr/service_lifecycle.cpp:79-86 ServiceLifecycleManager::on_service_exit (tail) *)
definition restart_or_fail :: "'w svc_env \<Rightarrow> time \<Rightarrow> int \<Rightarrow> svc_entry \<Rightarrow> 'w \<Rightarrow> exn + (svc_entry \<times> 'w)" where
  "restart_or_fail X now exit_code e w =
     rbind (should_restart e exit_code) (\<lambda>b.
       Inr (if b then do_restart X now e w else (e\<lparr>se_state := SFailed\<rparr>, w)))"

(* src/lifecyclemgr/service_lifecycle.cpp:64-87 ServiceLifecycleManager::on_service_exit *)
definition on_service_exit :: "'w svc_env \<Rightarrow> time \<Rightarrow> uuid \<Rightarrow> int \<Rightarrow> 'w svc_mgr \<Rightarrow> exn + 'w svc_mgr" where
  "on_service_exit X now i exit_code M =
     (case map_of (sv_services M) i of
        None \<Rightarrow> Inr M
      | Some e \<Rightarrow>
          if se_state e = SStopped then Inr M
          else rbind (restart_or_fail X now exit_code e (sv_world M)) (\<lambda>(e', w).
                 Inr \<lparr>sv_services = oput i e' (sv_services M), sv_world = w\<rparr>))"

(* src/lifecyclemgr/service_lifecycle.cpp:139-143 ServiceLifecycleManager::run_health_checks (answer) *)
definition probe_ok_status :: "int option \<Rightarrow> bool" where
  "probe_ok_status r = (case r of Some st \<Rightarrow> st \<ge> 200 \<and> st < 400 | None \<Rightarrow> False)"

(* src/lifecyclemgr/service_lifecycle.cpp:129-161 ServiceLifecycleManager::run_health_checks (body) *)
definition check_health :: "'w svc_env \<Rightarrow> time \<Rightarrow> svc_entry \<Rightarrow> 'w \<Rightarrow> exn + (svc_entry \<times> 'w)" where
  "check_health X now e w =
     (if se_state e \<noteq> SRunning then Inr (e, w)
      else
        (case scr_spec (se_cr e) of
           None \<Rightarrow> Inl null_spec
         | Some sp \<Rightarrow>
             (case ss_healthCheck sp of
                None \<Rightarrow> Inr (e, w)
              | Some hc \<Rightarrow>
                  (case hc_liveness hc of
                     None \<Rightarrow> Inr (e, w)
                   | Some p \<Rightarrow>
                       if pb_type p = ''http'' \<and> pb_port p > 0 \<and> pb_path p \<noteq> [] then
                         if probe_ok_status (sx_probe_get X (pb_port p) (pb_path p) w)
                         then Inr (e\<lparr>se_failures := 0\<rparr>, w)
                         else
                           (let e1 = e\<lparr>se_failures := se_failures e + 1\<rparr> in
                            if se_failures e1 \<ge> pb_failureThreshold p
                            then restart_or_fail X now 1 (e1\<lparr>se_failures := 0\<rparr>) w
                            else Inr (e1, w))
                       else Inr (e, w)))))"

(* src/lifecyclemgr/service_lifecycle.cpp:128-161 ServiceLifecycleManager::run_health_checks (loop) *)
fun health_loop :: "'w svc_env \<Rightarrow> time \<Rightarrow> (uuid \<times> svc_entry) list \<Rightarrow> 'w \<Rightarrow> exn + ((uuid \<times> svc_entry) list \<times> 'w)" where
  "health_loop X now [] w = Inr ([], w)"
| "health_loop X now ((i, e) # es) w =
     rbind (check_health X now e w) (\<lambda>(e', w1).
     rbind (health_loop X now es w1) (\<lambda>(es', w2). Inr ((i, e') # es', w2)))"

(* src/lifecyclemgr/service_lifecycle.cpp:126-162 ServiceLifecycleManager::run_health_checks *)
definition run_health_checks :: "'w svc_env \<Rightarrow> time \<Rightarrow> 'w svc_mgr \<Rightarrow> exn + 'w svc_mgr" where
  "run_health_checks X now M =
     rbind (health_loop X now (sv_services M) (sv_world M)) (\<lambda>(es, w). Inr \<lparr>sv_services = es, sv_world = w\<rparr>)"

(* src/lifecyclemgr/service_lifecycle.cpp:164-169 ServiceLifecycleManager::get_state *)
definition get_state :: "'w svc_mgr \<Rightarrow> uuid \<Rightarrow> service_state" where
  "get_state M i = (case map_of (sv_services M) i of None \<Rightarrow> SStopped | Some e \<Rightarrow> se_state e)"

(* include/lifecyclemgr/service_lifecycle.hpp:54-60 ServiceLifecycleManager::ServiceRunInfo *)
record service_run_info =
  sri_id :: uuid
  sri_serviceName :: string
  sri_state :: service_state
  sri_restartCount :: int
  sri_pid :: int

(* src/lifecyclemgr/service_lifecycle.cpp:171-186 ServiceLifecycleManager::get_all_services *)
definition get_all_services :: "'w svc_mgr \<Rightarrow> exn + service_run_info list" where
  "get_all_services M =
     mapM_r (\<lambda>(i, e).
       case scr_spec (se_cr e) of
         None \<Rightarrow> Inl null_spec
       | Some sp \<Rightarrow> Inr \<lparr>sri_id = i, sri_serviceName = ss_serviceName sp, sri_state = se_state e,
                        sri_restartCount = se_restartCount e, sri_pid = 0\<rparr>) (sv_services M)"

subsection \<open>Runs\<close>

text \<open>The calls of the manager, in any order and at any time.\<close>

datatype svc_op = StartOp service_cr string | StopOp uuid | ExitOp uuid int | HealthOp

fun svc_step :: "'w svc_env \<Rightarrow> time \<times> svc_op \<Rightarrow> 'w svc_mgr \<Rightarrow> exn + 'w svc_mgr" where
  "svc_step X (t, StartOp cr path) M = Inr (start_service X t cr path M)"
| "svc_step X (t, StopOp i) M = Inr (stop_service i M)"
| "svc_step X (t, ExitOp i c) M = on_service_exit X t i c M"
| "svc_step X (t, HealthOp) M = run_health_checks X t M"

fun svc_run :: "'w svc_env \<Rightarrow> (time \<times> svc_op) list \<Rightarrow> 'w svc_mgr \<Rightarrow> exn + 'w svc_mgr" where
  "svc_run X [] M = Inr M"
| "svc_run X (x # xs) M = rbind (svc_step X x M) (svc_run X xs)"

subsection \<open>What a health check does to the map\<close>

text \<open>The health checks visit every entry once and touch nothing else.\<close>

lemma health_loop_keys: "health_loop X now es w = Inr (es', w') \<Longrightarrow> map fst es' = map fst es"
  by (induction es arbitrary: w es' w') (auto simp: result_simps)

lemma health_loop_entry:
  assumes "health_loop X now es w = Inr (es', w')" "map_of es' i = Some e'"
  shows "\<exists>e v v'. map_of es i = Some e \<and> check_health X now e v = Inr (e', v')"
  using assms
proof (induction es arbitrary: w es' w')
  case (Cons x es)
  obtain k e0 where x: "x = (k, e0)" by (cases x)
  obtain e1 w1 es1 w2 where h: "check_health X now e0 w = Inr (e1, w1)" "health_loop X now es w1 = Inr (es1, w2)"
    "es' = (k, e1) # es1" using Cons.prems(1) by (auto simp: x result_simps)
  show ?case
  proof (cases "k = i")
    case True
    then show ?thesis using Cons.prems(2) h x by auto
  next
    case False
    then show ?thesis using Cons.IH [OF h(2)] Cons.prems(2) h(3) x by simp
  qed
qed simp

subsection \<open>Bounded restarts\<close>

definition entry_inv :: "uuid \<Rightarrow> svc_entry \<Rightarrow> bool" where
  "entry_inv i e = (scr_id (se_cr e) = i \<and> se_state e \<in> {SStopped, SRunning, SFailed} \<and> 0 \<le> se_restartCount e
     \<and> (case scr_spec (se_cr e) of None \<Rightarrow> se_restartCount e = 0
        | Some sp \<Rightarrow> se_restartCount e \<le> max 0 (ss_maxRestarts sp)
            \<and> (ss_restartPolicy sp = ''never'' \<longrightarrow> se_restartCount e = 0)))"

definition svc_inv :: "'w svc_mgr \<Rightarrow> bool" where
  "svc_inv M = (\<forall>i e. map_of (sv_services M) i = Some e \<longrightarrow> entry_inv i e)"

lemma do_restart_fields:
  "do_restart X now e w = (e', w') \<Longrightarrow> se_cr e' = se_cr e \<and> se_state e' \<in> {SRunning, SFailed}
     \<and> se_restartCount e' = se_restartCount e + 1"
  by (auto simp: do_restart_def Let_def split: prod.splits sum.splits)

lemma restart_or_fail_fields:
  assumes "restart_or_fail X now c e w = Inr (e', w')"
  shows "\<exists>sp. scr_spec (se_cr e) = Some sp \<and> se_cr e' = se_cr e \<and> se_state e' \<in> {SRunning, SFailed}
     \<and> (se_restartCount e' = se_restartCount e
        \<or> se_restartCount e' = se_restartCount e + 1 \<and> se_restartCount e < ss_maxRestarts sp
          \<and> ss_restartPolicy sp \<noteq> ''never'')"
proof -
  obtain sp where sp: "scr_spec (se_cr e) = Some sp"
    using assms by (auto simp: restart_or_fail_def should_restart_def split: option.splits)
  show ?thesis
  proof (cases "should_restart e c = Inr True")
    case True
    then have "do_restart X now e w = (e', w')" using assms by (simp add: restart_or_fail_def)
    from do_restart_fields [OF this] show ?thesis using True sp
      by (auto simp: should_restart_def split: if_splits)
  next
    case False
    then have "e' = e\<lparr>se_state := SFailed\<rparr>"
      using assms sp by (auto simp: restart_or_fail_def result_simps should_restart_def split: if_splits)
    then show ?thesis using sp by simp
  qed
qed

lemma restart_or_fail_inv:
  assumes "entry_inv i e" "restart_or_fail X now c e w = Inr (e', w')"
  shows "entry_inv i e'"
  using restart_or_fail_fields [OF assms(2)] assms(1) by (auto simp: entry_inv_def)

lemma check_health_cases:
  assumes "check_health X now e w = Inr (e', w')"
  shows "(\<exists>n. e' = e\<lparr>se_failures := n\<rparr>) \<or> (\<exists>n. restart_or_fail X now 1 (e\<lparr>se_failures := n\<rparr>) w = Inr (e', w'))"
proof -
  have same: "e' = e \<Longrightarrow> \<exists>n. e' = e\<lparr>se_failures := n\<rparr>" by (rule exI [of _ "se_failures e"]) simp
  show ?thesis
  proof (cases "\<exists>sp hc p. se_state e = SRunning \<and> scr_spec (se_cr e) = Some sp \<and> ss_healthCheck sp = Some hc
      \<and> hc_liveness hc = Some p \<and> pb_type p = ''http'' \<and> pb_port p > 0 \<and> pb_path p \<noteq> []")
    case True
    then obtain sp hc p where "se_state e = SRunning" "scr_spec (se_cr e) = Some sp" "ss_healthCheck sp = Some hc"
      "hc_liveness hc = Some p" "pb_type p = ''http''" "pb_port p > 0" "pb_path p \<noteq> []" by blast
    then show ?thesis using assms by (auto simp: check_health_def Let_def split: if_splits)
  next
    case False
    then have "e' = e"
      using assms unfolding check_health_def
      by (cases "scr_spec (se_cr e)"; cases "ss_healthCheck (the (scr_spec (se_cr e)))";
          cases "hc_liveness (the (ss_healthCheck (the (scr_spec (se_cr e)))))") (auto split: if_splits)
    then show ?thesis using same by blast
  qed
qed

lemma entry_inv_failures [simp]: "entry_inv i (e\<lparr>se_failures := n\<rparr>) = entry_inv i e"
  by (simp add: entry_inv_def split: option.split)

lemma entry_inv_stopped: "entry_inv i e \<Longrightarrow> entry_inv i (e\<lparr>se_state := SStopped\<rparr>)"
  by (simp add: entry_inv_def split: option.splits)

lemma check_health_inv:
  assumes "entry_inv i e" "check_health X now e w = Inr (e', w')"
  shows "entry_inv i e'"
  using check_health_cases [OF assms(2)]
proof
  assume "\<exists>n. restart_or_fail X now 1 (e\<lparr>se_failures := n\<rparr>) w = Inr (e', w')"
  then show ?thesis using restart_or_fail_inv assms(1) entry_inv_failures by metis
qed (use assms(1) in auto)

lemma svc_inv_put: "svc_inv M \<Longrightarrow> entry_inv i e \<Longrightarrow> svc_inv \<lparr>sv_services = oput i e (sv_services M), sv_world = w\<rparr>"
  by (simp add: svc_inv_def)

lemma start_service_put:
  "\<exists>e w. start_service X t cr path M = \<lparr>sv_services = oput (scr_id cr) e (sv_services M), sv_world = w\<rparr>
     \<and> se_cr e = cr \<and> se_restartCount e = 0 \<and> se_state e \<in> {SRunning, SFailed}"
  by (auto simp: start_service_def Let_def split: prod.splits sum.splits)

lemma svc_step_inv:
  assumes "svc_inv M" "svc_step X x M = Inr M'"
  shows "svc_inv M'"
proof -
  obtain t op where x: "x = (t, op)" by (cases x)
  show ?thesis
  proof (cases op)
    case (StartOp cr path)
    obtain e w where s: "start_service X t cr path M = \<lparr>sv_services = oput (scr_id cr) e (sv_services M), sv_world = w\<rparr>"
      and "se_cr e = cr" "se_restartCount e = 0" "se_state e \<in> {SRunning, SFailed}"
      using start_service_put [of X t cr path M] by blast
    from this(2-) have "entry_inv (scr_id cr) e" by (auto simp: entry_inv_def split: option.split)
    then show ?thesis using assms(2) svc_inv_put [OF assms(1)] by (auto simp: x StartOp s)
  next
    case (StopOp i)
    show ?thesis
    proof (cases "map_of (sv_services M) i")
      case (Some e)
      then have "entry_inv i (e\<lparr>se_state := SStopped\<rparr>)" using assms(1) entry_inv_stopped by (auto simp: svc_inv_def)
      then show ?thesis using assms Some by (auto simp: x StopOp stop_service_def svc_inv_def split: if_splits)
    qed (use assms in \<open>simp add: x StopOp stop_service_def\<close>)
  next
    case (ExitOp i c)
    show ?thesis
    proof (cases "map_of (sv_services M) i")
      case (Some e)
      then have "entry_inv i e" using assms(1) by (simp add: svc_inv_def)
      then show ?thesis using assms Some
        by (auto simp: x ExitOp on_service_exit_def result_simps split: if_splits
            intro: svc_inv_put restart_or_fail_inv)
    qed (use assms in \<open>simp add: x ExitOp on_service_exit_def\<close>)
  next
    case HealthOp
    then obtain es w where h: "health_loop X t (sv_services M) (sv_world M) = Inr (es, w)"
      "M' = \<lparr>sv_services = es, sv_world = w\<rparr>"
      using assms(2) by (auto simp: x run_health_checks_def result_simps)
    have "entry_inv i e'" if e': "map_of es i = Some e'" for i e'
    proof -
      obtain e v v' where m: "map_of (sv_services M) i = Some e" and c: "check_health X t e v = Inr (e', v')"
        using health_loop_entry [OF h(1) e'] by blast
      then show ?thesis using check_health_inv [OF _ c] assms(1) m by (simp add: svc_inv_def)
    qed
    then show ?thesis by (simp add: h(2) svc_inv_def)
  qed
qed

lemma svc_run_inv: "svc_inv M \<Longrightarrow> svc_run X ops M = Inr M' \<Longrightarrow> svc_inv M'"
  by (induction ops arbitrary: M) (auto simp: result_simps dest: svc_step_inv)


subsection \<open>Stopping\<close>

lemma check_health_stopped: "se_state e = SStopped \<Longrightarrow> check_health X now e w = Inr (e, w)"
  by (simp add: check_health_def)

lemma health_loop_stopped:
  "health_loop X now es w = Inr (es', w') \<Longrightarrow> map_of es i = Some e \<Longrightarrow> se_state e = SStopped \<Longrightarrow> map_of es' i = Some e"
  by (induction es arbitrary: w es' w') (auto simp: result_simps check_health_stopped split: if_splits)

lemma svc_step_stopped:
  assumes "svc_step X x M = Inr M'" "map_of (sv_services M) i = Some e" "se_state e = SStopped"
    and "\<nexists>t cr path. x = (t, StartOp cr path) \<and> scr_id cr = i"
  shows "map_of (sv_services M') i = Some e"
proof -
  obtain t op where x: "x = (t, op)" by (cases x)
  show ?thesis
  proof (cases op)
    case (StartOp cr path)
    then show ?thesis using assms by (auto simp: x start_service_def Let_def split: prod.splits)
  next
    case (StopOp k)
    then show ?thesis using assms by (cases e) (auto simp: x stop_service_def split: option.splits)
  next
    case (ExitOp k c)
    then show ?thesis using assms
      by (auto simp: x on_service_exit_def result_simps split: option.splits if_splits)
  next
    case HealthOp
    then show ?thesis using assms health_loop_stopped
      by (fastforce simp: x run_health_checks_def result_simps)
  qed
qed

text \<open>C27: a stopped service stays as it is until it is started again: no exit of its process, late or repeated, and no
  health check restarts it.\<close>
theorem stopped_stays_stopped:
  assumes "map_of (sv_services M) i = Some e" "svc_run X ops (stop_service i M) = Inr M'"
    and "\<nexists>t cr path. (t, StartOp cr path) \<in> set ops \<and> scr_id cr = i"
  shows "map_of (sv_services M') i = Some (e\<lparr>se_state := SStopped\<rparr>) \<and> get_state M' i = SStopped"
proof -
  have run: "svc_run X ops N = Inr M' \<Longrightarrow> map_of (sv_services N) i = Some (e\<lparr>se_state := SStopped\<rparr>)
      \<Longrightarrow> map_of (sv_services M') i = Some (e\<lparr>se_state := SStopped\<rparr>)" for N
    using assms(3)
  proof (induction ops arbitrary: N)
    case (Cons x ops)
    then show ?case using svc_step_stopped [of X x N _ i "e\<lparr>se_state := SStopped\<rparr>"]
      by (fastforce simp: result_simps)
  qed simp
  have "map_of (sv_services (stop_service i M)) i = Some (e\<lparr>se_state := SStopped\<rparr>)"
    using assms(1) by (simp add: stop_service_def)
  then show ?thesis using run [OF assms(2)] by (simp add: get_state_def)
qed

subsection \<open>Crash loops\<close>

text \<open>A surrounding in which every process starts.\<close>

definition starts_ok :: "'w svc_env \<Rightarrow> bool" where
  "starts_ok X = (\<forall>path w. \<exists>h w'. sx_start X path w = (Inr h, w'))"

lemma exit_restarts:
  assumes "starts_ok X" "map_of (sv_services M) i = Some e" "se_state e \<noteq> SStopped"
    and "scr_spec (se_cr e) = Some sp" "ss_restartPolicy sp \<noteq> ''never''" "c \<noteq> 0" "se_restartCount e < ss_maxRestarts sp"
  shows "\<exists>M' e'. on_service_exit X t i c M = Inr M' \<and> map_of (sv_services M') i = Some e' \<and> se_cr e' = se_cr e
     \<and> se_state e' = SRunning \<and> se_restartCount e' = se_restartCount e + 1"
proof -
  obtain h w where "sx_start X (se_path e) (sv_world M) = (Inr h, w)"
    using assms(1) unfolding starts_ok_def by blast
  then show ?thesis using assms
    by (simp add: on_service_exit_def restart_or_fail_def should_restart_def do_restart_def Let_def)
qed

lemma exit_fails:
  assumes "map_of (sv_services M) i = Some e" "se_state e \<noteq> SStopped"
    and "scr_spec (se_cr e) = Some sp" "se_restartCount e \<ge> ss_maxRestarts sp"
  shows "\<exists>M' e'. on_service_exit X t i c M = Inr M' \<and> map_of (sv_services M') i = Some e' \<and> se_cr e' = se_cr e
     \<and> se_state e' = SFailed \<and> se_restartCount e' = se_restartCount e"
  using assms by (simp add: on_service_exit_def restart_or_fail_def should_restart_def)

lemma exits_run:
  assumes "starts_ok X" "\<nexists>x. x \<in> set tcs \<and> snd x = 0"
    and "map_of (sv_services M) i = Some e" "se_state e = SRunning \<or> se_restartCount e \<ge> ss_maxRestarts sp"
    and "se_state e \<noteq> SStopped" "scr_spec (se_cr e) = Some sp" "ss_restartPolicy sp \<noteq> ''never''"
    and "0 \<le> se_restartCount e" "se_restartCount e \<le> max 0 (ss_maxRestarts sp)"
  shows "\<exists>M' e'. svc_run X (map (\<lambda>(t, c). (t, ExitOp i c)) tcs) M = Inr M' \<and> map_of (sv_services M') i = Some e'
     \<and> se_restartCount e' = min (se_restartCount e + int (length tcs)) (max 0 (ss_maxRestarts sp))
     \<and> se_state e' = (if tcs = [] then se_state e
          else if se_restartCount e + int (length tcs) \<le> ss_maxRestarts sp then SRunning else SFailed)"
  using assms(2-)
proof (induction tcs arbitrary: M e)
  case Nil
  then show ?case by auto
next
  case (Cons tc tcs)
  obtain t c where tc: "tc = (t, c)" by (cases tc)
  have c: "c \<noteq> 0" using Cons.prems(1) tc by auto
  have tcs: "\<nexists>x. x \<in> set tcs \<and> snd x = 0" using Cons.prems(1) by auto
  show ?case
  proof (cases "se_restartCount e < ss_maxRestarts sp")
    case True
    obtain M1 e1 where 1: "on_service_exit X t i c M = Inr M1" "map_of (sv_services M1) i = Some e1"
      "se_cr e1 = se_cr e" "se_state e1 = SRunning" "se_restartCount e1 = se_restartCount e + 1"
      using exit_restarts [OF assms(1) Cons.prems(2) _ _ _ c True] Cons.prems by blast
    then show ?thesis
      using Cons.IH [OF tcs 1(2)] Cons.prems True by (auto simp: tc min_def max_def split: if_splits)
  next
    case False
    obtain M1 e1 where 1: "on_service_exit X t i c M = Inr M1" "map_of (sv_services M1) i = Some e1"
      "se_cr e1 = se_cr e" "se_state e1 = SFailed" "se_restartCount e1 = se_restartCount e"
      using exit_fails [OF Cons.prems(2) _ _ _, of sp X t c] Cons.prems False by (auto simp: not_less)
    then show ?thesis
      using Cons.IH [OF tcs 1(2)] Cons.prems False by (auto simp: tc min_def max_def split: if_splits)
  qed
qed

text \<open>A service that keeps crashing ends as failed: after its start, \<open>n\<close> exits with an error code leave it running
  with \<open>n\<close> restarts while \<open>n\<close> is at most \<open>maxRestarts\<close>, and failed with \<open>maxRestarts\<close> restarts afterwards.\<close>
theorem crash_loop_ends_failed:
  assumes "starts_ok X" "scr_spec cr = Some sp" "ss_restartPolicy sp \<noteq> ''never''"
    and "\<nexists>x. x \<in> set exits \<and> snd x = 0"
  shows "\<exists>M' e'. svc_run X ((t0, StartOp cr path) # map (\<lambda>(t, c). (t, ExitOp (scr_id cr) c)) exits) M = Inr M'
     \<and> map_of (sv_services M') (scr_id cr) = Some e'
     \<and> se_restartCount e' = min (int (length exits)) (max 0 (ss_maxRestarts sp))
     \<and> se_state e' = (if int (length exits) \<le> max 0 (ss_maxRestarts sp) then SRunning else SFailed)"
proof -
  obtain h w where h: "sx_start X path (sv_world M) = (Inr h, w)"
    using assms(1) unfolding starts_ok_def by blast
  define e where "e = \<lparr>se_cr = cr, se_path = path, se_handle = h, se_state = SRunning, se_restartCount = 0,
    se_failures = 0, se_lastRestart = t0\<rparr>"
  have s: "start_service X t0 cr path M = \<lparr>sv_services = oput (scr_id cr) e (sv_services M), sv_world = w\<rparr>"
    by (simp add: start_service_def h e_def)
  have e: "se_cr e = cr" "se_state e = SRunning" "se_restartCount e = 0" by (simp_all add: e_def)
  have "map_of (sv_services (start_service X t0 cr path M)) (scr_id cr) = Some e" by (simp add: s)
  from exits_run [OF assms(1,4) this] show ?thesis using assms(2,3) e by (auto simp: max_def split: if_splits)
qed

text \<open>A failed health check restarts the service while its old process still runs: when that process exits, with
  any code, the exit is taken for one of the new process and a third process is started. One failure costs two of the
  allowed restarts.\<close>
theorem health_restart_counts_twice:
  assumes "starts_ok X" "sv_services M = [(i, e)]" "se_state e = SRunning" "scr_spec (se_cr e) = Some sp"
    and "ss_restartPolicy sp = ''always''" "se_restartCount e + 2 \<le> ss_maxRestarts sp"
    and "ss_healthCheck sp = Some hc" "hc_liveness hc = Some p" "pb_type p = ''http''" "pb_port p > 0" "pb_path p \<noteq> []"
    and "pb_failureThreshold p \<le> se_failures e + 1" "sx_probe_get X (pb_port p) (pb_path p) (sv_world M) = None"
  shows "\<exists>M' e'. svc_run X [(t, HealthOp), (t', ExitOp i c)] M = Inr M' \<and> map_of (sv_services M') i = Some e'
     \<and> se_state e' = SRunning \<and> se_restartCount e' = se_restartCount e + 2"
proof -
  obtain h w where h: "sx_start X (se_path e) (sv_world M) = (Inr h, w)"
    using assms(1) unfolding starts_ok_def by blast
  obtain h' w' where h': "sx_start X (se_path e) w = (Inr h', w')"
    using assms(1) unfolding starts_ok_def by blast
  show ?thesis
    using assms
    by (simp add: run_health_checks_def check_health_def probe_ok_status_def restart_or_fail_def should_restart_def
        do_restart_def h h' on_service_exit_def Let_def)
qed

subsection \<open>Concrete runs\<close>

text \<open>Surroundings that log the started paths and answer no probe.\<close>

definition log_env :: "string list svc_env" where
  "log_env = \<lparr>sx_start = (\<lambda>path w. (Inr (word_of_nat (length w + 1)), w @ [path])), sx_probe_get = (\<lambda>port path w. None)\<rparr>"

lemma log_env_ok [simp]: "starts_ok log_env"
  by (simp add: starts_ok_def log_env_def)

definition db_spec :: service_spec where
  "db_spec = \<lparr>ss_package = [], ss_version = Version 1 0 0 NoPre None, ss_serviceName = ''db'', ss_position = [],
     ss_config = JNull, ss_restartPolicy = ''always'', ss_maxRestarts = 2, ss_restartBackoffSeconds = 5,
     ss_healthCheck = Some \<lparr>hc_liveness = Some \<lparr>pb_type = ''http'', pb_path = ''/ok'', pb_port = 10,
         pb_intervalSeconds = 10, pb_failureThreshold = 1\<rparr>, hc_readiness = None\<rparr>, ss_devices = [], ss_models = []\<rparr>"

definition db_cr :: service_cr where
  "db_cr = \<lparr>scr_id = 6, scr_kind = ''Service'', scr_metadata = empty_metadata, scr_spec = Some db_spec,
     scr_state = SStopped, scr_restartCount = 0\<rparr>"

definition db_entry :: svc_entry where
  "db_entry = \<lparr>se_cr = db_cr, se_path = ''db'', se_handle = 1, se_state = SRunning, se_restartCount = 0, se_failures = 0,
     se_lastRestart = 0\<rparr>"

definition db_mgr :: "string list svc_mgr" where
  "db_mgr = \<lparr>sv_services = [(6, db_entry)], sv_world = [''db'']\<rparr>"

lemma db_mgr_start: "start_service log_env 0 db_cr ''db'' (new_svc_mgr []) = db_mgr"
  by (simp add: start_service_def new_svc_mgr_def log_env_def db_mgr_def db_entry_def db_cr_def)


lemma stopped_stays_stopped_witness:
  "\<exists>M'. svc_run log_env [(1, ExitOp 6 1), (2, HealthOp)] (stop_service 6 db_mgr) = Inr M' \<and> get_state M' 6 = SStopped"
proof -
  have m: "map_of (sv_services db_mgr) 6 = Some db_entry" by (simp add: db_mgr_def)
  obtain M' where r: "svc_run log_env [(1, ExitOp 6 1), (2, HealthOp)] (stop_service 6 db_mgr) = Inr M'"
    by (simp add: stop_service_def db_mgr_def on_service_exit_def run_health_checks_def check_health_def)
  then show ?thesis using stopped_stays_stopped [OF m r] by simp
qed

lemma crash_loop_ends_failed_witness:
  "\<exists>M' e'. svc_run log_env ((0, StartOp db_cr ''db'') # map (\<lambda>(t, c). (t, ExitOp (scr_id db_cr) c)) [(1, 1), (2, 9), (3, 1)])
     (new_svc_mgr []) = Inr M' \<and> map_of (sv_services M') (scr_id db_cr) = Some e' \<and> se_state e' = SFailed"
  using crash_loop_ends_failed [OF log_env_ok, of db_cr db_spec "[(1, 1), (2, 9), (3, 1)]" 0 "''db''" "new_svc_mgr []"]
  by (auto simp: db_cr_def db_spec_def)

lemma health_restart_counts_twice_witness:
  "\<exists>M' e'. svc_run log_env [(1, HealthOp), (2, ExitOp 6 0)] db_mgr = Inr M' \<and> map_of (sv_services M') 6 = Some e'
     \<and> se_state e' = SRunning \<and> se_restartCount e' = se_restartCount db_entry + 2"
  by (rule health_restart_counts_twice [of _ _ _ _ db_spec "the (ss_healthCheck db_spec)"
        "the (hc_liveness (the (ss_healthCheck db_spec)))"])
    (simp_all add: db_mgr_def db_entry_def db_cr_def db_spec_def log_env_def starts_ok_def)

end
