(* ===== verification/DeviceCR.thy ===== *)
theory DeviceCR
  imports AbilityCR
begin

section \<open>Device resources\<close>

text \<open>
  \<open>include/resourcemgr/device_cr.hpp\<close>, \<open>src/resourcemgr/device_cr.cpp\<close>: the resource that describes a device. Its
  specification keeps every further field of the document as it is. The copies of \<open>parse_sharers\<close>,
  \<open>judge_owner_validity\<close> and \<open>parse_owner\<close> in this file are those of \<open>ability_cr.cpp\<close>.
\<close>

text \<open>The JSON conversion of a version accepts strings only (\<open>include/util/semver_json_convert.hpp\<close>).\<close>

(* include/util/semver_json_convert.hpp:22-28 semver::from_json *)
definition version_from_json :: "text_lib \<Rightarrow> json \<Rightarrow> exn + version" where
  "version_from_json L j =
     (case j of
        JStr s \<Rightarrow> version_of s
      | _ \<Rightarrow> Inl (InvalidArgument (''json is not valid semver string: '' @ dump L j)))"

(* src/resourcemgr/device_cr.cpp:23-27 from_json(Metadata) *)
definition device_metadata_from_json :: "json \<Rightarrow> exn + metadata" where
  "device_metadata_from_json j =
     rbind (read_required ''name'' get_string j) (\<lambda>n.
     rbind (read_optional ''labels'' get_string_map [] j) (\<lambda>l.
     rbind (read_optional ''annotations'' get_string_map [] j) (\<lambda>a.
       Inr \<lparr>md_name = n, md_labels = l, md_annotations = a\<rparr>)))"

text \<open>The labels are always written, the empty ones as an empty object.\<close>

(* src/resourcemgr/device_cr.cpp:29-34 to_json(Metadata) *)
definition device_metadata_to_json :: "metadata \<Rightarrow> json" where
  "device_metadata_to_json m =
     jput_if (md_annotations m \<noteq> []) ''annotations'' (put_string_map (md_annotations m))
      (jput_if (md_labels m \<noteq> []) ''labels'' (put_string_map (md_labels m))
       (jput ''labels'' (put_string_map (md_labels m))
        (jput ''name'' (JStr (md_name m)) JNull)))"

(* include/resourcemgr/device_cr.hpp:45-50 DeviceSpec::Access *)
record device_access =
  da_type :: string
  da_params :: json

(* src/resourcemgr/device_cr.cpp:65-68 from_json(DeviceSpec::Access) *)
definition access_from_json :: "json \<Rightarrow> exn + device_access" where
  "access_from_json j =
     rbind (read_required ''type'' get_string j) (\<lambda>t.
     rbind (read_optional_unless_empty ''params'' Inr JNull j) (\<lambda>p.
       Inr \<lparr>da_type = t, da_params = p\<rparr>))"

(* src/resourcemgr/device_cr.cpp:70-73 to_json(DeviceSpec::Access) *)
definition access_to_json :: "device_access \<Rightarrow> json" where
  "access_to_json x =
     jput_if (\<not> jempty (da_params x)) ''params'' (da_params x) (jput ''type'' (JStr (da_type x)) JNull)"

(* include/resourcemgr/device_cr.hpp:36-55 DeviceSpec *)
record device_spec =
  ds_package :: string
  ds_deviceName :: string
  ds_version :: version
  ds_position :: string
  ds_ownership :: ownership_mode
  ds_bind :: bind_mode
  ds_someDevice :: "(string, json) omap"
  ds_access :: device_access

text \<open>A fresh specification is value-initialised: owned uniquely, bound locally. Every field but these three is also
  kept under its name, and written first, so that the known fields win.\<close>

(* src/resourcemgr/device_cr.cpp:36-50 from_json(DeviceSpec) *)
definition device_spec_from_json :: "text_lib \<Rightarrow> json \<Rightarrow> exn + device_spec" where
  "device_spec_from_json L j =
     rbind (read_required ''package'' get_string j) (\<lambda>pk.
     rbind (read_required ''deviceName'' get_string j) (\<lambda>dn.
     rbind (read_required ''version'' (version_from_json L) j) (\<lambda>v.
     rbind (read_optional ''position'' get_string ''localhost'' j) (\<lambda>pos.
     rbind (read_optional ''ownership'' ownership_from_json Unique j) (\<lambda>ow.
     rbind (read_optional ''bind'' bind_from_json BindLocal j) (\<lambda>b.
     rbind (read_required ''access'' access_from_json j) (\<lambda>a.
       Inr \<lparr>ds_package = pk, ds_deviceName = dn, ds_version = v, ds_position = pos, ds_ownership = ow, ds_bind = b,
            ds_someDevice = filter (\<lambda>(k, _). k \<noteq> ''position'' \<and> k \<noteq> ''ownership'' \<and> k \<noteq> ''bind'') (jitems j),
            ds_access = a\<rparr>)))))))"

(* src/resourcemgr/device_cr.cpp:52-63 to_json(DeviceSpec) *)
definition device_spec_to_json :: "device_spec \<Rightarrow> json" where
  "device_spec_to_json x =
     jput ''access'' (access_to_json (ds_access x))
      (jput ''bind'' (JStr (show_bind (ds_bind x)))
       (jput ''ownership'' (JStr (show_ownership (ds_ownership x)))
        (jput ''position'' (JStr (ds_position x))
         (jput ''version'' (JStr (version_to_string (ds_version x)))
          (jput ''package'' (JStr (ds_package x))
           (jput ''deviceName'' (JStr (ds_deviceName x))
            (fold (\<lambda>(k, v) j. jput k v j) (ds_someDevice x) JNull)))))))"

(* include/resourcemgr/device_cr.hpp:57-76 DeviceCR *)
record device_cr =
  dcr_kind :: string
  dcr_description :: string
  dcr_metadata :: metadata
  dcr_id :: uuid
  dcr_status :: json
  dcr_spec :: device_spec
  dcr_sharers :: "(uuid, string) omap"
  dcr_owner :: owner

(* src/resourcemgr/device_cr.cpp:109-138 from_json(DeviceCR) *)
definition device_cr_from_json :: "text_lib \<Rightarrow> json \<Rightarrow> exn + device_cr" where
  "device_cr_from_json L j =
     rbind (read_required ''kind'' get_string j) (\<lambda>kd.
     rbind (read_optional ''description'' get_string [] j) (\<lambda>dsc.
     rbind (read_required ''metadata'' device_metadata_from_json j) (\<lambda>md.
     rbind (read_optional ''id'' (uuid_from_json L) 0 j) (\<lambda>i.
     rbind (read_optional ''status'' Inr JNull j) (\<lambda>st.
     rbind (read_required ''spec'' (device_spec_from_json L) j) (\<lambda>sp.
     rbind (read_sharers L (md_labels md) j) (\<lambda>sh.
     rbind (read_owner L (md_labels md) j) (\<lambda>ow.
       Inr \<lparr>dcr_kind = kd, dcr_description = dsc, dcr_metadata = md, dcr_id = i, dcr_status = st, dcr_spec = sp,
            dcr_sharers = sh, dcr_owner = ow\<rparr>))))))))"

(* src/resourcemgr/device_cr.cpp:140-159 to_json(DeviceCR) *)
definition device_cr_to_json :: "text_lib \<Rightarrow> device_cr \<Rightarrow> json" where
  "device_cr_to_json L x =
     jput ''owner'' (owner_field L (dcr_owner x))
      (jput ''sharers'' (sharers_to_json L (dcr_sharers x))
       (jput ''spec'' (device_spec_to_json (dcr_spec x))
        (jput_if (\<not> jempty (dcr_status x)) ''status'' (dcr_status x)
         (jput ''id'' (uuid_to_json L (dcr_id x))
          (jput ''metadata'' (device_metadata_to_json (dcr_metadata x))
           (jput_if (dcr_description x \<noteq> []) ''description'' (JStr (dcr_description x))
            (jput ''kind'' (JStr (dcr_kind x)) JNull)))))))"

subsection \<open>Round trip\<close>

definition access_ok :: "device_access \<Rightarrow> bool" where
  "access_ok a = (jempty (da_params a) \<longrightarrow> da_params a = JNull)"

text \<open>A specification as the reader leaves it: the extra fields hold, beside unknown ones, the known fields themselves.\<close>

definition spec_extra_ok :: "device_spec \<Rightarrow> bool" where
  "spec_extra_ok x = (omap_ok (ds_someDevice x)
     \<and> map_of (ds_someDevice x) ''package'' = Some (JStr (ds_package x))
     \<and> map_of (ds_someDevice x) ''deviceName'' = Some (JStr (ds_deviceName x))
     \<and> map_of (ds_someDevice x) ''version'' = Some (JStr (version_to_string (ds_version x)))
     \<and> map_of (ds_someDevice x) ''access'' = Some (access_to_json (ds_access x))
     \<and> map_of (ds_someDevice x) ''position'' = None \<and> map_of (ds_someDevice x) ''ownership'' = None
     \<and> map_of (ds_someDevice x) ''bind'' = None
     \<and> version_ok (ds_version x) \<and> access_ok (ds_access x))"

definition device_cr_ok :: "device_cr \<Rightarrow> bool" where
  "device_cr_ok x = (spec_extra_ok (dcr_spec x) \<and> omap_ok (dcr_sharers x) \<and> (jempty (dcr_status x) \<longrightarrow> dcr_status x = JNull)
     \<and> map_of (md_labels (dcr_metadata x)) ''fwk.io/sharers'' = None
     \<and> map_of (md_labels (dcr_metadata x)) ''fwk.io/owner'' = None
     \<and> (snd (dcr_owner x) = [] \<longrightarrow> fst (dcr_owner x) = 0))"

lemma device_metadata_roundtrip [json_simps, simp]: "device_metadata_from_json (device_metadata_to_json m) = Inr m"
  by (cases m)
    (simp add: device_metadata_from_json_def device_metadata_to_json_def read_optional_def json_simps del: jput.simps)

lemma access_roundtrip [json_simps]: "access_ok a \<Longrightarrow> access_from_json (access_to_json a) = Inr a"
  by (cases a)
    (auto simp: access_from_json_def access_to_json_def access_ok_def read_optional_unless_empty_def json_simps
      simp del: jput.simps)

text \<open>Writing a chain of fields to an object and iterating over its items.\<close>

lemma fold_jput_JObj: "fold (\<lambda>(k, v) j. jput k v j) es (JObj m) = JObj (oputs es m)"
  by (induction es arbitrary: m) auto

lemma fold_jput_JNull: "fold (\<lambda>(k, v) j. jput k v j) es JNull = (if es = [] then JNull else JObj (oputs es []))"
  by (cases es) (auto simp: fold_jput_JObj)

lemma device_spec_object:
  assumes "ds_someDevice x \<noteq> []"
  shows "device_spec_to_json x = JObj (oput ''access'' (access_to_json (ds_access x))
      (oput ''bind'' (JStr (show_bind (ds_bind x)))
       (oput ''ownership'' (JStr (show_ownership (ds_ownership x)))
        (oput ''position'' (JStr (ds_position x))
         (oput ''version'' (JStr (version_to_string (ds_version x)))
          (oput ''package'' (JStr (ds_package x))
           (oput ''deviceName'' (JStr (ds_deviceName x)) (oputs (ds_someDevice x) []))))))))"
  using assms by (simp add: device_spec_to_json_def fold_jput_JNull)

lemma map_of_filter_keys: "map_of (filter (\<lambda>(k, _). P k) m) k = (if P k then map_of m k else None)"
  by (induction m) auto

lemma device_spec_roundtrip:
  assumes "spec_extra_ok x"
  shows "device_spec_from_json L (device_spec_to_json x) = Inr x"
proof -
  let ?j = "device_spec_to_json x"
  have ne: "ds_someDevice x \<noteq> []" using assms by (auto simp: spec_extra_ok_def)
  define M where "M = oput ''access'' (access_to_json (ds_access x))
      (oput ''bind'' (JStr (show_bind (ds_bind x)))
       (oput ''ownership'' (JStr (show_ownership (ds_ownership x)))
        (oput ''position'' (JStr (ds_position x))
         (oput ''version'' (JStr (version_to_string (ds_version x)))
          (oput ''package'' (JStr (ds_package x))
           (oput ''deviceName'' (JStr (ds_deviceName x)) (oputs (ds_someDevice x) [])))))))"
  have j: "?j = JObj M" using device_spec_object [OF ne] by (simp add: M_def)
  have ok: "omap_ok M" by (simp add: M_def)
  have extra: "oputs (ds_someDevice x) [] = ds_someDevice x"
    using assms omap_ok_distinct by (intro oputs_id) (auto simp: spec_extra_ok_def)
  have mM: "map_of M = (map_of (ds_someDevice x))(''deviceName'' \<mapsto> JStr (ds_deviceName x),
      ''package'' \<mapsto> JStr (ds_package x), ''version'' \<mapsto> JStr (version_to_string (ds_version x)),
      ''position'' \<mapsto> JStr (ds_position x), ''ownership'' \<mapsto> JStr (show_ownership (ds_ownership x)),
      ''bind'' \<mapsto> JStr (show_bind (ds_bind x)), ''access'' \<mapsto> access_to_json (ds_access x))"
    by (simp add: M_def extra)
  have "filter (\<lambda>(k, _). k \<noteq> ''position'' \<and> k \<noteq> ''ownership'' \<and> k \<noteq> ''bind'') M = ds_someDevice x"
  proof (rule omap_ok_eq)
    show "map_of (filter (\<lambda>(k, _). k \<noteq> ''position'' \<and> k \<noteq> ''ownership'' \<and> k \<noteq> ''bind'') M)
        = map_of (ds_someDevice x)"
      using assms by (auto simp: fun_eq_iff map_of_filter_keys mM spec_extra_ok_def)
  qed (use assms ok in \<open>auto intro: omap_ok_filter simp: spec_extra_ok_def\<close>)
  then show ?thesis
    using assms
    by (simp add: device_spec_from_json_def j read_required_def read_optional_def mM version_from_json_def
        version_of_text access_roundtrip spec_extra_ok_def)
qed

lemma device_cr_json:
  assumes "uuid_text_ok L" "device_cr_ok x"
  shows "device_cr_from_json L (device_cr_to_json L x) = Inr x"
proof -
  let ?j = "device_cr_to_json L x"
  have f: "\<And>k. jfind k ?j =
     (if k = ''owner'' then Some (owner_field L (dcr_owner x))
      else if k = ''sharers'' then Some (sharers_to_json L (dcr_sharers x))
      else if k = ''spec'' then Some (device_spec_to_json (dcr_spec x))
      else if k = ''status'' \<and> \<not> jempty (dcr_status x) then Some (dcr_status x)
      else if k = ''id'' then Some (uuid_to_json L (dcr_id x))
      else if k = ''metadata'' then Some (device_metadata_to_json (dcr_metadata x))
      else if k = ''description'' \<and> dcr_description x \<noteq> [] then Some (JStr (dcr_description x))
      else if k = ''kind'' then Some (JStr (dcr_kind x))
      else None)"
    unfolding device_cr_to_json_def by (simp only: doc_puts)
  have [simp]: "is_obj ?j" by (simp add: device_cr_to_json_def del: jput.simps)
  have "read_sharers L (md_labels (dcr_metadata x)) ?j = Inr (dcr_sharers x)"
    using assms by (intro sharers_roundtrip) (auto simp: f device_cr_ok_def)
  moreover have "read_owner L (md_labels (dcr_metadata x)) ?j = Inr (dcr_owner x)"
    using assms by (intro owner_field_read) (auto simp: f device_cr_ok_def)
  moreover have "read_optional ''status'' Inr JNull ?j = Inr (dcr_status x)"
    using assms(2) by (auto simp: read_optional_def f device_cr_ok_def)
  ultimately show ?thesis
    using assms
    by (simp add: device_cr_from_json_def read_optional_def [of _ get_string] read_optional_def [of _ "uuid_from_json L"]
        read_required_find f uuid_json_roundtrip device_spec_roundtrip device_cr_ok_def)
qed

text \<open>A device resource written as JSON is read back unchanged, with the fields of its specification that the
  framework does not know, when its labels do not name an owner or sharers of their own.\<close>
theorem device_cr_roundtrip:
  assumes "uuid_text_ok L" "device_cr_ok x"
  shows "device_cr_from_json L (device_cr_to_json L x) = Inr x"
  by (rule device_cr_json [OF assms])

definition sample_device :: device_cr where
  "sample_device = \<lparr>dcr_kind = ''Device'', dcr_description = [],
     dcr_metadata = \<lparr>md_name = ''cam0'', md_labels = [], md_annotations = []\<rparr>, dcr_id = 8, dcr_status = JNull,
     dcr_spec = \<lparr>ds_package = ''p'', ds_deviceName = ''cam'', ds_version = Version 1 0 0 NoPre None,
       ds_position = ''localhost'', ds_ownership = Shared, ds_bind = BindAny,
       ds_someDevice = [(''access'', JObj [(''type'', JStr ''usb'')]), (''deviceName'', JStr ''cam''), (''fps'', JNum 30),
         (''package'', JStr ''p''), (''version'', JStr ''1.0.0'')],
       ds_access = \<lparr>da_type = ''usb'', da_params = JNull\<rparr>\<rparr>,
     dcr_sharers = [(3, ''edge'')], dcr_owner = (0, [])\<rparr>"

lemma sample_device_ok: "device_cr_ok sample_device"
proof -
  have v: "version_to_string (Version 1 0 0 NoPre None) = ''1.0.0''" by code_simp
  have s: "sorted_wrt (<) [''access'', ''deviceName'', ''fps'', ''package'', ''version'']" by code_simp
  show ?thesis
    using s by (simp add: device_cr_ok_def sample_device_def spec_extra_ok_def v version_ok_def access_ok_def access_to_json_def
        jput_if_def omap_ok_def)
qed

lemma device_cr_roundtrip_witness:
  "device_cr_from_json decimal_lib (device_cr_to_json decimal_lib sample_device) = Inr sample_device"
  by (rule device_cr_roundtrip [OF decimal_lib_ok sample_device_ok])

end
