(* ===== verification/Definitions.thy ===== *)
theory Definitions
  imports DeviceCR
begin

section \<open>Resource definitions and manifests\<close>

text \<open>
  The definitions of abilities and devices (\<open>ability_crd.cpp\<close>, \<open>device_crd.cpp\<close>) and the manifest an ability package
  carries (\<open>ability_manifest.cpp\<close>), with their conversions from and to JSON.
\<close>

subsection \<open>Dependencies\<close>

(* include/resourcemgr/ability_crd.hpp:36-44 AbilityCRD::AbilityDep *)
record dep =
  dep_package :: string
  dep_name :: string
  dep_ownership :: ownership_mode
  dep_bind :: bind_mode
  dep_description :: string

text \<open>Abilities and devices depended on differ in the name of one field.\<close>

definition dep_from_json :: "string \<Rightarrow> json \<Rightarrow> exn + dep" where
  "dep_from_json key j =
     rbind (read_required key get_string j) (\<lambda>n.
     rbind (read_optional ''ownership'' ownership_from_json Unique j) (\<lambda>ow.
     rbind (read_optional ''package'' get_string [] j) (\<lambda>p.
     rbind (read_optional ''bind'' bind_from_json BindLocal j) (\<lambda>b.
     rbind (read_optional ''description'' get_string [] j) (\<lambda>d.
       Inr \<lparr>dep_package = p, dep_name = n, dep_ownership = ow, dep_bind = b, dep_description = d\<rparr>)))))"

definition dep_to_json :: "string \<Rightarrow> dep \<Rightarrow> json" where
  "dep_to_json key x =
     jput_if (dep_description x \<noteq> []) ''description'' (JStr (dep_description x))
      (jput ''bind'' (JStr (show_bind (dep_bind x)))
       (jput ''ownership'' (JStr (show_ownership (dep_ownership x)))
        (jput key (JStr (dep_name x))
         (jput_if (dep_package x \<noteq> []) ''package'' (JStr (dep_package x)) JNull))))"

(* src/resourcemgr/ability_crd.cpp:46-53 from_json(AbilityCRD::AbilityDep) *)
definition ability_dep_from_json :: "json \<Rightarrow> exn + dep" where
  "ability_dep_from_json = dep_from_json ''abilityName''"

(* src/resourcemgr/ability_crd.cpp:55-61 to_json(AbilityCRD::AbilityDep) *)
definition ability_dep_to_json :: "dep \<Rightarrow> json" where
  "ability_dep_to_json = dep_to_json ''abilityName''"

(* src/resourcemgr/ability_crd.cpp:63-70 from_json(AbilityCRD::DeviceDep) *)
definition device_dep_from_json :: "json \<Rightarrow> exn + dep" where
  "device_dep_from_json = dep_from_json ''deviceName''"

(* src/resourcemgr/ability_crd.cpp:72-78 to_json(AbilityCRD::DeviceDep) *)
definition device_dep_to_json :: "dep \<Rightarrow> json" where
  "device_dep_to_json = dep_to_json ''deviceName''"

(* include/resourcemgr/ability_crd.hpp:54-66 AbilityCRD::Deps *)
record deps =
  dp_abilities :: "dep list"
  dp_additionalAbilities :: "dep list"
  dp_arbitrary :: bool
  dp_devices :: "dep list"
  dp_additionalDevices :: "dep list"

definition no_deps :: deps where
  "no_deps = \<lparr>dp_abilities = [], dp_additionalAbilities = [], dp_arbitrary = False, dp_devices = [], dp_additionalDevices = []\<rparr>"

(* include/resourcemgr/ability_crd.hpp:66-69 AbilityCRD::Deps::empty *)
definition deps_empty :: "deps \<Rightarrow> bool" where
  "deps_empty x = (dp_abilities x = [] \<and> dp_devices x = [] \<and> dp_additionalDevices x = [] \<and> dp_additionalAbilities x = [])"

text \<open>A single object in place of the array of abilities stands for any number of abilities of that kind.\<close>

(* src/resourcemgr/ability_crd.cpp:80-97 from_json(AbilityCRD::Deps) *)
definition deps_from_json :: "json \<Rightarrow> exn + deps" where
  "deps_from_json j =
     rbind (case jfind ''abilities'' j of
              None \<Rightarrow> Inr ([], False)
            | Some (JArr xs) \<Rightarrow> rbind (get_array ability_dep_from_json (JArr xs)) (\<lambda>as. Inr (as, False))
            | Some (JObj m) \<Rightarrow> rbind (ability_dep_from_json (JObj m)) (\<lambda>a. Inr ([a], True))
            | Some _ \<Rightarrow> Inl (InvalidArgument ''invalid field /depends/abilities'')) (\<lambda>(as, arb).
     rbind (read_optional ''devices'' (get_array device_dep_from_json) [] j) (\<lambda>dv.
     rbind (read_optional ''additionalAbilities'' (get_array ability_dep_from_json) [] j) (\<lambda>aa.
     rbind (read_optional ''additionalDevices'' (get_array device_dep_from_json) [] j) (\<lambda>ad.
       Inr \<lparr>dp_abilities = as, dp_additionalAbilities = aa, dp_arbitrary = arb, dp_devices = dv,
            dp_additionalDevices = ad\<rparr>))))"

text \<open>An arbitrary number without the ability fails the check of the code, which aborts the process; the model throws.\<close>

(* src/resourcemgr/ability_crd.cpp:99-108 to_json(AbilityCRD::Deps) *)
definition deps_to_json :: "deps \<Rightarrow> exn + json" where
  "deps_to_json x =
     rbind (if dp_arbitrary x then
              (case dp_abilities x of
                 [] \<Rightarrow> Inl (LogicError ''why? class invariant violated'')
               | a # _ \<Rightarrow> Inr (jput ''abilities'' (ability_dep_to_json a) JNull))
            else Inr (jput_if (dp_abilities x \<noteq> []) ''abilities'' (JArr (map ability_dep_to_json (dp_abilities x))) JNull))
       (\<lambda>j. Inr (
         jput_if (dp_additionalDevices x \<noteq> []) ''additionalDevices'' (JArr (map device_dep_to_json (dp_additionalDevices x)))
          (jput_if (dp_additionalAbilities x \<noteq> []) ''additionalAbilities''
             (JArr (map ability_dep_to_json (dp_additionalAbilities x)))
           (jput_if (dp_devices x \<noteq> []) ''devices'' (JArr (map device_dep_to_json (dp_devices x))) j))))"

text \<open>The class invariant: an arbitrary number of abilities is described by exactly one.\<close>

definition deps_ok :: "deps \<Rightarrow> bool" where
  "deps_ok x = (dp_arbitrary x \<longrightarrow> length (dp_abilities x) = 1)"

lemma dep_roundtrip:
  "key \<notin> {''ownership'', ''package'', ''bind'', ''description''} \<Longrightarrow> dep_from_json key (dep_to_json key x) = Inr x"
  by (cases x) (auto simp: dep_from_json_def dep_to_json_def read_optional_def json_simps simp del: jput.simps)

lemma ability_dep_roundtrip [json_simps, simp]: "ability_dep_from_json (ability_dep_to_json x) = Inr x"
  by (simp add: ability_dep_from_json_def ability_dep_to_json_def dep_roundtrip)

lemma device_dep_roundtrip [json_simps, simp]: "device_dep_from_json (device_dep_to_json x) = Inr x"
  by (simp add: device_dep_from_json_def device_dep_to_json_def dep_roundtrip)

lemma dep_lists_roundtrip [json_simps]:
  "get_array ability_dep_from_json (JArr (map ability_dep_to_json xs)) = Inr xs"
  "get_array device_dep_from_json (JArr (map device_dep_to_json xs)) = Inr xs"
  by (rule get_array_map; simp)+

lemma ability_dep_is_obj: "\<exists>m. ability_dep_to_json x = JObj m"
proof -
  have "is_obj (ability_dep_to_json x)"
    by (simp add: ability_dep_to_json_def dep_to_json_def del: jput.simps)
  then show ?thesis by (cases "ability_dep_to_json x") (auto simp: is_obj_def)
qed

lemma deps_roundtrip:
  assumes "deps_ok x" "deps_to_json x = Inr j"
  shows "deps_from_json j = Inr x"
proof -
  obtain a0 where a0: "a0 = (if dp_arbitrary x then jput ''abilities'' (ability_dep_to_json (hd (dp_abilities x))) JNull
      else jput_if (dp_abilities x \<noteq> []) ''abilities'' (JArr (map ability_dep_to_json (dp_abilities x))) JNull)" by blast
  have j: "j = jput_if (dp_additionalDevices x \<noteq> []) ''additionalDevices'' (JArr (map device_dep_to_json (dp_additionalDevices x)))
          (jput_if (dp_additionalAbilities x \<noteq> []) ''additionalAbilities''
             (JArr (map ability_dep_to_json (dp_additionalAbilities x)))
           (jput_if (dp_devices x \<noteq> []) ''devices'' (JArr (map device_dep_to_json (dp_devices x))) a0))"
    using assms by (auto simp: deps_to_json_def a0 result_simps split: list.splits if_splits simp del: jput.simps)
  have d: "is_doc a0" by (simp add: a0 del: jput.simps)
  have a: "jfind k a0 = (if k = ''abilities'' \<and> (dp_arbitrary x \<or> dp_abilities x \<noteq> [])
      then Some (if dp_arbitrary x then ability_dep_to_json (hd (dp_abilities x))
                 else JArr (map ability_dep_to_json (dp_abilities x))) else None)" for k
    by (simp add: a0 doc_puts del: jput.simps)
  have f: "jfind k j = (if k = ''additionalDevices'' \<and> dp_additionalDevices x \<noteq> []
        then Some (JArr (map device_dep_to_json (dp_additionalDevices x)))
      else if k = ''additionalAbilities'' \<and> dp_additionalAbilities x \<noteq> []
        then Some (JArr (map ability_dep_to_json (dp_additionalAbilities x)))
      else if k = ''devices'' \<and> dp_devices x \<noteq> [] then Some (JArr (map device_dep_to_json (dp_devices x)))
      else jfind k a0)" for k
    by (simp only: j doc_puts d)
  have "(case jfind ''abilities'' j of
              None \<Rightarrow> Inr ([], False)
            | Some (JArr xs) \<Rightarrow> rbind (get_array ability_dep_from_json (JArr xs)) (\<lambda>as. Inr (as, False))
            | Some (JObj m) \<Rightarrow> rbind (ability_dep_from_json (JObj m)) (\<lambda>a. Inr ([a], True))
            | Some _ \<Rightarrow> Inl (InvalidArgument ''invalid field /depends/abilities'')) = Inr (dp_abilities x, dp_arbitrary x)"
  proof (cases "dp_arbitrary x")
    case True
    then obtain b where b: "dp_abilities x = [b]" using assms(1) by (auto simp: deps_ok_def length_Suc_conv)
    obtain m where m: "ability_dep_to_json b = JObj m" using ability_dep_is_obj by blast
    then have "ability_dep_from_json (JObj m) = Inr b" using ability_dep_roundtrip [of b] by simp
    then show ?thesis using True b m by (simp add: f a)
  next
    case False
    then show ?thesis by (simp add: f a dep_lists_roundtrip del: get_array.simps)
  qed
  then show ?thesis
    by (cases x) (simp add: deps_from_json_def read_optional_def f a dep_lists_roundtrip del: get_array.simps)
qed

subsection \<open>Ability definitions\<close>

(* include/resourcemgr/ability_crd.hpp:91-102 AbilityCRD::FwkDetail *)
record fwk_detail =
  fw_complete :: bool
  fw_ref_expanded :: bool

definition no_fwk :: fwk_detail where
  "no_fwk = \<lparr>fw_complete = False, fw_ref_expanded = False\<rparr>"

(* src/resourcemgr/ability_crd.cpp:142-145 from_json(AbilityCRD::FwkDetail) *)
definition fwk_from_json :: "json \<Rightarrow> exn + fwk_detail" where
  "fwk_from_json j =
     rbind (read_optional ''complete'' get_bool False j) (\<lambda>c.
     rbind (read_optional ''ref_expanded'' get_bool False j) (\<lambda>r.
       Inr \<lparr>fw_complete = c, fw_ref_expanded = r\<rparr>))"

(* src/resourcemgr/ability_crd.cpp:147-150 to_json(AbilityCRD::FwkDetail) *)
definition fwk_to_json :: "fwk_detail \<Rightarrow> json" where
  "fwk_to_json x =
     jput ''ref_expanded'' (JBool (fw_ref_expanded x)) (jput ''complete'' (JBool (fw_complete x)) JNull)"

(* include/resourcemgr/ability_crd.hpp:72-77 AbilityCRD::SchemaInfo *)
record schema_info =
  si_constants :: json
  si_openAPIV3Schema :: json

(* src/resourcemgr/ability_crd.cpp:110-115 from_json(AbilityCRD::SchemaInfo) *)
definition schema_from_json :: "json \<Rightarrow> exn + schema_info" where
  "schema_from_json j =
     rbind (read_optional ''constants'' Inr JNull j) (\<lambda>c.
     rbind (read_required ''openAPIV3Schema'' Inr j) (\<lambda>s.
       Inr \<lparr>si_constants = c, si_openAPIV3Schema = s\<rparr>))"

(* src/resourcemgr/ability_crd.cpp:117-120 to_json(AbilityCRD::SchemaInfo) *)
definition schema_to_json :: "schema_info \<Rightarrow> json" where
  "schema_to_json x =
     jput ''openAPIV3Schema'' (si_openAPIV3Schema x)
      (jput_if (\<not> jempty (si_constants x)) ''constants'' (si_constants x) JNull)"

(* include/resourcemgr/ability_crd.hpp:78-89 AbilityCRD::Spec *)
record crd_spec =
  cs_provides :: json
  cs_schema :: schema_info
  cs_types :: json
  cs_rpcMethods :: json
  cs_tasks :: json
  cs_config :: json
  cs_debugOption :: json

(* src/resourcemgr/ability_crd.cpp:122-130 from_json(AbilityCRD::Spec) *)
definition crd_spec_from_json :: "json \<Rightarrow> exn + crd_spec" where
  "crd_spec_from_json j =
     rbind (read_required ''schema'' schema_from_json j) (\<lambda>s.
     rbind (read_optional ''provides'' Inr JNull j) (\<lambda>p.
     rbind (read_optional ''types'' Inr JNull j) (\<lambda>t.
     rbind (read_optional ''rpcMethods'' Inr JNull j) (\<lambda>r.
     rbind (read_optional ''tasks'' Inr JNull j) (\<lambda>k.
     rbind (read_optional ''config'' Inr JNull j) (\<lambda>c.
     rbind (read_optional ''debugOption'' Inr JNull j) (\<lambda>d.
       Inr \<lparr>cs_provides = p, cs_schema = s, cs_types = t, cs_rpcMethods = r, cs_tasks = k, cs_config = c,
            cs_debugOption = d\<rparr>)))))))"

(* src/resourcemgr/ability_crd.cpp:132-140 to_json(AbilityCRD::Spec) *)
definition crd_spec_to_json :: "crd_spec \<Rightarrow> json" where
  "crd_spec_to_json x =
     jput_if (\<not> jempty (cs_debugOption x)) ''debugOption'' (cs_debugOption x)
      (jput_if (\<not> jempty (cs_config x)) ''config'' (cs_config x)
       (jput_if (\<not> jempty (cs_tasks x)) ''tasks'' (cs_tasks x)
        (jput_if (\<not> jempty (cs_rpcMethods x)) ''rpcMethods'' (cs_rpcMethods x)
         (jput_if (\<not> jempty (cs_types x)) ''types'' (cs_types x)
          (jput ''schema'' (schema_to_json (cs_schema x))
           (jput_if (\<not> jempty (cs_provides x)) ''provides'' (cs_provides x) JNull))))))"

(* include/resourcemgr/ability_crd.hpp:22-107 AbilityCRD *)
record ability_crd =
  crd_id :: uuid
  crd_packageName :: string
  crd_version :: version
  crd_kind :: string
  crd_metadata :: metadata
  crd_depends :: deps
  crd_spec :: crd_spec
  crd_fwk :: fwk_detail

text \<open>The metadata has the codec of an ability resource's.\<close>

(* src/resourcemgr/ability_crd.cpp:34-38 from_json(AbilityCRD::Metadata) *)
definition crd_metadata_from_json :: "json \<Rightarrow> exn + metadata" where
  "crd_metadata_from_json = metadata_from_json"

(* src/resourcemgr/ability_crd.cpp:40-44 to_json(AbilityCRD::Metadata) *)
definition crd_metadata_to_json :: "metadata \<Rightarrow> json" where
  "crd_metadata_to_json = metadata_to_json"

(* src/resourcemgr/ability_crd.cpp:152-160 from_json(AbilityCRD) *)
definition ability_crd_from_json :: "text_lib \<Rightarrow> json \<Rightarrow> exn + ability_crd" where
  "ability_crd_from_json L j =
     rbind (read_required ''packageName'' get_string j) (\<lambda>p.
     rbind (read_required ''version'' (\<lambda>v. rbind (get_string v) version_of) j) (\<lambda>v.
     rbind (read_required ''kind'' get_string j) (\<lambda>k.
     rbind (read_required ''metadata'' crd_metadata_from_json j) (\<lambda>m.
     rbind (read_required ''spec'' crd_spec_from_json j) (\<lambda>s.
     rbind (read_optional ''depends'' deps_from_json no_deps j) (\<lambda>d.
     rbind (read_optional ''id'' (uuid_from_json L) 0 j) (\<lambda>i.
       Inr \<lparr>crd_id = i, crd_packageName = p, crd_version = v, crd_kind = k, crd_metadata = m, crd_depends = d,
            crd_spec = s, crd_fwk = no_fwk\<rparr>)))))))"

(* src/resourcemgr/ability_crd.cpp:162-171 to_json(AbilityCRD) *)
definition ability_crd_to_json :: "text_lib \<Rightarrow> ability_crd \<Rightarrow> exn + json" where
  "ability_crd_to_json L x =
     rbind (if deps_empty (crd_depends x) then Inr None
            else rbind (deps_to_json (crd_depends x)) (\<lambda>d. Inr (Some d))) (\<lambda>d.
       Inr (
         jput ''fwk'' (fwk_to_json (crd_fwk x))
          (jput ''spec'' (crd_spec_to_json (crd_spec x))
           (jput ''metadata'' (crd_metadata_to_json (crd_metadata x))
            (jput_if (crd_id x \<noteq> 0) ''id'' (JStr (show_uuid L (crd_id x)))
             (jput_opt ''depends'' (\<lambda>d. d) d
              (jput ''kind'' (JStr (crd_kind x))
               (jput ''version'' (JStr (version_to_string (crd_version x)))
                (jput ''packageName'' (JStr (crd_packageName x)) JNull)))))))))"

definition null_or_full :: "json \<Rightarrow> bool" where
  "null_or_full j = (jempty j \<longrightarrow> j = JNull)"

definition crd_spec_ok :: "crd_spec \<Rightarrow> bool" where
  "crd_spec_ok x = (null_or_full (cs_provides x) \<and> null_or_full (cs_types x) \<and> null_or_full (cs_rpcMethods x)
     \<and> null_or_full (cs_tasks x) \<and> null_or_full (cs_config x) \<and> null_or_full (cs_debugOption x)
     \<and> null_or_full (si_constants (cs_schema x)))"

definition ability_crd_ok :: "ability_crd \<Rightarrow> bool" where
  "ability_crd_ok x = (version_ok (crd_version x) \<and> crd_spec_ok (crd_spec x) \<and> deps_ok (crd_depends x))"

lemma read_opt_doc:
  "null_or_full v \<Longrightarrow> jfind k j = (if \<not> jempty v then Some v else None) \<Longrightarrow> read_optional k Inr JNull j = Inr v"
  by (auto simp: read_optional_def null_or_full_def)

lemma schema_roundtrip: "null_or_full (si_constants x) \<Longrightarrow> schema_from_json (schema_to_json x) = Inr x"
  by (cases x)
    (auto simp: schema_from_json_def schema_to_json_def read_optional_def null_or_full_def json_simps simp del: jput.simps)

lemma crd_spec_roundtrip:
  assumes "crd_spec_ok x"
  shows "crd_spec_from_json (crd_spec_to_json x) = Inr x"
proof -
  let ?j = "crd_spec_to_json x"
  have f: "\<And>k. jfind k ?j =
     (if k = ''debugOption'' \<and> \<not> jempty (cs_debugOption x) then Some (cs_debugOption x)
      else if k = ''config'' \<and> \<not> jempty (cs_config x) then Some (cs_config x)
      else if k = ''tasks'' \<and> \<not> jempty (cs_tasks x) then Some (cs_tasks x)
      else if k = ''rpcMethods'' \<and> \<not> jempty (cs_rpcMethods x) then Some (cs_rpcMethods x)
      else if k = ''types'' \<and> \<not> jempty (cs_types x) then Some (cs_types x)
      else if k = ''schema'' then Some (schema_to_json (cs_schema x))
      else if k = ''provides'' \<and> \<not> jempty (cs_provides x) then Some (cs_provides x)
      else None)"
    unfolding crd_spec_to_json_def by (simp only: doc_puts)
  have [simp]: "is_obj ?j" by (simp add: crd_spec_to_json_def del: jput.simps)
  have "read_optional ''provides'' Inr JNull ?j = Inr (cs_provides x)" "read_optional ''types'' Inr JNull ?j = Inr (cs_types x)"
    "read_optional ''rpcMethods'' Inr JNull ?j = Inr (cs_rpcMethods x)" "read_optional ''tasks'' Inr JNull ?j = Inr (cs_tasks x)"
    "read_optional ''config'' Inr JNull ?j = Inr (cs_config x)"
    "read_optional ''debugOption'' Inr JNull ?j = Inr (cs_debugOption x)"
    using assms by (auto intro!: read_opt_doc simp: f crd_spec_ok_def)
  then show ?thesis
    using assms by (simp add: crd_spec_from_json_def read_required_find f schema_roundtrip crd_spec_ok_def)
qed

text \<open>An ability definition written as JSON is read back with all its fields except the framework's own marks,
  which are written and not read: they come back unset.\<close>
theorem ability_crd_roundtrip:
  assumes "uuid_text_ok L" "ability_crd_ok x" "if deps_empty (crd_depends x) then crd_depends x = no_deps else True"
  shows "\<exists>j. ability_crd_to_json L x = Inr j \<and> jcontains ''fwk'' j
     \<and> ability_crd_from_json L j = Inr (x\<lparr>crd_fwk := no_fwk\<rparr>)"
proof -
  have ok: "deps_ok (crd_depends x)" using assms(2) by (simp add: ability_crd_ok_def)
  have "\<exists>d. deps_to_json (crd_depends x) = Inr d"
    using ok by (auto simp: deps_to_json_def deps_ok_def length_Suc_conv)
  then obtain d where d: "deps_to_json (crd_depends x) = Inr d" ..
  define o' where "o' = (if deps_empty (crd_depends x) then None else Some d)"
  define j where "j = jput ''fwk'' (fwk_to_json (crd_fwk x))
          (jput ''spec'' (crd_spec_to_json (crd_spec x))
           (jput ''metadata'' (crd_metadata_to_json (crd_metadata x))
            (jput_if (crd_id x \<noteq> 0) ''id'' (JStr (show_uuid L (crd_id x)))
             (jput_opt ''depends'' (\<lambda>d. d) o'
              (jput ''kind'' (JStr (crd_kind x))
               (jput ''version'' (JStr (version_to_string (crd_version x)))
                (jput ''packageName'' (JStr (crd_packageName x)) JNull)))))))"
  have w: "ability_crd_to_json L x = Inr j" using d by (simp add: ability_crd_to_json_def j_def o'_def del: jput.simps)
  have f: "\<And>k. jfind k j =
     (if k = ''fwk'' then Some (fwk_to_json (crd_fwk x))
      else if k = ''spec'' then Some (crd_spec_to_json (crd_spec x))
      else if k = ''metadata'' then Some (crd_metadata_to_json (crd_metadata x))
      else if k = ''id'' \<and> crd_id x \<noteq> 0 then Some (JStr (show_uuid L (crd_id x)))
      else if k = ''depends'' \<and> o' \<noteq> None then Some (the o')
      else if k = ''kind'' then Some (JStr (crd_kind x))
      else if k = ''version'' then Some (JStr (version_to_string (crd_version x)))
      else if k = ''packageName'' then Some (JStr (crd_packageName x))
      else None)"
    unfolding j_def by (simp only: doc_puts)
  have o: "is_obj j" by (simp add: j_def del: jput.simps)
  have "read_optional ''depends'' deps_from_json no_deps j = Inr (crd_depends x)"
    using deps_roundtrip [OF ok d] assms(3) by (auto simp: read_optional_def f o'_def split: if_splits)
  moreover have "read_optional ''id'' (uuid_from_json L) 0 j = Inr (crd_id x)"
    using uuid_json_roundtrip [OF assms(1)] by (simp add: read_optional_def f uuid_to_json_def)
  ultimately have "ability_crd_from_json L j = Inr (x\<lparr>crd_fwk := no_fwk\<rparr>)"
    using assms(2) o
    by (simp add: ability_crd_from_json_def read_required_find f version_of_text crd_metadata_from_json_def
        crd_metadata_to_json_def crd_spec_roundtrip ability_crd_ok_def)
  moreover have "jcontains ''fwk'' j" by (simp add: jcontains_def f)
  ultimately show ?thesis using w by blast
qed

definition sample_crd :: ability_crd where
  "sample_crd = \<lparr>crd_id = 4, crd_packageName = ''pkg'', crd_version = Version 1 0 0 NoPre None, crd_kind = ''ComposeAbility'',
     crd_metadata = \<lparr>md_name = ''Nav'', md_labels = [], md_annotations = []\<rparr>,
     crd_depends = \<lparr>dp_abilities = [\<lparr>dep_package = ''pkg'', dep_name = ''Camera'', dep_ownership = Shared,
        dep_bind = BindAny, dep_description = []\<rparr>], dp_additionalAbilities = [], dp_arbitrary = True, dp_devices = [],
        dp_additionalDevices = []\<rparr>,
     crd_spec = \<lparr>cs_provides = JNull, cs_schema = \<lparr>si_constants = JNull, si_openAPIV3Schema = JObj []\<rparr>, cs_types = JNull,
        cs_rpcMethods = JArr [JStr ''go''], cs_tasks = JNull, cs_config = JNull, cs_debugOption = JNull\<rparr>,
     crd_fwk = \<lparr>fw_complete = True, fw_ref_expanded = True\<rparr>\<rparr>"

lemma ability_crd_roundtrip_witness:
  "\<exists>j. ability_crd_to_json decimal_lib sample_crd = Inr j \<and> jcontains ''fwk'' j
     \<and> ability_crd_from_json decimal_lib j = Inr (sample_crd\<lparr>crd_fwk := no_fwk\<rparr>)"
  by (rule ability_crd_roundtrip)
    (simp_all add: ability_crd_ok_def sample_crd_def version_ok_def crd_spec_ok_def null_or_full_def deps_ok_def deps_empty_def)

subsection \<open>Device definitions\<close>

(* include/resourcemgr/device_crd.hpp:43-48 DeviceCRD::Spec *)
record device_crd_spec =
  dcs_access :: "device_access list"
  dcs_openAPIV3Schema :: json

(* include/resourcemgr/device_crd.hpp:29-59 DeviceCRD *)
record device_crd =
  dcrd_package :: string
  dcrd_version :: version
  dcrd_kind :: string
  dcrd_metadata :: metadata
  dcrd_id :: uuid
  dcrd_description :: "string option"
  dcrd_spec :: device_crd_spec

(* src/resourcemgr/device_crd.cpp:22-26 from_json(DeviceCRD::Metadata) *)
definition dcrd_metadata_from_json :: "json \<Rightarrow> exn + metadata" where
  "dcrd_metadata_from_json j =
     rbind (read_required ''name'' get_string j) (\<lambda>n.
     rbind (read_optional_unless_empty ''labels'' get_string_map [] j) (\<lambda>l.
     rbind (read_optional_unless_empty ''annotations'' get_string_map [] j) (\<lambda>a.
       Inr \<lparr>md_name = n, md_labels = l, md_annotations = a\<rparr>)))"

(* src/resourcemgr/device_crd.cpp:28-32 to_json(DeviceCRD::Metadata) *)
definition dcrd_metadata_to_json :: "metadata \<Rightarrow> json" where
  "dcrd_metadata_to_json m =
     jput_if (md_annotations m \<noteq> []) ''annotations'' (put_string_map (md_annotations m))
      (jput_if (md_labels m \<noteq> []) ''labels'' (put_string_map (md_labels m))
       (jput ''name'' (JStr (md_name m)) JNull))"

text \<open>The access entries have the fields and the codec of a device resource's.\<close>

(* src/resourcemgr/device_crd.cpp:34-37 from_json(DeviceCRD::Access) *)
definition dcrd_access_from_json :: "json \<Rightarrow> exn + device_access" where
  "dcrd_access_from_json = access_from_json"

(* src/resourcemgr/device_crd.cpp:39-42 to_json(DeviceCRD::Access) *)
definition dcrd_access_to_json :: "device_access \<Rightarrow> json" where
  "dcrd_access_to_json = access_to_json"

text \<open>The schema is found by the pointer \<open>/schema/openAPIV3Schema\<close>.\<close>

(* src/resourcemgr/device_crd.cpp:44-49 from_json(DeviceCRD::Spec) *)
definition dcrd_spec_from_json :: "json \<Rightarrow> exn + device_crd_spec" where
  "dcrd_spec_from_json j =
     rbind (read_optional_unless_empty ''access'' (get_array dcrd_access_from_json) [] j) (\<lambda>a.
       Inr \<lparr>dcs_access = a,
            dcs_openAPIV3Schema = (case jfind ''schema'' j of None \<Rightarrow> JNull
               | Some s \<Rightarrow> (case jfind ''openAPIV3Schema'' s of None \<Rightarrow> JNull | Some v \<Rightarrow> v))\<rparr>)"

(* src/resourcemgr/device_crd.cpp:51-55 to_json(DeviceCRD::Spec) *)
definition dcrd_spec_to_json :: "device_crd_spec \<Rightarrow> json" where
  "dcrd_spec_to_json x =
     jput_if (\<not> jempty (dcs_openAPIV3Schema x)) ''schema'' (jput ''openAPIV3Schema'' (dcs_openAPIV3Schema x) JNull)
      (jput_if (dcs_access x \<noteq> []) ''access'' (JArr (map dcrd_access_to_json (dcs_access x))) JNull)"

(* src/resourcemgr/device_crd.cpp:57-66 from_json(DeviceCRD) *)
definition device_crd_from_json :: "text_lib \<Rightarrow> json \<Rightarrow> exn + device_crd" where
  "device_crd_from_json L j =
     rbind (read_required ''packageName'' get_string j) (\<lambda>p.
     rbind (read_required ''version'' (\<lambda>v. rbind (get_string v) version_of) j) (\<lambda>v.
     rbind (read_required ''kind'' get_string j) (\<lambda>k.
     rbind (read_required ''metadata'' dcrd_metadata_from_json j) (\<lambda>m.
     rbind (read_optional ''id'' (uuid_from_json L) 0 j) (\<lambda>i.
     rbind (read_optional ''description'' (get_some get_string) None j) (\<lambda>d.
     rbind (read_required ''spec'' dcrd_spec_from_json j) (\<lambda>s.
       Inr \<lparr>dcrd_package = p, dcrd_version = v, dcrd_kind = k, dcrd_metadata = m, dcrd_id = i, dcrd_description = d,
            dcrd_spec = s\<rparr>)))))))"

(* src/resourcemgr/device_crd.cpp:68-76 to_json(DeviceCRD) *)
definition device_crd_to_json :: "text_lib \<Rightarrow> device_crd \<Rightarrow> json" where
  "device_crd_to_json L x =
     jput ''spec'' (dcrd_spec_to_json (dcrd_spec x))
      (jput_opt ''description'' JStr (dcrd_description x)
       (jput ''id'' (uuid_to_json L (dcrd_id x))
        (jput ''metadata'' (dcrd_metadata_to_json (dcrd_metadata x))
         (jput ''kind'' (JStr (dcrd_kind x))
          (jput ''version'' (JStr (version_to_string (dcrd_version x)))
           (jput ''packageName'' (JStr (dcrd_package x)) JNull))))))"

definition device_crd_ok :: "device_crd \<Rightarrow> bool" where
  "device_crd_ok x = (version_ok (dcrd_version x) \<and> null_or_full (dcs_openAPIV3Schema (dcrd_spec x))
     \<and> list_all access_ok (dcs_access (dcrd_spec x)))"

lemma dcrd_metadata_roundtrip [json_simps, simp]: "dcrd_metadata_from_json (dcrd_metadata_to_json m) = Inr m"
  by (cases m)
    (simp add: dcrd_metadata_from_json_def dcrd_metadata_to_json_def read_optional_unless_empty_def json_simps
      del: jput.simps)

lemma dcrd_spec_roundtrip:
  assumes "null_or_full (dcs_openAPIV3Schema x)" "list_all access_ok (dcs_access x)"
  shows "dcrd_spec_from_json (dcrd_spec_to_json x) = Inr x"
proof -
  have "get_array dcrd_access_from_json (JArr (map dcrd_access_to_json (dcs_access x))) = Inr (dcs_access x)"
    using assms(2)
    by (intro get_array_map) (auto simp: dcrd_access_from_json_def dcrd_access_to_json_def access_roundtrip list_all_iff)
  then show ?thesis
    using assms(1)
    by (cases x)
      (auto simp: dcrd_spec_from_json_def dcrd_spec_to_json_def read_optional_unless_empty_def json_simps null_or_full_def
        simp del: jput.simps get_array.simps)
qed

lemma device_crd_json_roundtrip:
  assumes "uuid_text_ok L" "device_crd_ok x"
  shows "device_crd_from_json L (device_crd_to_json L x) = Inr x"
proof -
  define j where "j = device_crd_to_json L x"
  have f: "\<And>k. jfind k j =
     (if k = ''spec'' then Some (dcrd_spec_to_json (dcrd_spec x))
      else if k = ''description'' \<and> dcrd_description x \<noteq> None then Some (JStr (the (dcrd_description x)))
      else if k = ''id'' then Some (uuid_to_json L (dcrd_id x))
      else if k = ''metadata'' then Some (dcrd_metadata_to_json (dcrd_metadata x))
      else if k = ''kind'' then Some (JStr (dcrd_kind x))
      else if k = ''version'' then Some (JStr (version_to_string (dcrd_version x)))
      else if k = ''packageName'' then Some (JStr (dcrd_package x))
      else None)"
    unfolding j_def device_crd_to_json_def by (simp only: doc_puts)
  have [simp]: "is_obj j" by (simp add: j_def device_crd_to_json_def del: jput.simps)
  have "read_optional ''description'' (get_some get_string) None j = Inr (dcrd_description x)"
    by (cases "dcrd_description x") (simp_all add: read_optional_def f get_some_def)
  then show ?thesis
    using assms unfolding j_def [symmetric]
    by (simp add: device_crd_from_json_def read_optional_def [of _ "uuid_from_json L"] read_required_find f version_of_text
        uuid_json_roundtrip dcrd_spec_roundtrip device_crd_ok_def)
qed

subsection \<open>Manifests\<close>

(* include/resourcemgr/ability_manifest.hpp:24-53 AbilityManifest *)
record manifest =
  mf_abilityName :: string
  mf_kind :: string
  mf_provides :: json
  mf_types :: json
  mf_rpcMethods :: json
  mf_tasks :: json
  mf_config :: json
  mf_debugOption :: json
  mf_schema :: schema_info
  mf_depends :: deps
  mf_fwk :: fwk_detail

(* src/resourcemgr/ability_manifest.cpp:36-39 from_json(AbilityManifest::Schema) *)
definition mf_schema_from_json :: "json \<Rightarrow> exn + schema_info" where
  "mf_schema_from_json j =
     rbind (read_optional ''constants'' Inr JNull j) (\<lambda>c.
     rbind (read_optional ''openAPIV3Schema'' Inr JNull j) (\<lambda>s.
       Inr \<lparr>si_constants = c, si_openAPIV3Schema = s\<rparr>))"

(* src/resourcemgr/ability_manifest.cpp:41-44 to_json(AbilityManifest::Schema) *)
definition mf_schema_to_json :: "schema_info \<Rightarrow> json" where
  "mf_schema_to_json x =
     jput_if (si_openAPIV3Schema x \<noteq> JNull) ''openAPIV3Schema'' (si_openAPIV3Schema x)
      (jput_if (\<not> jempty (si_constants x)) ''constants'' (si_constants x) JNull)"

definition no_schema :: schema_info where
  "no_schema = \<lparr>si_constants = JNull, si_openAPIV3Schema = JNull\<rparr>"

(* src/resourcemgr/ability_manifest.cpp:46-61 from_json(AbilityManifest) *)
definition manifest_from_json :: "json \<Rightarrow> exn + manifest" where
  "manifest_from_json j =
     rbind (read_required ''abilityName'' get_string j) (\<lambda>n.
     rbind (read_required ''kind'' get_string j) (\<lambda>k.
     rbind (read_optional ''provides'' Inr JNull j) (\<lambda>p.
     rbind (read_optional ''types'' Inr JNull j) (\<lambda>t.
     rbind (read_optional ''rpcMethods'' Inr JNull j) (\<lambda>r.
     rbind (read_optional ''tasks'' Inr JNull j) (\<lambda>ts.
     rbind (read_optional ''config'' Inr JNull j) (\<lambda>c.
     rbind (read_optional ''debugOption'' Inr JNull j) (\<lambda>d.
     rbind (read_optional ''schema'' mf_schema_from_json no_schema j) (\<lambda>s.
     rbind (read_optional ''depends'' deps_from_json no_deps j) (\<lambda>dp.
     rbind (read_optional ''fwk'' fwk_from_json no_fwk j) (\<lambda>fw.
       Inr \<lparr>mf_abilityName = n, mf_kind = k, mf_provides = p, mf_types = t, mf_rpcMethods = r, mf_tasks = ts,
            mf_config = c, mf_debugOption = d, mf_schema = s, mf_depends = dp, mf_fwk = fw\<rparr>)))))))))))"

(* src/resourcemgr/ability_manifest.cpp:63-74 to_json(AbilityManifest) *)
definition manifest_to_json :: "manifest \<Rightarrow> exn + json" where
  "manifest_to_json x =
     rbind (if deps_empty (mf_depends x) then Inr None
            else rbind (deps_to_json (mf_depends x)) (\<lambda>d. Inr (Some d))) (\<lambda>d.
       Inr (
         jput_opt ''depends'' (\<lambda>d. d) d
          (jput ''schema'' (mf_schema_to_json (mf_schema x))
           (jput_if (\<not> jempty (mf_debugOption x)) ''debugOption'' (mf_debugOption x)
            (jput_if (\<not> jempty (mf_config x)) ''config'' (mf_config x)
             (jput_if (\<not> jempty (mf_tasks x)) ''tasks'' (mf_tasks x)
              (jput_if (\<not> jempty (mf_rpcMethods x)) ''rpcMethods'' (mf_rpcMethods x)
               (jput_if (\<not> jempty (mf_types x)) ''types'' (mf_types x)
                (jput_if (\<not> jempty (mf_provides x)) ''provides'' (mf_provides x)
                 (jput ''kind'' (JStr (mf_kind x))
                  (jput ''abilityName'' (JStr (mf_abilityName x)) JNull)))))))))))"

text \<open>The marks of the framework are the mirror image of a definition's: a manifest reads them and does not write them.\<close>

lemma manifest_forgets_fwk: "manifest_to_json (x\<lparr>mf_fwk := f\<rparr>) = manifest_to_json x"
  by (simp add: manifest_to_json_def)

lemma mf_schema_roundtrip: "null_or_full (si_constants x) \<Longrightarrow> mf_schema_from_json (mf_schema_to_json x) = Inr x"
  by (cases x)
    (auto simp: mf_schema_from_json_def mf_schema_to_json_def read_optional_def null_or_full_def json_simps
      simp del: jput.simps)

end
