(* ===== verification/ResourceDb.thy ===== *)
theory ResourceDb
  imports Definitions ServiceCR
begin

section \<open>The resource database\<close>

text \<open>
  \<open>src/resourcemgr/resource_mgr.cpp\<close>, the tables of \<open>db_create_cr_crd_tables\<close> and the statements on them. A table
  is the list of its rows in the order a full scan visits them; \<open>REPLACE INTO\<close> removes the row with the key and
  appends the new one. The text columns that hold \<open>to_string\<close> of a uuid are modelled by the uuid: every statement
  writes and compares them in that form. A document is stored as its text. The tables \<open>*FileInfo\<close> are created
  and never written. A statement of the model does not fail, except on a table that does not exist.
\<close>

named_theorems db_simps \<open>what the statements do\<close>

subsection \<open>Rows\<close>

(* src/resourcemgr/resource_mgr.cpp:159-174 SQL_CREATE_ABILITY_CR_BASIC *)
record ability_row =
  ar_id :: uuid
  ar_ability_name :: string
  ar_ability_version :: string
  ar_instance_name :: string
  ar_insert_time :: time
  ar_update_time :: time
  ar_autostart :: bool
  ar_auto_started :: bool
  ar_keep_alive :: bool
  ar_singleton :: bool
  ar_cr_detail :: string

(* src/resourcemgr/resource_mgr.cpp:204-215 SQL_CREATE_DEVICE_CR_BASIC *)
record device_row =
  dr_id :: uuid
  dr_device_name :: string
  dr_device_version :: string
  dr_instance_name :: string
  dr_insert_time :: time
  dr_update_time :: time
  dr_cr_detail :: string

text \<open>A row of a label or annotation table: instance, key and value.\<close>

(* src/resourcemgr/resource_mgr.cpp:186-202 SQL_CREATE_ABILITY_CR_LABEL, SQL_CREATE_ABILITY_CR_ANNOTATION *)
type_synonym kv_row = "uuid \<times> string \<times> string"

text \<open>A row of a definition table: name, version and document.\<close>

(* src/resourcemgr/resource_mgr.cpp:245-261 SQL_CREATE_ABILITY_CRD_BASIC, SQL_CREATE_DEVICE_CRD_BASIC *)
type_synonym crd_row = "(string \<times> string) \<times> string"

(* src/resourcemgr/resource_mgr.cpp:263-273 SQL_CREATE_CR_OWNERSHIP *)
record own_row =
  ow_parent :: uuid
  ow_parent_kind :: string
  ow_address :: string
  ow_child :: uuid
  ow_child_kind :: string
  ow_mode :: ownership_mode

(* src/resourcemgr/resource_mgr.cpp:280-295 SQL_CREATE_ABILITY_INSTANCE *)
record instance_row =
  ir_id :: uuid
  ir_cr_id :: uuid
  ir_cr_name :: string
  ir_instance_name :: string
  ir_ability_name :: string
  ir_ability_version :: string
  ir_state :: string
  ir_start_time :: "time option"
  ir_stop_time :: "time option"
  ir_spec_snapshot :: "string option"
  ir_detail :: "string option"

(* src/resourcemgr/resource_mgr.cpp:297-309 SQL_CREATE_SERVICE_CR_BASIC *)
record service_row =
  sr_id :: uuid
  sr_service_name :: string
  sr_service_version :: string
  sr_instance_name :: string
  sr_insert_time :: time
  sr_update_time :: time
  sr_state :: string
  sr_restart_count :: int
  sr_cr_detail :: string

(* src/resourcemgr/resource_mgr.cpp:311-328 db_create_cr_crd_tables *)
record rdb =
  rt_ability_crs :: "ability_row list"
  rt_ability_labels :: "kv_row list"
  rt_ability_annotations :: "kv_row list"
  rt_device_crs :: "device_row list"
  rt_device_labels :: "kv_row list"
  rt_device_annotations :: "kv_row list"
  rt_ability_crds :: "crd_row list"
  rt_device_crds :: "crd_row list"
  rt_ownership :: "own_row list"
  rt_instances :: "instance_row list"
  rt_services :: "service_row list"

text \<open>The tables survive a restart, except the instances, which are dropped and created anew.\<close>

(* src/resourcemgr/resource_mgr.cpp:331-336 ResourceManager::ResourceManager *)
definition open_rdb :: "rdb \<Rightarrow> rdb" where
  "open_rdb T = T\<lparr>rt_instances := []\<rparr>"

definition empty_rdb :: rdb where
  "empty_rdb = \<lparr>rt_ability_crs = [], rt_ability_labels = [], rt_ability_annotations = [], rt_device_crs = [],
     rt_device_labels = [], rt_device_annotations = [], rt_ability_crds = [], rt_device_crds = [], rt_ownership = [],
     rt_instances = [], rt_services = []\<rparr>"

subsection \<open>Statements\<close>

definition replace_row :: "('r \<Rightarrow> 'k) \<Rightarrow> 'r \<Rightarrow> 'r list \<Rightarrow> 'r list" where
  "replace_row key r rows = filter (\<lambda>x. key x \<noteq> key r) rows @ [r]"

definition update_where :: "('r \<Rightarrow> bool) \<Rightarrow> ('r \<Rightarrow> 'r) \<Rightarrow> 'r list \<Rightarrow> 'r list" where
  "update_where P f rows = map (\<lambda>x. if P x then f x else x) rows"

definition delete_where :: "('r \<Rightarrow> bool) \<Rightarrow> 'r list \<Rightarrow> 'r list" where
  "delete_where P rows = filter (\<lambda>x. \<not> P x) rows"

lemma set_replace_row [db_simps]: "set (replace_row key r rows) = {x \<in> set rows. key x \<noteq> key r} \<union> {r}"
  by (auto simp: replace_row_def)

lemma set_delete_where [db_simps]: "set (delete_where P rows) = {x \<in> set rows. \<not> P x}"
  by (auto simp: delete_where_def)

lemma set_update_where [db_simps]: "set (update_where P f rows) = (\<lambda>x. if P x then f x else x) ` set rows"
  by (auto simp: update_where_def)

lemma find_replace_row [db_simps]:
  "find (\<lambda>x. key x = k) (replace_row key r rows) = (if key r = k then Some r else find (\<lambda>x. key x = k) rows)"
proof -
  have app: "find P (xs @ ys) = (case find P xs of None \<Rightarrow> find P ys | Some x \<Rightarrow> Some x)" for P :: "'a \<Rightarrow> bool" and xs ys
    by (induction xs) auto
  have fil: "find (\<lambda>x. key x = k) (filter (\<lambda>x. key x \<noteq> key r) rows)
      = (if key r = k then None else find (\<lambda>x. key x = k) rows)"
    by (induction rows) auto
  show ?thesis by (simp add: replace_row_def app fil split: option.split)
qed

lemma find_delete_where [db_simps]:
  "find (\<lambda>x. key x = k) (delete_where (\<lambda>x. key x = k') rows) = (if k = k' then None else find (\<lambda>x. key x = k) rows)"
  unfolding delete_where_def by (induction rows) auto

lemma find_update_where [db_simps]:
  assumes "\<And>x. key (f x) = key x"
  shows "find (\<lambda>x. key x = k) (update_where (\<lambda>x. key x = k') f rows)
    = (if k = k' then map_option f (find (\<lambda>x. key x = k) rows) else find (\<lambda>x. key x = k) rows)"
  unfolding update_where_def by (induction rows) (auto simp: assms)

lemma update_where_none: "(\<And>x. x \<in> set rows \<Longrightarrow> \<not> P x) \<Longrightarrow> update_where P f rows = rows"
  unfolding update_where_def by (rule map_idI) auto

lemma keys_update_where:
  "(\<And>x. key (f x) = key x) \<Longrightarrow> key ` set (update_where P f rows) = key ` set rows"
proof -
  assume "\<And>x. key (f x) = key x"
  then have "map key (update_where P f rows) = map key rows" by (simp add: update_where_def)
  then show ?thesis by (metis list.set_map)
qed

lemma distinct_replace_row: "distinct (map key rows) \<Longrightarrow> distinct (map key (replace_row key r rows))"
proof -
  assume "distinct (map key rows)"
  then have "distinct (map key (filter (\<lambda>x. key x \<noteq> key r) rows))" by (induction rows) auto
  then show ?thesis by (auto simp: replace_row_def)
qed

lemma distinct_delete_where: "distinct (map key rows) \<Longrightarrow> distinct (map key (delete_where P rows))"
  unfolding delete_where_def by (induction rows) auto

lemma distinct_update_where:
  "(\<And>x. key (f x) = key x) \<Longrightarrow> distinct (map key rows) \<Longrightarrow> distinct (map key (update_where P f rows))"
proof -
  assume k: "\<And>x. key (f x) = key x"
  then have "map key (update_where P f rows) = map key rows" by (simp add: update_where_def)
  then show "distinct (map key rows) \<Longrightarrow> distinct (map key (update_where P f rows))" by simp
qed

subsection \<open>Labels and annotations\<close>

(* src/resourcemgr/resource_mgr.cpp:467-479 FWK_DEFINE_DB_CLEAR *)
definition kv_clear :: "uuid \<Rightarrow> kv_row list \<Rightarrow> kv_row list" where
  "kv_clear i rows = delete_where (\<lambda>r. fst r = i) rows"

(* src/resourcemgr/resource_mgr.cpp:424-439 FWK_DEFINE_DB_WRITE_LABELS *)
definition kv_write :: "uuid \<Rightarrow> string \<Rightarrow> string \<Rightarrow> kv_row list \<Rightarrow> kv_row list" where
  "kv_write i k v rows = replace_row (\<lambda>(i, k, v). (i, k)) (i, k, v) rows"

text \<open>Clear the rows of an instance and write one for each entry of a map.\<close>

(* src/resourcemgr/resource_mgr.cpp:606-614 ResourceManager::add_ability_cr (labels, annotations) *)
definition kv_rewrite :: "uuid \<Rightarrow> (string, string) omap \<Rightarrow> kv_row list \<Rightarrow> kv_row list" where
  "kv_rewrite i m rows = fold (\<lambda>(k, v). kv_write i k v) m (kv_clear i rows)"

(* src/resourcemgr/resource_mgr.cpp:930-940 FWK_DEFINE_DB_GET_LABEL_OR_ANNOTATION *)
definition kv_get :: "uuid \<Rightarrow> kv_row list \<Rightarrow> (string, string) omap" where
  "kv_get i rows = oputs (map snd (filter (\<lambda>r. fst r = i) rows)) []"

lemma kv_write_fresh:
  "(\<And>v'. (i, k, v') \<notin> set rows) \<Longrightarrow> kv_write i k v rows = rows @ [(i, k, v)]"
  unfolding kv_write_def replace_row_def by (auto intro!: filter_True)

lemma kv_fold_fresh:
  "distinct (map fst m) \<Longrightarrow> (\<And>k v'. k \<in> fst ` set m \<Longrightarrow> (i, k, v') \<notin> set rows) \<Longrightarrow>
   fold (\<lambda>(k, v). kv_write i k v) m rows = rows @ map (\<lambda>(k, v). (i, k, v)) m"
proof (induction m arbitrary: rows)
  case (Cons e m)
  obtain k v where e: "e = (k, v)" by (cases e)
  have w: "kv_write i k v rows = rows @ [(i, k, v)]" using Cons.prems(2) e by (intro kv_write_fresh) auto
  have "fold (\<lambda>(k, v). kv_write i k v) m (rows @ [(i, k, v)]) = (rows @ [(i, k, v)]) @ map (\<lambda>(k, v). (i, k, v)) m"
    using Cons.prems e by (intro Cons.IH) (auto simp: image_iff)
  then show ?case by (simp add: e w)
qed simp

text \<open>What is written for an instance is read back for it, and nothing of another instance changes.\<close>

lemma kv_rewrite_rows:
  "omap_ok m \<Longrightarrow> kv_rewrite i m rows = filter (\<lambda>r. fst r \<noteq> i) rows @ map (\<lambda>(k, v). (i, k, v)) m"
  unfolding kv_rewrite_def
  by (subst kv_fold_fresh) (auto simp: omap_ok_distinct kv_clear_def db_simps delete_where_def)

lemma kv_get_rewrite [db_simps]:
  assumes "omap_ok m"
  shows "kv_get k (kv_rewrite i m rows) = (if k = i then m else kv_get k rows)"
proof -
  have own: "filter (\<lambda>r. fst r = k) (map (\<lambda>(a, b). (i, a, b)) m) = (if k = i then map (\<lambda>(a, b). (i, a, b)) m else [])"
    by (auto simp: filter_empty_conv intro!: filter_True)
  have "map snd (map (\<lambda>(a, b). (i, a, b)) m) = m" by (induction m) auto
  then show ?thesis
    using oputs_id [OF assms omap_ok_distinct [OF assms] refl]
    by (auto simp: kv_get_def kv_rewrite_rows [OF assms] own intro!: arg_cong [where f = "\<lambda>x. oputs (map snd x) []"] filter_cong)
qed

lemma kv_get_clear [db_simps]: "kv_get k (kv_clear i rows) = (if k = i then [] else kv_get k rows)"
  by (auto simp: kv_get_def kv_clear_def delete_where_def filter_empty_conv
      intro!: arg_cong [where f = "\<lambda>x. oputs (map snd x) []"] filter_cong)

subsection \<open>Ability resources\<close>

text \<open>The key under which a resource is the same one again: class, version and instance name.\<close>

definition ability_key :: "ability_row \<Rightarrow> string \<times> string \<times> string" where
  "ability_key r = (ar_ability_name r, ar_ability_version r, ar_instance_name r)"

definition no_spec :: exn where
  "no_spec = LogicError ''null specification''"

definition spec_key :: "ability_spec \<Rightarrow> string \<Rightarrow> string \<times> string \<times> string" where
  "spec_key s name = (sf_abilityName (spec_own s), version_to_string (sf_version (spec_own s)), name)"

(* src/resourcemgr/resource_mgr.cpp:524-538 db_exists_ability_cr_by_name *)
definition exists_ability_cr_by_name :: "rdb \<Rightarrow> ability_spec \<Rightarrow> string \<Rightarrow> uuid option" where
  "exists_ability_cr_by_name T s name =
     map_option ar_id (find (\<lambda>r. ability_key r = spec_key s name) (rt_ability_crs T))"

fun opt_or :: "'a \<Rightarrow> 'a option \<Rightarrow> 'a" where
  "opt_or d None = d"
| "opt_or d (Some x) = x"

text \<open>The uuid of a new row is random, not the one of the resource; a known resource keeps its row and with it its
  mark \<open>auto_started\<close>.\<close>

(* src/resourcemgr/resource_mgr.cpp:540-623 ResourceManager::add_ability_cr *)
definition add_ability_cr :: "text_lib \<Rightarrow> time \<Rightarrow> uuid \<Rightarrow> ability_cr \<Rightarrow> rdb \<Rightarrow> exn + (uuid \<times> rdb)" where
  "add_ability_cr L now fresh cr T =
     (case acr_spec cr of
        None \<Rightarrow> Inl no_spec
      | Some sp \<Rightarrow>
          (let s = spec_own sp;
               name = md_name (acr_metadata cr);
               put = (\<lambda>r. r\<lparr>ar_ability_name := sf_abilityName s, ar_ability_version := version_to_string (sf_version s),
                           ar_instance_name := name, ar_insert_time := now, ar_update_time := now,
                           ar_autostart := opt_or False (sf_autoStart s), ar_keep_alive := opt_or False (sf_keepAlive s),
                           ar_singleton := opt_or True (sf_singleton s), ar_cr_detail := dump L (ability_cr_to_json L cr)\<rparr>);
               (i, rows) =
                 (case exists_ability_cr_by_name T sp name of
                    Some i \<Rightarrow> (i, update_where (\<lambda>r. ar_id r = i) put (rt_ability_crs T))
                  | None \<Rightarrow>
                      (fresh, replace_row ar_id
                         (put \<lparr>ar_id = fresh, ar_ability_name = [], ar_ability_version = [], ar_instance_name = [],
                               ar_insert_time = 0, ar_update_time = 0, ar_autostart = False, ar_auto_started = False,
                               ar_keep_alive = False, ar_singleton = True, ar_cr_detail = []\<rparr>) (rt_ability_crs T)))
           in Inr (i, T\<lparr>rt_ability_crs := rows,
                        rt_ability_annotations := kv_rewrite i (md_annotations (acr_metadata cr)) (rt_ability_annotations T),
                        rt_ability_labels := kv_rewrite i (md_labels (acr_metadata cr)) (rt_ability_labels T)\<rparr>)))"

(* src/resourcemgr/resource_mgr.cpp:738-746 ResourceManager::remove_ability_cr *)
definition remove_ability_cr :: "uuid \<Rightarrow> rdb \<Rightarrow> rdb" where
  "remove_ability_cr i T =
     T\<lparr>rt_ability_labels := kv_clear i (rt_ability_labels T),
       rt_ability_annotations := kv_clear i (rt_ability_annotations T),
       rt_ability_crs := delete_where (\<lambda>r. ar_id r = i) (rt_ability_crs T)\<rparr>"

text \<open>A row read back: the columns overwrite what the document says. A document without specification cannot be read.\<close>

(* src/resourcemgr/resource_mgr.cpp:915-928 ability_cr_from_db_basic *)
definition ability_cr_from_row :: "text_lib \<Rightarrow> ability_row \<Rightarrow> exn + ability_cr" where
  "ability_cr_from_row L r =
     rbind (rbind (parse L (ar_cr_detail r)) (ability_cr_from_json L)) (\<lambda>cr.
       Inr (cr\<lparr>acr_metadata := (acr_metadata cr)\<lparr>md_name := ar_instance_name r\<rparr>, acr_id := ar_id r,
              acr_spec := map_option (\<lambda>s. AbilitySpec ((spec_own s)\<lparr>sf_autoStart := Some (ar_autostart r),
                 sf_keepAlive := Some (ar_keep_alive r), sf_singleton := Some (ar_singleton r)\<rparr>) (spec_subs s)) (acr_spec cr)\<rparr>))"

(* src/resourcemgr/resource_mgr.cpp:952-955 append_ability_basic_cr_with_labels_and_annotations *)
definition append_ability_kv :: "rdb \<Rightarrow> uuid \<Rightarrow> ability_cr \<Rightarrow> ability_cr" where
  "append_ability_kv T i cr =
     cr\<lparr>acr_metadata := (acr_metadata cr)\<lparr>md_labels := kv_get i (rt_ability_labels T),
        md_annotations := kv_get i (rt_ability_annotations T)\<rparr>\<rparr>"

(* src/resourcemgr/resource_mgr.cpp:957-977 ResourceManager::get_ability_cr, db_get_ability_cr_basic *)
definition get_ability_cr :: "text_lib \<Rightarrow> rdb \<Rightarrow> uuid \<Rightarrow> exn + ability_cr option" where
  "get_ability_cr L T i =
     (case find (\<lambda>r. ar_id r = i) (rt_ability_crs T) of
        None \<Rightarrow> Inr None
      | Some r \<Rightarrow> rbind (ability_cr_from_row L r) (\<lambda>cr. Inr (Some (append_ability_kv T i (cr\<lparr>acr_id := i\<rparr>)))))"

(* src/resourcemgr/resource_mgr.cpp:1017-1036 ResourceManager::get_all_ability_cr *)
definition get_all_ability_cr :: "text_lib \<Rightarrow> rdb \<Rightarrow> exn + ability_cr list" where
  "get_all_ability_cr L T =
     rbind (mapM_r (ability_cr_from_row L) (rt_ability_crs T)) (\<lambda>crs.
       Inr (map (\<lambda>cr. append_ability_kv T (acr_id cr) cr) crs))"

(* src/resourcemgr/resource_mgr.cpp:860-870 find_cr_parent *)
definition find_cr_parent :: "text_lib \<Rightarrow> rdb \<Rightarrow> uuid \<Rightarrow> exn + uuid option" where
  "find_cr_parent L T i =
     rbind (get_all_ability_cr L T) (\<lambda>crs.
       Inr (map_option acr_id (find (\<lambda>cr. \<exists>e\<in>set (acr_subabilities cr). fst e = i) crs)))"

subsection \<open>Device resources\<close>

(* src/resourcemgr/resource_mgr.cpp:625-682 ResourceManager::add_device_cr *)
definition add_device_cr :: "text_lib \<Rightarrow> time \<Rightarrow> device_cr \<Rightarrow> rdb \<Rightarrow> rdb" where
  "add_device_cr L now cr T =
     (let i = dcr_id cr;
          s = dcr_spec cr;
          put = (\<lambda>r. r\<lparr>dr_device_name := ds_deviceName s, dr_device_version := version_to_string (ds_version s),
                      dr_instance_name := md_name (dcr_metadata cr), dr_update_time := now,
                      dr_cr_detail := dump L (device_cr_to_json L cr)\<rparr>)
      in T\<lparr>rt_device_annotations := kv_rewrite i (md_annotations (dcr_metadata cr)) (rt_device_annotations T),
           rt_device_labels := kv_rewrite i (md_labels (dcr_metadata cr)) (rt_device_labels T),
           rt_device_crs :=
             (if \<exists>r\<in>set (rt_device_crs T). dr_id r = i
              then update_where (\<lambda>r. dr_id r = i) put (rt_device_crs T)
              else replace_row dr_id
                     (put \<lparr>dr_id = i, dr_device_name = [], dr_device_version = [], dr_instance_name = [],
                           dr_insert_time = now, dr_update_time = now, dr_cr_detail = []\<rparr>) (rt_device_crs T))\<rparr>)"

(* src/resourcemgr/resource_mgr.cpp:748-756 ResourceManager::remove_device_cr *)
definition remove_device_cr :: "uuid \<Rightarrow> rdb \<Rightarrow> rdb" where
  "remove_device_cr i T =
     T\<lparr>rt_device_labels := kv_clear i (rt_device_labels T),
       rt_device_annotations := kv_clear i (rt_device_annotations T),
       rt_device_crs := delete_where (\<lambda>r. dr_id r = i) (rt_device_crs T)\<rparr>"

(* src/resourcemgr/resource_mgr.cpp:989-994 device_cr_from_db_basic_01 *)
definition device_cr_from_row :: "text_lib \<Rightarrow> device_row \<Rightarrow> exn + device_cr" where
  "device_cr_from_row L r =
     rbind (rbind (parse L (dr_cr_detail r)) (device_cr_from_json L)) (\<lambda>cr.
       Inr (cr\<lparr>dcr_metadata := (dcr_metadata cr)\<lparr>md_name := dr_instance_name r\<rparr>\<rparr>))"

(* src/resourcemgr/resource_mgr.cpp:1004-1007 append_device_basic_cr_with_labels_and_annotations *)
definition append_device_kv :: "rdb \<Rightarrow> uuid \<Rightarrow> device_cr \<Rightarrow> device_cr" where
  "append_device_kv T i cr =
     cr\<lparr>dcr_metadata := (dcr_metadata cr)\<lparr>md_labels := kv_get i (rt_device_labels T),
        md_annotations := kv_get i (rt_device_annotations T)\<rparr>\<rparr>"

(* src/resourcemgr/resource_mgr.cpp:995-1015 ResourceManager::get_device_cr, db_get_device_cr_basic *)
definition get_device_cr :: "text_lib \<Rightarrow> rdb \<Rightarrow> uuid \<Rightarrow> exn + device_cr option" where
  "get_device_cr L T i =
     (case find (\<lambda>r. dr_id r = i) (rt_device_crs T) of
        None \<Rightarrow> Inr None
      | Some r \<Rightarrow> rbind (device_cr_from_row L r) (\<lambda>cr. Inr (Some (append_device_kv T i cr))))"

(* src/resourcemgr/resource_mgr.cpp:1044-1057 ResourceManager::get_all_device_cr *)
definition get_all_device_cr :: "text_lib \<Rightarrow> rdb \<Rightarrow> exn + device_cr list" where
  "get_all_device_cr L T =
     rbind (mapM_r (device_cr_from_row L) (rt_device_crs T)) (\<lambda>crs.
       Inr (map (\<lambda>cr. append_device_kv T (dcr_id cr) cr) crs))"

(* src/resourcemgr/resource_mgr.cpp:828-837 find_device *)
definition find_device :: "string \<Rightarrow> string \<Rightarrow> device_cr list \<Rightarrow> device_cr option" where
  "find_device deviceName instance_name crs =
     find (\<lambda>cr. dcr_kind cr = deviceName \<and> md_name (dcr_metadata cr) = instance_name) crs"

text \<open>The devices of every ability are looked up again and the abilities stored. The random uuids of new rows are
  not used, as the resources come from the table.\<close>

(* src/resourcemgr/resource_mgr.cpp:844-855 add_device_entry_for_ability_cr (loop) *)
fun add_device_entries :: "text_lib \<Rightarrow> time \<Rightarrow> uuid \<Rightarrow> device_cr list \<Rightarrow> ability_cr list \<Rightarrow> rdb \<Rightarrow> exn + rdb" where
  "add_device_entries L now fresh devs [] T = Inr T"
| "add_device_entries L now fresh devs (cr # crs) T =
     (case acr_spec cr of
        None \<Rightarrow> Inl no_spec
      | Some sp \<Rightarrow>
          if sf_devices (spec_own sp) = [] then add_device_entries L now fresh devs crs T
          else
            (let ds = List.map_filter (\<lambda>d. map_option (\<lambda>c. (dcr_id c, ds_position (dcr_spec c)))
                        (find_device (sd_deviceName d) (sd_instanceName d) devs)) (sf_devices (spec_own sp))
             in rbind (add_ability_cr L now fresh (cr\<lparr>acr_devices := ds\<rparr>) T) (\<lambda>(i, T').
                  add_device_entries L now fresh devs crs T')))"

(* src/resourcemgr/resource_mgr.cpp:841-857 add_device_entry_for_ability_cr *)
definition add_device_entry_for_ability_cr :: "text_lib \<Rightarrow> time \<Rightarrow> uuid \<Rightarrow> rdb \<Rightarrow> exn + rdb" where
  "add_device_entry_for_ability_cr L now fresh T =
     rbind (get_all_ability_cr L T) (\<lambda>crs.
     rbind (get_all_device_cr L T) (\<lambda>devs. add_device_entries L now fresh devs crs T))"

subsection \<open>Definitions\<close>

(* src/resourcemgr/resource_mgr.cpp:690-712 ResourceManager::add_ability_crd *)
definition add_ability_crd :: "text_lib \<Rightarrow> ability_crd \<Rightarrow> rdb \<Rightarrow> exn + rdb" where
  "add_ability_crd L crd T =
     rbind (ability_crd_to_json L crd) (\<lambda>j.
       Inr (T\<lparr>rt_ability_crds := replace_row fst
              ((md_name (crd_metadata crd), version_to_string (crd_version crd)), dump L j) (rt_ability_crds T)\<rparr>))"

(* src/resourcemgr/resource_mgr.cpp:714-736 ResourceManager::add_device_crd *)
definition add_device_crd :: "text_lib \<Rightarrow> device_crd \<Rightarrow> rdb \<Rightarrow> rdb" where
  "add_device_crd L crd T =
     T\<lparr>rt_device_crds := replace_row fst
        ((md_name (dcrd_metadata crd), version_to_string (dcrd_version crd)), dump L (device_crd_to_json L crd))
        (rt_device_crds T)\<rparr>"

text \<open>The label tables of definitions are never created, and the definition tables have no column \<open>instance_id\<close>: the
  first statement of a removal fails, and the transaction is rolled back.\<close>

definition created_tables :: "string list" where
  "created_tables = [''AbilityCRBasic'', ''AbilityCRFileInfo'', ''AbilityCRLabel'', ''AbilityCRAnnotation'',
     ''DeviceCRBasic'', ''DeviceCRFileInfo'', ''DeviceCRLabel'', ''DeviceCRAnnotation'', ''AbilityCRDBasic'',
     ''DeviceCRDBasic'', ''CROwnership'', ''AbilityInstance'', ''ServiceCRBasic'']"

definition need_table :: "string \<Rightarrow> exn + unit" where
  "need_table t = (if t \<in> set created_tables then Inr () else Inl (SqliteError (''no such table: '' @ t)))"

definition no_column :: "string \<Rightarrow> exn" where
  "no_column c = SqliteError (''no such column: '' @ c)"

(* src/resourcemgr/resource_mgr.cpp:758-766 ResourceManager::remove_ability_crd *)
definition remove_ability_crd :: "uuid \<Rightarrow> rdb \<Rightarrow> exn + rdb" where
  "remove_ability_crd i T =
     rbind (need_table ''AbilityCRDLabel'') (\<lambda>_.
     rbind (need_table ''AbilityCRDAnnotation'') (\<lambda>_.
     rbind (need_table ''AbilityCRDBasic'') (\<lambda>_. Inl (no_column ''instance_id''))))"

(* src/resourcemgr/resource_mgr.cpp:768-777 ResourceManager::remove_device_crd *)
definition remove_device_crd :: "uuid \<Rightarrow> rdb \<Rightarrow> exn + rdb" where
  "remove_device_crd i T =
     rbind (need_table ''DeviceCRDLabel'') (\<lambda>_.
     rbind (need_table ''DeviceCRDAnnotation'') (\<lambda>_.
     rbind (need_table ''DeviceCRDBasic'') (\<lambda>_. Inl (no_column ''instance_id''))))"

definition crd_of_text :: "text_lib \<Rightarrow> (json \<Rightarrow> exn + 'a) \<Rightarrow> crd_row \<Rightarrow> exn + 'a" where
  "crd_of_text L conv r = rbind (parse L (snd r)) conv"

definition first_crd :: "text_lib \<Rightarrow> (json \<Rightarrow> exn + 'a) \<Rightarrow> crd_row option \<Rightarrow> exn + 'a option" where
  "first_crd L conv r = (case r of None \<Rightarrow> Inr None | Some x \<Rightarrow> rbind (crd_of_text L conv x) (\<lambda>c. Inr (Some c)))"

(* src/resourcemgr/resource_mgr.cpp:1354-1369 ResourceManager::get_ability_crd *)
definition get_ability_crd :: "text_lib \<Rightarrow> rdb \<Rightarrow> string \<Rightarrow> string \<Rightarrow> exn + ability_crd option" where
  "get_ability_crd L T name ver =
     first_crd L (ability_crd_from_json L) (find (\<lambda>r. fst r = (name, ver)) (rt_ability_crds T))"

(* src/resourcemgr/resource_mgr.cpp:1371-1386 ResourceManager::get_device_crd *)
definition get_device_crd :: "text_lib \<Rightarrow> rdb \<Rightarrow> string \<Rightarrow> string \<Rightarrow> exn + device_crd option" where
  "get_device_crd L T name ver =
     first_crd L (device_crd_from_json L) (find (\<lambda>r. fst r = (name, ver)) (rt_device_crds T))"

(* src/resourcemgr/resource_mgr.cpp:1388-1402 ResourceManager::get_ability_crd_by_name *)
definition get_ability_crd_by_name :: "text_lib \<Rightarrow> rdb \<Rightarrow> string \<Rightarrow> exn + ability_crd option" where
  "get_ability_crd_by_name L T name =
     first_crd L (ability_crd_from_json L) (find (\<lambda>r. fst (fst r) = name) (rt_ability_crds T))"

(* src/resourcemgr/resource_mgr.cpp:1404-1417 ResourceManager::get_device_crd_by_name *)
definition get_device_crd_by_name :: "text_lib \<Rightarrow> rdb \<Rightarrow> string \<Rightarrow> exn + device_crd option" where
  "get_device_crd_by_name L T name =
     first_crd L (device_crd_from_json L) (find (\<lambda>r. fst (fst r) = name) (rt_device_crds T))"

(* src/resourcemgr/resource_mgr.cpp:1070-1080 ResourceManager::get_all_ability_crd *)
definition get_all_ability_crd :: "text_lib \<Rightarrow> rdb \<Rightarrow> exn + ability_crd list" where
  "get_all_ability_crd L T = mapM_r (crd_of_text L (ability_crd_from_json L)) (rt_ability_crds T)"

(* src/resourcemgr/resource_mgr.cpp:1082-1092 ResourceManager::get_all_device_crd *)
definition get_all_device_crd :: "text_lib \<Rightarrow> rdb \<Rightarrow> exn + device_crd list" where
  "get_all_device_crd L T = mapM_r (crd_of_text L (device_crd_from_json L)) (rt_device_crds T)"

subsection \<open>Service resources\<close>

(* src/resourcemgr/resource_mgr.cpp:1280-1305 ResourceManager::add_service_cr *)
definition add_service_cr :: "text_lib \<Rightarrow> time \<Rightarrow> service_cr \<Rightarrow> rdb \<Rightarrow> exn + rdb" where
  "add_service_cr L now cr T =
     (case scr_spec cr of
        None \<Rightarrow> Inl no_spec
      | Some sp \<Rightarrow>
          Inr (T\<lparr>rt_services := replace_row sr_id
            \<lparr>sr_id = scr_id cr, sr_service_name = ss_serviceName sp, sr_service_version = version_to_string (ss_version sp),
             sr_instance_name = md_name (scr_metadata cr), sr_insert_time = now, sr_update_time = now,
             sr_state = show_service_state (scr_state cr), sr_restart_count = scr_restartCount cr,
             sr_cr_detail = dump L (service_cr_to_json L cr)\<rparr> (rt_services T)\<rparr>))"

(* src/resourcemgr/resource_mgr.cpp:1307-1314 ResourceManager::remove_service_cr *)
definition remove_service_cr :: "uuid \<Rightarrow> rdb \<Rightarrow> rdb" where
  "remove_service_cr i T = T\<lparr>rt_services := delete_where (\<lambda>r. sr_id r = i) (rt_services T)\<rparr>"

(* src/resourcemgr/resource_mgr.cpp:1316-1326 ResourceManager::get_service_cr *)
definition get_service_cr :: "text_lib \<Rightarrow> rdb \<Rightarrow> uuid \<Rightarrow> exn + service_cr option" where
  "get_service_cr L T i =
     (case find (\<lambda>r. sr_id r = i) (rt_services T) of
        None \<Rightarrow> Inr None
      | Some r \<Rightarrow> rbind (rbind (parse L (sr_cr_detail r)) (service_cr_from_json L)) (\<lambda>c. Inr (Some c)))"

(* src/resourcemgr/resource_mgr.cpp:1328-1338 ResourceManager::get_all_service_cr *)
definition get_all_service_cr :: "text_lib \<Rightarrow> rdb \<Rightarrow> exn + service_cr list" where
  "get_all_service_cr L T = mapM_r (\<lambda>r. rbind (parse L (sr_cr_detail r)) (service_cr_from_json L)) (rt_services T)"

subsection \<open>What the operations guarantee\<close>

text \<open>A removal of a definition always fails.\<close>

lemma remove_crd_fails:
  "remove_ability_crd i T = Inl (SqliteError ''no such table: AbilityCRDLabel'')"
  "remove_device_crd i T = Inl (SqliteError ''no such table: DeviceCRDLabel'')"
  by (simp_all add: remove_ability_crd_def remove_device_crd_def need_table_def created_tables_def)

definition rdb_ok :: "rdb \<Rightarrow> bool" where
  "rdb_ok T = (distinct (map ar_id (rt_ability_crs T)) \<and> distinct (map ability_key (rt_ability_crs T))
     \<and> distinct (map dr_id (rt_device_crs T)) \<and> distinct (map ir_id (rt_instances T)) \<and> distinct (map sr_id (rt_services T)))"

lemma find_key_id:
  "distinct (map key rows) \<Longrightarrow> find P rows = Some r \<Longrightarrow> find (\<lambda>x. key x = key r) rows = Some r"
proof (induction rows)
  case (Cons a rows)
  then show ?case by (cases "P a") (force simp: find_Some_iff)+
qed simp

lemma update_where_key:
  "distinct (map ar_id rows) \<Longrightarrow> distinct (map ability_key rows) \<Longrightarrow> find (\<lambda>r. ability_key r = k) rows = Some r0 \<Longrightarrow>
   (\<And>r. ability_key (f r) = k) \<Longrightarrow> map ability_key (update_where (\<lambda>r. ar_id r = ar_id r0) f rows) = map ability_key rows"
proof -
  assume d: "distinct (map ar_id rows)" "distinct (map ability_key rows)"
    and r0: "find (\<lambda>r. ability_key r = k) rows = Some r0" and f: "\<And>r. ability_key (f r) = k"
  have in0: "r0 \<in> set rows" "ability_key r0 = k" using r0 by (auto simp: find_Some_iff)
  have "ability_key (if ar_id r = ar_id r0 then f r else r) = ability_key r" if "r \<in> set rows" for r
    using that in0 d(1) f by (auto simp: distinct_map dest: inj_onD)
  then show ?thesis by (simp add: update_where_def)
qed

text \<open>One resource per class, version and instance name: adding a resource again keeps its row and its id.\<close>

lemma exists_by_name_iff:
  "exists_ability_cr_by_name T s n = Some i \<longleftrightarrow>
     (\<exists>r. find (\<lambda>r. ability_key r = spec_key s n) (rt_ability_crs T) = Some r \<and> i = ar_id r)"
  by (auto simp: exists_ability_cr_by_name_def)

lemma add_ability_cr_ok:
  assumes "rdb_ok T" "add_ability_cr L now fresh cr T = Inr (i, T')"
  shows "rdb_ok T'"
proof -
  obtain sp where sp: "acr_spec cr = Some sp" using assms(2) by (auto simp: add_ability_cr_def split: option.splits)
  show ?thesis
  proof (cases "exists_ability_cr_by_name T sp (md_name (acr_metadata cr))")
    case None
    then have "find (\<lambda>r. ability_key r = spec_key sp (md_name (acr_metadata cr))) (rt_ability_crs T) = None"
      by (simp add: exists_ability_cr_by_name_def)
    then have "spec_key sp (md_name (acr_metadata cr)) \<notin> ability_key ` set (rt_ability_crs T)"
      by (auto simp: find_None_iff)
    moreover have "distinct (map ability_key (filter (\<lambda>x. ar_id x \<noteq> fresh) (rt_ability_crs T)))"
      using assms(1) by (simp add: rdb_ok_def distinct_map_filter)
    ultimately show ?thesis
      using assms sp None
      by (auto simp: add_ability_cr_def rdb_ok_def Let_def distinct_replace_row spec_key_def)
        (auto simp: replace_row_def ability_key_def)
  next
    case (Some k)
    then obtain r0 where r0: "find (\<lambda>r. ability_key r = spec_key sp (md_name (acr_metadata cr))) (rt_ability_crs T) = Some r0"
      "k = ar_id r0" by (auto simp: exists_by_name_iff)
    show ?thesis
      using assms sp Some r0 update_where_key [OF _ _ r0(1)]
      by (auto simp: add_ability_cr_def rdb_ok_def Let_def spec_key_def ability_key_def intro!: distinct_update_where)
  qed
qed

lemma add_ability_cr_row:
  assumes "rdb_ok T" "add_ability_cr L now fresh cr T = Inr (i, T')" "acr_spec cr = Some sp"
  shows "\<exists>r. find (\<lambda>r. ar_id r = i) (rt_ability_crs T') = Some r \<and> ar_id r = i
      \<and> ability_key r = spec_key sp (md_name (acr_metadata cr)) \<and> ar_cr_detail r = dump L (ability_cr_to_json L cr)
      \<and> ar_autostart r = opt_or False (sf_autoStart (spec_own sp)) \<and> ar_keep_alive r = opt_or False (sf_keepAlive (spec_own sp))
      \<and> ar_singleton r = opt_or True (sf_singleton (spec_own sp))"
    "k \<noteq> i \<Longrightarrow> find (\<lambda>r. ar_id r = k) (rt_ability_crs T') = find (\<lambda>r. ar_id r = k) (rt_ability_crs T)"
    "rt_ability_labels T' = kv_rewrite i (md_labels (acr_metadata cr)) (rt_ability_labels T)"
    "rt_ability_annotations T' = kv_rewrite i (md_annotations (acr_metadata cr)) (rt_ability_annotations T)"
proof -
  consider "exists_ability_cr_by_name T sp (md_name (acr_metadata cr)) = None" "i = fresh"
    | r0 where "find (\<lambda>r. ability_key r = spec_key sp (md_name (acr_metadata cr))) (rt_ability_crs T) = Some r0" "i = ar_id r0"
      "exists_ability_cr_by_name T sp (md_name (acr_metadata cr)) = Some i"
    using assms(2,3) by (auto simp: add_ability_cr_def Let_def exists_by_name_iff split: option.splits)
  note cases = this
  show "\<exists>r. find (\<lambda>r. ar_id r = i) (rt_ability_crs T') = Some r \<and> ar_id r = i
      \<and> ability_key r = spec_key sp (md_name (acr_metadata cr)) \<and> ar_cr_detail r = dump L (ability_cr_to_json L cr)
      \<and> ar_autostart r = opt_or False (sf_autoStart (spec_own sp)) \<and> ar_keep_alive r = opt_or False (sf_keepAlive (spec_own sp))
      \<and> ar_singleton r = opt_or True (sf_singleton (spec_own sp))"
    using cases
  proof cases
    case 1
    then show ?thesis using assms by (auto simp: add_ability_cr_def Let_def db_simps ability_key_def spec_key_def)
  next
    case (2 r0)
    have "find (\<lambda>r. ar_id r = ar_id r0) (rt_ability_crs T) = Some r0"
      using assms(1) find_key_id [OF _ 2(1), of ar_id] by (simp add: rdb_ok_def)
    then show ?thesis using assms 2
      by (auto simp: add_ability_cr_def Let_def db_simps ability_key_def spec_key_def)
  qed
  show "k \<noteq> i \<Longrightarrow> find (\<lambda>r. ar_id r = k) (rt_ability_crs T') = find (\<lambda>r. ar_id r = k) (rt_ability_crs T)"
    using cases assms by cases (auto simp: add_ability_cr_def Let_def db_simps)
  show "rt_ability_labels T' = kv_rewrite i (md_labels (acr_metadata cr)) (rt_ability_labels T)"
    "rt_ability_annotations T' = kv_rewrite i (md_annotations (acr_metadata cr)) (rt_ability_annotations T)"
    using assms by (auto simp: add_ability_cr_def Let_def split: option.splits)
qed

text \<open>The resource as it is read back: its id is the row's, and the three start options are always present.\<close>

definition stored_cr :: "uuid \<Rightarrow> ability_spec \<Rightarrow> ability_cr \<Rightarrow> ability_cr" where
  "stored_cr i sp cr = cr\<lparr>acr_id := i, acr_spec := Some (AbilitySpec ((spec_own sp)\<lparr>
     sf_autoStart := Some (opt_or False (sf_autoStart (spec_own sp))),
     sf_keepAlive := Some (opt_or False (sf_keepAlive (spec_own sp))),
     sf_singleton := Some (opt_or True (sf_singleton (spec_own sp)))\<rparr>) (spec_subs sp))\<rparr>"

text \<open>A resource added to the database is found under the returned id with its whole content, and every other
  resource is found as before; adding a resource with the same class, version and name again returns the same id.\<close>
theorem add_ability_cr_found:
  assumes "uuid_text_ok L" "ability_cr_ok cr" "json_text_ok L (ability_cr_to_json L cr)"
    and "omap_ok (md_labels (acr_metadata cr))" "omap_ok (md_annotations (acr_metadata cr))" "acr_spec cr = Some sp"
    and "rdb_ok T" "add_ability_cr L now fresh cr T = Inr (i, T')"
  shows "get_ability_cr L T' i = Inr (Some (stored_cr i sp cr))
    \<and> (\<nexists>k. k \<noteq> i \<and> get_ability_cr L T' k \<noteq> get_ability_cr L T k)
    \<and> exists_ability_cr_by_name T' sp (md_name (acr_metadata cr)) = Some i"
proof -
  note row = add_ability_cr_row [OF assms(7,8,6)]
  obtain r where r: "find (\<lambda>r. ar_id r = i) (rt_ability_crs T') = Some r" "ar_id r = i"
    "ability_key r = spec_key sp (md_name (acr_metadata cr))" "ar_cr_detail r = dump L (ability_cr_to_json L cr)"
    "ar_autostart r = opt_or False (sf_autoStart (spec_own sp))" "ar_keep_alive r = opt_or False (sf_keepAlive (spec_own sp))"
    "ar_singleton r = opt_or True (sf_singleton (spec_own sp))" using row(1) by blast
  have name: "ar_instance_name r = md_name (acr_metadata cr)" using r(3) by (simp add: ability_key_def spec_key_def)
  have "get_ability_cr L T' i = Inr (Some (stored_cr i sp cr))"
    using assms(1-6) r
    by (cases cr; cases "acr_metadata cr")
      (simp add: get_ability_cr_def ability_cr_from_row_def parse_dump ability_cr_json append_ability_kv_def row(3,4)
        kv_get_rewrite name stored_cr_def)
  moreover have "get_ability_cr L T' k = get_ability_cr L T k" if "k \<noteq> i" for k
  proof -
    have "append_ability_kv T' k = append_ability_kv T k"
      using that assms(4,5) by (simp add: fun_eq_iff append_ability_kv_def row(3,4) kv_get_rewrite)
    then show ?thesis using row(2) [OF that] by (simp add: get_ability_cr_def split: option.split)
  qed
  moreover have "exists_ability_cr_by_name T' sp (md_name (acr_metadata cr)) = Some i"
  proof -
    have "distinct (map ability_key (rt_ability_crs T'))"
      using add_ability_cr_ok [OF assms(7,8)] by (simp add: rdb_ok_def)
    from find_key_id [OF this r(1)] show ?thesis using r(2,3) by (simp add: exists_ability_cr_by_name_def)
  qed
  ultimately show ?thesis by blast
qed

text \<open>A text library that can read back one given document, for concrete runs.\<close>

definition lib_for :: "json \<Rightarrow> text_lib" where
  "lib_for d = decimal_lib\<lparr>dump := (\<lambda>j. if j = d then ''doc'' else []),
     parse := (\<lambda>s. if s = ''doc'' then Inr d else Inl (JsonError s))\<rparr>"

lemma lib_for_ok [simp]: "uuid_text_ok (lib_for d)" "json_text_ok (lib_for d) d"
  by (simp_all add: lib_for_def uuid_text_ok_def json_text_ok_def decimal_lib_def)

lemma ability_cr_to_json_show:
  assumes "show_uuid L = show_uuid L'"
  shows "ability_cr_to_json L x = ability_cr_to_json L' x"
proof -
  have u: "uuid_to_json L = uuid_to_json L'" using assms by (simp add: fun_eq_iff uuid_to_json_def)
  have "spec_to_json L s = spec_to_json L' s" for s
  proof (induction s)
    case (AbilitySpec x subs)
    then have "map (spec_to_json L) subs = map (spec_to_json L') subs" by simp
    then show ?case by (simp add: spec_fields_to_json_def u del: map_eq_conv jput.simps)
  qed
  then have "spec_to_json L = spec_to_json L'" by (rule ext)
  moreover have "owner_field L = owner_field L'" "placed_to_json L = placed_to_json L'"
    by (simp_all add: fun_eq_iff owner_field_def owner_to_json_def placed_to_json_def u)
  moreover have "sharers_to_json L = sharers_to_json L'" by (simp add: fun_eq_iff sharers_to_json_def assms)
  ultimately show ?thesis by (simp add: ability_cr_to_json_def u del: jput.simps)
qed

lemma add_ability_cr_found_witness:
  "\<exists>L T'. add_ability_cr L 10 77 sample_cr empty_rdb = Inr (77, T') \<and>
     get_ability_cr L T' 77 = Inr (Some (stored_cr 77 (the (acr_spec sample_cr)) sample_cr))"
proof -
  define L where "L = lib_for (ability_cr_to_json decimal_lib sample_cr)"
  have sp: "acr_spec sample_cr = Some (the (acr_spec sample_cr))" by (simp add: sample_cr_def)
  have "ability_cr_to_json L sample_cr = ability_cr_to_json decimal_lib sample_cr"
    by (rule ability_cr_to_json_show) (simp add: L_def lib_for_def)
  then have j: "json_text_ok L (ability_cr_to_json L sample_cr)" by (simp add: L_def)
  obtain T' where T': "add_ability_cr L 10 77 sample_cr empty_rdb = Inr (77, T')"
    by (auto simp: add_ability_cr_def sample_cr_def empty_rdb_def exists_ability_cr_by_name_def Let_def)
  have m: "omap_ok (md_labels (acr_metadata sample_cr))" "omap_ok (md_annotations (acr_metadata sample_cr))"
    by (simp_all add: sample_cr_def omap_ok_def)
  from add_ability_cr_found [OF _ sample_cr_ok j m sp _ T'] T' show ?thesis
    by (auto simp: L_def rdb_ok_def empty_rdb_def)
qed

end
