(* ===== verification/Instances.thy ===== *)
theory Instances
  imports ResourceDb Lifecycle
begin

section \<open>Running instances\<close>

text \<open>
  The table \<open>AbilityInstance\<close> of \<open>src/resourcemgr/resource_mgr.cpp\<close>: one row per started instance, made from a
  resource and deleted when the instance ends. LifecycleMgr asks ResourceMgr about every heartbeat and keeps those of
  accepted instances; the locale \<open>instance_registry\<close> states what it relies on, and its interpretation shows that
  the table provides it.
\<close>

subsection \<open>Rows\<close>

(* include/resourcemgr/resource_mgr.hpp:197-209 ResourceManager::AbilityInstanceInfo *)
record instance_info =
  ii_instance_id :: uuid
  ii_cr_id :: "uuid option"
  ii_cr_name :: string
  ii_instance_name :: string
  ii_ability_name :: string
  ii_ability_version :: string
  ii_state :: string
  ii_start_time :: time
  ii_stop_time :: time
  ii_detail :: json
  ii_spec_snapshot :: json

text \<open>A stored document that does not parse is read as null.\<close>

definition parse_column :: "text_lib \<Rightarrow> string option \<Rightarrow> json" where
  "parse_column L c = (case c of None \<Rightarrow> JNull | Some s \<Rightarrow> (case parse L s of Inr j \<Rightarrow> j | Inl _ \<Rightarrow> JNull))"

(* src/resourcemgr/resource_mgr.cpp:1110-1149 instance_info_from_row *)
definition instance_info_from_row :: "text_lib \<Rightarrow> instance_row \<Rightarrow> instance_info" where
  "instance_info_from_row L r =
     \<lparr>ii_instance_id = ir_id r, ii_cr_id = Some (ir_cr_id r), ii_cr_name = ir_cr_name r, ii_instance_name = ir_instance_name r,
      ii_ability_name = ir_ability_name r, ii_ability_version = ir_ability_version r, ii_state = ir_state r,
      ii_start_time = opt_or 0 (ir_start_time r), ii_stop_time = opt_or 0 (ir_stop_time r),
      ii_detail = parse_column L (ir_detail r), ii_spec_snapshot = parse_column L (ir_spec_snapshot r)\<rparr>"

(* src/resourcemgr/resource_mgr.cpp:1151-1164 to_json(ResourceManager::AbilityInstanceInfo) *)
definition instance_summary_to_json :: "text_lib \<Rightarrow> instance_info \<Rightarrow> json" where
  "instance_summary_to_json L x =
     jobject [(''instance_id'', JStr (show_uuid L (ii_instance_id x))),
       (''cr_id'', JStr (case ii_cr_id x of None \<Rightarrow> [] | Some i \<Rightarrow> show_uuid L i)),
       (''cr_name'', JStr (ii_cr_name x)), (''instance_name'', JStr (ii_instance_name x)),
       (''ability_name'', JStr (ii_ability_name x)), (''ability_version'', JStr (ii_ability_version x)),
       (''state'', JStr (ii_state x)), (''start_time'', JNum (ii_start_time x)), (''stop_time'', JNum (ii_stop_time x)),
       (''detail'', ii_detail x)]"

subsection \<open>Operations\<close>

text \<open>The snapshot is the resource at this moment under the id of the instance.\<close>

(* src/resourcemgr/resource_mgr.cpp:1178-1184 ResourceManager::create_ability_instance (snapshot) *)
definition snapshot_of :: "uuid \<Rightarrow> ability_cr \<Rightarrow> ability_cr" where
  "snapshot_of i cr =
     cr\<lparr>acr_id := i,
        acr_runInfo := Some ((case acr_runInfo cr of
            None \<Rightarrow> \<lparr>ri_lifecycleState = LsInactive, ri_lastUpdate = 0, ri_lastConnect = 0\<rparr> | Some ri \<Rightarrow> ri)
          \<lparr>ri_lifecycleState := LsInactive\<rparr>)\<rparr>"

text \<open>An \<open>INSERT\<close> of a key that exists fails.\<close>

(* src/resourcemgr/resource_mgr.cpp:1167-1205 ResourceManager::create_ability_instance *)
definition create_ability_instance :: "text_lib \<Rightarrow> time \<Rightarrow> uuid \<Rightarrow> ability_cr \<Rightarrow> rdb \<Rightarrow> exn + rdb" where
  "create_ability_instance L now fresh cr T =
     (case acr_spec cr of
        None \<Rightarrow> Inl no_spec
      | Some sp \<Rightarrow>
          if \<exists>r\<in>set (rt_instances T). ir_id r = fresh
          then Inl (SqliteError ''UNIQUE constraint failed: AbilityInstance.instance_id'')
          else Inr (T\<lparr>rt_instances := rt_instances T @
            [\<lparr>ir_id = fresh, ir_cr_id = acr_id cr, ir_cr_name = md_name (acr_metadata cr),
              ir_instance_name = md_name (acr_metadata cr) @ ''-'' @ take 8 (show_uuid L fresh),
              ir_ability_name = sf_abilityName (spec_own sp), ir_ability_version = version_to_string (sf_version (spec_own sp)),
              ir_state = ''Inactive'', ir_start_time = Some now, ir_stop_time = None,
              ir_spec_snapshot = Some (dump L (ability_cr_to_json L (snapshot_of fresh cr))), ir_detail = None\<rparr>]\<rparr>))"

(* src/resourcemgr/resource_mgr.cpp:1207-1213 ResourceManager::delete_ability_instance *)
definition delete_ability_instance :: "uuid \<Rightarrow> rdb \<Rightarrow> rdb" where
  "delete_ability_instance i T = T\<lparr>rt_instances := delete_where (\<lambda>r. ir_id r = i) (rt_instances T)\<rparr>"

(* src/resourcemgr/resource_mgr.cpp:1215-1222 ResourceManager::get_ability_instance *)
definition get_ability_instance :: "text_lib \<Rightarrow> rdb \<Rightarrow> uuid \<Rightarrow> instance_info option" where
  "get_ability_instance L T i = map_option (instance_info_from_row L) (find (\<lambda>r. ir_id r = i) (rt_instances T))"

(* src/resourcemgr/resource_mgr.cpp:1224-1231 ResourceManager::get_all_ability_instances *)
definition get_all_ability_instances :: "text_lib \<Rightarrow> rdb \<Rightarrow> instance_info list" where
  "get_all_ability_instances L T = map (instance_info_from_row L) (rt_instances T)"

definition active_row :: "string \<Rightarrow> instance_row \<Rightarrow> bool" where
  "active_row name r = (ir_ability_name r = name \<and> ir_state r \<notin> {''Inactive'', ''Terminated''})"

(* src/resourcemgr/resource_mgr.cpp:1233-1243 ResourceManager::get_active_instances_by_ability_name *)
definition get_active_instances_by_ability_name :: "text_lib \<Rightarrow> rdb \<Rightarrow> string \<Rightarrow> instance_info list" where
  "get_active_instances_by_ability_name L T name = map (instance_info_from_row L) (filter (active_row name) (rt_instances T))"

(* src/resourcemgr/resource_mgr.cpp:1094-1107 ResourceManager::get_heartbeats_by_ability_name *)
definition get_heartbeats_by_ability_name :: "rdb \<Rightarrow> string \<Rightarrow> uuid list" where
  "get_heartbeats_by_ability_name T name = map ir_id (filter (active_row name) (rt_instances T))"

text \<open>The resource an id stands for: the snapshot of an instance, or else a resource of the table.\<close>

(* src/resourcemgr/resource_mgr.cpp:1245-1266 ResourceManager::resolve_ability_cr_by_id *)
definition resolve_ability_cr_by_id :: "text_lib \<Rightarrow> rdb \<Rightarrow> uuid \<Rightarrow> exn + ability_cr option" where
  "resolve_ability_cr_by_id L T i =
     (case find (\<lambda>r. ir_id r = i) (rt_instances T) of
        None \<Rightarrow> get_ability_cr L T i
      | Some r \<Rightarrow>
          (case ir_spec_snapshot r of
             None \<Rightarrow> get_ability_cr L T i
           | Some s \<Rightarrow>
               (case rbind (parse L s) (ability_cr_from_json L) of
                  Inr cr \<Rightarrow> Inr (Some (cr\<lparr>acr_id := i\<rparr>))
                | Inl _ \<Rightarrow> get_ability_cr L T i)))"

text \<open>A heartbeat updates the row of its instance; a final one deletes the row and is always accepted.\<close>

(* src/resourcemgr/resource_mgr.cpp:2248-2288 ResourceManager::on_event_heartbeat *)
definition on_event_heartbeat :: "text_lib \<Rightarrow> heartbeat \<Rightarrow> rdb \<Rightarrow> bool \<times> rdb" where
  "on_event_heartbeat L hb T =
     (if hb_state hb = LsTerminated then (True, delete_ability_instance (hb_id hb) T)
      else
        (let detail = dump L (jput ''IPCPort'' (JNum (uint (hb_IPCPort hb)))
                        (jput ''abilityPort'' (JNum (uint (hb_abilityPort hb))) JNull));
             changed = length (filter (\<lambda>r. ir_id r = hb_id hb) (rt_instances T))
         in (changed > 0,
             T\<lparr>rt_instances := update_where (\<lambda>r. ir_id r = hb_id hb)
                  (\<lambda>r. r\<lparr>ir_state := show_lifecycle (hb_state hb), ir_detail := Some detail\<rparr>) (rt_instances T)\<rparr>)))"

(* src/resourcemgr/resource_mgr.cpp:2290-2293 ResourceManager::on_heartbeat_event *)
definition on_heartbeat_event :: "text_lib \<Rightarrow> heartbeat \<Rightarrow> rdb \<Rightarrow> (string + json) \<times> rdb" where
  "on_heartbeat_event L hb T =
     (let (accepted, T') = on_event_heartbeat L hb T in (Inr (jobject [(''accepted'', JBool accepted)]), T'))"

(* include/resourcemgr/resource_mgr.hpp:231-234 ResourceManager::on_ability_instance_exited *)
definition on_ability_instance_exited :: "uuid \<Rightarrow> rdb \<Rightarrow> (string + json) \<times> rdb" where
  "on_ability_instance_exited i T = (Inr (jobject [(''status'', JStr ''ok'')]), delete_ability_instance i T)"

(* include/resourcemgr/resource_mgr.hpp:225-229 ResourceManager::on_query_find_ability_instance *)
definition on_query_find_ability_instance :: "text_lib \<Rightarrow> rdb \<Rightarrow> uuid \<Rightarrow> exn + (string + ability_cr)" where
  "on_query_find_ability_instance L T i =
     rbind (resolve_ability_cr_by_id L T i) (\<lambda>op.
       Inr (case op of Some cr \<Rightarrow> Inr cr | None \<Rightarrow> Inl (''ability: '' @ show_uuid L i @ '' not found'')))"

(* include/resourcemgr/resource_mgr.hpp:281-285 ResourceManager::on_query_find_parent *)
definition on_query_find_parent :: "text_lib \<Rightarrow> rdb \<Rightarrow> uuid \<Rightarrow> exn + (string + uuid)" where
  "on_query_find_parent L T i =
     rbind (find_cr_parent L T i) (\<lambda>op.
       Inr (case op of Some p \<Rightarrow> Inr p | None \<Rightarrow> Inl (''ability: '' @ show_uuid L i @ '' not found'')))"

text \<open>\<open>home\<close> is the home directory of the framework; the POSIX branch.\<close>

(* src/resourcemgr/resource_mgr.cpp:2207-2228 ResourceManager::find_ability_storage_info *)
definition find_ability_storage_info :: "text_lib \<Rightarrow> string \<Rightarrow> rdb \<Rightarrow> uuid \<Rightarrow> exn + (string + storage_info)" where
  "find_ability_storage_info L home T i =
     rbind (resolve_ability_cr_by_id L T i) (\<lambda>op.
       case op of
         None \<Rightarrow> Inr (Inl (''no storage info for ability '' @ show_uuid L i))
       | Some cr \<Rightarrow>
           (case acr_spec cr of
              None \<Rightarrow> Inl no_spec
            | Some sp \<Rightarrow>
                (let p = home @ ''/packages/'' @ sf_package (spec_own sp) @ ''/'' @ version_to_string (sf_version (spec_own sp))
                 in Inr (Inr \<lparr>si_package_path = p, si_executable_path = p @ ''/bin/ability'', si_controller_path = []\<rparr>))))"

(* src/resourcemgr/resource_mgr.cpp:2230-2233 is_matched *)
definition is_matched :: "ability_spec \<Rightarrow> ability_crd \<Rightarrow> bool" where
  "is_matched sp crd = (md_name (crd_metadata crd) = sf_abilityName (spec_own sp)
     \<and> crd_packageName crd = sf_package (spec_own sp) \<and> crd_version crd = sf_version (spec_own sp))"

(* src/resourcemgr/resource_mgr.cpp:2235-2246 ResourceManager::find_ability_id *)
definition find_ability_id :: "text_lib \<Rightarrow> rdb \<Rightarrow> uuid \<Rightarrow> exn + (string \<times> string) option" where
  "find_ability_id L T i =
     rbind (resolve_ability_cr_by_id L T i) (\<lambda>op.
       case op of
         None \<Rightarrow> Inr None
       | Some cr \<Rightarrow>
           (case acr_spec cr of
              None \<Rightarrow> Inl no_spec
            | Some sp \<Rightarrow>
                rbind (get_ability_crd L T (sf_abilityName (spec_own sp)) (version_to_string (sf_version (spec_own sp)))) (\<lambda>c.
                  Inr (map_option (\<lambda>crd. (crd_packageName crd, version_to_string (crd_version crd))) c))))"

text \<open>At startup the rows of the last run are marked terminated and the marks of auto-started resources reset.\<close>

(* src/resourcemgr/resource_mgr.cpp:2566-2596 ResourceManager::on_register (cleanup) *)
definition register_cleanup :: "time \<Rightarrow> rdb \<Rightarrow> rdb" where
  "register_cleanup now T =
     T\<lparr>rt_instances := update_where (\<lambda>r. ir_state r \<notin> {''Terminated'', ''Inactive''})
          (\<lambda>r. r\<lparr>ir_state := ''Terminated'', ir_stop_time := Some now\<rparr>) (rt_instances T),
       rt_ability_crs := update_where ar_autostart (\<lambda>r. r\<lparr>ar_auto_started := False\<rparr>) (rt_ability_crs T)\<rparr>"

subsection \<open>What a heartbeat does\<close>

abbreviation registered :: "rdb \<Rightarrow> uuid \<Rightarrow> bool" where
  "registered T i \<equiv> i \<in> ir_id ` set (rt_instances T)"

lemma registered_find: "registered T i \<longleftrightarrow> (\<exists>r. find (\<lambda>r. ir_id r = i) (rt_instances T) = Some r)"
proof
  assume "registered T i"
  then have "find (\<lambda>r. ir_id r = i) (rt_instances T) \<noteq> None" by (auto simp: find_None_iff)
  then show "\<exists>r. find (\<lambda>r. ir_id r = i) (rt_instances T) = Some r" by blast
qed (auto simp: find_Some_iff)

lemma heartbeat_accept:
  "hb_state hb \<noteq> LsTerminated \<Longrightarrow> on_event_heartbeat L hb T = (b, T') \<Longrightarrow> b \<longleftrightarrow> registered T (hb_id hb)"
  by (auto simp: on_event_heartbeat_def Let_def filter_empty_conv image_iff) metis

lemma heartbeat_update:
  assumes "hb_state hb \<noteq> LsTerminated" "on_event_heartbeat L hb T = (b, T')"
  obtains f where "T' = T\<lparr>rt_instances := update_where (\<lambda>r. ir_id r = hb_id hb) f (rt_instances T)\<rparr>"
    "\<And>r. ir_id (f r) = ir_id r" "\<And>r. ir_state (f r) = show_lifecycle (hb_state hb)"
    "\<And>r. ir_ability_name (f r) = ir_ability_name r"
proof -
  have "\<exists>f. T' = T\<lparr>rt_instances := update_where (\<lambda>r. ir_id r = hb_id hb) f (rt_instances T)\<rparr> \<and> (\<forall>r. ir_id (f r) = ir_id r)
      \<and> (\<forall>r. ir_state (f r) = show_lifecycle (hb_state hb)) \<and> (\<forall>r. ir_ability_name (f r) = ir_ability_name r)"
    using assms by (simp add: on_event_heartbeat_def Let_def) fastforce
  then show ?thesis using that by blast
qed

lemma heartbeat_registered:
  assumes "hb_state hb \<noteq> LsTerminated" "on_event_heartbeat L hb T = (b, T')"
  shows "registered T' k \<longleftrightarrow> registered T k"
proof -
  obtain f where f: "T' = T\<lparr>rt_instances := update_where (\<lambda>r. ir_id r = hb_id hb) f (rt_instances T)\<rparr>"
    "\<And>r. ir_id (f r) = ir_id r" using heartbeat_update [OF assms] by blast
  show ?thesis using keys_update_where [of ir_id f, OF f(2)] by (simp add: f(1))
qed

lemma heartbeat_terminated:
  "hb_state hb = LsTerminated \<Longrightarrow> on_event_heartbeat L hb T = (b, T') \<Longrightarrow> b \<and> (registered T' k \<longleftrightarrow> registered T k \<and> k \<noteq> hb_id hb)"
  by (auto simp: on_event_heartbeat_def delete_ability_instance_def db_simps)

lemma delete_registered: "registered (delete_ability_instance i T) k \<longleftrightarrow> registered T k \<and> k \<noteq> i"
  by (auto simp: delete_ability_instance_def db_simps)

text \<open>C6: a heartbeat of a live ability is accepted exactly when its instance has a row; it then sets the state of that
  row and changes no other row. An unknown instance changes nothing at all, so no heartbeat creates a row; a final
  heartbeat removes the row of its instance and no other.\<close>
theorem heartbeat_event_exact:
  assumes "on_event_heartbeat L hb T = (b, T')"
  shows "(if hb_state hb = LsTerminated then b \<and> T' = delete_ability_instance (hb_id hb) T
          else (b \<longleftrightarrow> registered T (hb_id hb))
            \<and> map_option ir_state (find (\<lambda>r. ir_id r = hb_id hb) (rt_instances T'))
                = (if b then Some (show_lifecycle (hb_state hb)) else None)
            \<and> (if b then True else T' = T))
    \<and> (\<nexists>k. k \<noteq> hb_id hb \<and> find (\<lambda>r. ir_id r = k) (rt_instances T') \<noteq> find (\<lambda>r. ir_id r = k) (rt_instances T))
    \<and> ir_id ` set (rt_instances T') \<subseteq> ir_id ` set (rt_instances T)"
proof (cases "hb_state hb = LsTerminated")
  case True
  then show ?thesis
    using assms by (auto simp: on_event_heartbeat_def delete_ability_instance_def db_simps split: if_splits)
next
  case False
  have acc: "b \<longleftrightarrow> registered T (hb_id hb)" by (rule heartbeat_accept [OF False assms])
  obtain f where f: "T' = T\<lparr>rt_instances := update_where (\<lambda>r. ir_id r = hb_id hb) f (rt_instances T)\<rparr>"
    "\<And>r. ir_id (f r) = ir_id r" "\<And>r. ir_state (f r) = show_lifecycle (hb_state hb)"
    using heartbeat_update [OF False assms] by blast
  have same: "T' = T" if "\<not> b"
  proof -
    have "update_where (\<lambda>r. ir_id r = hb_id hb) f (rt_instances T) = rt_instances T"
      using that acc by (intro update_where_none) (auto simp: image_iff)
    then show ?thesis by (simp add: f(1))
  qed
  have upd: "find (\<lambda>r. ir_id r = k) (rt_instances T') = (if k = hb_id hb
      then map_option f (find (\<lambda>r. ir_id r = k) (rt_instances T)) else find (\<lambda>r. ir_id r = k) (rt_instances T))" for k
    by (simp add: f(1) find_update_where [of ir_id f, OF f(2)])
  have "ir_id ` set (rt_instances T') \<subseteq> ir_id ` set (rt_instances T)"
    using heartbeat_registered [OF False assms] by blast
  moreover have "map_option ir_state (find (\<lambda>r. ir_id r = hb_id hb) (rt_instances T'))
      = (if b then Some (show_lifecycle (hb_state hb)) else None)"
    using acc upd [of "hb_id hb"] f(3) by (cases b) (auto simp: registered_find)
  ultimately show ?thesis using False acc same upd by auto
qed

lemma heartbeat_event_exact_witness:
  "on_event_heartbeat decimal_lib sample_heartbeat empty_rdb = (False, empty_rdb)"
proof -
  obtain b T' where r: "on_event_heartbeat decimal_lib sample_heartbeat empty_rdb = (b, T')" by fastforce
  from heartbeat_event_exact [OF r] r show ?thesis by (auto simp: sample_heartbeat_def empty_rdb_def)
qed

subsection \<open>The registry LifecycleMgr relies on\<close>

text \<open>LifecycleMgr sees the registry of instances through two messages: a heartbeat, and the end of an instance.\<close>

locale instance_registry =
  fixes accept :: "heartbeat \<Rightarrow> 'r \<Rightarrow> bool \<times> 'r"
    and exited :: "uuid \<Rightarrow> 'r \<Rightarrow> 'r"
    and known :: "'r \<Rightarrow> uuid \<Rightarrow> bool"
  assumes accept_live: "hb_state hb \<noteq> LsTerminated \<Longrightarrow> accept hb r = (b, r') \<Longrightarrow> b \<longleftrightarrow> known r (hb_id hb)"
    and known_live: "hb_state hb \<noteq> LsTerminated \<Longrightarrow> accept hb r = (b, r') \<Longrightarrow> known r' k \<longleftrightarrow> known r k"
    and known_final: "hb_state hb = LsTerminated \<Longrightarrow> accept hb r = (b, r') \<Longrightarrow> known r' k \<longleftrightarrow> known r k \<and> k \<noteq> hb_id hb"
    and accept_final: "hb_state hb = LsTerminated \<Longrightarrow> accept hb r = (b, r') \<Longrightarrow> b"
    and known_exited: "known (exited i r) k \<longleftrightarrow> known r k \<and> k \<noteq> i"

context instance_registry
begin

text \<open>The states in which every kept heartbeat of a live ability belongs to a known instance.\<close>

definition no_ghosts :: "'r lext \<Rightarrow> 'r lmgr \<Rightarrow> bool" where
  "no_ghosts X M = (\<forall>i e. find_entry X M i = Some e \<longrightarrow> hb_state (en_heartbeat e) \<noteq> LsTerminated \<longrightarrow> known (lm_rest M) i)"

lemma no_ghosts_heartbeat:
  assumes "heartbeat_accepted X = accept" "lm_ok X M" "no_ghosts X M" "on_heartbeat X now hb M = (b, M')"
  shows "no_ghosts X M'"
proof -
  obtain r' where r': "accept hb (lm_rest M) = (b, r')" "lm_rest M' = r'"
    using assms(1,4) by (cases "accept hb (lm_rest M)") (auto simp: on_heartbeat_def split: if_splits)
  have f: "find_entry X M' = (if b then (find_entry X M)(hb_id hb \<mapsto> update_entry X now hb
         (case find_entry X M (hb_id hb) of None \<Rightarrow> default_entry | Some e \<Rightarrow> e)) else find_entry X M)"
    by (rule find_on_heartbeat [OF assms(2,4)])
  show ?thesis
  proof (cases "hb_state hb = LsTerminated")
    case True
    then have "b" using accept_final r'(1) by blast
    then show ?thesis
      using assms(3) f r' known_final [OF True r'(1)] True by (auto simp: no_ghosts_def split: if_splits)
  next
    case False
    then show ?thesis
      using assms(3) f r' known_live [OF False r'(1)] accept_live [OF False r'(1)]
      by (auto simp: no_ghosts_def split: if_splits)
  qed
qed

lemma no_ghosts_exit:
  assumes "le_instance_exited X = exited" "lm_ok X M" "no_ghosts X M"
    and "\<And>p j r k. known (le_subability_error X p j r) k = known r k"
  shows "no_ghosts X (on_ability_exit X i M)"
proof -
  have "known (lm_rest (on_ability_exit X i M)) k \<longleftrightarrow> known (lm_rest M) k \<and> k \<noteq> i" for k
    using assms(1,4)
    by (auto simp: on_ability_exit_def try_inform_parent_ability_def Let_def known_exited split: sum.splits option.splits)
  then show ?thesis
    using assms(3) find_on_ability_exit [OF assms(2), of i] by (auto simp: no_ghosts_def split: if_splits)
qed

lemma no_ghosts_clear:
  assumes "lm_ok X M" "no_ghosts X M"
  shows "no_ghosts X (clear_stale_heartbeats X now M)"
  using assms(2) find_clear_stale_Some [OF assms(1)]
  by (fastforce simp: no_ghosts_def clear_stale_heartbeats_def Let_def)

end

interpretation instances: instance_registry "on_event_heartbeat L" "delete_ability_instance" "registered"
  for L :: text_lib
proof unfold_locales
  fix hb :: heartbeat and T :: rdb and b T' k i
  show "hb_state hb \<noteq> LsTerminated \<Longrightarrow> on_event_heartbeat L hb T = (b, T') \<Longrightarrow> b \<longleftrightarrow> registered T (hb_id hb)"
    by (rule heartbeat_accept)
  show "hb_state hb \<noteq> LsTerminated \<Longrightarrow> on_event_heartbeat L hb T = (b, T') \<Longrightarrow> registered T' k \<longleftrightarrow> registered T k"
    by (rule heartbeat_registered)
  show "hb_state hb = LsTerminated \<Longrightarrow> on_event_heartbeat L hb T = (b, T') \<Longrightarrow> registered T' k \<longleftrightarrow> registered T k \<and> k \<noteq> hb_id hb"
    "hb_state hb = LsTerminated \<Longrightarrow> on_event_heartbeat L hb T = (b, T') \<Longrightarrow> b"
    using heartbeat_terminated by blast+
  show "registered (delete_ability_instance i T) k \<longleftrightarrow> registered T k \<and> k \<noteq> i" by (rule delete_registered)
qed

subsection \<open>The two modules together\<close>

text \<open>LifecycleMgr with ResourceMgr behind it: the heartbeat and the exit messages are answered by the handlers above.\<close>

definition with_instances :: "rdb lext \<Rightarrow> rdb lext" where
  "with_instances X = X\<lparr>
     le_heartbeat_event := (\<lambda>hb T. let (r, T') = on_heartbeat_event (le_lib X) hb T in
        (case r of Inl e \<Rightarrow> (Inl e, T') | Inr j \<Rightarrow> (Inr (True, dump (le_lib X) j), T'))),
     le_instance_exited := (\<lambda>i T. snd (on_ability_instance_exited i T)),
     le_subability_error := (\<lambda>p j T. T)\<rparr>"

text \<open>The reply documents survive the text of the message.\<close>

definition replies_ok :: "text_lib \<Rightarrow> bool" where
  "replies_ok L = (json_text_ok L (jobject [(''accepted'', JBool True)]) \<and> json_text_ok L (jobject [(''accepted'', JBool False)]))"

lemma with_instances_accepts:
  assumes "replies_ok (le_lib X)"
  shows "heartbeat_accepted (with_instances X) = on_event_heartbeat (le_lib X)"
proof (intro ext)
  fix hb T
  obtain b T' where e: "on_event_heartbeat (le_lib X) hb T = (b, T')" by fastforce
  have "parse (le_lib X) (dump (le_lib X) (jobject [(''accepted'', JBool b)])) = Inr (jobject [(''accepted'', JBool b)])"
    using assms by (cases b) (auto simp: replies_ok_def json_text_ok_def)
  then show "heartbeat_accepted (with_instances X) hb T = on_event_heartbeat (le_lib X) hb T"
    using e by (simp add: heartbeat_accepted_def with_instances_def on_heartbeat_event_def jobject_def)
qed

text \<open>Everything that happens to the two: heartbeats, exits, the purge, new instances and the end of their tasks.\<close>

datatype sys_event = SysHeartbeat time heartbeat | SysExit uuid | SysClear time | SysCreate time uuid ability_cr

fun sys_step :: "rdb lext \<Rightarrow> sys_event \<Rightarrow> rdb lmgr \<Rightarrow> rdb lmgr" where
  "sys_step X (SysHeartbeat now hb) M = snd (on_heartbeat X now hb M)"
| "sys_step X (SysExit i) M = on_ability_exit X i M"
| "sys_step X (SysClear now) M = clear_stale_heartbeats X now M"
| "sys_step X (SysCreate now fresh cr) M =
     (case create_ability_instance (le_lib X) now fresh cr (lm_rest M) of Inl _ \<Rightarrow> M | Inr T \<Rightarrow> M\<lparr>lm_rest := T\<rparr>)"

lemma create_registered:
  "create_ability_instance L now fresh cr T = Inr T' \<Longrightarrow> registered T' k \<longleftrightarrow> registered T k \<or> k = fresh"
  by (auto simp: create_ability_instance_def split: option.splits if_splits)

lemma lm_ok_sys_step: "lm_ok X M \<Longrightarrow> lm_ok X (sys_step X ev M)"
proof (cases ev)
  case (SysHeartbeat now hb)
  then show "lm_ok X M \<Longrightarrow> ?thesis" using lm_ok_step [of X M "EvHeartbeat now hb"] by simp
next
  case (SysExit i)
  then show "lm_ok X M \<Longrightarrow> ?thesis" using lm_ok_step [of X M "EvExit i"] by simp
next
  case (SysClear now)
  then show "lm_ok X M \<Longrightarrow> ?thesis" using lm_ok_step [of X M "EvClear now"] by simp
qed (auto simp: lm_ok_def split: sum.splits)

lemma no_ghosts_step:
  assumes "replies_ok (le_lib X)" "lm_ok (with_instances X) M" "instances.no_ghosts (with_instances X) M"
  shows "instances.no_ghosts (with_instances X) (sys_step (with_instances X) ev M)"
proof (cases ev)
  case (SysHeartbeat now hb)
  obtain b M' where h: "on_heartbeat (with_instances X) now hb M = (b, M')" by fastforce
  show ?thesis
    using instances.no_ghosts_heartbeat [OF with_instances_accepts [OF assms(1)] assms(2,3) h] by (simp add: SysHeartbeat h)
next
  case (SysExit i)
  have "le_instance_exited (with_instances X) = delete_ability_instance"
    by (simp add: fun_eq_iff with_instances_def on_ability_instance_exited_def)
  moreover have "registered (le_subability_error (with_instances X) p j r) k = registered r k" for p j r k
    by (simp add: with_instances_def)
  ultimately show ?thesis
    using instances.no_ghosts_exit [of "with_instances X" M i] assms(2,3) by (simp add: SysExit)
next
  case (SysClear now)
  then show ?thesis using instances.no_ghosts_clear [OF assms(2,3)] by simp
next
  case (SysCreate now fresh cr)
  then show ?thesis
    using assms(3) create_registered [of "le_lib (with_instances X)" now fresh cr "lm_rest M"]
    by (auto simp: instances.no_ghosts_def split: sum.splits)
qed

lemma sys_run_inv:
  assumes "replies_ok (le_lib X)" "lm_ok (with_instances X) M" "instances.no_ghosts (with_instances X) M"
  shows "lm_ok (with_instances X) (fold (sys_step (with_instances X)) evs M)
    \<and> instances.no_ghosts (with_instances X) (fold (sys_step (with_instances X)) evs M)"
  using assms(2,3)
proof (induction evs arbitrary: M)
  case (Cons ev evs)
  then show ?case using lm_ok_sys_step [OF Cons.prems(1), of ev] no_ghosts_step [OF assms(1) Cons.prems, of ev] by simp
qed simp


definition reply_lib :: text_lib where
  "reply_lib = decimal_lib\<lparr>
     dump := (\<lambda>j. if j = jobject [(''accepted'', JBool True)] then ''t'' else if j = jobject [(''accepted'', JBool False)] then ''f'' else []),
     parse := (\<lambda>s. if s = ''t'' then Inr (jobject [(''accepted'', JBool True)])
                    else if s = ''f'' then Inr (jobject [(''accepted'', JBool False)]) else Inl (JsonError s))\<rparr>"

definition sample_rm_ext :: "rdb lext" where
  "sample_rm_ext = \<lparr>
     le_lib = reply_lib, le_hash = unat, le_parse_url = split_url, le_heartbeat_event = (\<lambda>hb r. (Inl [], r)),
     le_find_instance = (\<lambda>i r. Inr ()), le_find_storage = (\<lambda>i r. Inl []),
     le_find_parent = (\<lambda>i r. Inl ''none''), le_subability_error = (\<lambda>p j r. r), le_instance_exited = (\<lambda>i r. r),
     le_start_process = (\<lambda>po r. (Inr (True, []), r)), le_post_command = (\<lambda>c cmd r. (Inr (), r)),
     le_framework_address = JObj [], le_instance_dir = (\<lambda>i. Inr ''/d''), le_assets_exist = (\<lambda>p. False)\<rparr>"


end
