(* ===== verification/Ownership.thy ===== *)
theory Ownership
  imports Instances
begin

section \<open>Occupation of abilities and devices\<close>

text \<open>
  The table \<open>CROwnership\<close> of \<open>src/resourcemgr/resource_mgr.cpp\<close>: an ability occupies another ability or a device,
  alone or together with others. The locale \<open>shared_lock\<close> states what a client of the table relies on, a lock that
  is free, owned by one, or shared by a set; the interpretation at the end shows that the operations on abilities
  provide it. The operations on devices do not: they look for an owner under one kind and store it under another.
  The request to another framework is a parameter.
\<close>

named_theorems own_simps \<open>which rows of the ownership table an operation finds and changes\<close>

subsection \<open>Environment\<close>

text \<open>\<open>httplib::Client::Post\<close> to an address and path with a body: a status and body, or no answer. The addresses of
  this node come from the operating system and the configuration.\<close>

record own_ext =
  ox_local_addresses :: "string list"
  ox_post :: "string \<Rightarrow> string \<Rightarrow> string \<Rightarrow> (nat \<times> string) option"

(* src/resourcemgr/resource_mgr.cpp:43-46 is_local_cr *)
definition is_local_cr :: "own_ext \<Rightarrow> string \<Rightarrow> bool" where
  "is_local_cr X ip = (ip = ''localhost'' \<or> ip \<in> set (ox_local_addresses X))"

(* src/resourcemgr/resource_mgr.cpp:137-159 send_post_request *)
definition send_post_request :: "text_lib \<Rightarrow> own_ext \<Rightarrow> string \<Rightarrow> string \<Rightarrow> json \<Rightarrow> string option" where
  "send_post_request L X url endpoint j =
     (case ox_post X (''http://'' @ url @ '':8080'') endpoint (dump L j) of
        None \<Rightarrow> None
      | Some (status, body) \<Rightarrow> if status = 200 then Some body else None)"

text \<open>Reading \<open>j[k]\<close> of a mutable document: an absent key reads as null.\<close>

fun jindex :: "string \<Rightarrow> json \<Rightarrow> exn + json" where
  "jindex k (JObj m) = Inr (case map_of m k of None \<Rightarrow> JNull | Some v \<Rightarrow> v)"
| "jindex k JNull = Inr JNull"
| "jindex k j = Inl (JsonError (''[json.exception.type_error.305] cannot use operator[] with a string argument with '' @ type_name j))"

definition remote_success :: "text_lib \<Rightarrow> string \<Rightarrow> exn + bool" where
  "remote_success L body = rbind (parse L body) (\<lambda>j. rbind (jindex ''result'' j) (\<lambda>r. Inr (r = JStr ''success'')))"

subsection \<open>Existence\<close>

text \<open>Both a template and a running instance can be occupied.\<close>

(* src/resourcemgr/resource_mgr.cpp:872-890 ResourceManager::judge_ability_exist *)
definition judge_ability_exist :: "rdb \<Rightarrow> uuid \<Rightarrow> bool" where
  "judge_ability_exist T i = ((\<exists>r\<in>set (rt_ability_crs T). ar_id r = i) \<or> (\<exists>r\<in>set (rt_instances T). ir_id r = i))"

text \<open>A \<open>SELECT EXISTS\<close> has one row, holding 0 or 1. The loop returns at that row before it looks at the value.\<close>

definition select_exists :: "bool \<Rightarrow> int list" where
  "select_exists b = [if b then 1 else 0]"

(* src/resourcemgr/resource_mgr.cpp:892-903 ResourceManager::judge_device_exist *)
definition judge_device_exist :: "rdb \<Rightarrow> uuid \<Rightarrow> bool" where
  "judge_device_exist T i =
     (case select_exists (\<exists>r\<in>set (rt_device_crs T). dr_id r = i) of [] \<Rightarrow> False | row # _ \<Rightarrow> True)"

subsection \<open>Reading the table\<close>

definition kind_ability :: string where "kind_ability = ''ability''"
definition kind_device :: string where "kind_device = ''device''"

definition own_rows :: "string \<Rightarrow> uuid \<Rightarrow> string \<Rightarrow> ownership_mode \<Rightarrow> rdb \<Rightarrow> own_row list" where
  "own_rows parent_kind child child_kind mode T =
     filter (\<lambda>r. ow_parent_kind r = parent_kind \<and> ow_child r = child \<and> ow_child_kind r = child_kind \<and> ow_mode r = mode)
       (rt_ownership T)"

text \<open>A parent that occurs twice keeps the address of its last row.\<close>

(* src/resourcemgr/resource_mgr.cpp:1813-1823 db_execute_to_id_str_map *)
definition id_str_map :: "own_row list \<Rightarrow> (uuid, string) omap" where
  "id_str_map rows = oputs (map (\<lambda>r. (ow_parent r, ow_address r)) rows) []"

(* src/resourcemgr/resource_mgr.cpp:1824-1839 ResourceManager::get_ability_sharers *)
definition get_ability_sharers :: "rdb \<Rightarrow> uuid \<Rightarrow> (uuid, string) omap" where
  "get_ability_sharers T i = id_str_map (own_rows kind_ability i kind_ability Shared T)"

(* src/resourcemgr/resource_mgr.cpp:1841-1856 ResourceManager::get_device_sharers *)
definition get_device_sharers :: "rdb \<Rightarrow> uuid \<Rightarrow> (uuid, string) omap" where
  "get_device_sharers T i = id_str_map (own_rows kind_device i kind_device Shared T)"

definition first_owner :: "own_row list \<Rightarrow> (uuid \<times> string) option" where
  "first_owner rows = (case rows of [] \<Rightarrow> None | r # _ \<Rightarrow> Some (ow_parent r, ow_address r))"

(* src/resourcemgr/resource_mgr.cpp:1858-1879 ResourceManager::get_ability_owner *)
definition get_ability_owner :: "rdb \<Rightarrow> uuid \<Rightarrow> (uuid \<times> string) option" where
  "get_ability_owner T i = first_owner (own_rows kind_ability i kind_ability Unique T)"

(* src/resourcemgr/resource_mgr.cpp:1880-1901 ResourceManager::get_device_owner *)
definition get_device_owner :: "rdb \<Rightarrow> uuid \<Rightarrow> (uuid \<times> string) option" where
  "get_device_owner T i = first_owner (own_rows kind_device i kind_device Unique T)"

(* src/resourcemgr/resource_mgr.cpp:2599-2602 is_ability_cr_occupied *)
definition is_ability_cr_occupied :: "rdb \<Rightarrow> uuid \<Rightarrow> bool" where
  "is_ability_cr_occupied T i = (get_ability_owner T i \<noteq> None)"

(* src/resourcemgr/resource_mgr.cpp:2604-2607 is_device_cr_occupied *)
definition is_device_cr_occupied :: "rdb \<Rightarrow> uuid \<Rightarrow> bool" where
  "is_device_cr_occupied T i = (get_ability_owner T i \<noteq> None)"

(* src/resourcemgr/resource_mgr.cpp:2608-2613 is_cr_occupied *)
definition is_cr_occupied :: "rdb \<Rightarrow> uuid \<Rightarrow> bool" where
  "is_cr_occupied T i = (is_ability_cr_occupied T i \<or> is_device_cr_occupied T i)"

subsection \<open>Writing the table\<close>

definition own_key :: "own_row \<Rightarrow> uuid \<times> string \<times> uuid \<times> string" where
  "own_key r = (ow_parent r, ow_parent_kind r, ow_child r, ow_child_kind r)"

definition put_own :: "own_row \<Rightarrow> rdb \<Rightarrow> rdb" where
  "put_own r T = T\<lparr>rt_ownership := replace_row own_key r (rt_ownership T)\<rparr>"

(* src/resourcemgr/resource_mgr.cpp:1912-1928 ResourceManager::add_ability_sharers *)
definition add_ability_sharers :: "uuid \<Rightarrow> uuid \<Rightarrow> string \<Rightarrow> rdb \<Rightarrow> rdb" where
  "add_ability_sharers i child position =
     put_own \<lparr>ow_parent = i, ow_parent_kind = kind_ability, ow_address = position, ow_child = child,
              ow_child_kind = kind_ability, ow_mode = Shared\<rparr>"

(* src/resourcemgr/resource_mgr.cpp:1930-1946 ResourceManager::add_device_sharers *)
definition add_device_sharers :: "uuid \<Rightarrow> uuid \<Rightarrow> string \<Rightarrow> rdb \<Rightarrow> rdb" where
  "add_device_sharers i child position =
     put_own \<lparr>ow_parent = i, ow_parent_kind = kind_ability, ow_address = position, ow_child = child,
              ow_child_kind = kind_device, ow_mode = Shared\<rparr>"

(* src/resourcemgr/resource_mgr.cpp:1948-1964 ResourceManager::add_ability_owner *)
definition add_ability_owner :: "uuid \<Rightarrow> uuid \<Rightarrow> string \<Rightarrow> rdb \<Rightarrow> rdb" where
  "add_ability_owner i child position =
     put_own \<lparr>ow_parent = i, ow_parent_kind = kind_ability, ow_address = position, ow_child = child,
              ow_child_kind = kind_ability, ow_mode = Unique\<rparr>"

(* src/resourcemgr/resource_mgr.cpp:1966-1982 ResourceManager::add_device_owner *)
definition add_device_owner :: "uuid \<Rightarrow> uuid \<Rightarrow> string \<Rightarrow> rdb \<Rightarrow> rdb" where
  "add_device_owner i child position =
     put_own \<lparr>ow_parent = i, ow_parent_kind = kind_ability, ow_address = position, ow_child = child,
              ow_child_kind = kind_device, ow_mode = Unique\<rparr>"

(* src/resourcemgr/resource_mgr.cpp:1985-2001 _impl_remove_ownership *)
definition impl_remove_ownership :: "uuid \<Rightarrow> uuid \<Rightarrow> string \<Rightarrow> ownership_mode \<Rightarrow> rdb \<Rightarrow> rdb" where
  "impl_remove_ownership parent child child_kind mode T =
     T\<lparr>rt_ownership := delete_where (\<lambda>r. ow_parent r = parent \<and> ow_child r = child \<and> ow_child_kind r = child_kind
          \<and> ow_mode r = mode) (rt_ownership T)\<rparr>"

(* src/resourcemgr/resource_mgr.cpp:2004-2009 ResourceManager::remove_ability_sharer *)
definition remove_ability_sharer :: "uuid \<Rightarrow> uuid \<Rightarrow> rdb \<Rightarrow> rdb" where
  "remove_ability_sharer i child = impl_remove_ownership i child kind_ability Shared"

(* src/resourcemgr/resource_mgr.cpp:2011-2016 ResourceManager::remove_device_sharer *)
definition remove_device_sharer :: "uuid \<Rightarrow> uuid \<Rightarrow> rdb \<Rightarrow> rdb" where
  "remove_device_sharer i child = impl_remove_ownership i child kind_device Shared"

(* src/resourcemgr/resource_mgr.cpp:2018-2023 ResourceManager::remove_ability_owner *)
definition remove_ability_owner :: "uuid \<Rightarrow> uuid \<Rightarrow> rdb \<Rightarrow> rdb" where
  "remove_ability_owner i child = impl_remove_ownership i child kind_ability Unique"

(* src/resourcemgr/resource_mgr.cpp:2025-2030 ResourceManager::remove_device_owner *)
definition remove_device_owner :: "uuid \<Rightarrow> uuid \<Rightarrow> rdb \<Rightarrow> rdb" where
  "remove_device_owner i child = impl_remove_ownership i child kind_device Unique"

subsection \<open>Occupying\<close>

definition occupy_payload :: "text_lib \<Rightarrow> string \<Rightarrow> uuid \<Rightarrow> string \<Rightarrow> uuid \<Rightarrow> ownership_mode \<Rightarrow> json" where
  "occupy_payload L tgt occupier position occupied mode =
     jput ''OwnershipMode'' (JStr (show_ownership mode))
       (jput (''occupied_'' @ tgt @ ''_id'') (uuid_to_json L occupied)
         (jput (''occupy_'' @ tgt @ ''_position'') (JStr position)
           (jput (''occupy_'' @ tgt @ ''_id'') (uuid_to_json L occupier) JNull)))"

(* src/resourcemgr/resource_mgr.cpp:2033-2050 send_http_occupy_request *)
definition send_http_occupy_request ::
  "text_lib \<Rightarrow> own_ext \<Rightarrow> string \<Rightarrow> uuid \<Rightarrow> string \<Rightarrow> uuid \<Rightarrow> ownership_mode \<Rightarrow> exn + (string + unit)" where
  "send_http_occupy_request L X position occupier occupier_position occupied mode =
     (case send_post_request L X position ''/api/resourcemgr/occupy_ability''
             (occupy_payload L ''ability'' occupier occupier_position occupied mode) of
        None \<Rightarrow> Inr (Inl ''post error'')
      | Some body \<Rightarrow> rbind (remote_success L body) (\<lambda>ok.
          Inr (if ok then Inr () else Inl ''remote occupy ability error'')))"

(* src/resourcemgr/resource_mgr.cpp:2098-2116 occupy_remote_device *)
definition occupy_remote_device ::
  "text_lib \<Rightarrow> own_ext \<Rightarrow> device_cr \<Rightarrow> uuid \<Rightarrow> string \<Rightarrow> uuid \<Rightarrow> ownership_mode \<Rightarrow> exn + (string + unit)" where
  "occupy_remote_device L X cr occupier position occupied mode =
     (case send_post_request L X (ds_position (dcr_spec cr)) ''/api/resourcemgr/occupy_device''
             (occupy_payload L ''device'' occupier position occupied mode) of
        None \<Rightarrow> Inr (Inl ''post error'')
      | Some body \<Rightarrow> rbind (remote_success L body) (\<lambda>ok.
          Inr (if ok then Inr () else Inl ''remote occupy device error'')))"

text \<open>The decision both operations make once the target is known to be local: from its owner and its sharers, to a
  refusal, to success without a change (\<open>None\<close>), or to the mode of the row to write.\<close>

(* src/resourcemgr/resource_mgr.cpp:2074-2095 ResourceManager::occupy_ability (decision); 2132-2154 of occupy_device *)
definition occupy_decision ::
  "(uuid \<times> string) option \<Rightarrow> (uuid, string) omap \<Rightarrow> uuid \<Rightarrow> ownership_mode \<Rightarrow> string + ownership_mode option" where
  "occupy_decision owner sharers i mode =
     (case owner of
        Some (o1, _) \<Rightarrow>
          if o1 = i then Inr None
          else (case mode of
                  Shared \<Rightarrow> Inl ''can't add sharers to unique object''
                | Unique \<Rightarrow> Inl ''can't add owner to unique object, it is already occupied'')
      | None \<Rightarrow>
          if sharers \<noteq> [] \<and> mode = Unique then Inl ''can't add owner to shared object''
          else if mode = Shared then (if i \<in> fst ` set sharers then Inr None else Inr (Some Shared))
          else Inr (Some Unique))"

definition write_decision :: "string + ownership_mode option \<Rightarrow> uuid \<Rightarrow> uuid \<Rightarrow> string \<Rightarrow> rdb \<Rightarrow> (string + unit) \<times> rdb" where
  "write_decision d i child position T =
     (case d of
        Inl e \<Rightarrow> (Inl e, T)
      | Inr None \<Rightarrow> (Inr (), T)
      | Inr (Some Shared) \<Rightarrow> (Inr (), add_ability_sharers i child position T)
      | Inr (Some Unique) \<Rightarrow> (Inr (), add_ability_owner i child position T))"

(* src/resourcemgr/resource_mgr.cpp:2053-2096 ResourceManager::occupy_ability *)
definition occupy_ability ::
  "text_lib \<Rightarrow> own_ext \<Rightarrow> uuid \<Rightarrow> string \<Rightarrow> uuid \<Rightarrow> ownership_mode \<Rightarrow> rdb \<Rightarrow> exn + ((string + unit) \<times> rdb)" where
  "occupy_ability L X occupier position occupied mode T =
     (if \<not> judge_ability_exist T occupied then Inr (Inl ''can't occupy an ability that does not exist'', T)
      else rbind (resolve_ability_cr_by_id L T occupied) (\<lambda>op.
        case op of
          None \<Rightarrow> Inr (Inl (''ability cr spec not available for '' @ show_uuid L occupied), T)
        | Some cr \<Rightarrow>
            (case acr_spec cr of
               None \<Rightarrow> Inr (Inl (''ability cr spec not available for '' @ show_uuid L occupied), T)
             | Some sp \<Rightarrow>
                 if \<not> is_local_cr X (sf_position (spec_own sp))
                 then rbind (send_http_occupy_request L X (sf_position (spec_own sp)) occupier position occupied mode)
                        (\<lambda>r. Inr (r, T))
                 else Inr (write_decision (occupy_decision (get_ability_owner T occupied) (get_ability_sharers T occupied)
                                             occupier mode) occupier occupied position T))))"

definition bad_optional :: exn where
  "bad_optional = BadAccess ''bad optional access''"

text \<open>The owner is looked up among the rows of devices, the sharers among those of abilities, and the row is written
  as one of an ability.\<close>

(* src/resourcemgr/resource_mgr.cpp:2118-2155 ResourceManager::occupy_device *)
definition occupy_device ::
  "text_lib \<Rightarrow> own_ext \<Rightarrow> uuid \<Rightarrow> string \<Rightarrow> uuid \<Rightarrow> ownership_mode \<Rightarrow> rdb \<Rightarrow> exn + ((string + unit) \<times> rdb)" where
  "occupy_device L X occupier position occupied mode T =
     (if \<not> judge_device_exist T occupied then Inr (Inl ''can't occupy a device that does not exist'', T)
      else rbind (get_device_cr L T occupied) (\<lambda>op.
        case op of
          None \<Rightarrow> Inl bad_optional
        | Some cr \<Rightarrow>
            if \<not> is_local_cr X (ds_position (dcr_spec cr))
            then rbind (occupy_remote_device L X cr occupier position occupied mode) (\<lambda>r. Inr (r, T))
            else Inr (write_decision (occupy_decision (get_device_owner T occupied) (get_ability_sharers T occupied)
                                        occupier mode) occupier occupied position T)))"

definition unoccupy_payload :: "text_lib \<Rightarrow> string \<Rightarrow> uuid \<Rightarrow> uuid \<Rightarrow> ownership_mode \<Rightarrow> json" where
  "unoccupy_payload L tgt occupier occupied mode =
     jput ''mode'' (JStr (show_ownership mode))
       (jput (''occupied_'' @ tgt @ ''_id'') (uuid_to_json L occupied)
         (jput (''occupy_'' @ tgt @ ''_id'') (uuid_to_json L occupier) JNull))"

(* src/resourcemgr/resource_mgr.cpp:2157-2179 ResourceManager::unoccupy_ability *)
definition unoccupy_ability ::
  "text_lib \<Rightarrow> own_ext \<Rightarrow> uuid \<Rightarrow> uuid \<Rightarrow> ownership_mode \<Rightarrow> rdb \<Rightarrow> exn + (bool \<times> rdb)" where
  "unoccupy_ability L X occupier occupied mode T =
     (if \<not> judge_ability_exist T occupied then Inr (False, T)
      else rbind (resolve_ability_cr_by_id L T occupied) (\<lambda>op.
        case op of
          None \<Rightarrow> Inr (False, T)
        | Some cr \<Rightarrow>
            (case acr_spec cr of
               None \<Rightarrow> Inr (False, T)
             | Some sp \<Rightarrow>
                 if is_local_cr X (sf_position (spec_own sp))
                 then Inr (True, (case mode of Shared \<Rightarrow> remove_ability_sharer | Unique \<Rightarrow> remove_ability_owner) occupier occupied T)
                 else (case send_post_request L X (sf_position (spec_own sp)) ''/api/resourcemgr/unoccupy_ability''
                              (unoccupy_payload L ''ability'' occupier occupied mode) of
                         None \<Rightarrow> Inr (False, T)
                       | Some body \<Rightarrow> rbind (remote_success L body) (\<lambda>ok. Inr (ok, T))))))"

(* src/resourcemgr/resource_mgr.cpp:2181-2201 ResourceManager::unoccupy_device *)
definition unoccupy_device ::
  "text_lib \<Rightarrow> own_ext \<Rightarrow> uuid \<Rightarrow> uuid \<Rightarrow> ownership_mode \<Rightarrow> rdb \<Rightarrow> exn + (bool \<times> rdb)" where
  "unoccupy_device L X occupier occupied mode T =
     (if \<not> judge_device_exist T occupied then Inr (False, T)
      else rbind (get_device_cr L T occupied) (\<lambda>op.
        case op of
          None \<Rightarrow> Inl bad_optional
        | Some cr \<Rightarrow>
            if is_local_cr X (ds_position (dcr_spec cr))
            then Inr (True, (case mode of Shared \<Rightarrow> remove_device_sharer | Unique \<Rightarrow> remove_device_owner) occupier occupied T)
            else (case send_post_request L X (ds_position (dcr_spec cr)) ''/api/resourcemgr/unoccupy_device''
                         (unoccupy_payload L ''device'' occupier occupied mode) of
                    None \<Rightarrow> Inr (False, T)
                  | Some body \<Rightarrow> rbind (remote_success L body) (\<lambda>ok. Inr (ok, T)))))"

subsection \<open>The HTTP interface\<close>

definition find_ci :: "string \<Rightarrow> ownership_mode option" where
  "find_ci s = (if s = ''shared'' then Some Shared else if s = ''unique'' then Some Unique else None)"

(* src/resourcemgr/resource_mgr_http_apis.cpp:405-418 parse_ownership_mode *)
definition parse_ownership_mode :: "json \<Rightarrow> exn + ownership_mode" where
  "parse_ownership_mode j =
     rbind (get_string j) (\<lambda>sv.
       case find_ci (lower sv) of
         None \<Rightarrow> Inl (InvalidArgument (''invalid ownership mode: '' @ sv))
       | Some m \<Rightarrow> Inr m)"

definition no_occupyee :: "text_lib \<Rightarrow> uuid \<Rightarrow> exn" where
  "no_occupyee L i = ProblemEx 404 ''non_exist_occupyee_cr'' ''Non-exist occupyee cr'' ''the cr to ocuupy does not exist'' (show_uuid L i)"

(* src/resourcemgr/resource_mgr_http_apis.cpp:423-460 GET /api/cr/:id/occupation *)
definition api_occupation_get :: "text_lib \<Rightarrow> string \<Rightarrow> rdb \<Rightarrow> exn + json" where
  "api_occupation_get L id_str T =
     (case read_uuid L id_str of
        None \<Rightarrow> Inl (InvalidArgument ''invalid uuid'')
      | Some i \<Rightarrow>
          rbind (if judge_ability_exist T i then Inr (get_ability_sharers T i, get_ability_owner T i)
                 else if judge_device_exist T i then Inr (get_device_sharers T i, get_device_owner T i)
                 else Inl (no_occupyee L i)) (\<lambda>(sharers, owner).
            Inr (jobject [
              (''sharers'', fold (\<lambda>(k, v). jput (show_uuid L k) (JStr v)) sharers (JObj [])),
              (''owner'', (case owner of
                 None \<Rightarrow> JObj []
               | Some (o1, p) \<Rightarrow> jobject [(''abilityInstanceId'', JStr (show_uuid L o1)), (''position'', JStr p)]))])))"

definition conflict :: "text_lib \<Rightarrow> string \<Rightarrow> string \<Rightarrow> string \<Rightarrow> uuid \<Rightarrow> exn" where
  "conflict L ty title detail i = ProblemEx 409 ty title detail (show_uuid L i)"

definition reply_ok_or :: "(string \<Rightarrow> exn) \<Rightarrow> exn + ((string + unit) \<times> rdb) \<Rightarrow> exn + rdb" where
  "reply_ok_or err r = rbind r (\<lambda>(it, T). case it of Inl e \<Rightarrow> Inl (err e) | Inr _ \<Rightarrow> Inr T)"

text \<open>An answer without a body text is \<open>OK\<close>; the state of the database is the result.\<close>

(* src/resourcemgr/resource_mgr_http_apis.cpp:462-504 POST /api/cr/:id/occupation *)
definition api_occupation_post :: "text_lib \<Rightarrow> own_ext \<Rightarrow> string \<Rightarrow> string \<Rightarrow> rdb \<Rightarrow> exn + rdb" where
  "api_occupation_post L X id_str body_text T =
     (case read_uuid L id_str of
        None \<Rightarrow> Inl (InvalidArgument ''invalid target uuid'')
      | Some occupied \<Rightarrow>
          rbind (parse L body_text) (\<lambda>body.
          rbind (rbind (jat ''occupy_id'' body) get_string) (\<lambda>occupier_text.
          case read_uuid L occupier_text of
            None \<Rightarrow> Inl (InvalidArgument ''invalid occupier uuid'')
          | Some occupier \<Rightarrow>
              rbind (rbind (jat ''mode'' body) parse_ownership_mode) (\<lambda>mode.
              rbind (rbind (jat ''position'' body) get_string) (\<lambda>position.
                if judge_ability_exist T occupied
                then reply_ok_or (\<lambda>e. conflict L ''occupy_ability_failed'' ''Occupy ability failed'' e occupied)
                       (occupy_ability L X occupier position occupied mode T)
                else if judge_device_exist T occupied
                then reply_ok_or (\<lambda>e. conflict L ''occupy_device_failed'' ''Occupy device failed'' e occupied)
                       (occupy_device L X occupier position occupied mode T)
                else Inl (no_occupyee L occupied))))))"

text \<open>The occupier of a release is not checked: what is read from an empty optional is unspecified, here \<open>junk\<close>.\<close>

(* src/resourcemgr/resource_mgr_http_apis.cpp:506-529 DELETE /api/cr/:id/occupation *)
definition api_occupation_delete :: "text_lib \<Rightarrow> own_ext \<Rightarrow> uuid \<Rightarrow> string \<Rightarrow> string \<Rightarrow> rdb \<Rightarrow> exn + rdb" where
  "api_occupation_delete L X junk id_str body_text T =
     (case read_uuid L id_str of
        None \<Rightarrow> Inl (InvalidArgument ''invalid uuid'')
      | Some occupied \<Rightarrow>
          rbind (parse L body_text) (\<lambda>body.
          rbind (rbind (jat ''occupy_id'' body) get_string) (\<lambda>occupier_text.
          rbind (rbind (jat ''mode'' body) parse_ownership_mode) (\<lambda>mode.
            let occupier = opt_or junk (read_uuid L occupier_text) in
            if judge_ability_exist T occupied
            then rbind (unoccupy_ability L X occupier occupied mode T) (\<lambda>(_, T'). Inr T')
            else if judge_device_exist T occupied
            then rbind (unoccupy_device L X occupier occupied mode T) (\<lambda>(_, T'). Inr T')
            else Inl (ProblemEx 404 ''non_exist_cr'' ''cr does not exist'' [] (show_uuid L occupied))))))"

text \<open>What another framework calls.\<close>

definition index_as :: "string \<Rightarrow> (json \<Rightarrow> exn + 'a) \<Rightarrow> json \<Rightarrow> exn + 'a" where
  "index_as k get j = rbind (jindex k j) get"

definition result_payload :: "bool \<Rightarrow> json" where
  "result_payload ok = jput ''result'' (JStr (if ok then ''success'' else ''fail'')) JNull"

(* src/resourcemgr/resource_mgr_http_apis.cpp:741-753 POST /api/resourcemgr/occupy_ability *)
definition api_internal_occupy_ability :: "text_lib \<Rightarrow> own_ext \<Rightarrow> string \<Rightarrow> rdb \<Rightarrow> exn + (json \<times> rdb)" where
  "api_internal_occupy_ability L X body T =
     rbind (parse L body) (\<lambda>j.
     rbind (index_as ''occupy_ability_id'' (uuid_from_json L) j) (\<lambda>occupier.
     rbind (index_as ''occupy_ability_position'' get_string j) (\<lambda>position.
     rbind (index_as ''occupied_ability_id'' (uuid_from_json L) j) (\<lambda>occupied.
     rbind (index_as ''OwnershipMode'' ownership_from_json j) (\<lambda>mode.
     rbind (occupy_ability L X occupier position occupied mode T) (\<lambda>(it, T').
       Inr (result_payload (is_ok it), T')))))))"

(* src/resourcemgr/resource_mgr_http_apis.cpp:755-767 POST /api/resourcemgr/occupy_device *)
definition api_internal_occupy_device :: "text_lib \<Rightarrow> own_ext \<Rightarrow> string \<Rightarrow> rdb \<Rightarrow> exn + (json \<times> rdb)" where
  "api_internal_occupy_device L X body T =
     rbind (parse L body) (\<lambda>j.
     rbind (index_as ''occupy_device_id'' (uuid_from_json L) j) (\<lambda>occupier.
     rbind (index_as ''occupy_device_position'' get_string j) (\<lambda>position.
     rbind (index_as ''occupied_device_id'' (uuid_from_json L) j) (\<lambda>occupied.
     rbind (index_as ''OwnershipMode'' ownership_from_json j) (\<lambda>mode.
     rbind (occupy_device L X occupier position occupied mode T) (\<lambda>(it, T').
       Inr (result_payload (is_ok it), T')))))))"

(* src/resourcemgr/resource_mgr_http_apis.cpp:769-780 POST /api/resourcemgr/unoccupy_ability *)
definition api_internal_unoccupy_ability :: "text_lib \<Rightarrow> own_ext \<Rightarrow> string \<Rightarrow> rdb \<Rightarrow> exn + (json \<times> rdb)" where
  "api_internal_unoccupy_ability L X body T =
     rbind (parse L body) (\<lambda>j.
     rbind (index_as ''occupy_ability_id'' (uuid_from_json L) j) (\<lambda>occupier.
     rbind (index_as ''occupied_ability_id'' (uuid_from_json L) j) (\<lambda>occupied.
     rbind (index_as ''mode'' ownership_from_json j) (\<lambda>mode.
     rbind (unoccupy_ability L X occupier occupied mode T) (\<lambda>(it, T'). Inr (result_payload it, T'))))))"

(* src/resourcemgr/resource_mgr_http_apis.cpp:782-793 POST /api/resourcemgr/unoccupy_device *)
definition api_internal_unoccupy_device :: "text_lib \<Rightarrow> own_ext \<Rightarrow> string \<Rightarrow> rdb \<Rightarrow> exn + (json \<times> rdb)" where
  "api_internal_unoccupy_device L X body T =
     rbind (parse L body) (\<lambda>j.
     rbind (index_as ''occupy_device_id'' (uuid_from_json L) j) (\<lambda>occupier.
     rbind (index_as ''occupied_device_id'' (uuid_from_json L) j) (\<lambda>occupied.
     rbind (index_as ''mode'' ownership_from_json j) (\<lambda>mode.
     rbind (unoccupy_device L X occupier occupied mode T) (\<lambda>(it, T'). Inr (result_payload it, T'))))))"

subsection \<open>The lock a client relies on\<close>

datatype lock = Free | Owned uuid | SharedBy "uuid set"

fun acquire :: "ownership_mode \<Rightarrow> uuid \<Rightarrow> lock \<Rightarrow> lock option" where
  "acquire Unique p Free = Some (Owned p)"
| "acquire Shared p Free = Some (SharedBy {p})"
| "acquire m p (Owned q) = (if p = q then Some (Owned q) else None)"
| "acquire Unique p (SharedBy S) = None"
| "acquire Shared p (SharedBy S) = Some (SharedBy (insert p S))"

definition shared_by :: "uuid set \<Rightarrow> lock" where
  "shared_by S = (if S = {} then Free else SharedBy S)"

fun release :: "ownership_mode \<Rightarrow> uuid \<Rightarrow> lock \<Rightarrow> lock" where
  "release Unique p (Owned q) = (if p = q then Free else Owned q)"
| "release Shared p (SharedBy S) = shared_by (S - {p})"
| "release m p l = l"

fun holds :: "lock \<Rightarrow> uuid \<Rightarrow> bool" where
  "holds Free p = False"
| "holds (Owned q) p = (p = q)"
| "holds (SharedBy S) p = (p \<in> S)"

locale shared_lock =
  fixes acq :: "uuid \<Rightarrow> string \<Rightarrow> 'c \<Rightarrow> ownership_mode \<Rightarrow> 's \<Rightarrow> bool \<times> 's"
    and rel :: "uuid \<Rightarrow> 'c \<Rightarrow> ownership_mode \<Rightarrow> 's \<Rightarrow> 's"
    and lock_at :: "'s \<Rightarrow> 'c \<Rightarrow> lock"
    and ok :: "'s \<Rightarrow> 'c \<Rightarrow> bool"
  assumes acq_ok: "ok s c' \<Longrightarrow> ok (snd (acq p a c m s)) c'"
    and acq_lock: "ok s c \<Longrightarrow> acq p a c m s = (b, s') \<Longrightarrow>
      (b \<longleftrightarrow> acquire m p (lock_at s c) \<noteq> None) \<and> lock_at s' c = opt_or (lock_at s c) (acquire m p (lock_at s c))"
    and acq_other: "c' \<noteq> c \<Longrightarrow> lock_at (snd (acq p a c m s)) c' = lock_at s c'"
    and rel_ok: "ok s c' \<Longrightarrow> ok (rel p c m s) c'"
    and rel_lock: "ok s c \<Longrightarrow> lock_at (rel p c m s) c = release m p (lock_at s c)"
    and rel_other: "c' \<noteq> c \<Longrightarrow> lock_at (rel p c m s) c' = lock_at s c'"

datatype 'c lock_op = Acq uuid string 'c ownership_mode | Rel uuid 'c ownership_mode

fun lock_op_at :: "'c \<Rightarrow> 'c lock_op \<Rightarrow> lock \<Rightarrow> lock" where
  "lock_op_at c (Acq p a c' m) l = (if c' = c then opt_or l (acquire m p l) else l)"
| "lock_op_at c (Rel p c' m) l = (if c' = c then release m p l else l)"

context shared_lock
begin

fun lock_step :: "'c lock_op \<Rightarrow> 's \<Rightarrow> 's" where
  "lock_step (Acq p a c m) s = snd (acq p a c m s)"
| "lock_step (Rel p c m) s = rel p c m s"

text \<open>Every sequence of operations moves each lock as the abstract lock moves.\<close>

lemma lock_step_refines:
  assumes "ok s c"
  shows "ok (lock_step e s) c \<and> lock_at (lock_step e s) c = lock_op_at c e (lock_at s c)"
proof (cases e)
  case (Acq p a c' m)
  obtain b s' where r: "acq p a c' m s = (b, s')" by fastforce
  then show ?thesis
    using assms Acq acq_ok [OF assms, of p a c' m] acq_other [of c c' p a m s] acq_lock [of s c p a m b s']
    by (cases "c' = c") auto
next
  case (Rel p c' m)
  then show ?thesis
    using assms rel_ok [OF assms] rel_other [of c c' p m s] rel_lock [OF assms, of p m] by (cases "c' = c") auto
qed

lemma lock_run_refines:
  "ok s c \<Longrightarrow> ok (fold lock_step es s) c \<and> lock_at (fold lock_step es s) c = fold (lock_op_at c) es (lock_at s c)"
proof (induction es arbitrary: s)
  case (Cons e es)
  then show ?case using lock_step_refines [OF Cons.prems, of e] Cons.IH [of "lock_step e s"] by simp
qed simp

text \<open>Whoever acquires holds; while one owns, nobody else acquires in any mode.\<close>

lemma acquire_excludes:
  assumes "ok s c" "lock_at s c = Owned q" "acq p a c m s = (b, s')"
  shows "(b \<longleftrightarrow> p = q) \<and> lock_at s' c = Owned q"
  using acq_lock [OF assms(1,3)] assms(2) by (cases m) (auto split: if_splits)

lemma acquire_holds:
  assumes "ok s c" "acq p a c m s = (True, s')"
  shows "holds (lock_at s' c) p"
  using acq_lock [OF assms]
  by (cases "lock_at s c"; cases m) (auto split: if_splits)

end

subsection \<open>The table provides the lock\<close>

definition lock_of :: "rdb \<Rightarrow> uuid \<Rightarrow> lock" where
  "lock_of T c = (case get_ability_owner T c of Some (o1, _) \<Rightarrow> Owned o1 | None \<Rightarrow> shared_by (fst ` set (get_ability_sharers T c)))"

definition own_ok :: "rdb \<Rightarrow> uuid \<Rightarrow> bool" where
  "own_ok T c = (length (own_rows kind_ability c kind_ability Unique T) \<le> 1
     \<and> (own_rows kind_ability c kind_ability Unique T = [] \<or> own_rows kind_ability c kind_ability Shared T = []))"

definition occupy_local :: "uuid \<Rightarrow> string \<Rightarrow> uuid \<Rightarrow> ownership_mode \<Rightarrow> rdb \<Rightarrow> (string + unit) \<times> rdb" where
  "occupy_local p a c m T =
     write_decision (occupy_decision (get_ability_owner T c) (get_ability_sharers T c) p m) p c a T"

lemma set_id_str_map [own_simps]: "fst ` set (id_str_map rows) = ow_parent ` set rows"
  by (simp add: id_str_map_def fst_set_oputs image_image)

lemma id_str_map_Nil [own_simps]: "id_str_map rows = [] \<longleftrightarrow> rows = []"
  using set_id_str_map [of rows] by (cases rows) (auto simp: id_str_map_def)

lemma first_owner_simps [own_simps]:
  "first_owner [] = None" "first_owner (r # rs) = Some (ow_parent r, ow_address r)"
  by (simp_all add: first_owner_def)

lemma first_owner_None [own_simps]: "first_owner rows = None \<longleftrightarrow> rows = []"
  by (simp add: first_owner_def split: list.split)

lemma own_rows_put_other:
  "(c, ck) \<noteq> (ow_child r, ow_child_kind r) \<Longrightarrow> own_rows pk c ck m (put_own r T) = own_rows pk c ck m T"
  by (auto simp: own_rows_def put_own_def replace_row_def own_key_def intro!: filter_cong)

lemma own_rows_put:
  "ow_parent_kind r = pk \<Longrightarrow> ow_child r = c \<Longrightarrow> ow_child_kind r = ck \<Longrightarrow>
   own_rows pk c ck m (put_own r T) =
     filter (\<lambda>x. ow_parent x \<noteq> ow_parent r) (own_rows pk c ck m T) @ (if ow_mode r = m then [r] else [])"
  by (auto simp: own_rows_def put_own_def replace_row_def own_key_def intro!: filter_cong)

lemma own_rows_remove:
  "own_rows pk c ck m (impl_remove_ownership p c' ck' m' T) =
     (if (c, ck, m) = (c', ck', m') then filter (\<lambda>x. ow_parent x \<noteq> p) (own_rows pk c ck m T) else own_rows pk c ck m T)"
  by (auto simp: own_rows_def impl_remove_ownership_def delete_where_def intro!: filter_cong)

lemma own_rows_remove_mode:
  "own_rows pk c ck m ((case m' of Shared \<Rightarrow> remove_ability_sharer | Unique \<Rightarrow> remove_ability_owner) p c' T) =
     (if (c, ck, m) = (c', kind_ability, m') then filter (\<lambda>x. ow_parent x \<noteq> p) (own_rows pk c ck m T) else own_rows pk c ck m T)"
  by (cases m') (auto simp: remove_ability_sharer_def remove_ability_owner_def own_rows_remove)

lemma own_rows_remove_device:
  "own_rows pk c kind_ability m ((case m' of Shared \<Rightarrow> remove_device_sharer | Unique \<Rightarrow> remove_device_owner) p c' T) =
     own_rows pk c kind_ability m T"
  by (cases m') (auto simp: remove_device_sharer_def remove_device_owner_def own_rows_remove kind_ability_def kind_device_def)

text \<open>What an occupation leaves in the rows of its target, in each case of the decision.\<close>

lemma occupy_local_rows:
  assumes "own_ok T c" "occupy_local p a c m T = (r, T')"
  shows "own_rows kind_ability c kind_ability m' T' = own_rows kind_ability c kind_ability m' T @
    (if is_ok r \<and> \<not> holds (lock_of T c) p \<and> m' = m
     then [\<lparr>ow_parent = p, ow_parent_kind = kind_ability, ow_address = a, ow_child = c, ow_child_kind = kind_ability, ow_mode = m\<rparr>]
     else [])
    \<and> (is_ok r \<longleftrightarrow> acquire m p (lock_of T c) \<noteq> None)"
proof (cases "own_rows kind_ability c kind_ability Unique T")
  case (Cons o1 os)
  have "get_ability_owner T c = Some (ow_parent o1, ow_address o1)"
    using Cons by (simp add: get_ability_owner_def own_simps)
  then show ?thesis
    using assms(2) by (cases m) (auto simp: occupy_local_def occupy_decision_def write_decision_def lock_of_def split: if_splits)
next
  case Nil
  let ?S = "own_rows kind_ability c kind_ability Shared T"
  have none: "get_ability_owner T c = None" using Nil by (simp add: get_ability_owner_def own_simps)
  have sh: "get_ability_sharers T c = [] \<longleftrightarrow> ?S = []" "fst ` set (get_ability_sharers T c) = ow_parent ` set ?S"
    by (simp_all add: get_ability_sharers_def own_simps)
  let ?put = "put_own \<lparr>ow_parent = p, ow_parent_kind = kind_ability, ow_address = a, ow_child = c, ow_child_kind = kind_ability, ow_mode = m\<rparr> T"
  have lock: "lock_of T c = shared_by (ow_parent ` set ?S)" using none by (simp add: lock_of_def sh)
  have local: "occupy_local p a c m T =
      (if m = Unique \<and> ?S \<noteq> [] then (Inl ''can't add owner to shared object'', T)
       else if m = Shared \<and> p \<in> ow_parent ` set ?S then (Inr (), T) else (Inr (), ?put))"
    using none unfolding occupy_local_def occupy_decision_def write_decision_def
    by (cases m) (simp_all add: sh add_ability_owner_def add_ability_sharers_def)
  have keep: "filter (\<lambda>x. ow_parent x \<noteq> p) ?S = ?S" if "p \<notin> ow_parent ` set ?S"
    using that by (intro filter_True) auto
  show ?thesis
  proof (cases "p \<in> ow_parent ` set ?S")
    case True
    then show ?thesis
      using assms(2) unfolding local lock by (cases m; cases "?S = []") (auto simp: shared_by_def split: if_splits)
  next
    case False
    then show ?thesis
      using assms(2) Nil keep [OF False] unfolding local lock
      by (cases m; cases m'; cases "?S = []") (auto simp: shared_by_def own_rows_put split: if_splits)
  qed
qed

lemma lock_of_rows:
  "lock_of T c = (case own_rows kind_ability c kind_ability Unique T of
     r # _ \<Rightarrow> Owned (ow_parent r) | [] \<Rightarrow> shared_by (ow_parent ` set (own_rows kind_ability c kind_ability Shared T)))"
  by (simp add: lock_of_def get_ability_owner_def get_ability_sharers_def own_simps split: list.split)

lemma own_rows_local_other:
  "(c', ck) \<noteq> (c, kind_ability) \<Longrightarrow> own_rows pk c' ck m' (snd (occupy_local p a c m T)) = own_rows pk c' ck m' T"
  by (auto simp: occupy_local_def write_decision_def add_ability_owner_def add_ability_sharers_def own_rows_put_other
      split: sum.split option.split ownership_mode.split)

lemma occupy_local_lock:
  assumes "own_ok T c" "occupy_local p a c m T = (r, T')"
  shows "(is_ok r \<longleftrightarrow> acquire m p (lock_of T c) \<noteq> None) \<and> lock_of T' c = opt_or (lock_of T c) (acquire m p (lock_of T c))
    \<and> own_ok T' c"
proof -
  note rows = occupy_local_rows [OF assms]
  let ?U = "own_rows kind_ability c kind_ability Unique T" and ?S = "own_rows kind_ability c kind_ability Shared T"
  show ?thesis
  proof (cases ?U)
    case (Cons o1 os)
    then show ?thesis
      using rows assms(1) by (cases m) (auto simp: lock_of_rows own_ok_def split: if_splits)
  next
    case Nil
    then show ?thesis
      using rows [of Unique] rows [of Shared]
      by (cases m; cases "?S = []") (auto simp: lock_of_rows own_ok_def shared_by_def split: if_splits)
  qed
qed

lemma release_lock:
  assumes "own_ok T c"
  shows "lock_of ((case m of Shared \<Rightarrow> remove_ability_sharer | Unique \<Rightarrow> remove_ability_owner) p c T) c = release m p (lock_of T c)"
proof (cases m)
  case Unique
  have "length (own_rows kind_ability c kind_ability Unique T) \<le> 1" using assms by (simp add: own_ok_def)
  then consider "own_rows kind_ability c kind_ability Unique T = []"
    | r where "own_rows kind_ability c kind_ability Unique T = [r]" by (auto simp: le_Suc_eq length_Suc_conv)
  then show ?thesis
  proof cases
    case 1
    then have "own_rows kind_ability c kind_ability Unique (remove_ability_owner p c T) = []"
      by (simp add: remove_ability_owner_def own_rows_remove)
    then show ?thesis
      using 1 Unique by (simp add: lock_of_rows remove_ability_owner_def own_rows_remove shared_by_def)
  next
    case 2
    then show ?thesis
      using assms Unique by (auto simp: lock_of_rows remove_ability_owner_def own_rows_remove own_ok_def shared_by_def)
  qed
next
  case Shared
  let ?U = "own_rows kind_ability c kind_ability Unique" and ?S = "own_rows kind_ability c kind_ability Shared"
  have u: "?U (remove_ability_sharer p c T) = ?U T" and s: "?S (remove_ability_sharer p c T) = filter (\<lambda>x. ow_parent x \<noteq> p) (?S T)"
    by (simp_all add: remove_ability_sharer_def own_rows_remove)
  have "ow_parent ` set (filter (\<lambda>x. ow_parent x \<noteq> p) (?S T)) = ow_parent ` set (?S T) - {p}" by auto
  then have "lock_of (remove_ability_sharer p c T) c
      = (case ?U T of r # _ \<Rightarrow> Owned (ow_parent r) | [] \<Rightarrow> shared_by (ow_parent ` set (?S T) - {p}))"
    unfolding lock_of_rows u s by (simp split: list.split)
  then show ?thesis using Shared by (simp add: lock_of_rows shared_by_def split: list.split)
qed

definition release_local :: "uuid \<Rightarrow> uuid \<Rightarrow> ownership_mode \<Rightarrow> rdb \<Rightarrow> rdb" where
  "release_local p c m = (case m of Shared \<Rightarrow> remove_ability_sharer | Unique \<Rightarrow> remove_ability_owner) p c"

lemma lock_of_same: "(\<And>m. own_rows kind_ability c kind_ability m T' = own_rows kind_ability c kind_ability m T) \<Longrightarrow>
  lock_of T' c = lock_of T c \<and> own_ok T' c = own_ok T c"
  by (simp add: lock_of_rows own_ok_def split: list.split)

lemma own_ok_release: "own_ok T c' \<Longrightarrow> own_ok (release_local p c m T) c'"
  by (auto simp: own_ok_def release_local_def own_rows_remove_mode intro: order_trans [OF length_filter_le])

interpretation ability_lock: shared_lock
  "\<lambda>p a c m T. (is_ok (fst (occupy_local p a c m T)), snd (occupy_local p a c m T))" release_local lock_of own_ok
proof unfold_locales
  fix T :: rdb and p c c' :: uuid and a m b T'
  show ok: "own_ok T c' \<Longrightarrow> own_ok (snd (is_ok (fst (occupy_local p a c m T)), snd (occupy_local p a c m T))) c'"
  proof (cases "c' = c")
    case True
    assume "own_ok T c'"
    then show ?thesis
      using occupy_local_lock [of T c p a m "fst (occupy_local p a c m T)" "snd (occupy_local p a c m T)"] True by simp
  next
    case False
    assume "own_ok T c'"
    then show ?thesis using lock_of_same [of c' "snd (occupy_local p a c m T)" T] own_rows_local_other [of c' _ c] False by simp
  qed
  show "own_ok T c \<Longrightarrow> (is_ok (fst (occupy_local p a c m T)), snd (occupy_local p a c m T)) = (b, T') \<Longrightarrow>
      (b \<longleftrightarrow> acquire m p (lock_of T c) \<noteq> None) \<and> lock_of T' c = opt_or (lock_of T c) (acquire m p (lock_of T c))"
    using occupy_local_lock [of T c p a m "fst (occupy_local p a c m T)" "snd (occupy_local p a c m T)"] by auto
  show "c' \<noteq> c \<Longrightarrow> lock_of (snd (is_ok (fst (occupy_local p a c m T)), snd (occupy_local p a c m T))) c' = lock_of T c'"
    using lock_of_same [of c' "snd (occupy_local p a c m T)" T] own_rows_local_other [of c' _ c] by simp
  show "own_ok T c' \<Longrightarrow> own_ok (release_local p c m T) c'" by (rule own_ok_release)
  show "own_ok T c \<Longrightarrow> lock_of (release_local p c m T) c = release m p (lock_of T c)"
    unfolding release_local_def by (rule release_lock)
  show "c' \<noteq> c \<Longrightarrow> lock_of (release_local p c m T) c' = lock_of T c'"
    using lock_of_same [of c' "release_local p c m T" T] by (simp add: release_local_def own_rows_remove_mode)
qed

subsection \<open>The operations over the table\<close>

text \<open>Each operation either leaves the table or does what the table-level operation does.\<close>

lemma occupy_ability_cases:
  assumes "occupy_ability L X p a c m T = Inr (r, T')"
  shows "T' = T \<or> (r, T') = occupy_local p a c m T"
  using assms unfolding occupy_ability_def rbind_case
  by (simp add: occupy_local_def split: if_splits option.splits sum.splits)

lemma unoccupy_ability_cases:
  assumes "unoccupy_ability L X p c m T = Inr (b, T')"
  shows "T' = T \<or> T' = release_local p c m T"
  using assms unfolding unoccupy_ability_def rbind_case
  by (auto simp: release_local_def split: if_splits option.splits sum.splits)

lemma get_device_cr_row: "get_device_cr L T i = Inr (Some cr) \<Longrightarrow> i \<in> dr_id ` set (rt_device_crs T)"
  by (auto simp: get_device_cr_def find_Some_iff split: option.splits)

lemma occupy_device_cases:
  assumes "occupy_device L X p a d m T = Inr (r, T')" "c \<notin> dr_id ` set (rt_device_crs T)"
  shows "own_rows pk c ck m' T' = own_rows pk c ck m' T"
proof -
  have "c \<noteq> d \<or> T' = T" using assms get_device_cr_row [of L T d] unfolding occupy_device_def rbind_case
    by (auto split: if_splits option.splits sum.splits)
  then show ?thesis
    using assms(1) unfolding occupy_device_def rbind_case write_decision_def
    by (auto simp: add_ability_owner_def add_ability_sharers_def own_rows_put_other
        split: if_splits option.splits sum.splits ownership_mode.splits)
qed

lemma unoccupy_device_rows:
  assumes "unoccupy_device L X p d m T = Inr (b, T')"
  shows "own_rows pk c kind_ability m' T' = own_rows pk c kind_ability m' T"
  using assms unfolding unoccupy_device_def rbind_case
  by (auto simp: own_rows_remove_device split: if_splits option.splits sum.splits)

datatype own_op =
    OccupyAbility uuid string uuid ownership_mode
  | OccupyDevice uuid string uuid ownership_mode
  | UnoccupyAbility uuid uuid ownership_mode
  | UnoccupyDevice uuid uuid ownership_mode

definition kept :: "rdb \<Rightarrow> exn + ('a \<times> rdb) \<Rightarrow> rdb" where
  "kept T r = (case r of Inl _ \<Rightarrow> T | Inr (_, T') \<Rightarrow> T')"

fun own_step :: "text_lib \<Rightarrow> own_ext \<Rightarrow> own_op \<Rightarrow> rdb \<Rightarrow> rdb" where
  "own_step L X (OccupyAbility p a c m) T = kept T (occupy_ability L X p a c m T)"
| "own_step L X (OccupyDevice p a c m) T = kept T (occupy_device L X p a c m T)"
| "own_step L X (UnoccupyAbility p c m) T = kept T (unoccupy_ability L X p c m T)"
| "own_step L X (UnoccupyDevice p c m) T = kept T (unoccupy_device L X p c m T)"

lemma own_op_devices:
  "rt_device_crs (snd (occupy_local p a c m T)) = rt_device_crs T" "rt_device_crs (release_local p c m T) = rt_device_crs T"
  by (auto simp: occupy_local_def write_decision_def add_ability_owner_def add_ability_sharers_def put_own_def release_local_def
      remove_ability_sharer_def remove_ability_owner_def impl_remove_ownership_def
      split: sum.split option.split ownership_mode.split)

lemma own_step_devices: "rt_device_crs (own_step L X e T) = rt_device_crs T"
proof (cases e)
  case (OccupyAbility p a c m)
  then show ?thesis
    using occupy_ability_cases [of L X p a c m T] own_op_devices(1) [of p a c m T]
    by (auto simp: kept_def split: sum.split) (metis snd_conv)
next
  case (UnoccupyAbility p c m)
  then show ?thesis
    using unoccupy_ability_cases [of L X p c m T] own_op_devices(2) [of p c m T] by (auto simp: kept_def split: sum.split)
next
  case (OccupyDevice p a c m)
  then show ?thesis
    unfolding own_step.simps kept_def occupy_device_def rbind_case write_decision_def
    by (simp add: OccupyDevice kept_def occupy_device_def rbind_case write_decision_def add_ability_owner_def
        add_ability_sharers_def put_own_def split: sum.split option.split ownership_mode.split)
next
  case (UnoccupyDevice p c m)
  then show ?thesis
    by (simp add: kept_def unoccupy_device_def rbind_case remove_device_sharer_def remove_device_owner_def
        impl_remove_ownership_def split: sum.split option.split ownership_mode.split)
qed

text \<open>One step of the program is, for a target that is not a device, no step or a step of its lock.\<close>

lemma own_step_lock:
  assumes "own_ok T c" "c \<notin> dr_id ` set (rt_device_crs T)"
  shows "own_ok (own_step L X e T) c \<and>
    (lock_of (own_step L X e T) c = lock_of T c \<or> (\<exists>op. lock_of (own_step L X e T) c = lock_op_at c op (lock_of T c)))"
proof (cases e)
  case (OccupyAbility p a c' m)
  have "own_step L X e T = T \<or> own_step L X e T = ability_lock.lock_step (Acq p a c' m) T"
  proof (cases "occupy_ability L X p a c' m T")
    case (Inr y)
    obtain r T' where "y = (r, T')" by fastforce
    then show ?thesis using occupy_ability_cases [of L X p a c' m T r T'] Inr
      by (auto simp: OccupyAbility kept_def dest: arg_cong [where f = snd])
  qed (simp add: OccupyAbility kept_def)
  then show ?thesis
  proof (elim disjE)
    assume eq: "own_step L X e T = T"
    show ?thesis unfolding eq using assms(1) by simp
  next
    assume eq: "own_step L X e T = ability_lock.lock_step (Acq p a c' m) T"
    show ?thesis unfolding eq using ability_lock.lock_step_refines [OF assms(1), of "Acq p a c' m"] by blast
  qed
next
  case (UnoccupyAbility p c' m)
  have "own_step L X e T = T \<or> own_step L X e T = ability_lock.lock_step (Rel p c' m) T"
    using unoccupy_ability_cases [of L X p c' m T] by (auto simp: UnoccupyAbility kept_def split: sum.split)
  then show ?thesis
  proof (elim disjE)
    assume eq: "own_step L X e T = T"
    show ?thesis unfolding eq using assms(1) by simp
  next
    assume eq: "own_step L X e T = ability_lock.lock_step (Rel p c' m) T"
    show ?thesis unfolding eq using ability_lock.lock_step_refines [OF assms(1), of "Rel p c' m"] by blast
  qed
next
  case (OccupyDevice p a c' m)
  have "own_rows kind_ability c kind_ability m' (own_step L X e T) = own_rows kind_ability c kind_ability m' T" for m'
    using occupy_device_cases [of L X p a c' m T _ _ c] assms(2) by (auto simp: OccupyDevice kept_def split: sum.split)
  then show ?thesis using lock_of_same [of c _ T] assms(1) by blast
next
  case (UnoccupyDevice p c' m)
  have "own_rows kind_ability c kind_ability m' (own_step L X e T) = own_rows kind_ability c kind_ability m' T" for m'
    using unoccupy_device_rows [of L X p c' m T] by (auto simp: UnoccupyDevice kept_def split: sum.split)
  then show ?thesis using lock_of_same [of c _ T] assms(1) by blast
qed

lemma own_run_ok:
  "own_ok T c \<Longrightarrow> c \<notin> dr_id ` set (rt_device_crs T) \<Longrightarrow> own_ok (fold (own_step L X) es T) c"
proof (induction es arbitrary: T)
  case (Cons e es)
  then show ?case using own_step_lock [OF Cons.prems, of L X e] by (simp add: own_step_devices)
qed simp

subsection \<open>Properties\<close>

text \<open>C1: occupying and releasing a local ability is acquiring and releasing a lock that is free, owned by one, or shared:
  the call succeeds exactly when the lock can be acquired in that mode, the table then stands for the new lock, and the
  lock of no other ability changes.\<close>
theorem occupy_ability_is_lock:
  assumes "own_ok T c" "judge_ability_exist T c" "resolve_ability_cr_by_id L T c = Inr (Some cr)" "acr_spec cr = Some sp"
    and "is_local_cr X (sf_position (spec_own sp))"
  shows "(\<exists>r T'. occupy_ability L X p a c m T = Inr (r, T') \<and> (is_ok r \<longleftrightarrow> acquire m p (lock_of T c) \<noteq> None)
      \<and> lock_of T' c = opt_or (lock_of T c) (acquire m p (lock_of T c)) \<and> own_ok T' c
      \<and> (\<nexists>c'. c' \<noteq> c \<and> lock_of T' c' \<noteq> lock_of T c'))
    \<and> (\<exists>T'. unoccupy_ability L X p c m T = Inr (True, T') \<and> lock_of T' c = release m p (lock_of T c) \<and> own_ok T' c
      \<and> (\<nexists>c'. c' \<noteq> c \<and> lock_of T' c' \<noteq> lock_of T c'))"
proof
  have "occupy_ability L X p a c m T = Inr (occupy_local p a c m T)"
    using assms by (simp add: occupy_ability_def occupy_local_def)
  then show "\<exists>r T'. occupy_ability L X p a c m T = Inr (r, T') \<and> (is_ok r \<longleftrightarrow> acquire m p (lock_of T c) \<noteq> None)
      \<and> lock_of T' c = opt_or (lock_of T c) (acquire m p (lock_of T c)) \<and> own_ok T' c
      \<and> (\<nexists>c'. c' \<noteq> c \<and> lock_of T' c' \<noteq> lock_of T c')"
    using occupy_local_lock [OF assms(1), of p a m] ability_lock.acq_other [of _ c p a m T]
    by (cases "occupy_local p a c m T") auto
  have "unoccupy_ability L X p c m T = Inr (True, release_local p c m T)"
    using assms by (simp add: unoccupy_ability_def release_local_def)
  then show "\<exists>T'. unoccupy_ability L X p c m T = Inr (True, T') \<and> lock_of T' c = release m p (lock_of T c) \<and> own_ok T' c
      \<and> (\<nexists>c'. c' \<noteq> c \<and> lock_of T' c' \<noteq> lock_of T c')"
    using ability_lock.rel_lock [OF assms(1)] ability_lock.rel_ok [OF assms(1)] ability_lock.rel_other by blast
qed

text \<open>C2: however abilities and devices are occupied and released, an ability that is no device never has two exclusive
  owners, and never an owner together with sharers.\<close>
theorem ability_owner_exclusive:
  assumes "rt_ownership T0 = []" "c \<notin> dr_id ` set (rt_device_crs T0)" "T = fold (own_step L X) ops T0"
  shows "length (own_rows kind_ability c kind_ability Unique T) \<le> 1
    \<and> (get_ability_owner T c = None \<or> get_ability_sharers T c = [])"
proof -
  have "own_ok T0 c" using assms(1) by (simp add: own_ok_def own_rows_def)
  from own_run_ok [OF this assms(2), of L X ops] assms(3) show ?thesis
    by (auto simp: own_ok_def get_ability_owner_def get_ability_sharers_def own_simps)
qed

text \<open>C36: the exclusive ownership of a device is not enforced: a second ability that occupies an exclusively owned device
  succeeds, both are then stored as its exclusive owners, the device is reported as having no owner, and releasing it
  leaves both rows.\<close>
theorem device_owner_not_exclusive:
  assumes "get_device_cr L T d = Inr (Some cr)" "is_local_cr X (ds_position (dcr_spec cr))" "p \<noteq> q"
    and "\<nexists>r. r \<in> set (rt_ownership T) \<and> ow_child r = d"
  shows "\<exists>T1 T2 T3. occupy_device L X p a d Unique T = Inr (Inr (), T1) \<and> occupy_device L X q b d Unique T1 = Inr (Inr (), T2)
    \<and> map ow_parent (own_rows kind_ability d kind_ability Unique T2) = [p, q] \<and> get_device_owner T2 d = None
    \<and> unoccupy_device L X q d Unique T2 = Inr (True, T3)
    \<and> own_rows kind_ability d kind_ability Unique T3 = own_rows kind_ability d kind_ability Unique T2"
proof -
  have none: "own_rows pk d ck m T = []" for pk ck m using assms(4) by (auto simp: own_rows_def filter_empty_conv)
  have own: "kind_ability \<noteq> kind_device" by (simp add: kind_ability_def kind_device_def)
  have dev: "get_device_cr L (add_ability_owner i d pos T') d = get_device_cr L T' d" for i pos T'
  proof -
    have kv: "append_device_kv (add_ability_owner i d pos T') d = append_device_kv T' d"
      by (simp add: fun_eq_iff append_device_kv_def add_ability_owner_def put_own_def)
    have rows: "rt_device_crs (add_ability_owner i d pos T') = rt_device_crs T'" by (simp add: add_ability_owner_def put_own_def)
    show ?thesis unfolding get_device_cr_def kv rows ..
  qed
  have step: "occupy_device L X i pos d Unique T' = Inr (Inr (), add_ability_owner i d pos T')"
    if "get_device_cr L T' d = Inr (Some cr)" "own_rows kind_device d kind_device Unique T' = []"
      "own_rows kind_ability d kind_ability Shared T' = []" for i pos T'
    using that assms(2)
    by (simp add: occupy_device_def judge_device_exist_def select_exists_def occupy_decision_def write_decision_def
        get_device_owner_def get_ability_sharers_def own_simps)
  define T1 where "T1 = add_ability_owner p d a T"
  define T2 where "T2 = add_ability_owner q d b T1"
  have rows1: "own_rows kind_device d kind_device Unique T1 = []" "own_rows kind_ability d kind_ability Shared T1 = []"
    "map ow_parent (own_rows kind_ability d kind_ability Unique T1) = [p]"
    using none own by (simp_all add: T1_def add_ability_owner_def own_rows_put own_rows_put_other)
  have rows2: "own_rows kind_device d kind_device Unique T2 = []"
    "map ow_parent (own_rows kind_ability d kind_ability Unique T2) = [p, q]"
    using rows1 own assms(3) by (auto simp: T2_def add_ability_owner_def own_rows_put own_rows_put_other)
  have cr: "get_device_cr L T1 d = Inr (Some cr)" "get_device_cr L T2 d = Inr (Some cr)"
    using assms(1) by (simp_all add: T1_def T2_def dev)
  have un: "unoccupy_device L X q d Unique T2 = Inr (True, remove_device_owner q d T2)"
    using cr(2) assms(2) by (simp add: unoccupy_device_def judge_device_exist_def select_exists_def)
  have o1: "occupy_device L X p a d Unique T = Inr (Inr (), T1)"
    using step [OF assms(1), of p a] none by (simp add: T1_def)
  have o2: "occupy_device L X q b d Unique T1 = Inr (Inr (), T2)"
    using step [OF cr(1) rows1(1,2), of q b] by (simp add: T2_def)
  have left: "own_rows kind_ability d kind_ability Unique (remove_device_owner q d T2) = own_rows kind_ability d kind_ability Unique T2"
    using own by (simp add: remove_device_owner_def own_rows_remove)
  show ?thesis using o1 o2 un left rows2 by (auto simp: get_device_owner_def own_simps)
qed

text \<open>The answer 404 of the occupation interface is never given: asking for the occupation of an id that is neither
  an ability nor a device answers with no owner and no sharers, and occupying it fails with a bad access.\<close>
theorem unknown_target_never_404:
  assumes "read_uuid L id_str = Some i" "\<not> judge_ability_exist T i" "i \<notin> dr_id ` set (rt_device_crs T)"
    and "\<nexists>r. r \<in> set (rt_ownership T) \<and> ow_child r = i"
    and "parse L body_text = Inr body" "jat ''occupy_id'' body = Inr (JStr s)" "read_uuid L s = Some p"
    and "rbind (jat ''mode'' body) parse_ownership_mode = Inr m" "jat ''position'' body = Inr (JStr pos)"
  shows "api_occupation_get L id_str T = Inr (jobject [(''sharers'', JObj []), (''owner'', JObj [])])
    \<and> api_occupation_post L X id_str body_text T = Inl bad_optional"
proof -
  have none: "own_rows pk i ck m' T = []" for pk ck m' using assms(4) by (auto simp: own_rows_def filter_empty_conv)
  have "find (\<lambda>r. dr_id r = i) (rt_device_crs T) = None" using assms(3) by (auto simp: find_None_iff)
  then have dev: "get_device_cr L T i = Inr None" by (simp add: get_device_cr_def)
  have e: "judge_device_exist T i" by (simp add: judge_device_exist_def select_exists_def)
  have get: "api_occupation_get L id_str T = Inr (jobject [(''sharers'', JObj []), (''owner'', JObj [])])"
    using assms(1,2) e by (simp add: api_occupation_get_def get_device_sharers_def get_device_owner_def none own_simps id_str_map_def)
  have "occupy_device L X p pos i m T = Inl bad_optional" using e dev by (simp add: occupy_device_def)
  then have "api_occupation_post L X id_str body_text T = Inl bad_optional"
    using assms e by (simp add: api_occupation_post_def reply_ok_or_def)
  with get show ?thesis by blast
qed

subsection \<open>Concrete runs\<close>

text \<open>A text library whose every text is one document, and tables with one resource under that text.\<close>

definition doc_lib :: "json \<Rightarrow> text_lib" where
  "doc_lib d = decimal_lib\<lparr>parse := (\<lambda>s. Inr d)\<rparr>"

definition own_sample_ext :: own_ext where
  "own_sample_ext = \<lparr>ox_local_addresses = [], ox_post = (\<lambda>u e b. None)\<rparr>"

definition one_ability_db :: rdb where
  "one_ability_db = empty_rdb\<lparr>rt_ability_crs := [\<lparr>ar_id = 5, ar_ability_name = [], ar_ability_version = [],
     ar_instance_name = ''c0'', ar_insert_time = 0, ar_update_time = 0, ar_autostart = False, ar_auto_started = False,
     ar_keep_alive = False, ar_singleton = True, ar_cr_detail = []\<rparr>]\<rparr>"

definition one_device_db :: rdb where
  "one_device_db = empty_rdb\<lparr>rt_device_crs := [\<lparr>dr_id = 8, dr_device_name = [], dr_device_version = [],
     dr_instance_name = ''cam0'', dr_insert_time = 0, dr_update_time = 0, dr_cr_detail = []\<rparr>]\<rparr>"

definition ability_doc_lib :: text_lib where
  "ability_doc_lib = doc_lib (ability_cr_to_json decimal_lib sample_cr)"

lemma one_ability_resolves:
  "\<exists>cr sp. resolve_ability_cr_by_id ability_doc_lib one_ability_db 5 = Inr (Some cr) \<and> acr_spec cr = Some sp
    \<and> sf_position (spec_own sp) = ''localhost''"
proof -
  have L: "uuid_text_ok ability_doc_lib" by (simp add: ability_doc_lib_def doc_lib_def uuid_text_ok_def decimal_lib_def)
  have "ability_cr_to_json ability_doc_lib sample_cr = ability_cr_to_json decimal_lib sample_cr"
    by (rule ability_cr_to_json_show) (simp add: ability_doc_lib_def doc_lib_def)
  then have "ability_cr_from_json ability_doc_lib (ability_cr_to_json decimal_lib sample_cr) = Inr sample_cr"
    using ability_cr_json [OF L sample_cr_ok] by simp
  then show ?thesis
    by (simp add: resolve_ability_cr_by_id_def one_ability_db_def empty_rdb_def get_ability_cr_def ability_cr_from_row_def
        ability_doc_lib_def doc_lib_def append_ability_kv_def sample_cr_def sample_fields_def)
qed

lemma occupy_ability_is_lock_witness:
  "\<exists>T1. occupy_ability ability_doc_lib own_sample_ext 7 ''localhost'' 5 Unique one_ability_db = Inr (Inr (), T1)
    \<and> lock_of T1 5 = Owned 7"
proof -
  obtain cr sp where cr: "resolve_ability_cr_by_id ability_doc_lib one_ability_db 5 = Inr (Some cr)" "acr_spec cr = Some sp"
    "sf_position (spec_own sp) = ''localhost''" using one_ability_resolves by blast
  have ok: "own_ok one_ability_db 5" and ex: "judge_ability_exist one_ability_db 5"
    by (simp_all add: own_ok_def own_rows_def one_ability_db_def empty_rdb_def judge_ability_exist_def)
  have free: "lock_of one_ability_db 5 = Free"
    by (simp add: lock_of_rows own_rows_def one_ability_db_def empty_rdb_def shared_by_def)
  from occupy_ability_is_lock [OF ok ex cr(1,2), of own_sample_ext 7 "''localhost''" Unique] obtain r T'
    where "occupy_ability ability_doc_lib own_sample_ext 7 ''localhost'' 5 Unique one_ability_db = Inr (r, T')"
      "is_ok r" "lock_of T' 5 = Owned 7"
    using cr(3) by (auto simp: free is_local_cr_def)
  then show ?thesis by (cases r) auto
qed

lemma ability_owner_exclusive_witness:
  "length (own_rows kind_ability 5 kind_ability Unique (fold (own_step ability_doc_lib own_sample_ext)
     [OccupyAbility 7 ''localhost'' 5 Unique, OccupyAbility 6 ''localhost'' 5 Unique] one_ability_db)) \<le> 1"
  using ability_owner_exclusive [of one_ability_db 5 _ ability_doc_lib own_sample_ext
      "[OccupyAbility 7 ''localhost'' 5 Unique, OccupyAbility 6 ''localhost'' 5 Unique]", OF _ _ refl]
  by (simp add: one_ability_db_def empty_rdb_def del: fold_simps)

lemma device_owner_not_exclusive_witness:
  "\<exists>T1 T2. occupy_device (doc_lib (device_cr_to_json decimal_lib sample_device)) own_sample_ext 6 [] 8 Unique one_device_db = Inr (Inr (), T1)
    \<and> occupy_device (doc_lib (device_cr_to_json decimal_lib sample_device)) own_sample_ext 7 [] 8 Unique T1 = Inr (Inr (), T2)"
proof -
  define L where "L = doc_lib (device_cr_to_json decimal_lib sample_device)"
  have u: "uuid_to_json L = uuid_to_json decimal_lib" by (simp add: fun_eq_iff uuid_to_json_def L_def doc_lib_def)
  have s: "sharers_to_json L = sharers_to_json decimal_lib" by (simp add: fun_eq_iff sharers_to_json_def L_def doc_lib_def)
  have o: "owner_field L = owner_field decimal_lib" by (simp add: fun_eq_iff owner_field_def owner_to_json_def u)
  have L: "uuid_text_ok L" by (simp add: L_def doc_lib_def uuid_text_ok_def decimal_lib_def)
  have "device_cr_to_json L sample_device = device_cr_to_json decimal_lib sample_device"
    by (simp add: device_cr_to_json_def u s o del: jput.simps)
  then have "device_cr_from_json L (device_cr_to_json decimal_lib sample_device) = Inr sample_device"
    using device_cr_json [OF L sample_device_ok] by simp
  then have "\<exists>cr. get_device_cr L one_device_db 8 = Inr (Some cr) \<and> ds_position (dcr_spec cr) = ''localhost''"
    by (simp add: get_device_cr_def device_cr_from_row_def one_device_db_def L_def doc_lib_def append_device_kv_def sample_device_def)
  then obtain cr where cr: "get_device_cr L one_device_db 8 = Inr (Some cr)" "ds_position (dcr_spec cr) = ''localhost''" by blast
  from device_owner_not_exclusive [OF cr(1), of own_sample_ext 6 7 "[]" "[]"] cr(2) show ?thesis
    by (auto simp: is_local_cr_def one_device_db_def empty_rdb_def L_def)
qed

definition occupation_body :: json where
  "occupation_body = JObj [(''mode'', JStr ''shared''), (''occupy_id'', JStr ''7''), (''position'', JStr ''localhost'')]"

lemma unknown_target_never_404_witness:
  "api_occupation_post (doc_lib occupation_body) own_sample_ext ''12'' [] one_ability_db = Inl bad_optional"
proof -
  have m: "rbind (jat ''mode'' occupation_body) parse_ownership_mode = Inr Shared"
    by (simp add: occupation_body_def parse_ownership_mode_def find_ci_def lower_def lower_char_def)
  have w: "(12 :: 128 word) \<noteq> 5" by simp
  show ?thesis
    using unknown_target_never_404 [of "doc_lib occupation_body" "''12''" 12 one_ability_db "[]" occupation_body "''7''" 7 Shared
        "''localhost''" own_sample_ext, OF _ _ _ _ _ _ _ m] w
    by (simp add: doc_lib_def decimal_lib_def undec_def digit_val_def one_ability_db_def empty_rdb_def judge_ability_exist_def
        occupation_body_def)
qed

end
