(* ===== verification/Network.thy ===== *)
theory Network
  imports Json
begin

section \<open>Addresses and election messages\<close>

text \<open>
  How the frameworks of a network name and reach each other: IPv4 addresses and multi-addresses, the election message
  and its JSON form, and the HTTP transport (\<open>src/discoverymgr/election_mgr.cpp\<close>, \<open>src/util/addr_parse.cpp\<close>). The HTTP
  client is a parameter.
\<close>

subsection \<open>IPv4 addresses\<close>

text \<open>The regular expression is four groups with dots between them. A group is one of five forms, each a list of
  character ranges; no range contains a dot, so a text has at most one reading.\<close>

definition matches_ranges :: "(char \<times> char) list \<Rightarrow> string \<Rightarrow> bool" where
  "matches_ranges rs s = list_all2 (\<lambda>(lo, hi) c. lo \<le> c \<and> c \<le> hi) rs s"

definition octet_forms :: "(char \<times> char) list list" where
  "octet_forms =
     [[(CHR ''1'', CHR ''1''), (CHR ''0'', CHR ''9''), (CHR ''0'', CHR ''9'')],
      [(CHR ''2'', CHR ''2''), (CHR ''0'', CHR ''4''), (CHR ''0'', CHR ''9'')],
      [(CHR ''2'', CHR ''2''), (CHR ''5'', CHR ''5''), (CHR ''0'', CHR ''5'')],
      [(CHR ''1'', CHR ''9''), (CHR ''0'', CHR ''9'')],
      [(CHR ''0'', CHR ''9'')]]"

definition is_octet :: "string \<Rightarrow> bool" where
  "is_octet s = (\<exists>f\<in>set octet_forms. matches_ranges f s)"

(* src/discoverymgr/election_mgr.cpp:24-31 is_valid_ipv4, REGEX_IPV4 *)
(* src/util/addr_parse.cpp:28-39 is_valid_ipv4 *)
definition is_valid_ipv4 :: "string \<Rightarrow> bool" where
  "is_valid_ipv4 s =
     (case split_all (CHR ''.'') s of
        [a, b, c, d] \<Rightarrow> is_octet a \<and> is_octet b \<and> is_octet c \<and> is_octet d
      | _ \<Rightarrow> False)"

text \<open>A digit between two digits.\<close>

lemma digit_char_le: "m < 10 \<Longrightarrow> n < 10 \<Longrightarrow> digit_char m \<le> digit_char n \<longleftrightarrow> m \<le> n"
  by (simp add: digit_char_def less_eq_char_def of_char_of take_bit_eq_mod)

lemma char_digits: "CHR ''0'' = digit_char 0" "CHR ''1'' = digit_char 1" "CHR ''2'' = digit_char 2" "CHR ''4'' = digit_char 4"
  "CHR ''5'' = digit_char 5" "CHR ''9'' = digit_char 9"
  by (simp_all add: digit_char_def char_of_def bit_0)

lemma digit_range:
  assumes "m < 10" "n < 10"
  shows "digit_char m \<le> c \<and> c \<le> digit_char n \<longleftrightarrow> (\<exists>k. m \<le> k \<and> k \<le> n \<and> c = digit_char k)"
proof
  assume c: "digit_char m \<le> c \<and> c \<le> digit_char n"
  let ?v = "of_char c :: nat"
  have "48 + m \<le> ?v" "?v \<le> 48 + n"
    using c assms by (simp_all add: digit_char_def less_eq_char_def of_char_of take_bit_eq_mod)
  then have "m \<le> ?v - 48" "?v - 48 \<le> n" "c = digit_char (?v - 48)" by (simp_all add: digit_char_def)
  then show "\<exists>k. m \<le> k \<and> k \<le> n \<and> c = digit_char k" by blast
next
  assume "\<exists>k. m \<le> k \<and> k \<le> n \<and> c = digit_char k"
  then show "digit_char m \<le> c \<and> c \<le> digit_char n" using assms digit_char_le by (auto simp del: digit_char_props)
qed

lemma dec_one: "n < 10 \<Longrightarrow> dec n = [digit_char n]"
  by (subst dec.simps) simp

lemma dec_two: "1 \<le> a \<Longrightarrow> a < 10 \<Longrightarrow> b < 10 \<Longrightarrow> dec (10 * a + b) = [digit_char a, digit_char b]"
  by (subst dec.simps) (simp add: dec_one)

lemma dec_three:
  "1 \<le> a \<Longrightarrow> a < 10 \<Longrightarrow> b < 10 \<Longrightarrow> c < 10 \<Longrightarrow> dec (100 * a + 10 * b + c) = [digit_char a, digit_char b, digit_char c]"
proof -
  assume r: "1 \<le> a" "a < 10" "b < 10" "c < 10"
  have "100 * a + 10 * b + c = 10 * (10 * a + b) + c" by simp
  moreover have "(10 * x + c) div 10 = x" "(10 * x + c) mod 10 = c" for x using r(4) by simp_all
  ultimately have "dec (100 * a + 10 * b + c) = dec (10 * a + b) @ [digit_char c]"
    using r by (simp only: dec.simps [of "10 * (10 * a + b) + c"]) simp
  then show ?thesis using dec_two [OF r(1-3)] by simp
qed

text \<open>The forms are the decimal numerals of the bytes, without leading zeros.\<close>

lemma is_octet_iff: "is_octet s \<longleftrightarrow> (\<exists>n<256. s = dec n)"
proof
  assume "is_octet s"
  then consider
      b c where "s = [digit_char 1, digit_char b, digit_char c]" "b \<le> 9" "c \<le> 9"
    | b c where "s = [digit_char 2, digit_char b, digit_char c]" "b \<le> 4" "c \<le> 9"
    | c where "s = [digit_char 2, digit_char 5, digit_char c]" "c \<le> 5"
    | b c where "s = [digit_char b, digit_char c]" "1 \<le> b" "b \<le> 9" "c \<le> 9"
    | c where "s = [digit_char c]" "c \<le> 9"
    unfolding is_octet_def octet_forms_def matches_ranges_def char_digits
    by (auto simp: list_all2_Cons1 digit_range)
  then show "\<exists>n<256. s = dec n"
  proof cases
    case (1 b c)
    then have "s = dec (100 * 1 + 10 * b + c)" by (subst dec_three) auto
    then show ?thesis using 1 by (intro exI [of _ "100 * 1 + 10 * b + c"]) simp
  next
    case (2 b c)
    then have "s = dec (100 * 2 + 10 * b + c)" by (subst dec_three) auto
    then show ?thesis using 2 by (intro exI [of _ "100 * 2 + 10 * b + c"]) simp
  next
    case (3 c)
    then have "s = dec (100 * 2 + 10 * 5 + c)" by (subst dec_three) auto
    then show ?thesis using 3 by (intro exI [of _ "100 * 2 + 10 * 5 + c"]) simp
  next
    case (4 b c)
    then have "s = dec (10 * b + c)" by (subst dec_two) auto
    then show ?thesis using 4 by (intro exI [of _ "10 * b + c"]) simp
  next
    case (5 c)
    then show ?thesis by (intro exI [of _ c]) (simp add: dec_one)
  qed
next
  assume "\<exists>n<256. s = dec n"
  then obtain n where n: "n < 256" "s = dec n" by blast
  have forms: "list_all2 (\<lambda>(lo, hi) c. lo \<le> c \<and> c \<le> hi) f s \<Longrightarrow> f \<in> set octet_forms \<Longrightarrow> is_octet s" for f
    by (auto simp: is_octet_def matches_ranges_def)
  have r: "digit_char m \<le> digit_char k \<longleftrightarrow> m \<le> k" if "m < 10" "k < 10" for m k using digit_char_le that by blast
  consider "n < 10" | "10 \<le> n" "n < 100" | "100 \<le> n" by linarith
  then show "is_octet s"
  proof cases
    case 1
    then show ?thesis
      using n by (intro forms [of "[(CHR ''0'', CHR ''9'')]"]) (simp_all add: dec_one octet_forms_def char_digits r)
  next
    case 2
    then have "s = [digit_char (n div 10), digit_char (n mod 10)]"
      using n dec_two [of "n div 10" "n mod 10"] by (simp add: div_less_dividend)
    then show ?thesis
      using 2 by (intro forms [of "[(CHR ''1'', CHR ''9''), (CHR ''0'', CHR ''9'')]"])
        (auto simp: octet_forms_def char_digits r less_mult_imp_div_less)
  next
    case 3
    define a b c where "a = n div 100" and "b = n div 10 mod 10" and "c = n mod 10"
    have "n div 100 = n div 10 div 10" using div_mult2_eq [of n 10 10] by simp
    then have "n = 100 * a + 10 * b + c"
      using div_mult_mod_eq [of n 10] div_mult_mod_eq [of "n div 10" 10] unfolding a_def b_def c_def by linarith
    moreover have "b < 10" "c < 10" by (simp_all add: b_def c_def)
    moreover have "1 \<le> a" "a \<le> 2"
      using 3 n(1) div_le_mono [of 100 n 100] div_le_mono [of n 255 100] by (simp_all add: a_def)
    ultimately have abc: "n = 100 * a + 10 * b + c" "b < 10" "c < 10" "1 \<le> a" "a \<le> 2" by simp_all
    have s: "s = [digit_char a, digit_char b, digit_char c]" using n(2) abc dec_three [of a b c] by simp
    consider "a = 1" | "a = 2" "b < 5" | "a = 2" "b = 5" "c \<le> 5" using abc n(1) by linarith
    then show ?thesis
    proof cases
      case 1
      then show ?thesis
        using s abc by (intro forms [of "[(CHR ''1'', CHR ''1''), (CHR ''0'', CHR ''9''), (CHR ''0'', CHR ''9'')]"])
          (simp_all add: octet_forms_def char_digits r)
    next
      case 2
      then show ?thesis
        using s abc by (intro forms [of "[(CHR ''2'', CHR ''2''), (CHR ''0'', CHR ''4''), (CHR ''0'', CHR ''9'')]"])
          (simp_all add: octet_forms_def char_digits r)
    next
      case 3
      then show ?thesis
        using s abc by (intro forms [of "[(CHR ''2'', CHR ''2''), (CHR ''5'', CHR ''5''), (CHR ''0'', CHR ''5'')]"])
          (simp_all add: octet_forms_def char_digits r)
    qed
  qed
qed

definition dotted :: "8 word \<Rightarrow> 8 word \<Rightarrow> 8 word \<Rightarrow> 8 word \<Rightarrow> string" where
  "dotted a b c d = dec (unat a) @ ''.'' @ dec (unat b) @ ''.'' @ dec (unat c) @ ''.'' @ dec (unat d)"

lemma is_octet_byte: "is_octet s \<longleftrightarrow> (\<exists>w :: 8 word. s = dec (unat w))"
proof
  assume "is_octet s"
  then obtain n where n: "n < 256" "s = dec n" using is_octet_iff by blast
  then have "s = dec (unat (word_of_nat n :: 8 word))" by (simp add: unat_of_nat)
  then show "\<exists>w :: 8 word. s = dec (unat w)" by blast
next
  assume "\<exists>w :: 8 word. s = dec (unat w)"
  then obtain w :: "8 word" where w: "s = dec (unat w)" by blast
  have "unat w < 256" using unsigned_less [of w] by simp
  then show "is_octet s" using w is_octet_iff by blast
qed

lemma no_dot [simp]: "CHR ''.'' \<notin> set (dec n)"
  using dec_digits [of "CHR ''.''" n] by (auto simp: is_digit_def)

lemma split_dotted: "split_all (CHR ''.'') (dotted a b c d) = [dec (unat a), dec (unat b), dec (unat c), dec (unat d)]"
  by (simp add: dotted_def split_all_append split_all_single)

text \<open>The address check of the framework accepts exactly the canonical dotted decimal texts of four bytes.\<close>
theorem ipv4_texts: "is_valid_ipv4 s \<longleftrightarrow> (\<exists>a b c d. s = dotted a b c d)"
proof
  assume "is_valid_ipv4 s"
  then obtain a b c d where p: "split_all (CHR ''.'') s = [a, b, c, d]" "is_octet a" "is_octet b" "is_octet c" "is_octet d"
    by (auto simp: is_valid_ipv4_def split: list.splits)
  then obtain a' b' c' d' :: "8 word" where o: "a = dec (unat a')" "b = dec (unat b')" "c = dec (unat c')" "d = dec (unat d')"
    unfolding is_octet_byte by blast
  have "s = dotted a' b' c' d'" using split_all_join [OF p(1)] by (simp add: dotted_def o)
  then show "\<exists>a b c d. s = dotted a b c d" by blast
next
  assume "\<exists>a b c d. s = dotted a b c d"
  then show "is_valid_ipv4 s" by (auto simp: is_valid_ipv4_def split_dotted is_octet_byte)
qed

subsection \<open>Multi-addresses\<close>

text \<open>An IPv6 check is a parameter (one regular expression of the code).\<close>

(* src/discoverymgr/discovery_mgr.cpp:67-71 to_multiaddr *)
definition to_multiaddr :: "(string \<Rightarrow> bool) \<Rightarrow> string \<Rightarrow> string" where
  "to_multiaddr is_valid_ipv6 s =
     (if is_valid_ipv4 s then ''/ip4/'' @ s else if is_valid_ipv6 s then ''/ip6/'' @ s else s)"

(* src/discoverymgr/election_mgr.cpp:49-70 multiaddr_segments *)
definition multiaddr_segments :: "string \<Rightarrow> string list" where
  "multiaddr_segments addr =
     (if addr = [] \<or> hd addr \<noteq> CHR ''/'' then [] else filter (\<lambda>x. x \<noteq> []) (split_all (CHR ''/'') (tl addr)))"

text \<open>\<open>std::from_chars\<close> for an \<open>int\<close>: an optional minus and digits; what follows them is not looked at.\<close>

definition int_from_chars :: "string \<Rightarrow> int option" where
  "int_from_chars s =
     (let neg = (s \<noteq> [] \<and> hd s = CHR ''-'');
          ds = takeWhile is_digit (if neg then tl s else s);
          v = (if neg then - int (undec ds) else int (undec ds))
      in if ds \<noteq> [] \<and> - (2 ^ 31) \<le> v \<and> v < 2 ^ 31 then Some v else None)"

(* src/discoverymgr/election_mgr.cpp:71-73 HttpOverIpv4 *)
record http_ipv4 =
  hv_addr :: string
  hv_port :: int

(* src/discoverymgr/election_mgr.cpp:75-101 HttpOverIpv4::from_segments *)
definition from_segments :: "string list \<Rightarrow> http_ipv4 option" where
  "from_segments segs =
     (if length segs \<noteq> 2 \<and> length segs \<noteq> 4 then None
      else if segs ! 0 \<noteq> ''ip4'' then None
      else if \<not> is_valid_ipv4 (segs ! 1) then None
      else if length segs = 4 \<and> segs ! 2 = ''http''
        then (case int_from_chars (segs ! 3) of None \<Rightarrow> None | Some p \<Rightarrow> Some \<lparr>hv_addr = segs ! 1, hv_port = p\<rparr>)
      else Some \<lparr>hv_addr = segs ! 1, hv_port = 8080\<rparr>)"

lemma int_from_chars_dec: "n < 2 ^ 31 \<Longrightarrow> int_from_chars (dec n) = Some (int n)"
proof -
  assume n: "n < 2 ^ 31"
  have d: "takeWhile is_digit (dec n) = dec n" using dec_digits by (simp add: takeWhile_eq_all_conv)
  have "hd (dec n) \<noteq> CHR ''-''"
    using dec_digits [of "hd (dec n)" n] by (auto simp: is_digit_def)
  then show ?thesis using n by (simp add: int_from_chars_def Let_def d)
qed

lemma no_slash [simp]: "CHR ''/'' \<notin> set (dec n)"
  using dec_digits [of "CHR ''/''" n] by (auto simp: is_digit_def)

lemma no_slash_dotted: "CHR ''/'' \<notin> set (dotted a b c d)"
  by (simp add: dotted_def)

text \<open>What is made of a peer's address and port is read back as that address and port; what is made of the remote
  address of a request has the default port.\<close>

lemma peer_address_read:
  assumes "port < 2 ^ 31"
  shows "from_segments (multiaddr_segments (''/ip4/'' @ dotted a b c d @ ''/http/'' @ dec port))
    = Some \<lparr>hv_addr = dotted a b c d, hv_port = int port\<rparr>"
proof -
  have "multiaddr_segments (''/ip4/'' @ dotted a b c d @ ''/http/'' @ dec port) = [''ip4'', dotted a b c d, ''http'', dec port]"
    using no_slash_dotted [of a b c d]
    by (simp add: multiaddr_segments_def split_all_append split_all_single) (simp add: dotted_def)
  moreover have "is_valid_ipv4 (dotted a b c d)" by (auto simp: is_valid_ipv4_def split_dotted is_octet_byte)
  ultimately show ?thesis using int_from_chars_dec [OF assms] by (simp add: from_segments_def)
qed

lemma remote_address_read:
  "from_segments (multiaddr_segments (to_multiaddr v6 (dotted a b c d))) = Some \<lparr>hv_addr = dotted a b c d, hv_port = 8080\<rparr>"
proof -
  have v: "is_valid_ipv4 (dotted a b c d)" by (auto simp: is_valid_ipv4_def split_dotted is_octet_byte)
  have "multiaddr_segments (''/ip4/'' @ dotted a b c d) = [''ip4'', dotted a b c d]"
    using no_slash_dotted [of a b c d]
    by (simp add: multiaddr_segments_def split_all_append split_all_single) (simp add: dotted_def)
  then show ?thesis using v by (simp add: from_segments_def to_multiaddr_def)
qed

subsection \<open>Election messages\<close>

(* include/discoverymgr/election_mgr.hpp:42-51 electionmgr::ElectionMsg *)
record election_msg =
  em_sourceId :: uuid
  em_sourceAddr :: string
  em_type :: string
  em_detail :: json

(* include/discoverymgr/election_mgr.hpp:53-56 electionmgr::ElectionMsgRes *)
datatype election_res = Empty | Reply election_msg | Err string | Timeout

(* include/discoverymgr/election_mgr.hpp:58-60 electionmgr::is_timeout *)
definition is_timeout :: "election_res \<Rightarrow> bool" where
  "is_timeout r = (r = Timeout)"

(* include/discoverymgr/election_mgr.hpp:61-63 electionmgr::is_ok *)
definition res_is_ok :: "election_res \<Rightarrow> bool" where
  "res_is_ok r = (case r of Reply _ \<Rightarrow> True | Empty \<Rightarrow> True | _ \<Rightarrow> False)"

(* src/discoverymgr/election_mgr.cpp:137-142 from_json(ElectionMsg) *)
definition election_msg_from_json :: "text_lib \<Rightarrow> json \<Rightarrow> exn + election_msg" where
  "election_msg_from_json L j =
     rbind (read_required ''sourceId'' (uuid_from_json L) j) (\<lambda>i.
     rbind (read_optional_unless_empty ''sourceAddr'' get_string [] j) (\<lambda>a.
     rbind (read_required ''type'' get_string j) (\<lambda>t.
     rbind (read_optional_unless_empty ''detail'' Inr JNull j) (\<lambda>d.
       Inr \<lparr>em_sourceId = i, em_sourceAddr = a, em_type = t, em_detail = d\<rparr>))))"

(* src/discoverymgr/election_mgr.cpp:143-148 to_json(ElectionMsg) *)
definition election_msg_to_json :: "text_lib \<Rightarrow> election_msg \<Rightarrow> json" where
  "election_msg_to_json L x =
     jput_if (\<not> jempty (em_detail x)) ''detail'' (em_detail x)
       (jput_if (em_sourceAddr x \<noteq> []) ''sourceIddr'' (JStr (em_sourceAddr x))
         (jput ''sourceId'' (uuid_to_json L (em_sourceId x))
           (jput ''type'' (JStr (em_type x)) JNull)))"

(* include/discoverymgr/election_mgr.hpp:35-40 electionmgr::ElectionConfig *)
record election_config =
  ec_method :: string
  ec_params :: json

(* src/discoverymgr/election_mgr.cpp:149-152 from_json(ElectionConfig) *)
definition election_config_from_json :: "json \<Rightarrow> exn + election_config" where
  "election_config_from_json j =
     rbind (read_required ''method'' get_string j) (\<lambda>m.
     rbind (read_optional_unless_empty ''params'' Inr JNull j) (\<lambda>p. Inr \<lparr>ec_method = m, ec_params = p\<rparr>))"

(* src/discoverymgr/election_mgr.cpp:153-156 to_json(ElectionConfig) *)
definition election_config_to_json :: "election_config \<Rightarrow> json" where
  "election_config_to_json x =
     jput_if (\<not> jempty (ec_params x)) ''params'' (ec_params x) (jput ''method'' (JStr (ec_method x)) JNull)"

lemma election_config_roundtrip:
  "(jempty (ec_params x) \<longrightarrow> ec_params x = JNull) \<Longrightarrow> election_config_from_json (election_config_to_json x) = Inr x"
  unfolding election_config_from_json_def election_config_to_json_def
  by (cases "jempty (ec_params x)")
    (simp_all add: read_required_find read_optional_unless_empty_def jput_if_def json_simps del: jput.simps)

text \<open>An election message is read back from its JSON form, except for the address of its sender, which is written
  under a name the reader does not know.\<close>
theorem election_msg_roundtrip:
  assumes "uuid_text_ok L" "jempty (em_detail x) \<longrightarrow> em_detail x = JNull"
  shows "election_msg_from_json L (election_msg_to_json L x) = Inr (x\<lparr>em_sourceAddr := []\<rparr>)"
proof -
  let ?j = "election_msg_to_json L x"
  have o: "is_obj ?j" by (simp add: election_msg_to_json_def)
  have f: "jfind k ?j = (if k = ''detail'' \<and> \<not> jempty (em_detail x) then Some (em_detail x)
      else if k = ''sourceIddr'' \<and> em_sourceAddr x \<noteq> [] then Some (JStr (em_sourceAddr x))
      else if k = ''sourceId'' then Some (uuid_to_json L (em_sourceId x))
      else if k = ''type'' then Some (JStr (em_type x)) else None)" for k
    unfolding election_msg_to_json_def by (simp only: doc_puts)
  show ?thesis
    using assms o
    by (auto simp: election_msg_from_json_def read_required_find f read_optional_unless_empty_def uuid_json_roundtrip)
qed

subsection \<open>The HTTP transport\<close>

text \<open>\<open>httplib::Client(addr, port).Post(path, body)\<close>: a status and a body, or no answer.\<close>

type_synonym http_post = "string \<Rightarrow> int \<Rightarrow> string \<Rightarrow> string \<Rightarrow> (nat \<times> string) option"

text \<open>The payload is made by \<open>nlohmann::json payload{msg}\<close>: braces build an array with one element.\<close>

(* src/discoverymgr/election_mgr.cpp:102-129 HttpOverIpv4::send *)
definition http_send :: "text_lib \<Rightarrow> http_post \<Rightarrow> http_ipv4 \<Rightarrow> election_msg \<Rightarrow> election_res" where
  "http_send L post x msg =
     (let payload = JArr [election_msg_to_json L msg] in
      case post (hv_addr x) (hv_port x) ''/api/team/election-msg'' (dump L payload) of
        None \<Rightarrow> Timeout
      | Some (status, body) \<Rightarrow>
          if status \<noteq> 200 then Timeout
          else if body = [] then Empty
          else (case rbind (parse L body) (election_msg_from_json L) of Inl _ \<Rightarrow> Timeout | Inr res \<Rightarrow> Reply res))"

(* src/discoverymgr/election_mgr.cpp:158-167 impl_send(addr, msg) *)
definition impl_send :: "text_lib \<Rightarrow> http_post \<Rightarrow> string \<Rightarrow> election_msg \<Rightarrow> election_res" where
  "impl_send L post addr msg =
     (let segs = multiaddr_segments addr in
      if segs = [] then Timeout
      else (case from_segments segs of Some h \<Rightarrow> http_send L post h msg | None \<Rightarrow> Timeout))"

(* include/discoverymgr/election_mgr.hpp:30-33 electionmgr::PeerInfo *)
record peer_info =
  pi_id :: uuid
  pi_addresses :: "string list"

text \<open>The set of addresses is a sorted list; it is tried in order until one does not time out.\<close>

fun send_addresses :: "(string \<Rightarrow> election_res) \<Rightarrow> string list \<Rightarrow> election_res" where
  "send_addresses send [] = Timeout"
| "send_addresses send (a # as) = (let r = send a in if is_timeout r then send_addresses send as else r)"

(* src/discoverymgr/election_mgr.cpp:169-175 impl_send(peer, msg) *)
definition impl_send_peer :: "text_lib \<Rightarrow> http_post \<Rightarrow> peer_info \<Rightarrow> election_msg \<Rightarrow> election_res" where
  "impl_send_peer L post p msg = send_addresses (\<lambda>a. impl_send L post a msg) (pi_addresses p)"

text \<open>The receiving end of the transport, up to the handler of the message.\<close>

(* src/discoverymgr/discovery_mgr.cpp:56-65 ElectionMsgResVisitor *)
definition election_reply :: "election_res \<Rightarrow> exn + election_msg option" where
  "election_reply r =
     (case r of
        Empty \<Rightarrow> Inr None
      | Timeout \<Rightarrow> Inl (RuntimeError ''election mgr didn't return valid reply'')
      | Err e \<Rightarrow> Inl (RuntimeError e)
      | Reply m \<Rightarrow> Inr (Some m))"

(* src/discoverymgr/discovery_mgr.cpp:359-374 POST /api/team/election-msg *)
definition api_election_msg ::
  "text_lib \<Rightarrow> (string \<Rightarrow> bool) \<Rightarrow> (election_msg \<Rightarrow> 's \<Rightarrow> (exn + election_res) \<times> 's) \<Rightarrow> string \<Rightarrow> string \<Rightarrow> 's option
    \<Rightarrow> (exn + string) \<times> 's option" where
  "api_election_msg L v6 handler remote_addr body mgr =
     (case mgr of
        None \<Rightarrow> (Inl (RuntimeError ''election mgr is not initialized''), mgr)
      | Some m \<Rightarrow>
          (case rbind (parse L body) (election_msg_from_json L) of
             Inl e \<Rightarrow> (Inl e, mgr)
           | Inr msg \<Rightarrow>
               (let (r, m') = handler (msg\<lparr>em_sourceAddr := to_multiaddr v6 remote_addr\<rparr>) m in
                (rbind r (\<lambda>res. rbind (election_reply res) (\<lambda>op.
                   Inr (case op of None \<Rightarrow> [] | Some x \<Rightarrow> dump L (election_msg_to_json L x)))), Some m'))))"

text \<open>C38: the transport and the endpoint do not fit: the endpoint reads an object and is sent an array. A framework that
  serves the endpoint answers every message of the transport with an error and keeps its state, and every send is
  a timeout, whatever its election manager would have done.\<close>
theorem election_messages_never_arrive:
  assumes "json_text_ok L (JArr [election_msg_to_json L msg])"
    and "post = (\<lambda>a p path body. case fst (api_election_msg L v6 handler remote body mgr) of
           Inr text \<Rightarrow> Some (200, text) | Inl e \<Rightarrow> Some (status_of e, what e))"
    and "\<nexists>e. status_of e = 200"
  shows "impl_send L post addr msg = Timeout
    \<and> snd (api_election_msg L v6 handler remote (dump L (JArr [election_msg_to_json L msg])) mgr) = mgr"
proof -
  let ?body = "dump L (JArr [election_msg_to_json L msg])"
  have j: "election_msg_from_json L (JArr [election_msg_to_json L msg]) = Inl (JsonError ''[json.exception.type_error.304] cannot use at() with array'')"
    by (simp add: election_msg_from_json_def read_required_def)
  have a: "\<exists>e. api_election_msg L v6 handler remote ?body mgr = (Inl e, mgr)"
    using j assms(1) by (cases mgr) (simp_all add: api_election_msg_def parse_dump)
  then obtain e where e: "api_election_msg L v6 handler remote ?body mgr = (Inl e, mgr)" by blast
  then have "http_send L post h msg = Timeout" for h
    using assms(2,3) by (simp add: http_send_def)
  then have "impl_send L post addr msg = Timeout" by (simp add: impl_send_def Let_def split: option.split)
  then show ?thesis using e by simp
qed

definition sample_ping :: election_msg where
  "sample_ping = \<lparr>em_sourceId = 3, em_sourceAddr = ''/ip4/10.0.0.3'', em_type = ''bully.ping'', em_detail = JObj [(''weight'', JNum 2)]\<rparr>"

lemma election_msg_roundtrip_witness:
  "election_msg_from_json decimal_lib (election_msg_to_json decimal_lib sample_ping) = Inr (sample_ping\<lparr>em_sourceAddr := []\<rparr>)"
  by (rule election_msg_roundtrip) (simp_all add: sample_ping_def)

lemma election_messages_never_arrive_witness:
  "\<exists>L post. impl_send L post ''/ip4/10.0.0.7'' sample_ping = Timeout \<and> post [] 0 [] [] = Some (500, ''election mgr is not initialized'')"
proof -
  define L where "L = decimal_lib\<lparr>parse := \<lambda>s. Inr (JArr [election_msg_to_json decimal_lib sample_ping])\<rparr>"
  have "uuid_to_json L = uuid_to_json decimal_lib" by (simp add: fun_eq_iff uuid_to_json_def L_def)
  then have "election_msg_to_json L sample_ping = election_msg_to_json decimal_lib sample_ping"
    by (simp add: election_msg_to_json_def del: jput.simps)
  then have ok: "json_text_ok L (JArr [election_msg_to_json L sample_ping])" by (simp add: json_text_ok_def L_def)
  let ?h = "\<lambda>m s. (Inr Empty, s) :: (exn + election_res) \<times> unit"
  let ?post = "\<lambda>(a::string) (p::int) (path::string) body. case fst (api_election_msg L (\<lambda>s. False) ?h ''10.0.0.3'' body None) of
     Inr text \<Rightarrow> Some (200 :: nat, text) | Inl e \<Rightarrow> Some (500, what e)"
  from election_messages_never_arrive [OF ok refl, of "\<lambda>e. 500" "\<lambda>s. False" ?h "''10.0.0.3''" None "''/ip4/10.0.0.7''"]
  have "impl_send L ?post ''/ip4/10.0.0.7'' sample_ping = Timeout" by simp
  moreover have "?post [] 0 [] [] = Some (500, ''election mgr is not initialized'')" by (simp add: api_election_msg_def)
  ultimately show ?thesis by blast
qed

end
