(* ===== verification/Bully.thy ===== *)
theory Bully
  imports Network
begin

section \<open>Electing a leader\<close>

text \<open>
  \<open>src/discoverymgr/election_methods/bully.cpp\<close>: one node of the bully election. Its state is the record \<open>bully\<close>; its
  handlers answer the messages of other nodes, and \<open>work_round\<close> is one pass of the working thread between two sleeps.
  The answers of other nodes during a round are a parameter; the round returns the state, the messages it sent and those
  it broadcast. The hash map of peers is a map sorted by id: only the order of the victory messages of one round depends
  on it. The lock makes each handler and each round one step.
\<close>

subsection \<open>Keys\<close>

(* src/discoverymgr/election_methods/bully.cpp:35-37 Key *)
datatype bully_key = Key (bk_id: uuid) (bk_weight: int)

instantiation bully_key :: linorder
begin

definition less_bully_key_def:
  "a < b \<longleftrightarrow> bk_weight a < bk_weight b \<or> (bk_weight a = bk_weight b \<and> bk_id a < bk_id b)"

definition less_eq_bully_key_def:
  "(a :: bully_key) \<le> b \<longleftrightarrow> a < b \<or> a = b"

instance
proof
  fix a b c :: bully_key
  show "a < b \<longleftrightarrow> a \<le> b \<and> \<not> b \<le> a" "a \<le> a" "a \<le> b \<Longrightarrow> b \<le> c \<Longrightarrow> a \<le> c" "a \<le> b \<Longrightarrow> b \<le> a \<Longrightarrow> a = b" "a \<le> b \<or> b \<le> a"
    by (cases a; cases b; cases c; auto simp: less_bully_key_def less_eq_bully_key_def)+
qed

end

text \<open>The comparison of the code, on keys and on peers.\<close>

(* src/discoverymgr/election_methods/bully.cpp:38-42 Key::operator< *)
definition key_less :: "bully_key \<Rightarrow> bully_key \<Rightarrow> bool" where
  "key_less a b = (if bk_weight a < bk_weight b then True else if bk_weight a = bk_weight b then bk_id a < bk_id b else False)"

(* src/discoverymgr/election_methods/bully.cpp:48-50 ExtPeerInfo *)
record ext_peer =
  ep_pinfo :: peer_info
  ep_weight :: int

(* src/discoverymgr/election_methods/bully.cpp:51-55 ExtPeerInfo::operator< *)
definition peer_less :: "ext_peer \<Rightarrow> bully_key \<Rightarrow> bool" where
  "peer_less p k = (if ep_weight p < bk_weight k then True
     else if ep_weight p = bk_weight k then pi_id (ep_pinfo p) < bk_id k else False)"

definition ep_key :: "ext_peer \<Rightarrow> bully_key" where
  "ep_key p = Key (pi_id (ep_pinfo p)) (ep_weight p)"

lemma key_less_iff [simp]: "key_less a b \<longleftrightarrow> a < b"
  by (simp add: key_less_def less_bully_key_def)

lemma peer_less_iff [simp]: "peer_less p k \<longleftrightarrow> ep_key p < k"
  by (simp add: peer_less_def ep_key_def less_bully_key_def)

(* src/discoverymgr/election_methods/bully.cpp:44-46 Key::from_msg *)
definition key_from_msg :: "election_msg \<Rightarrow> exn + bully_key" where
  "key_from_msg msg = rbind (rbind (jvalue ''weight'' (JNum 0) (em_detail msg)) get_int) (\<lambda>w. Inr (Key (em_sourceId msg) w))"

subsection \<open>State\<close>

(* src/discoverymgr/election_methods/bully.cpp:57-72 Bully *)
record bully =
  b_key :: bully_key
  b_min_interval :: int
  b_max_interval :: int
  b_peers :: "(uuid, ext_peer) omap"
  b_current_leader :: "ext_peer option"
  b_running :: bool
  b_thread :: bool

(* src/discoverymgr/election_methods/bully.cpp:78-81 Bully::leader *)
definition leader :: "bully \<Rightarrow> peer_info option" where
  "leader B = map_option ep_pinfo (b_current_leader B)"

(* include/discoverymgr/election_mgr.hpp:95-99 electionmgr::self_is_leader *)
definition self_is_leader :: "bully \<Rightarrow> bool" where
  "self_is_leader B = (case leader B of None \<Rightarrow> False | Some l \<Rightarrow> pi_id l = bk_id (b_key B))"

text \<open>\<open>operator[]\<close> of the map makes an empty entry for a new key.\<close>

definition peer_at :: "uuid \<Rightarrow> bully \<Rightarrow> ext_peer" where
  "peer_at i B = (case map_of (b_peers B) i of
     Some p \<Rightarrow> p | None \<Rightarrow> \<lparr>ep_pinfo = \<lparr>pi_id = 0, pi_addresses = []\<rparr>, ep_weight = 0\<rparr>)"

text \<open>The entry is made before the weight is read, and stays when reading it throws.\<close>

(* src/discoverymgr/election_methods/bully.cpp:82-87 Bully::add_peers *)
definition add_peers :: "election_msg \<Rightarrow> bully \<Rightarrow> (exn + unit) \<times> bully" where
  "add_peers msg B =
     (let i = em_sourceId msg;
          p = peer_at i B;
          p1 = p\<lparr>ep_pinfo := \<lparr>pi_id = i, pi_addresses = insort_insert (em_sourceAddr msg) (pi_addresses (ep_pinfo p))\<rparr>\<rparr>
      in case key_from_msg msg of
           Inl e \<Rightarrow> (Inl e, B\<lparr>b_peers := oput i p1 (b_peers B)\<rparr>)
         | Inr k \<Rightarrow> (Inr (), B\<lparr>b_peers := oput i (p1\<lparr>ep_weight := bk_weight k\<rparr>) (b_peers B)\<rparr>))"

definition set_leader :: "uuid \<Rightarrow> bully \<Rightarrow> bully" where
  "set_leader i B = B\<lparr>b_current_leader := Some (peer_at i B)\<rparr>"

subsection \<open>Messages\<close>

definition pong :: "bully \<Rightarrow> election_res" where
  "pong B = Reply \<lparr>em_sourceId = bk_id (b_key B), em_sourceAddr = [], em_type = ''bully.pong'', em_detail = JNull\<rparr>"

(* src/discoverymgr/election_methods/bully.cpp:99-111 Bully::on_msg_victory *)
definition on_msg_victory :: "election_msg \<Rightarrow> bully_key \<Rightarrow> bully \<Rightarrow> election_res \<times> bully" where
  "on_msg_victory msg other B =
     (if key_less other (b_key B) then (Empty, B) else (Empty, set_leader (em_sourceId msg) B))"

definition leader_not_less :: "bully \<Rightarrow> bully_key \<Rightarrow> bool" where
  "leader_not_less B other = (case b_current_leader B of None \<Rightarrow> False | Some l \<Rightarrow> \<not> peer_less l other)"

(* src/discoverymgr/election_methods/bully.cpp:112-127 Bully::on_msg_ping *)
definition on_msg_ping :: "election_msg \<Rightarrow> bully_key \<Rightarrow> bully \<Rightarrow> election_res \<times> bully" where
  "on_msg_ping msg other B =
     (if key_less other (b_key B) then (Empty, B)
      else if leader_not_less B other then (pong B, B)
      else (pong B, set_leader (em_sourceId msg) B))"

(* src/discoverymgr/election_methods/bully.cpp:128-143 Bully::on_msg_challange *)
definition on_msg_challange :: "election_msg \<Rightarrow> bully_key \<Rightarrow> bully \<Rightarrow> election_res \<times> bully" where
  "on_msg_challange msg other B =
     (if key_less other (b_key B) then (Empty, B)
      else if leader_not_less B other then (pong B, B)
      else (pong B, set_leader (em_sourceId msg) B))"

(* src/discoverymgr/election_methods/bully.cpp:89-98 Bully::on_election_message *)
definition on_election_message :: "election_msg \<Rightarrow> bully \<Rightarrow> (exn + election_res) \<times> bully" where
  "on_election_message msg B =
     (if \<not> b_running B then (Inr Timeout, B)
      else
        (let (r, B1) = add_peers msg B in
         case (r, key_from_msg msg) of
           (Inl e, _) \<Rightarrow> (Inl e, B1)
         | (_, Inl e) \<Rightarrow> (Inl e, B1)
         | (_, Inr other) \<Rightarrow>
             (let (res, B2) =
                (if em_type msg = ''bully.victory'' then on_msg_victory msg other B1
                 else if em_type msg = ''bully.ping'' then on_msg_ping msg other B1
                 else if em_type msg = ''bully.challange'' then on_msg_challange msg other B1
                 else (Err (''invalid msg type '' @ em_type msg), B1))
              in (Inr res, B2))))"

subsection \<open>The working thread\<close>

(* src/discoverymgr/election_methods/bully.cpp:146-150 Bully::start *)
definition start :: "bully \<Rightarrow> bully" where
  "start B = (if b_thread B then B else B\<lparr>b_running := True, b_thread := True\<rparr>)"

(* src/discoverymgr/election_methods/bully.cpp:151-158 Bully::finish *)
definition finish :: "bully \<Rightarrow> bully" where
  "finish B = B\<lparr>b_running := False, b_thread := False, b_current_leader := None, b_peers := []\<rparr>"

definition msg_with_weight :: "string \<Rightarrow> bully_key \<Rightarrow> election_msg" where
  "msg_with_weight ty k = \<lparr>em_sourceId = bk_id k, em_sourceAddr = [], em_type = ty, em_detail = jobject [(''weight'', JNum (bk_weight k))]\<rparr>"

(* src/discoverymgr/election_methods/bully.cpp:160-162 Bully::make_msg_ping *)
definition make_msg_ping :: "bully \<Rightarrow> election_msg" where
  "make_msg_ping B = msg_with_weight ''bully.ping'' (b_key B)"

(* src/discoverymgr/election_methods/bully.cpp:163-165 Bully::make_msg_victory *)
definition make_msg_victory :: "bully \<Rightarrow> election_msg" where
  "make_msg_victory B = msg_with_weight ''bully.victory'' (b_key B)"

text \<open>What is sent while the addresses of a peer are tried.\<close>

fun sent_addresses :: "(string \<Rightarrow> election_res) \<Rightarrow> string list \<Rightarrow> string list" where
  "sent_addresses send [] = []"
| "sent_addresses send (a # as) = a # (if is_timeout (send a) then sent_addresses send as else [])"

(* src/discoverymgr/election_methods/bully.cpp:229-238 Bully::send_victory *)
definition send_victory :: "(string \<Rightarrow> election_msg \<Rightarrow> election_res) \<Rightarrow> bully \<Rightarrow> peer_info \<Rightarrow> bool" where
  "send_victory send B p = (\<not> is_timeout (send_addresses (\<lambda>a. send a (make_msg_victory B)) (pi_addresses p)))"

(* src/discoverymgr/election_methods/bully.cpp:239-249 Bully::send_ping *)
definition send_ping :: "(string \<Rightarrow> election_msg \<Rightarrow> election_res) \<Rightarrow> bully \<Rightarrow> peer_info \<Rightarrow> election_res" where
  "send_ping send B p = send_addresses (\<lambda>a. send a (make_msg_ping B)) (pi_addresses p)"

(* src/discoverymgr/election_methods/bully.cpp:250-256 Bully::is_biggest_in_peers *)
definition is_biggest_in_peers :: "bully \<Rightarrow> bool" where
  "is_biggest_in_peers B = list_all (\<lambda>(i, p). peer_less p (b_key B)) (b_peers B)"

text \<open>The largest id decides; the weights are not compared.\<close>

fun max_id_loop :: "(uuid, ext_peer) omap \<Rightarrow> uuid \<Rightarrow> ext_peer \<Rightarrow> ext_peer" where
  "max_id_loop [] res_id res = res"
| "max_id_loop ((i, p) # ps) res_id res =
     (if res_id = 0 then max_id_loop ps i p
      else if i < res_id then max_id_loop ps res_id res
      else max_id_loop ps i p)"

(* src/discoverymgr/election_methods/bully.cpp:257-274 Bully::max_id_in_peers *)
definition max_id_in_peers :: "bully \<Rightarrow> ext_peer option" where
  "max_id_in_peers B =
     (if b_peers B = [] then None
      else Some (max_id_loop (b_peers B) 0 \<lparr>ep_pinfo = \<lparr>pi_id = 0, pi_addresses = []\<rparr>, ep_weight = 0\<rparr>))"

definition self_entry :: "bully \<Rightarrow> ext_peer" where
  "self_entry B = \<lparr>ep_pinfo = \<lparr>pi_id = bk_id (b_key B), pi_addresses = []\<rparr>, ep_weight = bk_weight (b_key B)\<rparr>"

type_synonym round_result = "bully \<times> (string \<times> election_msg) list \<times> election_msg list"

definition tried :: "(string \<Rightarrow> election_msg \<Rightarrow> election_res) \<Rightarrow> election_msg \<Rightarrow> peer_info \<Rightarrow> (string \<times> election_msg) list" where
  "tried send msg p = map (\<lambda>a. (a, msg)) (sent_addresses (\<lambda>a. send a msg) (pi_addresses p))"

text \<open>The leader tells every peer and forgets those it cannot reach.\<close>

(* src/discoverymgr/election_methods/bully.cpp:171-180 Bully::work_working (leader) *)
definition round_as_leader :: "(string \<Rightarrow> election_msg \<Rightarrow> election_res) \<Rightarrow> bully \<Rightarrow> round_result" where
  "round_as_leader send B =
     (B\<lparr>b_peers := filter (\<lambda>(i, p). send_victory send B (ep_pinfo p)) (b_peers B)\<rparr>,
      concat (map (\<lambda>(i, p). tried send (make_msg_victory B) (ep_pinfo p)) (b_peers B)), [])"

text \<open>A follower pings its leader; when the leader does not answer it is forgotten and another one chosen.\<close>

(* src/discoverymgr/election_methods/bully.cpp:185-203 Bully::work_working (leader down) *)
definition replace_leader :: "bully \<Rightarrow> ext_peer \<Rightarrow> bully \<times> election_msg list" where
  "replace_leader B l =
     (let B1 = B\<lparr>b_peers := odel (pi_id (ep_pinfo l)) (b_peers B)\<rparr> in
      if is_biggest_in_peers B1 then (B1\<lparr>b_current_leader := Some (self_entry B1)\<rparr>, [make_msg_ping B1])
      else if b_peers B1 \<noteq> [] then (B1\<lparr>b_current_leader := max_id_in_peers B1\<rparr>, [])
      else (B1, []))"

(* src/discoverymgr/election_methods/bully.cpp:166-217 Bully::work_working *)
definition work_round :: "(string \<Rightarrow> election_msg \<Rightarrow> election_res) \<Rightarrow> bully \<Rightarrow> round_result" where
  "work_round send B =
     (let (B', sent, cast) =
        (if self_is_leader B then round_as_leader send B
         else (case b_current_leader B of
             Some l \<Rightarrow>
               (let ping = tried send (make_msg_ping B) (ep_pinfo l) in
                if res_is_ok (send_ping send B (ep_pinfo l)) then (B, ping, [])
                else (let (B1, cast) = replace_leader B l in (B1, ping, cast)))
           | None \<Rightarrow> (B\<lparr>b_current_leader := Some (self_entry B)\<rparr>, [], [])))
      in (B', sent, cast @ [make_msg_ping B']))"

subsection \<open>Configuration\<close>

text \<open>\<open>(\d+(\.\d+)?)(ms|s|m|min|h)\<close>: a number and a unit. The number is converted by \<open>std::stod\<close> and multiplied in
  floating point, which is the parameter \<open>scaled\<close>: the text and the factor to the truncated product.\<close>

definition split_number :: "string \<Rightarrow> (string \<times> string) option" where
  "split_number s =
     (let ds = takeWhile is_digit s; r = dropWhile is_digit s;
          fs = takeWhile is_digit (tl r)
      in if ds = [] then None
         else if r \<noteq> [] \<and> hd r = CHR ''.'' \<and> fs \<noteq> [] then Some (ds @ ''.'' @ fs, dropWhile is_digit (tl r))
         else Some (ds, r))"

(* src/discoverymgr/election_methods/bully.cpp:278-300 parse_time_duration *)
definition parse_time_duration :: "(string \<Rightarrow> int \<Rightarrow> int) \<Rightarrow> string \<Rightarrow> exn + int" where
  "parse_time_duration scaled duration =
     (case split_number duration of
        None \<Rightarrow> Inl (InvalidArgument ''Invalid time duration format'')
      | Some (num, unit) \<Rightarrow>
          if unit = ''ms'' then Inr (scaled num 1)
          else if unit = ''s'' then Inr (scaled num 1000)
          else if unit = ''m'' \<or> unit = ''min'' then Inr (scaled num 60000)
          else if unit = ''h'' then Inr (scaled num 3600000)
          else Inl (InvalidArgument ''Invalid time duration format''))"

definition read_duration :: "(string \<Rightarrow> int \<Rightarrow> int) \<Rightarrow> json \<Rightarrow> string \<Rightarrow> int \<Rightarrow> exn + int" where
  "read_duration scaled params k dest =
     (case jfind k params of
        None \<Rightarrow> Inr dest
      | Some (JNum n) \<Rightarrow> Inr n
      | Some (JStr s) \<Rightarrow> parse_time_duration scaled s
      | Some _ \<Rightarrow> Inr dest)"

(* src/discoverymgr/election_methods/bully.cpp:304-345 make_election_mgr_bully *)
definition make_election_mgr_bully :: "(string \<Rightarrow> int \<Rightarrow> int) \<Rightarrow> uuid \<Rightarrow> json \<Rightarrow> exn + bully" where
  "make_election_mgr_bully scaled self_id params =
     rbind (rbind (jvalue ''weight'' (JNum 0) params) get_int) (\<lambda>w.
       let (mn, mx) =
         (case rbind (read_duration scaled params ''minInterval'' 6000) (\<lambda>mn.
               rbind (read_duration scaled params ''maxInterval'' 10000) (\<lambda>mx.
                 if mn > mx then Inl (InvalidArgument ''expectd minInterval <= maxInterval'') else Inr (mn, mx))) of
            Inr p \<Rightarrow> p | Inl _ \<Rightarrow> (6000, 12000))
       in Inr \<lparr>b_key = Key self_id w, b_min_interval = mn, b_max_interval = mx, b_peers = [], b_current_leader = None,
               b_running = False, b_thread = False\<rparr>)"

(* src/discoverymgr/election_mgr.cpp:34-47 ElectionManager::from_config *)
definition election_from_config :: "(string \<Rightarrow> int \<Rightarrow> int) \<Rightarrow> string \<Rightarrow> uuid \<Rightarrow> json \<Rightarrow> bool \<Rightarrow> exn + bully option" where
  "election_from_config scaled meth self_id params has_interface =
     (if \<not> has_interface then Inr None
      else if meth = ''bully'' then rbind (make_election_mgr_bully scaled self_id params) (\<lambda>b. Inr (Some b))
      else Inl (InvalidArgument (''invalid election method '' @ meth)))"

subsection \<open>Receiving pings\<close>

definition leader_key :: "bully \<Rightarrow> bully_key option" where
  "leader_key B = map_option ep_key (b_current_leader B)"

definition receive :: "election_msg \<Rightarrow> bully \<Rightarrow> bully" where
  "receive msg B = snd (on_election_message msg B)"

definition ping_from :: "bully_key \<Rightarrow> string \<Rightarrow> election_msg" where
  "ping_from k a = (msg_with_weight ''bully.ping'' k)\<lparr>em_sourceAddr := a\<rparr>"

definition int_weight :: "bully_key \<Rightarrow> bool" where
  "int_weight k = (- (2 ^ 31) \<le> bk_weight k \<and> bk_weight k < 2 ^ 31)"

definition fresh_bully :: "bully_key \<Rightarrow> bully" where
  "fresh_bully k = \<lparr>b_key = k, b_min_interval = 6000, b_max_interval = 10000, b_peers = [], b_current_leader = None,
     b_running = False, b_thread = False\<rparr>"

lemma key_from_ping: "int_weight k \<Longrightarrow> key_from_msg (ping_from k a) = Inr k"
  by (simp add: key_from_msg_def ping_from_def msg_with_weight_def jobject_def to_int32_id int_weight_def)

text \<open>The leader after a ping is the greater of the old leader and the sender, if the sender is not below this node.\<close>

definition raise_leader :: "bully_key \<Rightarrow> bully_key \<Rightarrow> bully_key option \<Rightarrow> bully_key option" where
  "raise_leader own k l = (if k < own then l else (case l of None \<Rightarrow> Some k | Some l' \<Rightarrow> Some (max l' k)))"

lemma add_peers_fields:
  "b_key (snd (add_peers msg B)) = b_key B" "b_running (snd (add_peers msg B)) = b_running B"
  "b_current_leader (snd (add_peers msg B)) = b_current_leader B"
  by (simp_all add: add_peers_def Let_def split: sum.split)

lemma add_peers_peer:
  "key_from_msg msg = Inr k \<Longrightarrow> ep_key (peer_at (em_sourceId msg) (snd (add_peers msg B))) = k"
  by (auto simp: add_peers_def peer_at_def ep_key_def key_from_msg_def result_simps Let_def)

lemma receive_fields [simp]: "b_key (receive msg B) = b_key B" "b_running (receive msg B) = b_running B"
proof -
  obtain r B1 where a: "add_peers msg B = (r, B1)" by fastforce
  then have "b_key B1 = b_key B" "b_running B1 = b_running B" using add_peers_fields [of msg B] by auto
  then show "b_key (receive msg B) = b_key B" "b_running (receive msg B) = b_running B"
    using a by (auto simp: receive_def on_election_message_def on_msg_victory_def on_msg_ping_def on_msg_challange_def set_leader_def
        split: sum.split)
qed

lemma receive_ping:
  assumes "b_running B" "int_weight k"
  shows "leader_key (receive (ping_from k a) B) = raise_leader (b_key B) k (leader_key B)"
proof -
  let ?m = "ping_from k a"
  have key: "key_from_msg ?m = Inr k" by (rule key_from_ping [OF assms(2)])
  obtain B1 where B1: "add_peers ?m B = (Inr (), B1)"
    using key by (auto simp: add_peers_def Let_def)
  then have f: "b_key B1 = b_key B" "b_current_leader B1 = b_current_leader B"
    and p: "ep_key (peer_at (em_sourceId ?m) B1) = k"
    using add_peers_fields [of ?m B] add_peers_peer [OF key, of B] by auto
  have t: "em_type ?m = ''bully.ping''" by (simp add: ping_from_def msg_with_weight_def)
  have "receive ?m B = snd (on_msg_ping ?m k B1)"
    using assms(1) key B1 t by (simp add: receive_def on_election_message_def split: prod.split)
  then show ?thesis
    using f p by (cases "b_current_leader B")
      (auto simp: on_msg_ping_def leader_not_less_def leader_key_def raise_leader_def set_leader_def max_def)
qed

lemma raise_leaders:
  "fold (raise_leader own) ks None = (if {x \<in> set ks. own \<le> x} = {} then None else Some (Max {x \<in> set ks. own \<le> x}))"
proof (induction ks rule: rev_induct)
  case (snoc k ks)
  let ?S = "{x \<in> set ks. own \<le> x}"
  have f: "fold (raise_leader own) (ks @ [k]) None = raise_leader own k (if ?S = {} then None else Some (Max ?S))"
    using snoc by simp
  have S: "{x \<in> set (ks @ [k]). own \<le> x} = (if own \<le> k then insert k ?S else ?S)" by auto
  show ?case
  proof (cases "own \<le> k")
    case True
    then show ?thesis
      unfolding f S by (cases "?S = {}") (simp_all only: if_True if_False insert_not_empty raise_leader_def, auto simp: not_less max.commute)
  next
    case False
    then show ?thesis unfolding f S by (auto simp: raise_leader_def not_le)
  qed
qed simp

lemma receive_pings:
  assumes "b_running B" "\<And>k a. (k, a) \<in> set ps \<Longrightarrow> int_weight k"
  shows "leader_key (fold receive (map (\<lambda>(k, a). ping_from k a) ps) B) = fold (raise_leader (b_key B)) (map fst ps) (leader_key B)
    \<and> b_key (fold receive (map (\<lambda>(k, a). ping_from k a) ps) B) = b_key B"
  using assms
proof (induction ps arbitrary: B)
  case (Cons e ps)
  obtain k a where e: "e = (k, a)" by (cases e)
  have w: "int_weight k" by (rule Cons.prems(2) [of k a]) (simp add: e)
  have tail: "int_weight k'" if "(k', a') \<in> set ps" for k' a' by (rule Cons.prems(2) [of k' a']) (simp add: that)
  then show ?case
    using Cons.IH [of "receive (ping_from k a) B"] Cons.prems(1) tail e receive_ping [OF Cons.prems(1) w, of a] by simp
qed simp

text \<open>C9: in a group of nodes of which each hears the pings of all others, in any order and any number of times, every
  node but the greatest has the greatest (by weight, then by id) as its leader, and the greatest names itself leader in
  its next round: all agree.\<close>
theorem pings_agree_on_maximum:
  assumes "finite K" "k \<in> K" "\<forall>x\<in>K. int_weight x" "b_key B = k" "b_running B" "b_current_leader B = None"
    and "set (map fst ps) = K - {k}" "B' = fold receive (map (\<lambda>(x, a). ping_from x a) ps) B"
  shows "if k = Max K then leader_key B' = None \<and> leader_key (fst (work_round send B')) = Some (Max K)
         else leader_key B' = Some (Max K)"
proof -
  let ?S = "{x \<in> set (map fst ps). k \<le> x}"
  have w: "int_weight x" if "(x, a) \<in> set ps" for x a
  proof -
    have "x \<in> set (map fst ps)" using that by force
    then show ?thesis using assms(3,7) by auto
  qed
  have r: "leader_key B' = (if ?S = {} then None else Some (Max ?S))" "b_key B' = k"
    using receive_pings [OF assms(5) w, of ps] assms(4,6,8) raise_leaders [of k "map fst ps"] by (simp_all add: leader_key_def)
  show ?thesis
  proof (cases "k = Max K")
    case True
    then have "?S = {}" using assms(1,7) by (auto dest: Max_ge)
    then have none: "leader_key B' = None" using r by simp
    then have "b_current_leader B' = None" by (simp add: leader_key_def)
    then have "leader_key (fst (work_round send B')) = Some k"
      using r(2) by (simp add: work_round_def self_is_leader_def leader_def leader_key_def self_entry_def ep_key_def)
    then show ?thesis using none True by simp
  next
    case False
    have "k \<le> Max K" "Max K \<in> K" using assms(1,2) by (auto intro: Max_ge Max_in)
    then have "Max K \<in> ?S" using False assms(7) by auto
    moreover have "Max ?S = Max K"
      using \<open>Max K \<in> ?S\<close> assms(1,7) by (intro Max_eqI) auto
    ultimately have "leader_key B' = Some (Max K)" using r(1) by (metis empty_iff)
    then show ?thesis using False by simp
  qed
qed

lemma pings_agree_on_maximum_witness:
  "leader_key (fold receive [ping_from (Key 5 2) ''/ip4/10.0.0.5'', ping_from (Key 1 9) ''/ip4/10.0.0.1'']
     (start (fresh_bully (Key 3 4)))) = Some (Key 1 9)"
proof -
  have M: "Max {Key 3 4, Key 5 2, Key 1 9} = Key 1 9" by (simp add: max_def less_eq_bully_key_def less_bully_key_def)
  show ?thesis
    using pings_agree_on_maximum [of "{Key 3 4, Key 5 2, Key 1 9}" "Key 3 4" "start (fresh_bully (Key 3 4))"
        "[(Key 5 2, ''/ip4/10.0.0.5''), (Key 1 9, ''/ip4/10.0.0.1'')]" _ "\<lambda>a m. Timeout", OF _ _ _ _ _ _ _ refl]
    by (auto simp: M int_weight_def start_def fresh_bully_def)
qed

subsection \<open>Losing the leader\<close>

lemma max_id_loop_ge:
  "\<forall>(i, p)\<in>set ps. pi_id (ep_pinfo p) = i \<Longrightarrow> pi_id (ep_pinfo res) = r \<Longrightarrow>
   r \<le> pi_id (ep_pinfo (max_id_loop ps r res)) \<and> (\<forall>(i, p)\<in>set ps. i \<le> pi_id (ep_pinfo (max_id_loop ps r res)))"
proof (induction ps r res rule: max_id_loop.induct)
  case (2 i p ps r res)
  have ids: "\<forall>(i, p)\<in>set ps. pi_id (ep_pinfo p) = i" "pi_id (ep_pinfo p) = i" using 2(4) by auto
  consider (zero) "r = 0" | (less) "r \<noteq> 0" "i < r" | (more) "r \<noteq> 0" "\<not> i < r" by blast
  then show ?case
  proof cases
    case zero
    then show ?thesis using 2(1) [OF zero ids] by simp
  next
    case less
    let ?m = "pi_id (ep_pinfo (max_id_loop ps r res))"
    have m: "r \<le> ?m" "\<forall>(i, p)\<in>set ps. i \<le> ?m" using 2(2) [OF less ids(1) 2(5)] by simp_all
    then have "i \<le> ?m" using less(2) by simp
    then show ?thesis using m less by simp
  next
    case more
    let ?m = "pi_id (ep_pinfo (max_id_loop ps i p))"
    have m: "i \<le> ?m" "\<forall>(i, p)\<in>set ps. i \<le> ?m" using 2(3) [OF more ids] by simp_all
    then have "r \<le> ?m" using more(2) by simp
    then show ?thesis using m more by simp
  qed
qed simp

lemma max_id_loop_in: "max_id_loop ps r res = res \<or> (\<exists>i. (i, max_id_loop ps r res) \<in> set ps)"
  by (induction ps r res rule: max_id_loop.induct) auto

definition peers_ok :: "bully \<Rightarrow> bool" where
  "peers_ok B = (\<forall>(i, p)\<in>set (b_peers B). pi_id (ep_pinfo p) = i)"

lemma max_id_in_peers_spec:
  assumes "peers_ok B" "b_peers B \<noteq> []"
  obtains p where "max_id_in_peers B = Some p" "(pi_id (ep_pinfo p), p) \<in> set (b_peers B)"
    "\<And>i q. (i, q) \<in> set (b_peers B) \<Longrightarrow> i \<le> pi_id (ep_pinfo p)"
proof -
  obtain i0 p0 ps where ps: "b_peers B = (i0, p0) # ps" using assms(2) by (cases "b_peers B") auto
  have m: "max_id_in_peers B = Some (max_id_loop ps i0 p0)" using ps by (simp add: max_id_in_peers_def)
  have id0: "pi_id (ep_pinfo p0) = i0" and ids: "\<forall>(i, p)\<in>set ps. pi_id (ep_pinfo p) = i"
    using assms(1) ps by (auto simp: peers_ok_def)
  have ge: "i0 \<le> pi_id (ep_pinfo (max_id_loop ps i0 p0))" "\<forall>(i, p)\<in>set ps. i \<le> pi_id (ep_pinfo (max_id_loop ps i0 p0))"
    using max_id_loop_ge [OF ids id0] by auto
  have "(pi_id (ep_pinfo (max_id_loop ps i0 p0)), max_id_loop ps i0 p0) \<in> set (b_peers B)"
    using max_id_loop_in [of ps i0 p0] id0 ids ps by auto
  then show thesis using that m ge ps by fastforce
qed

text \<open>C11: when the leader does not answer, it is forgotten; a node greater than all peers it still knows names itself and
  broadcasts at once, any other takes the known peer with the greatest id, whatever the weights.\<close>
theorem failover_result:
  assumes "b_current_leader B = Some l" "pi_id (ep_pinfo l) \<noteq> bk_id (b_key B)"
    and "\<not> res_is_ok (send_ping send B (ep_pinfo l))" "peers_ok B"
    and "P = snd ` set (odel (pi_id (ep_pinfo l)) (b_peers B))" "work_round send B = (B', sent, cast)"
  shows "if \<forall>p\<in>P. ep_key p < b_key B
         then leader_key B' = Some (b_key B) \<and> cast = [make_msg_ping B, make_msg_ping B]
         else \<exists>p\<in>P. b_current_leader B' = Some p \<and> cast = [make_msg_ping B]
                \<and> (\<nexists>q. q \<in> P \<and> pi_id (ep_pinfo p) < pi_id (ep_pinfo q))"
proof -
  define B1 where "B1 = B\<lparr>b_peers := odel (pi_id (ep_pinfo l)) (b_peers B)\<rparr>"
  have ping: "make_msg_ping (X\<lparr>b_current_leader := c\<rparr>) = make_msg_ping X" "make_msg_ping B1 = make_msg_ping B" for X c
    by (simp_all add: make_msg_ping_def B1_def)
  have B': "B' = fst (replace_leader B l)" "cast = snd (replace_leader B l) @ [make_msg_ping B']"
    using assms(1-3,6) by (auto simp: work_round_def self_is_leader_def leader_def Let_def split: prod.splits)
  have P: "p \<in> P \<longleftrightarrow> (\<exists>i. (i, p) \<in> set (b_peers B1))" for p by (force simp: assms(5) B1_def)
  have big: "is_biggest_in_peers B1 \<longleftrightarrow> (\<forall>p\<in>P. ep_key p < b_key B)"
    by (auto simp: is_biggest_in_peers_def list_all_iff P B1_def)
  show ?thesis
  proof (cases "is_biggest_in_peers B1")
    case True
    then have "replace_leader B l = (B1\<lparr>b_current_leader := Some (self_entry B1)\<rparr>, [make_msg_ping B1])"
      by (simp add: replace_leader_def B1_def Let_def)
    then show ?thesis
      using True B' big ping by (simp add: leader_key_def self_entry_def ep_key_def) (simp add: B1_def)
  next
    case False
    then have ne: "b_peers B1 \<noteq> []" by (auto simp: is_biggest_in_peers_def)
    have ok: "peers_ok B1" using assms(4) by (auto simp: peers_ok_def B1_def)
    obtain p where p: "max_id_in_peers B1 = Some p" "(pi_id (ep_pinfo p), p) \<in> set (b_peers B1)"
      "\<And>i q. (i, q) \<in> set (b_peers B1) \<Longrightarrow> i \<le> pi_id (ep_pinfo p)"
      using max_id_in_peers_spec [OF ok ne] by blast
    have r: "replace_leader B l = (B1\<lparr>b_current_leader := Some p\<rparr>, [])"
      using False ne p(1) by (simp add: replace_leader_def B1_def Let_def)
    have "\<nexists>q. q \<in> P \<and> pi_id (ep_pinfo p) < pi_id (ep_pinfo q)"
      using p(3) ok by (force simp: P peers_ok_def not_less)
    moreover have "p \<in> P" using p(2) P by blast
    ultimately show ?thesis using False big B' r ping by auto
  qed
qed

text \<open>A run in which the leader fails and a node takes a peer that is weaker than itself and than another peer.\<close>

definition weak_run :: bully where
  "weak_run = fold receive [ping_from (Key 1 10) ''/a'', ping_from (Key 2 7) ''/b'', ping_from (Key 9 1) ''/c'']
     (start (fresh_bully (Key 3 5)))"

lemma weak_run_state:
  "weak_run = \<lparr>b_key = Key 3 5, b_min_interval = 6000, b_max_interval = 10000,
     b_peers = [(1, \<lparr>ep_pinfo = \<lparr>pi_id = 1, pi_addresses = [''/a'']\<rparr>, ep_weight = 10\<rparr>),
       (2, \<lparr>ep_pinfo = \<lparr>pi_id = 2, pi_addresses = [''/b'']\<rparr>, ep_weight = 7\<rparr>),
       (9, \<lparr>ep_pinfo = \<lparr>pi_id = 9, pi_addresses = [''/c'']\<rparr>, ep_weight = 1\<rparr>)],
     b_current_leader = Some \<lparr>ep_pinfo = \<lparr>pi_id = 1, pi_addresses = [''/a'']\<rparr>, ep_weight = 10\<rparr>,
     b_running = True, b_thread = True\<rparr>"
  unfolding weak_run_def by code_simp

lemma failover_result_witness:
  "\<exists>p. b_current_leader (fst (work_round (\<lambda>a m. Timeout) weak_run)) = Some p \<and> ep_key p = Key 9 1 \<and> ep_key p < b_key weak_run"
proof -
  obtain B' sent cast where r: "work_round (\<lambda>a m. Timeout) weak_run = (B', sent, cast)"
    by (cases "work_round (\<lambda>a m. Timeout) weak_run") auto
  let ?P = "snd ` set (odel 1 (b_peers weak_run))"
  have down: "\<not> res_is_ok (send_ping (\<lambda>a m. Timeout) weak_run (\<lparr>pi_id = 1, pi_addresses = [''/a'']\<rparr>))"
    by (simp add: send_ping_def is_timeout_def res_is_ok_def)
  have P: "?P = {\<lparr>ep_pinfo = \<lparr>pi_id = 2, pi_addresses = [''/b'']\<rparr>, ep_weight = 7\<rparr>,
      \<lparr>ep_pinfo = \<lparr>pi_id = 9, pi_addresses = [''/c'']\<rparr>, ep_weight = 1\<rparr>}"
    by (simp add: weak_run_state odel_def)
  have ids: "peers_ok weak_run" by (simp add: peers_ok_def weak_run_state)
  have l: "b_current_leader weak_run = Some \<lparr>ep_pinfo = \<lparr>pi_id = 1, pi_addresses = [''/a'']\<rparr>, ep_weight = 10\<rparr>"
    by (simp add: weak_run_state)
  have not_big: "\<not> (\<forall>p\<in>?P. ep_key p < b_key weak_run)"
    unfolding P by (simp add: weak_run_state ep_key_def less_bully_key_def)
  have self: "pi_id (ep_pinfo \<lparr>ep_pinfo = \<lparr>pi_id = 1, pi_addresses = [''/a'']\<rparr>, ep_weight = 10\<rparr>) \<noteq> bk_id (b_key weak_run)"
    by (simp add: weak_run_state)
  have down': "\<not> res_is_ok (send_ping (\<lambda>a m. Timeout) weak_run (ep_pinfo \<lparr>ep_pinfo = \<lparr>pi_id = 1, pi_addresses = [''/a'']\<rparr>, ep_weight = 10\<rparr>))"
    using down by simp
  have P': "?P = snd ` set (odel (pi_id (ep_pinfo \<lparr>ep_pinfo = \<lparr>pi_id = 1, pi_addresses = [''/a'']\<rparr>, ep_weight = 10\<rparr>)) (b_peers weak_run))"
    by simp
  obtain p where p: "p \<in> ?P" "b_current_leader B' = Some p" "\<nexists>q. q \<in> ?P \<and> pi_id (ep_pinfo p) < pi_id (ep_pinfo q)"
    using failover_result [OF l self down' ids P' r] unfolding if_not_P [OF not_big] by blast
  have nine: "\<lparr>ep_pinfo = \<lparr>pi_id = 9, pi_addresses = [''/c'']\<rparr>, ep_weight = 1\<rparr> \<in> ?P" unfolding P by simp
  have "p \<noteq> \<lparr>ep_pinfo = \<lparr>pi_id = 2, pi_addresses = [''/b'']\<rparr>, ep_weight = 7\<rparr>" using p(3) nine by force
  then have "p = \<lparr>ep_pinfo = \<lparr>pi_id = 9, pi_addresses = [''/c'']\<rparr>, ep_weight = 1\<rparr>" using p(1) unfolding P by blast
  then have "ep_key p = Key 9 1" by (simp add: ep_key_def)
  moreover have "b_key weak_run = Key 3 5" by (simp add: weak_run_state)
  ultimately show ?thesis using p(2) by (simp add: r less_bully_key_def)
qed

subsection \<open>Equal weights\<close>

text \<open>The states of a node whose own weight is \<open>w\<close> and which hears only from nodes of that weight.\<close>

inductive equal_run :: "int \<Rightarrow> bully_key \<Rightarrow> bully \<Rightarrow> bool" for w :: int and k :: bully_key where
  fresh: "bk_weight k = w \<Longrightarrow> equal_run w k (start (fresh_bully k))"
| message: "equal_run w k B \<Longrightarrow> key_from_msg msg = Inr (Key i w) \<Longrightarrow> equal_run w k (receive msg B)"
| round: "equal_run w k B \<Longrightarrow> equal_run w k (fst (work_round send B))"

definition entry_ok :: "int \<Rightarrow> ext_peer \<Rightarrow> bool" where
  "entry_ok w p = (ep_weight p = w)"

definition equal_ok :: "int \<Rightarrow> bully_key \<Rightarrow> bully \<Rightarrow> bool" where
  "equal_ok w k B = (b_key B = k \<and> bk_weight k = w \<and> peers_ok B \<and> (\<forall>(i, p)\<in>set (b_peers B). entry_ok w p)
     \<and> (case b_current_leader B of None \<Rightarrow> True | Some l \<Rightarrow> entry_ok w l \<and> k \<le> ep_key l))"

lemma set_oput_in: "e \<in> set (oput i p m) \<Longrightarrow> e = (i, p) \<or> e \<in> set m"
  using set_oput_subset [of i p m] by blast

lemma equal_ok_add:
  assumes "equal_ok w k B" "key_from_msg msg = Inr (Key i w)"
  shows "equal_ok w k (snd (add_peers msg B))" "ep_key (peer_at (em_sourceId msg) (snd (add_peers msg B))) = Key i w"
proof -
  show "ep_key (peer_at (em_sourceId msg) (snd (add_peers msg B))) = Key i w" by (rule add_peers_peer [OF assms(2)])
  show "equal_ok w k (snd (add_peers msg B))"
    using assms by (auto simp: equal_ok_def add_peers_def Let_def peers_ok_def entry_ok_def dest!: set_oput_in split: option.split)
qed

lemma ep_key_weight: "ep_key p = Key i w \<Longrightarrow> ep_weight p = w"
  by (simp add: ep_key_def)

lemma equal_ok_set_leader:
  assumes "equal_ok w k B" "ep_key (peer_at i B) = Key j w" "\<not> Key j w < k"
  shows "equal_ok w k (set_leader i B)"
  using assms ep_key_weight [OF assms(2)] by (simp add: equal_ok_def set_leader_def entry_ok_def peers_ok_def not_less)

lemma equal_ok_receive:
  assumes "equal_ok w k B" "key_from_msg msg = Inr (Key i w)"
  shows "equal_ok w k (receive msg B)"
proof -
  obtain B1 where B1: "add_peers msg B = (Inr (), B1)"
    using assms(2) by (auto simp: add_peers_def Let_def)
  note ok = equal_ok_add [OF assms, unfolded B1 snd_conv]
  have key: "b_key B1 = k" using ok(1) by (simp add: equal_ok_def)
  have "receive msg B = B \<or> receive msg B = B1 \<or> (\<not> Key i w < k \<and> receive msg B = set_leader (em_sourceId msg) B1)"
    using B1 assms(2) key
    by (auto simp: receive_def on_election_message_def on_msg_victory_def on_msg_ping_def on_msg_challange_def)
  then show ?thesis using assms(1) ok equal_ok_set_leader [OF ok(1,2)] by auto
qed

lemma equal_ok_peers:
  "equal_ok w k B \<Longrightarrow> set ps \<subseteq> set (b_peers B) \<Longrightarrow> equal_ok w k (B\<lparr>b_peers := ps\<rparr>)"
  by (auto simp: equal_ok_def peers_ok_def split: option.split)

lemma equal_ok_self: "equal_ok w k B \<Longrightarrow> equal_ok w k (B\<lparr>b_current_leader := Some (self_entry B)\<rparr>)"
  by (auto simp: equal_ok_def peers_ok_def self_entry_def entry_ok_def ep_key_def)

lemma equal_ok_replace:
  assumes "equal_ok w k B"
  shows "equal_ok w k (fst (replace_leader B l))"
proof -
  define B1 where "B1 = B\<lparr>b_peers := odel (pi_id (ep_pinfo l)) (b_peers B)\<rparr>"
  have ok: "equal_ok w k B1" unfolding B1_def by (rule equal_ok_peers [OF assms]) auto
  show ?thesis
  proof (cases "is_biggest_in_peers B1")
    case True
    then show ?thesis using equal_ok_self [OF ok] by (simp add: replace_leader_def B1_def Let_def)
  next
    case False
    then obtain i q where q: "(i, q) \<in> set (b_peers B1)" "\<not> ep_key q < b_key B1"
      by (auto simp: is_biggest_in_peers_def list_all_iff)
    then have ne: "b_peers B1 \<noteq> []" by auto
    obtain p where p: "max_id_in_peers B1 = Some p" "(pi_id (ep_pinfo p), p) \<in> set (b_peers B1)"
      "\<And>i q. (i, q) \<in> set (b_peers B1) \<Longrightarrow> i \<le> pi_id (ep_pinfo p)"
      using max_id_in_peers_spec [of B1] ok ne by (auto simp: equal_ok_def)
    have w: "ep_weight p = w" "ep_weight q = w" "bk_weight k = w" "pi_id (ep_pinfo q) = i"
      using p(2) q(1) ok by (auto simp: equal_ok_def entry_ok_def peers_ok_def)
    have "bk_id k \<le> pi_id (ep_pinfo q)" using q(2) w ok by (auto simp: equal_ok_def less_bully_key_def ep_key_def not_less)
    then have "bk_id k \<le> pi_id (ep_pinfo p)" using p(3) [OF q(1)] w(4) by simp
    then have "k \<le> ep_key p"
      using w by (cases k) (auto simp: less_eq_bully_key_def less_bully_key_def ep_key_def)
    then have "equal_ok w k (B1\<lparr>b_current_leader := Some p\<rparr>)"
      using ok w(1) by (auto simp: equal_ok_def peers_ok_def entry_ok_def)
    then show ?thesis using False ne p(1) by (simp add: replace_leader_def B1_def Let_def)
  qed
qed

lemma equal_ok_round:
  assumes "equal_ok w k B"
  shows "equal_ok w k (fst (work_round send B))"
proof -
  have "equal_ok w k (fst (round_as_leader send B))"
    unfolding round_as_leader_def fst_conv by (rule equal_ok_peers [OF assms]) auto
  moreover have "equal_ok w k x" if "replace_leader B l = (x, y)" for l x y
    using equal_ok_replace [OF assms, of l] that by simp
  ultimately show ?thesis
    using assms equal_ok_self [OF assms]
    by (auto simp: work_round_def Let_def round_as_leader_def split: prod.splits option.split if_splits)
qed

lemma equal_run_ok: "equal_run w k B \<Longrightarrow> equal_ok w k B"
proof (induction rule: equal_run.induct)
  case fresh
  then show ?case by (simp add: equal_ok_def start_def fresh_bully_def peers_ok_def)
qed (simp_all add: equal_ok_receive equal_ok_round)

text \<open>C10: as long as all nodes have the same weight, no node ever follows a leader below itself, whatever messages arrive
  and whichever peers fail to answer.\<close>
theorem leader_never_below_self:
  assumes "equal_run w k B" "b_current_leader B = Some l"
  shows "k \<le> ep_key l"
  using equal_run_ok [OF assms(1)] assms(2) by (simp add: equal_ok_def)

definition equal_sample :: bully where
  "equal_sample = receive (ping_from (Key 7 0) ''/a'') (start (fresh_bully (Key 3 0)))"

lemma leader_never_below_self_witness:
  "\<exists>l. b_current_leader equal_sample = Some l \<and> Key 3 0 \<le> ep_key l"
proof -
  have run: "equal_run 0 (Key 3 0) equal_sample"
    unfolding equal_sample_def
    by (rule equal_run.message [where i = 7], rule equal_run.fresh) (simp_all add: key_from_ping int_weight_def)
  have "leader_key equal_sample = Some (Key 7 0)"
    unfolding equal_sample_def
    by (subst receive_ping) (simp_all add: start_def fresh_bully_def leader_key_def raise_leader_def int_weight_def less_bully_key_def)
  then obtain l where "b_current_leader equal_sample = Some l" by (auto simp: leader_key_def)
  then show ?thesis using leader_never_below_self [OF run] by blast
qed

subsection \<open>A node that hears nothing\<close>

fun run_rounds :: "(string \<Rightarrow> election_msg \<Rightarrow> election_res) list \<Rightarrow> bully \<Rightarrow> bully \<times> (string \<times> election_msg) list" where
  "run_rounds [] B = (B, [])"
| "run_rounds (send # sends) B =
     (let (B1, sent, cast) = work_round send B; (B2, sent') = run_rounds sends B1 in (B2, sent @ sent'))"

definition alone :: "bully_key \<Rightarrow> bully \<Rightarrow> bool" where
  "alone k B = (b_key B = k \<and> b_peers B = [] \<and> (leader_key B = None \<or> leader_key B = Some k))"

lemma alone_round:
  assumes "alone k B"
  shows "\<exists>B' cast. work_round send B = (B', [], cast) \<and> alone k B' \<and> leader_key B' = Some k"
proof (cases "b_current_leader B")
  case None
  then show ?thesis
    using assms by (cases k)
      (auto simp: work_round_def self_is_leader_def leader_def alone_def leader_key_def self_entry_def ep_key_def)
next
  case (Some l)
  then have "ep_key l = b_key B" using assms by (auto simp: alone_def leader_key_def)
  then have "pi_id (ep_pinfo l) = bk_id (b_key B)" by (metis bully_key.sel(1) ep_key_def)
  then have "self_is_leader B" using Some by (simp add: self_is_leader_def leader_def)
  then show ?thesis
    using assms Some by (auto simp: work_round_def round_as_leader_def alone_def leader_key_def)
qed

lemma alone_rounds:
  "alone k B \<Longrightarrow> run_rounds sends B = (B', sent) \<Longrightarrow> sent = [] \<and> alone k B' \<and> (sends \<noteq> [] \<longrightarrow> leader_key B' = Some k)"
proof (induction sends arbitrary: B B' sent)
  case (Cons send sends)
  obtain B1 cast where r: "work_round send B = (B1, [], cast)" "alone k B1" "leader_key B1 = Some k"
    using alone_round [OF Cons.prems(1)] by blast
  obtain B2 s2 where r2: "run_rounds sends B1 = (B2, s2)" by fastforce
  then have "B' = B2" "sent = s2" using Cons.prems(2) r(1) by auto
  then show ?case using Cons.IH [OF r(2) r2] r(3) r2 by (cases sends) auto
qed simp

text \<open>A node that was started and has received no message sends nothing to anybody in any number of rounds, and from
  the first round on it is its own leader. As the broadcasts of the framework are buffered and no thread sends them,
  this is every node: each elects itself.\<close>
theorem unheard_node_elects_itself:
  "snd (run_rounds (send # sends) (start (fresh_bully k))) = []
   \<and> leader_key (fst (run_rounds (send # sends) (start (fresh_bully k)))) = Some k"
proof -
  have "alone k (start (fresh_bully k))" by (simp add: alone_def start_def fresh_bully_def leader_key_def)
  from alone_rounds [OF this, of "send # sends"] show ?thesis
    by (cases "run_rounds (send # sends) (start (fresh_bully k))") auto
qed

text \<open>A manager made from any configuration has an ordered interval to sleep in; without interval settings it is six to
  ten seconds, and settings that cannot be read or are in the wrong order are both replaced, by six and twelve.\<close>
theorem bully_interval_ordered:
  assumes "make_election_mgr_bully scaled i params = Inr B"
  shows "b_min_interval B \<le> b_max_interval B \<and> bk_id (b_key B) = i
    \<and> (if jfind ''minInterval'' params = None \<and> jfind ''maxInterval'' params = None
       then (b_min_interval B, b_max_interval B) = (6000, 10000)
       else (case (read_duration scaled params ''minInterval'' 6000, read_duration scaled params ''maxInterval'' 10000) of
               (Inr mn, Inr mx) \<Rightarrow> (b_min_interval B, b_max_interval B) = (if mn > mx then (6000, 12000) else (mn, mx))
             | _ \<Rightarrow> (b_min_interval B, b_max_interval B) = (6000, 12000)))"
  using assms
  by (auto simp: make_election_mgr_bully_def rbind_case read_duration_def split: sum.splits if_splits)

lemma bully_interval_ordered_witness:
  "\<exists>B. make_election_mgr_bully (\<lambda>s f. int (undec s) * f) 3 (JObj [(''maxInterval'', JStr ''2s''), (''minInterval'', JNum 500)]) = Inr B
    \<and> b_min_interval B \<le> b_max_interval B \<and> b_max_interval B = 2000"
proof -
  let ?p = "JObj [(''maxInterval'', JStr ''2s''), (''minInterval'', JNum 500)]"
  let ?f = "\<lambda>s f. int (undec s) * f"
  have two: "read_duration ?f ?p ''maxInterval'' 10000 = Inr 2000" by code_simp
  have one: "read_duration ?f ?p ''minInterval'' 6000 = Inr 500" by code_simp
  obtain B where B: "make_election_mgr_bully ?f 3 ?p = Inr B"
  proof -
    have "\<exists>B. make_election_mgr_bully ?f 3 ?p = Inr B"
      unfolding make_election_mgr_bully_def one two by (simp add: Let_def)
    then show thesis using that by blast
  qed
  from bully_interval_ordered [OF B] have "b_min_interval B \<le> b_max_interval B \<and> b_max_interval B = 2000"
    unfolding one two by simp
  then show ?thesis using B by blast
qed

end
