(* ===== verification/Config.thy ===== *)
theory Config
  imports Json
begin

section \<open>YAML documents and the configuration\<close>

text \<open>
  \<open>src/util/yaml_to_json.cpp\<close> converts between YAML and JSON; \<open>src/util/global_vars.cpp\<close> finds, caches and reads the
  configuration file. The YAML library parses files and converts scalars; both are parameters. Its nodes are trees:
  a mapping is the list of its entries, in the order the library visits them, with scalar keys.
\<close>

datatype yaml =
    YNull
  | YScalar string
  | YSeq "yaml list"
  | YMap "(string \<times> yaml) list"

text \<open>The scalar conversions of the library: integers, and floating point numbers as documents.\<close>

record yaml_lib =
  yl_int64 :: "string \<Rightarrow> int option"
  yl_float :: "string \<Rightarrow> json option"
  yl_bool :: "string \<Rightarrow> bool option"

subsection \<open>Conversion\<close>

(* src/util/yaml_to_json.cpp:23-43 convert_scalar *)
definition convert_scalar :: "yaml_lib \<Rightarrow> string \<Rightarrow> json" where
  "convert_scalar Y s =
     (if s = ''true'' \<or> s = ''false'' then JBool (s = ''true'')
      else (case yl_int64 Y s of
              Some n \<Rightarrow> JNum n
            | None \<Rightarrow> (case yl_float Y s of Some j \<Rightarrow> j | None \<Rightarrow> JStr s)))"

text \<open>A sequence or mapping starts as null and becomes an array or object with its first element: an empty one stays
  null. A repeated key keeps its last value.\<close>

(* src/util/yaml_to_json.cpp:46-66 yaml_to_json *)
fun yaml_to_json :: "yaml_lib \<Rightarrow> yaml \<Rightarrow> json" where
  "yaml_to_json Y YNull = JNull"
| "yaml_to_json Y (YScalar s) = convert_scalar Y s"
| "yaml_to_json Y (YSeq xs) = (if xs = [] then JNull else JArr (map (yaml_to_json Y) xs))"
| "yaml_to_json Y (YMap m) =
     (if m = [] then JNull else JObj (oputs (map (\<lambda>(k, v). (k, yaml_to_json Y v)) m) []))"

text \<open>An integer is narrowed to 32 bits. Scalars are written by the library: a boolean or number as its text.\<close>

(* src/util/yaml_to_json.cpp:69-91 json_to_yaml *)
fun json_to_yaml :: "json \<Rightarrow> yaml" where
  "json_to_yaml (JObj m) = YMap (map (\<lambda>(k, v). (k, json_to_yaml v)) m)"
| "json_to_yaml (JArr xs) = YSeq (map json_to_yaml xs)"
| "json_to_yaml (JStr s) = YScalar s"
| "json_to_yaml (JBool b) = YScalar (if b then ''true'' else ''false'')"
| "json_to_yaml (JNum n) = YScalar (dec_int (to_int32 n))"
| "json_to_yaml JNull = YNull"

text \<open>The documents that survive a trip through YAML: no empty container, integers of 32 bits, strings that no scalar
  conversion takes.\<close>

function yaml_safe :: "yaml_lib \<Rightarrow> json \<Rightarrow> bool" where
  "yaml_safe Y (JObj m) = (m \<noteq> [] \<and> omap_ok m \<and> (\<forall>e\<in>set m. yaml_safe Y (snd e)))"
| "yaml_safe Y (JArr xs) = (xs \<noteq> [] \<and> (\<forall>x\<in>set xs. yaml_safe Y x))"
| "yaml_safe Y (JStr s) = (s \<noteq> ''true'' \<and> s \<noteq> ''false'' \<and> yl_int64 Y s = None \<and> yl_float Y s = None)"
| "yaml_safe Y (JNum n) = (- (2 ^ 31) \<le> n \<and> n < 2 ^ 31)"
| "yaml_safe Y (JBool b) = True"
| "yaml_safe Y JNull = True"
  by pat_completeness auto
termination
proof (relation "measure (\<lambda>(Y, j). size j)")
  fix Y m and e :: "string \<times> json"
  assume e: "e \<in> set m"
  then have "size (snd e) < size_list (size_prod (\<lambda>x. 0) size) m" by (induction m) (auto simp: less_Suc_eq_le)
  then show "((Y, snd e), (Y, JObj m)) \<in> measure (\<lambda>(Y, j). size j)" by simp
next
  fix Y xs and x :: json
  assume "x \<in> set xs"
  then have "size x < size_list size xs" by (induction xs) auto
  then show "((Y, x), (Y, JArr xs)) \<in> measure (\<lambda>(Y, j). size j)" by simp
qed simp

definition yaml_ints_ok :: "yaml_lib \<Rightarrow> bool" where
  "yaml_ints_ok Y = (\<forall>n. yl_int64 Y (dec_int n) = Some n)"

lemma dec_int_not_bool: "dec_int n \<noteq> ''true'' \<and> dec_int n \<noteq> ''false''"
proof -
  have "\<not> is_digit CHR ''t''" "\<not> is_digit CHR ''f''" by (simp_all add: is_digit_def)
  moreover have "hd (dec m) \<in> set (dec m)" for m by simp
  then have "is_digit (hd (dec m))" for m using dec_digits by blast
  ultimately have d: "hd (dec m) \<noteq> CHR ''t'' \<and> hd (dec m) \<noteq> CHR ''f''" for m by metis
  show ?thesis using d [of "nat n"] by (auto simp: dec_int_def)
qed

lemma yaml_json_back:
  "yaml_safe Y j \<Longrightarrow> yaml_ints_ok Y \<Longrightarrow> yaml_to_json Y (json_to_yaml j) = j"
proof (induction Y j rule: yaml_safe.induct)
  case (1 Y m)
  have "map (\<lambda>(k, v). (k, yaml_to_json Y v)) (map (\<lambda>(k, v). (k, json_to_yaml v)) m) = map (\<lambda>e. e) m"
    unfolding map_map using 1 by (intro map_cong) (auto simp: split_beta)
  then have "oputs (map (\<lambda>(k, v). (k, yaml_to_json Y v)) (map (\<lambda>(k, v). (k, json_to_yaml v)) m)) [] = m"
    using oputs_id [of m m] 1(2) omap_ok_distinct by auto
  then show ?case using 1(2) by simp
next
  case (2 Y xs)
  then have "map (yaml_to_json Y) (map json_to_yaml xs) = xs" by (simp add: map_idI)
  then show ?case using 2(2) by simp
next
  case (4 Y n)
  have i: "yl_int64 Y (dec_int n) = Some n" using 4(2) by (simp add: yaml_ints_ok_def)
  have t: "to_int32 n = n" using 4(1) by (intro to_int32_id) auto
  show ?case using dec_int_not_bool [of n] by (simp add: convert_scalar_def i t)
qed (simp_all add: convert_scalar_def)

subsection \<open>The configuration file\<close>

text \<open>\<open>str.rfind(p, 0) == 0\<close> is a test for a prefix.\<close>

(* src/util/global_vars.cpp:60-69 is_path *)
definition is_path :: "string \<Rightarrow> bool" where
  "is_path str =
     (if str = [] then False
      else if hd str = CHR ''/'' then True
      else if starts_with str ''./'' \<or> starts_with str ''../'' then True
      else CHR ''/'' \<in> set str \<or> CHR 92 \<in> set str)"

text \<open>\<open>path / path\<close> of the standard library: an absolute right side replaces the left.\<close>

definition path_join :: "string \<Rightarrow> string \<Rightarrow> string" where
  "path_join a b =
     (if b \<noteq> [] \<and> hd b = CHR ''/'' then b
      else if a = [] \<or> last a = CHR ''/'' then a @ b else a @ ''/'' @ b)"

(* src/util/global_vars.cpp:142-150 config_path *)
definition config_path :: "string \<Rightarrow> string \<Rightarrow> string" where
  "config_path home config_file =
     (if config_file = [] then path_join home ''config.yaml''
      else if is_path config_file then config_file
      else path_join home config_file)"

text \<open>The file system, the parser and the hash of the content are parameters; \<open>None\<close> of the parser is an exception.\<close>

datatype file_kind = NoFile | NotRegular | Regular string

record config_env =
  ce_file :: "string \<Rightarrow> file_kind"
  ce_load :: "string \<Rightarrow> yaml option"
  ce_hash :: "string \<Rightarrow> nat"

record config_cache =
  cc_hash :: nat
  cc_config :: yaml

text \<open>No document is \<open>None\<close>: a default-constructed node.\<close>

(* src/util/global_vars.cpp:73-104 load_config *)
definition load_config :: "config_env \<Rightarrow> string \<Rightarrow> string \<Rightarrow> config_cache \<Rightarrow> yaml \<times> config_cache" where
  "load_config E home config_file C =
     (case ce_file E (config_path home config_file) of
        NoFile \<Rightarrow> (YNull, C)
      | NotRegular \<Rightarrow> (YNull, C)
      | Regular content \<Rightarrow>
          (let h = ce_hash E content in
           if cc_hash C = h then (cc_config C, C)
           else (case ce_load E content of
                   Some y \<Rightarrow> (y, \<lparr>cc_hash = h, cc_config = y\<rparr>)
                 | None \<Rightarrow> (YNull, C))))"

text \<open>Indexing a node: a missing key, or a node that is no mapping, gives an undefined node; a scalar throws.\<close>

datatype node_error = PathNotFound | LoadFailed | BadSubscript

fun node_at :: "string \<Rightarrow> yaml \<Rightarrow> node_error + yaml option" where
  "node_at k (YMap m) = Inr (map_of m k)"
| "node_at k (YScalar s) = Inl BadSubscript"
| "node_at k y = Inr None"

text \<open>A null node counts as defined, so \<open>!current\<close> holds only of an undefined node.\<close>

fun walk_path :: "string list \<Rightarrow> yaml \<Rightarrow> node_error + yaml" where
  "walk_path [] y = Inr y"
| "walk_path (k # ks) y =
     (if k = [] then walk_path ks y
      else rbind (node_at k y) (\<lambda>r. case r of None \<Rightarrow> Inl PathNotFound | Some y' \<Rightarrow> walk_path ks y'))"

(* src/util/global_vars.cpp:106-121 get_node_by_path *)
definition get_node_by_path :: "yaml \<Rightarrow> string \<Rightarrow> node_error + yaml" where
  "get_node_by_path config path = walk_path (split_all (CHR ''/'') path) config"

text \<open>A reader returns its default on every failure.\<close>

(* include/util/global_vars.hpp:77-89 get_config(path, default) *)
definition get_config :: "(yaml \<Rightarrow> exn + 'a) \<Rightarrow> 'a \<Rightarrow> yaml \<Rightarrow> string \<Rightarrow> 'a" where
  "get_config conv dflt config path =
     (case get_node_by_path config path of
        Inl _ \<Rightarrow> dflt
      | Inr y \<Rightarrow> (case conv y of Inl _ \<Rightarrow> dflt | Inr x \<Rightarrow> x))"

text \<open>The nested value a path names.\<close>

fun nested :: "string list \<Rightarrow> yaml \<Rightarrow> yaml" where
  "nested [] y = y"
| "nested (k # ks) y = YMap [(k, nested ks y)]"

definition path_text :: "string list \<Rightarrow> string" where
  "path_text ks = concat (map (\<lambda>k. CHR ''/'' # k) ks)"

lemma path_text_keys: "\<forall>k\<in>set ks. CHR ''/'' \<notin> set k \<Longrightarrow> split_all (CHR ''/'') (path_text ks) = [] # ks"
proof (induction ks)
  case (Cons k ks)
  then have "split_all (CHR ''/'') (path_text ks) = [] # ks" by simp
  then show ?case using Cons.prems split_all_prefix [of "CHR ''/''" k "path_text ks"] by (simp add: path_text_def)
qed (simp add: path_text_def)

lemma walk_nested: "\<forall>k\<in>set ks. k \<noteq> [] \<Longrightarrow> walk_path ks (nested ks y) = Inr y"
  by (induction ks) auto

text \<open>A document that JSON and YAML both can express keeps its value when it is written to a YAML file and read
  again.\<close>
theorem yaml_roundtrip:
  assumes "yaml_ints_ok Y" "yaml_safe Y j"
  shows "yaml_to_json Y (json_to_yaml j) = j"
  by (rule yaml_json_back [OF assms(2,1)])

definition decimal_yaml :: yaml_lib where
  "decimal_yaml = \<lparr>yl_int64 = (\<lambda>s. if s \<noteq> [] \<and> hd s = CHR ''-'' then Some (- int (undec (tl s)))
      else if s \<noteq> [] \<and> list_all is_digit s then Some (int (undec s)) else None), yl_float = (\<lambda>s. None), yl_bool = (\<lambda>s. None)\<rparr>"

lemma decimal_yaml_ok: "yaml_ints_ok decimal_yaml"
proof -
  have "hd (dec m) \<noteq> CHR ''-''" for m
    using dec_digits [of "hd (dec m)" m] by (auto simp: is_digit_def)
  then show ?thesis
    by (auto simp: yaml_ints_ok_def decimal_yaml_def dec_int_def list_all_iff dec_digits)
qed

lemma yaml_roundtrip_witness:
  "yaml_to_json decimal_yaml (json_to_yaml (JObj [(''a'', JArr [JNum (- 5)]), (''b'', JStr ''x'')]))
     = JObj [(''a'', JArr [JNum (- 5)]), (''b'', JStr ''x'')]"
  by (rule yaml_roundtrip [OF decimal_yaml_ok]) (simp add: omap_ok_def decimal_yaml_def is_digit_def)

text \<open>An empty container is lost.\<close>

lemma yaml_loses_empty: "yaml_to_json Y (json_to_yaml (JArr [])) = JNull" "yaml_to_json Y (json_to_yaml (JObj [])) = JNull"
  by simp_all

text \<open>A setting is found under the path of its keys.\<close>

lemma setting_found:
  "\<forall>k\<in>set ks. k \<noteq> [] \<and> CHR ''/'' \<notin> set k \<Longrightarrow> get_node_by_path (nested ks y) (path_text ks) = Inr y"
  using path_text_keys [of ks] walk_nested [of ks y] by (simp add: get_node_by_path_def)

end
