(* ===== verification/Discovery.thy ===== *)
theory Discovery
  imports Bully Config
begin

section \<open>Teams and peers\<close>

text \<open>
  DiscoveryMgr, \<open>src/discoverymgr/discovery_mgr.cpp\<close>: what a framework learns from UDP broadcasts (masters of teams and
  peers), the teams it has joined, and the members that report to it when it is a master. Network, time, token library
  and address checks are parameters. The hash maps are sorted maps: no reply depends on their order but for the
  order of a listing. Reading a missing key or element of a constant document is undefined in the JSON library.
\<close>

subsection \<open>Constant documents\<close>

fun const_at :: "string \<Rightarrow> json \<Rightarrow> exn + json" where
  "const_at k (JObj m) = (case map_of m k of None \<Rightarrow> Inl (Undefined ''missing key'') | Some v \<Rightarrow> Inr v)"
| "const_at k j = Inl (JsonError (''[json.exception.type_error.305] cannot use operator[] with a string argument with '' @ type_name j))"

fun const_first :: "json \<Rightarrow> exn + json" where
  "const_first (JArr xs) = (case xs of [] \<Rightarrow> Inl (Undefined ''missing element'') | x # _ \<Rightarrow> Inr x)"
| "const_first j = Inl (JsonError (''[json.exception.type_error.305] cannot use operator[] with a numeric argument with '' @ type_name j))"

text \<open>Element 0 of a mutable array is made when it is not there.\<close>

fun first_or_null :: "json \<Rightarrow> exn + json" where
  "first_or_null (JArr xs) = Inr (case xs of [] \<Rightarrow> JNull | x # _ \<Rightarrow> x)"
| "first_or_null JNull = Inr JNull"
| "first_or_null j = Inl (JsonError (''[json.exception.type_error.305] cannot use operator[] with a numeric argument with '' @ type_name j))"

fun is_str :: "json \<Rightarrow> bool" where
  "is_str (JStr s) = True"
| "is_str j = False"

fun is_arr :: "json \<Rightarrow> bool" where
  "is_arr (JArr xs) = True"
| "is_arr j = False"

text \<open>The string, number or list of strings under a key, when it has that type.\<close>

definition str_at :: "string \<Rightarrow> json \<Rightarrow> string option" where
  "str_at k j = (case jfind k j of Some (JStr s) \<Rightarrow> Some s | _ \<Rightarrow> None)"

definition int_at :: "string \<Rightarrow> json \<Rightarrow> int option" where
  "int_at k j = (case jfind k j of Some (JNum n) \<Rightarrow> Some (to_int32 n) | _ \<Rightarrow> None)"

definition strs_at :: "string \<Rightarrow> json \<Rightarrow> string list option" where
  "strs_at k j = (case jfind k j of
     Some (JArr xs) \<Rightarrow> Some (List.map_filter (\<lambda>x. case x of JStr s \<Rightarrow> Some s | _ \<Rightarrow> None) xs) | _ \<Rightarrow> None)"

subsection \<open>Tokens\<close>

text \<open>The token library: decoding to the claims of the payload, verification against a secret (which includes the
  expiry), and signing.\<close>

record jwt_lib =
  jl_decode :: "string \<Rightarrow> exn + json"
  jl_verify :: "string \<Rightarrow> string \<Rightarrow> time \<Rightarrow> bool"
  jl_sign :: "json \<Rightarrow> string \<Rightarrow> exn + string"

(* src/discoverymgr/jwt.cpp:22-34 generate_jwt_token *)
definition generate_jwt_token :: "jwt_lib \<Rightarrow> string \<Rightarrow> string \<Rightarrow> exn + string" where
  "generate_jwt_token J secret host_id =
     (case jl_sign J (jobject [(''iss'', JStr host_id), (''Permanent'', JStr ''true'')]) secret of
        Inl _ \<Rightarrow> Inl (RuntimeError ''Token creation failed'')
      | Inr t \<Rightarrow> Inr t)"

(* src/discoverymgr/jwt.cpp:36-47 is_valid_jwt_token *)
definition is_valid_jwt_token :: "jwt_lib \<Rightarrow> time \<Rightarrow> string \<Rightarrow> string \<Rightarrow> bool" where
  "is_valid_jwt_token J now token secret =
     (case jl_decode J token of Inl _ \<Rightarrow> False | Inr _ \<Rightarrow> jl_verify J token secret now)"

definition expires_at :: "json \<Rightarrow> exn + time" where
  "expires_at claims = rbind (jat ''exp'' claims) get_int64"

(* src/discoverymgr/jwt.cpp:49-63 is_expired_jwt_token *)
definition is_expired_jwt_token :: "jwt_lib \<Rightarrow> time \<Rightarrow> string \<Rightarrow> bool" where
  "is_expired_jwt_token J now token =
     (case rbind (jl_decode J token) expires_at of Inl _ \<Rightarrow> False | Inr e \<Rightarrow> e < now)"

(* src/discoverymgr/jwt.cpp:65-78 generate_jwt_with_expiration *)
definition generate_jwt_with_expiration :: "jwt_lib \<Rightarrow> time \<Rightarrow> string \<Rightarrow> string \<Rightarrow> int \<Rightarrow> exn + string" where
  "generate_jwt_with_expiration J now secret host_id seconds =
     (case jl_sign J (jobject [(''iss'', JStr host_id), (''iat'', JNum now), (''exp'', JNum (now + seconds))]) secret of
        Inl e \<Rightarrow> Inl (RuntimeError (''Failed to generate JWT: '' @ what e))
      | Inr t \<Rightarrow> Inr t)"

text \<open>Seconds that are left; \<open>-1\<close> stands for a permanent token.\<close>

(* src/discoverymgr/jwt.cpp:80-101 check_token_expiration *)
definition check_token_expiration :: "jwt_lib \<Rightarrow> time \<Rightarrow> string \<Rightarrow> int" where
  "check_token_expiration J now token =
     (case jl_decode J token of
        Inl _ \<Rightarrow> 0
      | Inr claims \<Rightarrow>
          (case jfind ''Permanent'' claims of
             Some (JStr s) \<Rightarrow>
               if s = ''true'' then - 1
               else (case expires_at claims of Inl _ \<Rightarrow> 0 | Inr e \<Rightarrow> if e - now \<le> 0 then 0 else to_int32 (e - now))
           | Some _ \<Rightarrow> 0
           | None \<Rightarrow> (case expires_at claims of Inl _ \<Rightarrow> 0 | Inr e \<Rightarrow> if e - now \<le> 0 then 0 else to_int32 (e - now))))"

subsection \<open>State\<close>

(* include/discoverymgr/multi_map.hpp:29-38 MultiMap::Master *)
record master_info =
  ms_name :: string
  ms_port :: int
  ms_teamName :: string
  ms_teamID :: uuid
  ms_ipv4 :: "string list"
  ms_ipv6 :: "string list"

(* include/discoverymgr/multi_map.hpp:40-59 MultiMap::MasterTeam, MultiMap::Member *)
record member_info =
  me_name :: string
  me_port :: int
  me_jwt :: string
  me_expiry :: int
  me_last_updated :: time
  me_ipv4 :: "string list"
  me_ipv6 :: "string list"
  me_master_team :: "string \<times> uuid"

(* include/discoverymgr/multi_map.hpp:61-72 MultiMap::Peer *)
record team_peer =
  tp_name :: string
  tp_port :: int
  tp_last_updated :: time
  tp_ipv4 :: "string list"
  tp_ipv6 :: "string list"
  tp_teamName :: string
  tp_teamID :: uuid

(* include/discoverymgr/discovery_mgr.hpp:44-52 TeamToken *)
record team_token =
  tt_teamName :: string
  tt_teamID :: uuid
  tt_secret :: string
  tt_jwt :: string
  tt_masterPort :: int
  tt_masterIP :: "string list"

(* include/discoverymgr/discovery_mgr.hpp:98-118 DiscoveryManager *)
record disc =
  dm_name :: string
  dm_framework_id :: uuid
  dm_http_port :: int
  dm_master :: bool
  dm_master_token :: team_token
  dm_team_tokens :: "team_token list"
  dm_TeamMaster :: "(string, master_info) omap"
  dm_TeamMember :: "(string, member_info) omap"
  dm_Peers :: "(string, team_peer) omap"
  dm_ipv4_addresses :: "string list"
  dm_ipv6_addresses :: "string list"
  dm_mdns_running :: bool

text \<open>Members of a record without initialiser hold any value: \<open>junk\<close>.\<close>

definition new_master :: "int \<Rightarrow> master_info" where
  "new_master junk = \<lparr>ms_name = [], ms_port = junk, ms_teamName = [], ms_teamID = 0, ms_ipv4 = [], ms_ipv6 = []\<rparr>"

definition new_member :: "int \<Rightarrow> member_info" where
  "new_member junk = \<lparr>me_name = [], me_port = junk, me_jwt = [], me_expiry = junk, me_last_updated = junk, me_ipv4 = [], me_ipv6 = [],
     me_master_team = ([], 0)\<rparr>"

definition new_peer :: "int \<Rightarrow> team_peer" where
  "new_peer junk = \<lparr>tp_name = [], tp_port = junk, tp_last_updated = junk, tp_ipv4 = [], tp_ipv6 = [], tp_teamName = [], tp_teamID = 0\<rparr>"

subsection \<open>Masters\<close>

definition set_token_master :: "uuid \<Rightarrow> string list \<Rightarrow> int \<Rightarrow> team_token list \<Rightarrow> team_token list" where
  "set_token_master i ips port tokens =
     map (\<lambda>t. if tt_teamID t = i then t\<lparr>tt_masterIP := ips, tt_masterPort := port\<rparr> else t) tokens"

definition master_of_broadcast :: "json \<Rightarrow> exn + (string \<times> string)" where
  "master_of_broadcast j =
     rbind (const_at ''master'' j) (\<lambda>a. rbind (const_first a) (\<lambda>m.
     rbind (rbind (const_at ''teamID'' m) get_string) (\<lambda>i. rbind (rbind (const_at ''teamName'' m) get_string) (\<lambda>n. Inr (i, n)))))"

definition need_uuid :: "text_lib \<Rightarrow> string \<Rightarrow> exn + uuid" where
  "need_uuid L s = (case read_uuid L s of None \<Rightarrow> Inl (BadAccess ''bad optional access'') | Some i \<Rightarrow> Inr i)"

(* src/discoverymgr/discovery_mgr.cpp:943-982 DiscoveryManager::create_master_info *)
definition create_master_info :: "text_lib \<Rightarrow> master_info \<Rightarrow> json \<Rightarrow> disc \<Rightarrow> exn + (master_info \<times> disc)" where
  "create_master_info L x j D =
     rbind (master_of_broadcast j) (\<lambda>(team_id, team_name).
     rbind (need_uuid L team_id) (\<lambda>i.
       let x1 = x\<lparr>ms_teamName := team_name, ms_teamID := i\<rparr>;
           x2 = (case str_at ''name'' j of Some n \<Rightarrow> x1\<lparr>ms_name := n\<rparr> | None \<Rightarrow> x1);
           x3 = (case int_at ''port'' j of Some p \<Rightarrow> x2\<lparr>ms_port := p\<rparr> | None \<Rightarrow> x2);
           (x4, tokens) = (case strs_at ''ipv4'' j of
              Some ips \<Rightarrow>
                (let y = x3\<lparr>ms_ipv4 := ms_ipv4 x3 @ ips\<rparr> in
                 (y, set_token_master i (ms_ipv4 y) (ms_port y) (dm_team_tokens D)))
            | None \<Rightarrow> (x3, dm_team_tokens D));
           x5 = (case strs_at ''ipv6'' j of Some ips \<Rightarrow> x4\<lparr>ms_ipv6 := ms_ipv6 x4 @ ips\<rparr> | None \<Rightarrow> x4)
       in Inr (x5, D\<lparr>dm_team_tokens := tokens\<rparr>)))"

text \<open>The port of the tokens follows only a change of the addresses.\<close>

(* src/discoverymgr/discovery_mgr.cpp:985-1034 DiscoveryManager::update_master_info *)
definition update_master_info :: "text_lib \<Rightarrow> master_info \<Rightarrow> json \<Rightarrow> disc \<Rightarrow> exn + (master_info \<times> disc)" where
  "update_master_info L x j D =
     rbind (master_of_broadcast j) (\<lambda>(team_id, team_name).
     rbind (rbind (const_at ''name'' j) get_string) (\<lambda>name.
     rbind (rbind (const_at ''port'' j) get_int) (\<lambda>port.
     rbind (need_uuid L team_id) (\<lambda>i.
       let x1 = x\<lparr>ms_name := name, ms_port := port, ms_teamName := team_name, ms_teamID := i\<rparr>;
           (x2, tokens) = (case strs_at ''ipv4'' j of
              Some ips \<Rightarrow>
                if ms_ipv4 x1 \<noteq> ips then (x1\<lparr>ms_ipv4 := ips\<rparr>, set_token_master i ips port (dm_team_tokens D))
                else (x1, dm_team_tokens D)
            | None \<Rightarrow> (x1, dm_team_tokens D));
           x3 = (case strs_at ''ipv6'' j of Some ips \<Rightarrow> x2\<lparr>ms_ipv6 := ips\<rparr> | None \<Rightarrow> x2)
       in Inr (x3, D\<lparr>dm_team_tokens := tokens\<rparr>)))))"

subsection \<open>Peers\<close>

(* src/discoverymgr/discovery_mgr.cpp:1136-1161 DiscoveryManager::create_peer_info *)
definition create_peer_info :: "text_lib \<Rightarrow> team_peer \<Rightarrow> json \<Rightarrow> exn + team_peer" where
  "create_peer_info L x j =
     (let x1 = (case str_at ''name'' j of Some n \<Rightarrow> x\<lparr>tp_name := n\<rparr> | None \<Rightarrow> x);
          x2 = (case int_at ''port'' j of Some p \<Rightarrow> x1\<lparr>tp_port := p\<rparr> | None \<Rightarrow> x1);
          x3 = (case strs_at ''ipv4'' j of Some ips \<Rightarrow> x2\<lparr>tp_ipv4 := tp_ipv4 x2 @ ips\<rparr> | None \<Rightarrow> x2);
          x4 = (case strs_at ''ipv6'' j of Some ips \<Rightarrow> x3\<lparr>tp_ipv6 := tp_ipv6 x3 @ ips\<rparr> | None \<Rightarrow> x3);
          x5 = (case str_at ''teamName'' j of Some n \<Rightarrow> x4\<lparr>tp_teamName := n\<rparr> | None \<Rightarrow> x4)
      in case str_at ''teamID'' j of
           Some s \<Rightarrow> rbind (need_uuid L s) (\<lambda>i. Inr (x5\<lparr>tp_teamID := i\<rparr>))
         | None \<Rightarrow> Inr x5)"

(* src/discoverymgr/discovery_mgr.cpp:1164-1194 DiscoveryManager::update_peer_info *)
definition update_peer_info :: "text_lib \<Rightarrow> team_peer \<Rightarrow> json \<Rightarrow> exn + team_peer" where
  "update_peer_info L x j =
     (let x1 = (case str_at ''name'' j of Some n \<Rightarrow> x\<lparr>tp_name := n\<rparr> | None \<Rightarrow> x);
          x2 = (case int_at ''port'' j of Some p \<Rightarrow> x1\<lparr>tp_port := p\<rparr> | None \<Rightarrow> x1);
          x3 = (case strs_at ''ipv4'' j of Some ips \<Rightarrow> x2\<lparr>tp_ipv4 := ips\<rparr> | None \<Rightarrow> x2);
          x4 = (case strs_at ''ipv6'' j of Some ips \<Rightarrow> x3\<lparr>tp_ipv6 := ips\<rparr> | None \<Rightarrow> x3);
          x5 = (case str_at ''teamName'' j of Some n \<Rightarrow> x4\<lparr>tp_teamName := n\<rparr> | None \<Rightarrow> x4)
      in case str_at ''teamID'' j of
           Some s \<Rightarrow> rbind (need_uuid L s) (\<lambda>i. Inr (x5\<lparr>tp_teamID := i\<rparr>))
         | None \<Rightarrow> Inr x5)"

subsection \<open>Members\<close>

text \<open>The last entry of the list of led teams counts.\<close>

fun master_teams :: "text_lib \<Rightarrow> json list \<Rightarrow> string \<times> uuid \<Rightarrow> exn + (string \<times> uuid)" where
  "master_teams L [] t = Inr t"
| "master_teams L (m # ms) t =
     (if jcontains ''teamID'' m \<and> jcontains ''teamName'' m then
        rbind (rbind (const_at ''teamID'' m) get_string) (\<lambda>team_id.
        rbind (rbind (const_at ''teamName'' m) get_string) (\<lambda>team_name.
        rbind (need_uuid L team_id) (\<lambda>i. master_teams L ms (team_name, i))))
      else master_teams L ms t)"

definition jwt_of :: "json \<Rightarrow> exn + string" where
  "jwt_of j = rbind (const_at ''team'' j) (\<lambda>a. rbind (const_first a) (\<lambda>t. rbind (const_at ''jwt'' t) get_string))"

(* src/discoverymgr/discovery_mgr.cpp:1066-1100 DiscoveryManager::create_member_info *)
definition create_member_info :: "text_lib \<Rightarrow> jwt_lib \<Rightarrow> time \<Rightarrow> member_info \<Rightarrow> json \<Rightarrow> exn + member_info" where
  "create_member_info L J now x j =
     (let x1 = (case str_at ''name'' j of Some n \<Rightarrow> x\<lparr>me_name := n\<rparr> | None \<Rightarrow> x);
          x2 = (case int_at ''port'' j of Some p \<Rightarrow> x1\<lparr>me_port := p\<rparr> | None \<Rightarrow> x1);
          x3 = (case strs_at ''ipv4'' j of Some ips \<Rightarrow> x2\<lparr>me_ipv4 := me_ipv4 x2 @ ips\<rparr> | None \<Rightarrow> x2);
          x4 = (case strs_at ''ipv6'' j of Some ips \<Rightarrow> x3\<lparr>me_ipv6 := me_ipv6 x3 @ ips\<rparr> | None \<Rightarrow> x3);
          led = (case jfind ''master'' j of Some (JArr ms) \<Rightarrow> ms | _ \<Rightarrow> [])
      in rbind (master_teams L led (me_master_team x4)) (\<lambda>t.
         rbind (jwt_of j) (\<lambda>jwt.
           Inr (x4\<lparr>me_master_team := t, me_jwt := jwt, me_expiry := check_token_expiration J now jwt, me_last_updated := now\<rparr>))))"

(* src/discoverymgr/discovery_mgr.cpp:1103-1133 DiscoveryManager::update_member_info *)
definition update_member_info :: "jwt_lib \<Rightarrow> time \<Rightarrow> member_info \<Rightarrow> json \<Rightarrow> exn + member_info" where
  "update_member_info J now x j =
     (let x1 = (case str_at ''name'' j of Some n \<Rightarrow> x\<lparr>me_name := n\<rparr> | None \<Rightarrow> x);
          x2 = (case int_at ''port'' j of Some p \<Rightarrow> x1\<lparr>me_port := p\<rparr> | None \<Rightarrow> x1);
          x3 = (case strs_at ''ipv4'' j of Some ips \<Rightarrow> x2\<lparr>me_ipv4 := ips\<rparr> | None \<Rightarrow> x2);
          x4 = (case strs_at ''ipv6'' j of Some ips \<Rightarrow> x3\<lparr>me_ipv6 := ips\<rparr> | None \<Rightarrow> x3)
      in rbind (jwt_of j) (\<lambda>jwt.
           Inr (x4\<lparr>me_jwt := jwt, me_expiry := check_token_expiration J now jwt, me_last_updated := now\<rparr>)))"

subsection \<open>Broadcasts\<close>

text \<open>A datagram. Only a parse error of the text is caught: any other exception leaves the callback of the event loop.
  \<open>Inr\<close> is the state after the callback.\<close>

(* src/discoverymgr/discovery_mgr.cpp:777-875 DiscoveryManager::parse_ipv4_broadcast *)
definition parse_ipv4_broadcast :: "text_lib \<Rightarrow> int \<Rightarrow> string \<Rightarrow> disc \<Rightarrow> exn + disc" where
  "parse_ipv4_broadcast L junk packet D =
     (case parse L packet of
        Inl _ \<Rightarrow> Inr D
      | Inr j \<Rightarrow>
          if \<not> jcontains ''id'' j then Inr D
          else rbind (rbind (const_at ''id'' j) get_string) (\<lambda>i.
            if i = show_uuid L (dm_framework_id D) then Inr D
            else (case jfind ''master'' j of
                Some (JArr ms) \<Rightarrow>
                  (let m = (case ms of [] \<Rightarrow> JNull | x # _ \<Rightarrow> x) in
                   if jcontains ''teamID'' m \<and> jcontains ''teamName'' m then
                     rbind (rbind (const_at ''teamID'' m) get_string) (\<lambda>team_id.
                     rbind (rbind (const_at ''teamName'' m) get_string) (\<lambda>team_name.
                       case read_uuid L team_id of
                         None \<Rightarrow> Inr D
                       | Some _ \<Rightarrow>
                           rbind (case map_of (dm_TeamMaster D) i of
                                    None \<Rightarrow> create_master_info L (new_master junk) j D
                                  | Some x \<Rightarrow> update_master_info L x j D) (\<lambda>(x, D').
                             Inr (D'\<lparr>dm_TeamMaster := oput i x (dm_TeamMaster D')\<rparr>))))
                   else Inr D)
              | _ \<Rightarrow>
                  (case str_at ''teamID'' j of
                     None \<Rightarrow> Inr D
                   | Some team_id \<Rightarrow>
                       (case read_uuid L team_id of
                          None \<Rightarrow> Inr D
                        | Some team \<Rightarrow>
                            if \<not> (\<exists>t\<in>set (dm_team_tokens D). tt_teamID t = team) then Inr D
                            else rbind (case map_of (dm_Peers D) i of
                                          None \<Rightarrow> create_peer_info L (new_peer junk) j
                                        | Some x \<Rightarrow> update_peer_info L x j) (\<lambda>x.
                              Inr (D\<lparr>dm_Peers := oput i x (dm_Peers D)\<rparr>)))))))"

subsection \<open>Joining and leaving\<close>

(* src/discoverymgr/discovery_mgr.cpp:1037-1063 DiscoveryManager::join_team *)
definition join_team :: "int \<Rightarrow> uuid \<Rightarrow> string \<Rightarrow> disc \<Rightarrow> (string + bool) \<times> disc" where
  "join_team junk teamID jwt D =
     (if \<exists>t\<in>set (dm_team_tokens D). tt_teamID t = teamID then (Inr True, D)
      else (case find (\<lambda>(i, m). ms_teamID m = teamID) (dm_TeamMaster D) of
              None \<Rightarrow> (Inl ''Team Master not found'', D)
            | Some (i, m) \<Rightarrow>
                (Inr True, D\<lparr>dm_team_tokens := dm_team_tokens D @
                   [\<lparr>tt_teamName = ms_teamName m, tt_teamID = teamID, tt_secret = [], tt_jwt = jwt,
                     tt_masterPort = ms_port m, tt_masterIP = ms_ipv4 m\<rparr>]\<rparr>)))"

definition bad_json :: exn where
  "bad_json = InvalidArgument ''Invalid JSON format''"

definition parse_body :: "text_lib \<Rightarrow> string \<Rightarrow> exn + json" where
  "parse_body L body = (case parse L body of Inl _ \<Rightarrow> Inl bad_json | Inr j \<Rightarrow> Inr j)"

(* src/discoverymgr/discovery_mgr.cpp:223-245 POST /api/team/join *)
definition api_team_join :: "text_lib \<Rightarrow> int \<Rightarrow> string \<Rightarrow> disc \<Rightarrow> (exn + string) \<times> disc" where
  "api_team_join L junk body D =
     (case parse_body L body of
        Inl e \<Rightarrow> (Inl e, D)
      | Inr j \<Rightarrow>
          (case (str_at ''teamID'' j, str_at ''jwt'' j) of
             (Some team_id, Some jwt) \<Rightarrow>
               (case read_uuid L team_id of
                  None \<Rightarrow> (Inl (InvalidArgument ''Invalid teamID format''), D)
                | Some i \<Rightarrow>
                    (let (r, D') = join_team junk i jwt D in
                     (case r of
                        Inl e \<Rightarrow> (Inl (RuntimeError e), D')
                      | Inr b \<Rightarrow> (Inr (if b then ''Successfully joined team'' else ''Already in team''), D'))))
           | _ \<Rightarrow> (Inl (InvalidArgument ''Missing required fields: teamID or jwt''), D)))"

(* src/discoverymgr/discovery_mgr.cpp:248-277 POST /api/team/leave *)
definition api_team_leave :: "text_lib \<Rightarrow> string \<Rightarrow> disc \<Rightarrow> (exn + string) \<times> disc" where
  "api_team_leave L body D =
     (case parse_body L body of
        Inl e \<Rightarrow> (Inl e, D)
      | Inr j \<Rightarrow>
          (case str_at ''teamID'' j of
             None \<Rightarrow> (Inl (InvalidArgument ''Missing or invalid teamID''), D)
           | Some team_id \<Rightarrow>
               (case read_uuid L team_id of
                  None \<Rightarrow> (Inl (InvalidArgument ''Invalid teamID format''), D)
                | Some i \<Rightarrow>
                    (let kept = filter (\<lambda>t. tt_teamID t \<noteq> i) (dm_team_tokens D) in
                     if length kept = length (dm_team_tokens D)
                     then (Inl (InvalidArgument ''Team token not found''), D)
                     else (Inr ''Successfully left team'', D\<lparr>dm_team_tokens := kept\<rparr>)))))"

subsection \<open>Heartbeats of members\<close>

text \<open>The expiry is looked up without the secret; the id of the member is the one it states.\<close>

(* src/discoverymgr/discovery_mgr.cpp:307-357 POST /api/team-heartbeat *)
definition api_team_heartbeat :: "text_lib \<Rightarrow> jwt_lib \<Rightarrow> time \<Rightarrow> int \<Rightarrow> string \<Rightarrow> disc \<Rightarrow> exn + disc" where
  "api_team_heartbeat L J now junk body D =
     rbind (parse_body L body) (\<lambda>j.
       case str_at ''id'' j of
         None \<Rightarrow> Inl (InvalidArgument ''Missing or invalid id field'')
       | Some i \<Rightarrow>
           (case jfind ''team'' j of
              Some (JArr ts) \<Rightarrow>
                rbind (first_or_null (JArr ts)) (\<lambda>team.
                rbind (const_at ''teamID'' team) (\<lambda>team_id.
                  if team_id \<noteq> JStr (show_uuid L (tt_teamID (dm_master_token D)))
                  then Inl (InvalidArgument ''Team ID mismatch'')
                  else rbind (rbind (const_at ''jwt'' team) get_string) (\<lambda>jwt.
                    if \<not> is_valid_jwt_token J now jwt (tt_secret (dm_master_token D)) \<or> is_expired_jwt_token J now jwt
                    then Inl (InvalidArgument ''Invalid or expired JWT'')
                    else rbind (case map_of (dm_TeamMember D) i of
                                  None \<Rightarrow> create_member_info L J now (new_member junk) j
                                | Some x \<Rightarrow> update_member_info J now x j) (\<lambda>x.
                      Inr (D\<lparr>dm_TeamMember := oput i x (dm_TeamMember D)\<rparr>)))))
            | _ \<Rightarrow> Inl (InvalidArgument ''No team data in the received data'')))"

(* src/discoverymgr/discovery_mgr.cpp:908-924 DiscoveryManager::start_cleanup_inactive_member (timer) *)
definition cleanup_inactive_member :: "int \<Rightarrow> time \<Rightarrow> disc \<Rightarrow> disc" where
  "cleanup_inactive_member timeout now D =
     D\<lparr>dm_TeamMember := filter (\<lambda>(i, m). \<not> now - me_last_updated m > timeout) (dm_TeamMember D)\<rparr>"

subsection \<open>Queries\<close>

definition strs :: "string list \<Rightarrow> json" where
  "strs xs = JArr (map JStr xs)"

(* src/discoverymgr/discovery_mgr.cpp:149-192 GET and POST /api/discovery *)
definition api_discovery :: "text_lib \<Rightarrow> string \<Rightarrow> disc \<Rightarrow> exn + json" where
  "api_discovery L body D =
     rbind (parse_body L body) (\<lambda>j.
       case str_at ''id'' j of
         None \<Rightarrow> Inl (InvalidArgument ''Missing or invalid id'')
       | Some i \<Rightarrow>
           if i = show_uuid L (dm_framework_id D) then Inr (jobject [(''ipv4'', strs (dm_ipv4_addresses D))])
           else (case map_of (dm_TeamMember D) i of
                   None \<Rightarrow> Inl (InvalidArgument ''ID not found in TeamMember'')
                 | Some m \<Rightarrow> Inr (jobject [(''ipv4'', strs (me_ipv4 m))])))"

(* src/discoverymgr/discovery_mgr.cpp:195-205 GET /api/team/masters *)
definition api_team_masters :: "text_lib \<Rightarrow> disc \<Rightarrow> json" where
  "api_team_masters L D = JArr (map (\<lambda>(i, m). jobject [(''name'', JStr (ms_name m)), (''port'', JNum (ms_port m)),
     (''teamName'', JStr (ms_teamName m)), (''teamID'', uuid_to_json L (ms_teamID m)), (''ipv4'', strs (ms_ipv4 m)),
     (''ipv6'', strs (ms_ipv6 m)), (''id'', JStr i)]) (dm_TeamMaster D))"

(* src/discoverymgr/discovery_mgr.cpp:208-220 GET /api/team *)
definition api_team :: "text_lib \<Rightarrow> disc \<Rightarrow> json" where
  "api_team L D = JArr (map (\<lambda>t. jobject [(''teamName'', JStr (tt_teamName t)), (''teamID'', JStr (show_uuid L (tt_teamID t)))])
     (dm_team_tokens D))"

(* src/discoverymgr/discovery_mgr.cpp:280-304 GET /api/team/peers *)
definition api_team_peers :: "text_lib \<Rightarrow> disc \<Rightarrow> json" where
  "api_team_peers L D = JArr (map (\<lambda>(i, m).
     jput_if (fst (me_master_team m) \<noteq> [] \<and> snd (me_master_team m) \<noteq> 0) ''master_team''
       (jobject [(''teamName'', JStr (fst (me_master_team m))), (''teamID'', JStr (show_uuid L (snd (me_master_team m))))])
       (jobject [(''name'', JStr (me_name m)), (''port'', JNum (me_port m)), (''expiry'', JNum (me_expiry m)),
         (''ipv4'', strs (me_ipv4 m)), (''ipv6'', strs (me_ipv6 m)), (''id'', JStr i),
         (''last_updated'', JNum (me_last_updated m))])) (dm_TeamMember D))"

subsection \<open>Sending\<close>

definition own_data :: "text_lib \<Rightarrow> disc \<Rightarrow> json" where
  "own_data L D = jobject [(''name'', JStr (dm_name D)), (''id'', JStr (show_uuid L (dm_framework_id D))),
     (''ipv4'', strs (dm_ipv4_addresses D)), (''ipv6'', strs (dm_ipv6_addresses D)), (''port'', JNum (dm_http_port D))]"

definition team_entry :: "text_lib \<Rightarrow> team_token \<Rightarrow> (string \<times> json) list" where
  "team_entry L t = [(''teamName'', JStr (tt_teamName t)), (''teamID'', JStr (show_uuid L (tt_teamID t)))]"

(* src/discoverymgr/discovery_mgr.cpp:590-607 try_send_team_heartbeat *)
definition try_send_team_heartbeat :: "text_lib \<Rightarrow> http_post \<Rightarrow> team_token \<Rightarrow> json \<Rightarrow> bool" where
  "try_send_team_heartbeat L post t j =
     list_ex (\<lambda>a. case post a (tt_masterPort t) ''/api/team-heartbeat'' (dump L j) of
       Some (status, body) \<Rightarrow> status = 200 | None \<Rightarrow> False) (tt_masterIP t)"

(* src/discoverymgr/discovery_mgr.cpp:610-637 DiscoveryManager::send_team_data *)
definition send_team_data :: "text_lib \<Rightarrow> disc \<Rightarrow> (team_token \<times> json) list" where
  "send_team_data L D =
     map (\<lambda>t. (t, jput_if (dm_master D) ''master'' (JArr [jobject (team_entry L (dm_master_token D))])
                 (jput ''team'' (JArr [jobject (team_entry L t @ [(''jwt'', JStr (tt_jwt t))])]) (own_data L D))))
       (dm_team_tokens D)"

datatype channel = Udp4 | Udp6

definition token_broadcast :: "text_lib \<Rightarrow> disc \<Rightarrow> team_token \<Rightarrow> json" where
  "token_broadcast L D t = fold (\<lambda>(k, v). jput k v) (team_entry L t) (own_data L D)"

definition master_broadcast :: "text_lib \<Rightarrow> disc \<Rightarrow> json" where
  "master_broadcast L D = jput ''master'' (JArr [jobject (team_entry L (dm_master_token D))]) (own_data L D)"

text \<open>What one tick of the timer sends: the datagrams, and how often the members' heartbeats. The IPv6 branch sends
  the datagram of the master over IPv4.\<close>

(* src/discoverymgr/discovery_mgr.cpp:640-726 DiscoveryManager::start_sending (timer) *)
definition timer_sends :: "text_lib \<Rightarrow> bool \<Rightarrow> bool \<Rightarrow> disc \<Rightarrow> (channel \<times> json) list \<times> nat" where
  "timer_sends L ipv4 ipv6 D =
     ((if ipv4 then map (\<lambda>t. (Udp4, token_broadcast L D t)) (dm_team_tokens D)
                      @ (if dm_master D then [(Udp4, master_broadcast L D)] else []) else [])
      @ (if ipv6 then map (\<lambda>t. (Udp6, token_broadcast L D t)) (dm_team_tokens D)
                      @ (if dm_master D then [(Udp4, master_broadcast L D)] else []) else []),
      (if ipv4 then 1 else 0) + (if ipv6 then 1 else 0))"

text \<open>The mDNS service runs exactly while this node is the elected leader.\<close>

(* src/discoverymgr/discovery_mgr.cpp:729-757 guard_mdns_is_on, guard_mdns_is_off, start_update_mdns_state *)
definition update_mdns_state :: "bully option \<Rightarrow> disc \<Rightarrow> disc" where
  "update_mdns_state B D =
     (case B of
        None \<Rightarrow> D
      | Some b \<Rightarrow> if self_is_leader b then (if dm_mdns_running D then D else D\<lparr>dm_mdns_running := True\<rparr>)
                 else (if \<not> dm_mdns_running D then D else D\<lparr>dm_mdns_running := False\<rparr>))"

subsection \<open>The transport of elections\<close>

text \<open>A broadcast is put in a buffer and the sending routine woken. No statement of the program starts a thread that
  runs the routine; the state records whether one does.\<close>

(* src/discoverymgr/discovery_mgr.cpp:76-85 DiscoveryMgrElectionInterface *)
record election_interface =
  ei_thread :: bool
  ei_running :: bool
  ei_msg_buf :: "election_msg option"

(* src/discoverymgr/discovery_mgr.cpp:84-86 DiscoveryMgrElectionInterface::DiscoveryMgrElectionInterface *)
definition new_election_interface :: election_interface where
  "new_election_interface = \<lparr>ei_thread = False, ei_running = True, ei_msg_buf = None\<rparr>"

(* src/discoverymgr/discovery_mgr.cpp:91-97 DiscoveryMgrElectionInterface::broadcast *)
definition interface_broadcast :: "election_msg \<Rightarrow> election_interface \<Rightarrow> election_interface" where
  "interface_broadcast msg I = I\<lparr>ei_msg_buf := Some msg\<rparr>"

(* src/discoverymgr/discovery_mgr.cpp:125-141 DiscoveryMgrElectionInterface::make_pinfo *)
definition make_pinfo :: "text_lib \<Rightarrow> string \<Rightarrow> team_peer \<Rightarrow> peer_info option" where
  "make_pinfo L i m =
     (case read_uuid L i of
        None \<Rightarrow> None
      | Some u \<Rightarrow>
          (let suffix = (if tp_port m \<noteq> 8080 then ''/http/'' @ dec_int (tp_port m) else []) in
           Some \<lparr>pi_id = u, pi_addresses =
             foldr insort_insert (map (\<lambda>a. ''/ip4/'' @ a @ suffix) (tp_ipv4 m) @ map (\<lambda>a. ''/ip6/'' @ a @ suffix) (tp_ipv6 m)) []\<rparr>))"

(* src/discoverymgr/discovery_mgr.cpp:108-124 DiscoveryMgrElectionInterface::work_broadcast *)
definition work_broadcast :: "text_lib \<Rightarrow> http_post \<Rightarrow> disc \<Rightarrow> election_msg \<Rightarrow> (uuid \<times> election_res) list" where
  "work_broadcast L post D msg =
     List.map_filter (\<lambda>(i, m). map_option (\<lambda>p. (pi_id p, impl_send_peer L post p msg)) (make_pinfo L i m)) (dm_Peers D)"

(* src/discoverymgr/discovery_mgr.cpp:98-106 DiscoveryMgrElectionInterface::work_routine *)
definition work_routine :: "text_lib \<Rightarrow> http_post \<Rightarrow> disc \<Rightarrow> election_interface \<Rightarrow> (uuid \<times> election_res) list \<times> election_interface" where
  "work_routine L post D I =
     (if ei_thread I \<and> ei_running I then
        (case ei_msg_buf I of
           Some msg \<Rightarrow> (work_broadcast L post D msg, I\<lparr>ei_msg_buf := None\<rparr>)
         | None \<Rightarrow> ([], I))
      else ([], I))"

subsection \<open>Configured teams\<close>

text \<open>\<open>as<std::string>\<close> of an entry: a scalar, or a conversion error that skips the entry. A bad \<open>master\<close> flag leaves the
  whole function, and so does an entry that cannot be indexed.\<close>

fun as_string :: "yaml \<Rightarrow> string option" where
  "as_string (YScalar s) = Some s"
| "as_string YNull = Some ''null''"
| "as_string y = None"

definition key_of :: "string \<Rightarrow> yaml \<Rightarrow> yaml option" where
  "key_of k y = (case y of YMap m \<Rightarrow> map_of m k | _ \<Rightarrow> None)"

(* src/discoverymgr/discovery_mgr.cpp:474-510 DiscoveryManager::load_team_config_from_file (loop) *)
fun load_teams :: "text_lib \<Rightarrow> jwt_lib \<Rightarrow> yaml_lib \<Rightarrow> int \<Rightarrow> yaml list \<Rightarrow> disc \<Rightarrow> exn + (bool \<times> disc)" where
  "load_teams L J Y junk [] D = Inr (True, D)"
| "load_teams L J Y junk (YScalar s # teams) D = Inr (False, D)"
| "load_teams L J Y junk (team # teams) D =
     (case (key_of ''teamName'' team, key_of ''teamID'' team, key_of ''secret'' team) of
        (Some n, Some i, Some s) \<Rightarrow>
          (case (as_string n, as_string i) of
             (Some name, Some id_text) \<Rightarrow>
               (case read_uuid L id_text of
                  None \<Rightarrow> load_teams L J Y junk teams D
                | Some tid \<Rightarrow>
                    (case as_string s of
                       None \<Rightarrow> load_teams L J Y junk teams D
                     | Some secret \<Rightarrow>
                         (let t = \<lparr>tt_teamName = name, tt_teamID = tid, tt_secret = secret, tt_jwt = [], tt_masterPort = junk,
                                   tt_masterIP = []\<rparr>;
                              flag = (case key_of ''master'' team of None \<Rightarrow> Some False
                                | Some y \<Rightarrow> (case as_string y of None \<Rightarrow> None | Some b \<Rightarrow> yl_bool Y b))
                          in case flag of
                               None \<Rightarrow> Inr (False, D)
                             | Some True \<Rightarrow> load_teams L J Y junk teams (D\<lparr>dm_master := True, dm_master_token := t\<rparr>)
                             | Some False \<Rightarrow>
                                 rbind (generate_jwt_token J secret (show_uuid L (dm_framework_id D))) (\<lambda>jwt.
                                   load_teams L J Y junk teams
                                     (D\<lparr>dm_team_tokens := dm_team_tokens D @ [t\<lparr>tt_jwt := jwt\<rparr>]\<rparr>)))))
           | _ \<Rightarrow> load_teams L J Y junk teams D)
      | _ \<Rightarrow> load_teams L J Y junk teams D)"

(* src/discoverymgr/discovery_mgr.cpp:470-523 DiscoveryManager::load_team_config_from_file *)
definition load_team_config_from_file ::
  "text_lib \<Rightarrow> jwt_lib \<Rightarrow> yaml_lib \<Rightarrow> int \<Rightarrow> yaml option \<Rightarrow> disc \<Rightarrow> exn + (bool \<times> disc)" where
  "load_team_config_from_file L J Y junk file D =
     (case file of
        None \<Rightarrow> Inr (False, D)
      | Some y \<Rightarrow>
          (case key_of ''discovery_mgr'' y of
             None \<Rightarrow> Inr (False, D)
           | Some d \<Rightarrow>
               (case key_of ''teams'' d of
                  Some (YSeq teams) \<Rightarrow> load_teams L J Y junk teams D
                | Some (YMap m) \<Rightarrow> Inr (m = [], D)
                | Some _ \<Rightarrow> Inr (True, D)
                | None \<Rightarrow> Inr (False, D))))"

subsection \<open>Who is a member\<close>

datatype disc_event =
    DeBroadcast int string
  | DeJoin int string
  | DeLeave string
  | DeHeartbeat time int string
  | DeCleanup int time

fun disc_step :: "text_lib \<Rightarrow> jwt_lib \<Rightarrow> disc_event \<Rightarrow> disc \<Rightarrow> disc" where
  "disc_step L J (DeBroadcast junk packet) D = (case parse_ipv4_broadcast L junk packet D of Inl _ \<Rightarrow> D | Inr D' \<Rightarrow> D')"
| "disc_step L J (DeJoin junk body) D = snd (api_team_join L junk body D)"
| "disc_step L J (DeLeave body) D = snd (api_team_leave L body D)"
| "disc_step L J (DeHeartbeat now junk body) D = (case api_team_heartbeat L J now junk body D of Inl _ \<Rightarrow> D | Inr D' \<Rightarrow> D')"
| "disc_step L J (DeCleanup timeout now) D = cleanup_inactive_member timeout now D"

definition authentic :: "jwt_lib \<Rightarrow> string \<Rightarrow> member_info \<Rightarrow> bool" where
  "authentic J secret m = (is_valid_jwt_token J (me_last_updated m) (me_jwt m) secret
     \<and> \<not> is_expired_jwt_token J (me_last_updated m) (me_jwt m))"

definition members_ok :: "jwt_lib \<Rightarrow> string \<Rightarrow> disc \<Rightarrow> bool" where
  "members_ok J secret D = (tt_secret (dm_master_token D) = secret \<and> (\<forall>(i, m)\<in>set (dm_TeamMember D). authentic J secret m))"

lemma create_member_token:
  "create_member_info L J now x j = Inr y \<Longrightarrow> me_last_updated y = now \<and> jwt_of j = Inr (me_jwt y)"
  by (auto simp: create_member_info_def Let_def result_simps)

lemma update_member_token:
  "update_member_info J now x j = Inr y \<Longrightarrow> me_last_updated y = now \<and> jwt_of j = Inr (me_jwt y)"
  by (auto simp: update_member_info_def Let_def result_simps)

lemma heartbeat_members:
  assumes "api_team_heartbeat L J now junk body D = Inr D'"
  obtains i y where "D' = D\<lparr>dm_TeamMember := oput i y (dm_TeamMember D)\<rparr>" "me_last_updated y = now"
    "is_valid_jwt_token J now (me_jwt y) (tt_secret (dm_master_token D))" "\<not> is_expired_jwt_token J now (me_jwt y)"
proof -
  obtain j where j: "parse_body L body = Inr j" using assms by (auto simp: api_team_heartbeat_def result_simps)
  obtain i where i: "str_at ''id'' j = Some i" using assms j by (auto simp: api_team_heartbeat_def split: option.splits)
  obtain ts where ts: "jfind ''team'' j = Some (JArr ts)"
    using assms j i by (auto simp: api_team_heartbeat_def split: option.splits json.splits)
  obtain team jwt where t: "first_or_null (JArr ts) = Inr team" "rbind (const_at ''jwt'' team) get_string = Inr jwt"
      "is_valid_jwt_token J now jwt (tt_secret (dm_master_token D))" "\<not> is_expired_jwt_token J now jwt"
    and put: "rbind (case map_of (dm_TeamMember D) i of None \<Rightarrow> create_member_info L J now (new_member junk) j
        | Some x \<Rightarrow> update_member_info J now x j) (\<lambda>x. Inr (D\<lparr>dm_TeamMember := oput i x (dm_TeamMember D)\<rparr>)) = Inr D'"
    using assms j i ts
    by (auto simp: api_team_heartbeat_def result_simps simp del: first_or_null.simps split: if_splits)
  obtain y where y: "D' = D\<lparr>dm_TeamMember := oput i y (dm_TeamMember D)\<rparr>" "me_last_updated y = now" "jwt_of j = Inr (me_jwt y)"
    using put create_member_token update_member_token by (auto simp: result_simps split: option.splits)
  have "team \<noteq> JNull" using t(2) by auto
  then have "const_first (JArr ts) = Inr team" using t(1) by (cases ts) auto
  moreover have "const_at ''team'' j = Inr (JArr ts)" using ts by (cases j) auto
  ultimately have "jwt_of j = Inr jwt" using t(2) by (simp add: jwt_of_def)
  then show thesis using that [OF y(1,2)] t(3,4) y(3) by simp
qed

lemma create_master_members:
  "create_master_info L x j D = Inr (y, D') \<Longrightarrow> dm_TeamMember D' = dm_TeamMember D \<and> dm_master_token D' = dm_master_token D"
  by (auto simp: create_master_info_def Let_def result_simps split_beta)

lemma update_master_members:
  "update_master_info L x j D = Inr (y, D') \<Longrightarrow> dm_TeamMember D' = dm_TeamMember D \<and> dm_master_token D' = dm_master_token D"
  by (auto simp: update_master_info_def Let_def result_simps split_beta)

definition same_members :: "disc \<Rightarrow> disc \<Rightarrow> bool" where
  "same_members D D' = (dm_TeamMember D' = dm_TeamMember D \<and> dm_master_token D' = dm_master_token D)"

lemma broadcast_members: "parse_ipv4_broadcast L junk packet D = Inr D' \<Longrightarrow> same_members D D'"
proof -
  assume r: "parse_ipv4_broadcast L junk packet D = Inr D'"
  have refl: "same_members D D" by (simp add: same_members_def)
  show ?thesis
  proof (cases "parse L packet")
    case (Inr j)
    show ?thesis
    proof (cases "rbind (const_at ''id'' j) get_string")
      case id: (Inr i)
      show ?thesis
      proof (cases "\<exists>ms. jfind ''master'' j = Some (JArr ms)")
        case True
        then obtain ms where ms: "jfind ''master'' j = Some (JArr ms)" by blast
        define mm where "mm = (case ms of [] \<Rightarrow> JNull | x # _ \<Rightarrow> x)"
        show ?thesis
          using r unfolding parse_ipv4_broadcast_def Let_def Inr sum.case id rbind.simps ms option.case json.case mm_def [symmetric]
          by (auto simp: rbind_eq_Inr same_members_def split_beta simp del: rbind.simps split: if_splits option.splits
              dest!: create_master_members update_master_members)
      next
        case False
        then have f: "(case jfind ''master'' j of Some (JArr ms) \<Rightarrow> F ms | _ \<Rightarrow> G) = G" for F G
          by (simp split: option.split json.split)
        show ?thesis
          using r unfolding parse_ipv4_broadcast_def Let_def Inr sum.case id rbind.simps f
          by (auto simp: rbind_eq_Inr same_members_def split_beta simp del: rbind.simps split: if_splits option.splits)
      qed
    qed (use r Inr refl in \<open>simp add: parse_ipv4_broadcast_def split: if_splits\<close>)
  qed (use r refl in \<open>simp add: parse_ipv4_broadcast_def\<close>)
qed

lemma join_members: "same_members D (snd (api_team_join L junk body D))"
  by (auto simp: api_team_join_def join_team_def same_members_def Let_def
      split: sum.split option.split prod.split)

lemma leave_members: "same_members D (snd (api_team_leave L body D))"
  by (auto simp: api_team_leave_def same_members_def Let_def split: sum.split option.split)

lemma members_ok_same: "members_ok J secret D \<Longrightarrow> same_members D D' \<Longrightarrow> members_ok J secret D'"
  by (simp add: members_ok_def same_members_def)

lemma members_ok_step: "members_ok J secret D \<Longrightarrow> members_ok J secret (disc_step L J e D)"
proof (cases e)
  case (DeHeartbeat now junk body)
  assume ok: "members_ok J secret D"
  show ?thesis
  proof (cases "api_team_heartbeat L J now junk body D")
    case (Inr D')
    then obtain i y where D': "D' = D\<lparr>dm_TeamMember := oput i y (dm_TeamMember D)\<rparr>" "me_last_updated y = now"
        "is_valid_jwt_token J now (me_jwt y) (tt_secret (dm_master_token D))" "\<not> is_expired_jwt_token J now (me_jwt y)"
      using heartbeat_members by blast
    then have "authentic J secret y" using ok by (simp add: authentic_def members_ok_def)
    then show ?thesis
      using ok D'(1) Inr DeHeartbeat by (auto simp: members_ok_def dest!: set_oput_in)
  qed (use ok DeHeartbeat in simp)
next
  case (DeBroadcast junk packet)
  assume ok: "members_ok J secret D"
  then show ?thesis
    using broadcast_members [of L junk packet D] members_ok_same [of J secret D] by (simp add: DeBroadcast split: sum.split)
next
  case (DeJoin junk body)
  assume "members_ok J secret D"
  then show ?thesis using join_members members_ok_same by (simp add: DeJoin)
next
  case (DeLeave body)
  assume "members_ok J secret D"
  then show ?thesis using leave_members members_ok_same by (simp add: DeLeave)
next
  case (DeCleanup timeout now)
  assume "members_ok J secret D"
  then show ?thesis by (auto simp: DeCleanup cleanup_inactive_member_def members_ok_def)
qed

text \<open>C14: whatever datagrams and requests a master receives, every member it knows has sent a token that was valid and
  not expired, for the secret of its team, when the member was last updated; and a purge leaves only members that were
  updated within the timeout.\<close>
theorem members_are_authenticated:
  assumes "dm_TeamMember D0 = []" "D = cleanup_inactive_member timeout now (fold (disc_step L J) es D0)" "(i, m) \<in> set (dm_TeamMember D)"
  shows "is_valid_jwt_token J (me_last_updated m) (me_jwt m) (tt_secret (dm_master_token D0))
    \<and> \<not> is_expired_jwt_token J (me_last_updated m) (me_jwt m) \<and> now - me_last_updated m \<le> timeout"
proof -
  have "members_ok J (tt_secret (dm_master_token D0)) (fold (disc_step L J) es D)" if "members_ok J (tt_secret (dm_master_token D0)) D"
    for D using that by (induction es arbitrary: D) (auto intro: members_ok_step)
  moreover have "members_ok J (tt_secret (dm_master_token D0)) D0" using assms(1) by (simp add: members_ok_def)
  ultimately have "members_ok J (tt_secret (dm_master_token D0)) (fold (disc_step L J) es D0)" by blast
  then show ?thesis using assms(2,3) by (auto simp: members_ok_def cleanup_inactive_member_def authentic_def)
qed

text \<open>A datagram whose \<open>id\<close> is not a string, from any sender, is not answered by dropping it: the type error is not
  the error that is caught and leaves the callback of the event loop.\<close>
theorem broadcast_type_error_escapes:
  assumes "parse L packet = Inr j" "jfind ''id'' j = Some v" "\<nexists>s. v = JStr s"
  shows "parse_ipv4_broadcast L junk packet D = Inl (type_error ''string'' v)"
proof -
  have "const_at ''id'' j = Inr v" using assms(2) by (cases j) auto
  moreover have "get_string v = Inl (type_error ''string'' v)" using assms(3) by (cases v) auto
  ultimately show ?thesis using assms(1,2) by (simp add: parse_ipv4_broadcast_def jcontains_def)
qed

text \<open>Joining never reports that the team was joined before.\<close>

lemma join_reply_true: "fst (join_team junk i jwt D) \<noteq> Inr False"
  by (simp add: join_team_def split: option.split prod.split)

definition sample_disc :: disc where
  "sample_disc = \<lparr>dm_name = ''f'', dm_framework_id = 1, dm_http_port = 8080, dm_master = True,
     dm_master_token = \<lparr>tt_teamName = ''t'', tt_teamID = 2, tt_secret = ''s'', tt_jwt = [], tt_masterPort = 0, tt_masterIP = []\<rparr>,
     dm_team_tokens = [], dm_TeamMaster = [], dm_TeamMember = [], dm_Peers = [], dm_ipv4_addresses = [], dm_ipv6_addresses = [],
     dm_mdns_running = False\<rparr>"

definition sample_jwt :: jwt_lib where
  "sample_jwt = \<lparr>jl_decode = (\<lambda>t. Inr (JObj [(''Permanent'', JStr ''true'')])), jl_verify = (\<lambda>t s now. t = ''ok''), jl_sign = (\<lambda>j s. Inr ''ok'')\<rparr>"

definition heartbeat_doc :: json where
  "heartbeat_doc = JObj [(''id'', JStr ''9''), (''team'', JArr [JObj [(''jwt'', JStr ''ok''), (''teamID'', JStr ''2'')]])]"

lemma members_are_authenticated_witness:
  "\<exists>m. (''9'', m) \<in> set (dm_TeamMember (cleanup_inactive_member 30 15
       (fold (disc_step (decimal_lib\<lparr>parse := \<lambda>s. Inr heartbeat_doc\<rparr>) sample_jwt) [DeHeartbeat 10 0 []] sample_disc)))
    \<and> is_valid_jwt_token sample_jwt 10 (me_jwt m) ''s''"
proof -
  let ?L = "decimal_lib\<lparr>parse := \<lambda>s. Inr heartbeat_doc\<rparr>"
  let ?D = "cleanup_inactive_member 30 15 (fold (disc_step ?L sample_jwt) [DeHeartbeat 10 0 []] sample_disc)"
  have d: "dec 2 = ''2''" by code_simp
  have "\<exists>m. dm_TeamMember ?D = [(''9'', m)] \<and> me_last_updated m = 10"
    by (simp add: cleanup_inactive_member_def api_team_heartbeat_def parse_body_def heartbeat_doc_def str_at_def sample_disc_def
        decimal_lib_def d is_valid_jwt_token_def is_expired_jwt_token_def sample_jwt_def expires_at_def create_member_info_def
        int_at_def strs_at_def jwt_of_def new_member_def)
  then obtain m where m: "(''9'', m) \<in> set (dm_TeamMember ?D)" "me_last_updated m = 10" by auto
  from members_are_authenticated [OF _ refl m(1)] have "is_valid_jwt_token sample_jwt 10 (me_jwt m) ''s''"
    using m(2) by (simp add: sample_disc_def)
  then show ?thesis using m(1) by blast
qed

lemma broadcast_type_error_escapes_witness:
  "parse_ipv4_broadcast (decimal_lib\<lparr>parse := \<lambda>s. Inr (JObj [(''id'', JNum 5)])\<rparr>) 0 ''x'' sample_disc = Inl (type_error ''string'' (JNum 5))"
  by (rule broadcast_type_error_escapes [where j = "JObj [(''id'', JNum 5)]"]) simp_all

end
