(* ===== verification/Files.thy ===== *)
theory Files
  imports Prelude
begin

section \<open>Files\<close>

text \<open>
  The part of \<open>std::filesystem\<close> the framework uses: absolute paths as lists of components, and the tree below the root
  as the list of its directories and files in path order, which is the order a traversal visits them (the library
  leaves it open). There are no symbolic links and one device. A path is looked up after its dots are resolved, as the
  operating system does; \<open>None\<close> is an error of the operating system.
\<close>

type_synonym path = "string list"

datatype fnode = FDir | FFile string

type_synonym fs = "(path, fnode) omap"

named_theorems fs_simps \<open>lookup laws of the file operations\<close>

subsection \<open>Paths\<close>

definition slash :: char where "slash = CHR ''/''"

definition path_of :: "string \<Rightarrow> path" where
  "path_of s = filter (\<lambda>c. c \<noteq> []) (split_all slash s)"

text \<open>\<open>p / s\<close>: an absolute text replaces the path.\<close>

definition path_div :: "path \<Rightarrow> string \<Rightarrow> path" where
  "path_div p s = (if s \<noteq> [] \<and> hd s = slash then path_of s else p @ path_of s)"

fun norm :: "path \<Rightarrow> path \<Rightarrow> path" where
  "norm acc [] = rev acc"
| "norm acc (c # cs) =
     (if c = ''.'' then norm acc cs else if c = ''..'' then norm (tl acc) cs else norm (c # acc) cs)"

definition resolve :: "path \<Rightarrow> path" where
  "resolve p = norm [] p"

text \<open>A component that names an entry of its directory.\<close>

definition plain :: "string \<Rightarrow> bool" where
  "plain c = (c \<noteq> [] \<and> c \<noteq> ''.'' \<and> c \<noteq> ''..'' \<and> slash \<notin> set c)"

definition below :: "path \<Rightarrow> path \<Rightarrow> bool" where
  "below p q = (take (length p) q = p)"

definition path_text :: "path \<Rightarrow> string" where
  "path_text p = concat (map (\<lambda>c. slash # c) p)"

definition filename :: "path \<Rightarrow> string" where
  "filename p = (if p = [] then [] else last p)"

abbreviation dotless :: "path \<Rightarrow> bool" where
  "dotless p \<equiv> list_all (\<lambda>c. c \<noteq> ''.'' \<and> c \<noteq> ''..'') p"

lemma norm_dotless: "dotless cs \<Longrightarrow> norm acc cs = rev acc @ cs"
  by (induction cs arbitrary: acc) auto

lemma plain_dotless: "list_all plain p \<Longrightarrow> dotless p"
  by (auto simp: list_all_iff plain_def)

lemma norm_plain: "list_all plain cs \<Longrightarrow> norm acc cs = rev acc @ cs"
  using norm_dotless plain_dotless by blast

lemma norm_is_dotless: "dotless acc \<Longrightarrow> dotless (norm acc cs)"
proof (induction acc cs rule: norm.induct)
  case (2 acc c cs)
  have "dotless (tl acc)" using 2(4) by (cases acc) auto
  then show ?case using 2 by simp
qed simp

lemma resolve_dotless: "dotless (resolve p)"
  by (simp add: resolve_def norm_is_dotless)

lemma resolve_resolve [simp]: "resolve (resolve p) = resolve p"
  unfolding resolve_def [of "resolve p"] by (simp add: norm_dotless resolve_dotless)

lemma resolve_butlast [simp]: "resolve (butlast (resolve p)) = butlast (resolve p)"
proof -
  have "dotless (butlast (resolve p))" using resolve_dotless [of p] by (auto simp: list_all_iff dest: in_set_butlastD)
  then show ?thesis unfolding resolve_def [of "butlast (resolve p)"] by (simp add: norm_dotless)
qed

lemma resolve_plain [fs_simps]: "list_all plain p \<Longrightarrow> resolve p = p"
  by (simp add: resolve_def norm_plain)

lemma norm_append: "norm acc (p @ q) = norm (rev (norm acc p)) q"
  by (induction acc p rule: norm.induct) auto

lemma norm_clean: "list_all plain p \<Longrightarrow> norm (rev p) q = resolve (p @ q)"
  by (simp add: resolve_def norm_append norm_plain)

lemma path_of_plain: "plain s \<Longrightarrow> path_of s = [s]"
  by (simp add: path_of_def plain_def split_all_single)

lemma path_div_plain [fs_simps]: "plain s \<Longrightarrow> path_div p s = p @ [s]"
  by (cases s) (auto simp: path_div_def path_of_plain, auto simp: plain_def slash_def)

lemma below_refl [simp]: "below p p"
  by (simp add: below_def)

lemma below_append [simp]: "below p (p @ q)"
  by (simp add: below_def)

lemma below_iff: "below p q \<longleftrightarrow> (\<exists>r. q = p @ r)"
  unfolding below_def by (metis append_take_drop_id append_eq_conv_conj)

lemma below_butlast [simp]: "below (butlast p) p"
  by (simp add: below_def butlast_conv_take)

lemma below_trans: "below p q \<Longrightarrow> below q r \<Longrightarrow> below p r"
  by (auto simp: below_iff)

lemma below_comparable: "below p r \<Longrightarrow> below q r \<Longrightarrow> below p q \<or> below q p"
  by (auto simp: below_iff append_eq_append_conv2)

text \<open>A text without dots keeps a path below its directory.\<close>

lemma resolve_confined: "list_all plain p \<Longrightarrow> list_all (\<lambda>c. c \<noteq> ''..'') q \<Longrightarrow> below p (resolve (p @ q))"
proof -
  have "\<exists>r. norm acc q = rev acc @ r" if "list_all (\<lambda>c. c \<noteq> ''..'') q" for acc q
    using that by (induction acc q rule: norm.induct) auto
  then show "list_all plain p \<Longrightarrow> list_all (\<lambda>c. c \<noteq> ''..'') q \<Longrightarrow> ?thesis"
    by (metis below_append norm_clean rev_rev_ident)
qed

subsection \<open>Reading the tree\<close>

definition fs_node :: "fs \<Rightarrow> path \<Rightarrow> fnode option" where
  "fs_node F p = (let r = resolve p in if r = [] then Some FDir else map_of F r)"

definition fs_exists :: "fs \<Rightarrow> path \<Rightarrow> bool" where
  "fs_exists F p = (fs_node F p \<noteq> None)"

definition is_directory :: "fs \<Rightarrow> path \<Rightarrow> bool" where
  "is_directory F p = (fs_node F p = Some FDir)"

definition is_regular_file :: "fs \<Rightarrow> path \<Rightarrow> bool" where
  "is_regular_file F p = (case fs_node F p of Some (FFile _) \<Rightarrow> True | _ \<Rightarrow> False)"

definition read_file :: "fs \<Rightarrow> path \<Rightarrow> string option" where
  "read_file F p = (case fs_node F p of Some (FFile c) \<Rightarrow> Some c | _ \<Rightarrow> None)"

text \<open>The entries of a directory, and all entries below it.\<close>

definition fs_children :: "fs \<Rightarrow> path \<Rightarrow> (path \<times> fnode) list" where
  "fs_children F p = filter (\<lambda>(q, n). below (resolve p) q \<and> length q = length (resolve p) + 1) F"

definition fs_descendants :: "fs \<Rightarrow> path \<Rightarrow> (path \<times> fnode) list" where
  "fs_descendants F p = filter (\<lambda>(q, n). below (resolve p) q \<and> q \<noteq> resolve p) F"

definition relative_to :: "path \<Rightarrow> path \<Rightarrow> path" where
  "relative_to q base = drop (length base) q"

subsection \<open>Changing the tree\<close>

fun make_dirs :: "path list \<Rightarrow> fs \<Rightarrow> fs option" where
  "make_dirs [] F = Some F"
| "make_dirs (p # ps) F =
     (case map_of F p of
        None \<Rightarrow> make_dirs ps (oput p FDir F)
      | Some FDir \<Rightarrow> make_dirs ps F
      | Some (FFile _) \<Rightarrow> None)"

definition create_directories :: "path \<Rightarrow> fs \<Rightarrow> fs option" where
  "create_directories p F = (let r = resolve p in make_dirs (map (\<lambda>n. take n r) [1..<length r + 1]) F)"

definition write_file :: "path \<Rightarrow> string \<Rightarrow> fs \<Rightarrow> fs option" where
  "write_file p c F =
     (let r = resolve p in
      if r = [] \<or> map_of F r = Some FDir \<or> fs_node F (butlast r) \<noteq> Some FDir then None
      else Some (oput r (FFile c) F))"

definition remove_all :: "path \<Rightarrow> fs \<Rightarrow> fs" where
  "remove_all p F = filter (\<lambda>(q, n). \<not> below (resolve p) q) F"

text \<open>Here a target that exists is refused.\<close>

definition rename_dir :: "path \<Rightarrow> path \<Rightarrow> fs \<Rightarrow> fs option" where
  "rename_dir a b F =
     (let ra = resolve a; rb = resolve b in
      if ra = [] \<or> rb = [] \<or> map_of F ra = None \<or> map_of F rb \<noteq> None \<or> fs_node F (butlast rb) \<noteq> Some FDir \<or> below ra rb then None
      else Some (oputs (map (\<lambda>(q, n). (rb @ drop (length ra) q, n)) (filter (\<lambda>(q, n). below ra q) F))
                  (filter (\<lambda>(q, n). \<not> below ra q) F)))"

subsection \<open>What a change leaves alone\<close>

definition only_below :: "path \<Rightarrow> fs \<Rightarrow> fs \<Rightarrow> bool" where
  "only_below p F F' = (\<forall>q. \<not> below p q \<longrightarrow> map_of F' q = map_of F q)"

lemma only_below_refl [simp]: "only_below p F F"
  by (simp add: only_below_def)

lemma only_below_trans: "only_below p F F' \<Longrightarrow> only_below p F' F'' \<Longrightarrow> only_below p F F''"
  by (simp add: only_below_def)

lemma only_below_weaken: "only_below q F F' \<Longrightarrow> below p q \<Longrightarrow> only_below p F F'"
  unfolding only_below_def using below_trans by blast

lemma map_of_filter_key:
  "map_of (filter (\<lambda>(q, n). P q) F) r = (if P r then map_of F r else None)"
  by (induction F) auto

lemma remove_all_lookup [fs_simps]: "map_of (remove_all p F) q = (if below (resolve p) q then None else map_of F q)"
  by (simp add: remove_all_def map_of_filter_key)

lemma only_below_remove_all: "below p (resolve q) \<Longrightarrow> only_below p F (remove_all q F)"
  unfolding only_below_def using below_trans by (auto simp: fs_simps)

lemma only_below_write: "write_file q c F = Some F' \<Longrightarrow> below p (resolve q) \<Longrightarrow> only_below p F F'"
  by (auto simp: write_file_def only_below_def Let_def split: if_splits)

lemma write_file_lookup: "write_file q c F = Some F' \<Longrightarrow> map_of F' = (map_of F)(resolve q \<mapsto> FFile c)"
  by (auto simp: write_file_def Let_def split: if_splits)

lemma make_dirs_lookup:
  "make_dirs ps F = Some F' \<Longrightarrow> map_of F' q = (if q \<in> set ps then Some FDir else map_of F q)"
proof (induction ps arbitrary: F)
  case (Cons p ps)
  then show ?case by (cases "map_of F p") (auto split: fnode.splits if_splits)
qed simp

lemma dirs_of: "set (map (\<lambda>n. take n r) [1..<length r + 1]) = {q. q \<noteq> [] \<and> below q r}"
proof (intro set_eqI iffI)
  fix q
  assume "q \<in> {q. q \<noteq> [] \<and> below q r}"
  then have "q = take (length q) r" "1 \<le> length q" "length q \<le> length r" by (auto simp: below_iff Suc_le_eq)
  then have "length q \<in> set [1..<length r + 1]" by auto
  then show "q \<in> set (map (\<lambda>n. take n r) [1..<length r + 1])"
    using \<open>q = take (length q) r\<close> unfolding set_map by blast
qed (auto simp: below_def min_def)

lemma create_directories_lookup:
  assumes "create_directories p F = Some F'"
  shows "map_of F' q = (if q \<noteq> [] \<and> below q (resolve p) then Some FDir else map_of F q)"
proof -
  have "make_dirs (map (\<lambda>n. take n (resolve p)) [1..<length (resolve p) + 1]) F = Some F'"
    using assms by (simp add: create_directories_def Let_def)
  then have "map_of F' q = (if q \<in> {q. q \<noteq> [] \<and> below q (resolve p)} then Some FDir else map_of F q)"
    unfolding dirs_of [symmetric] by (rule make_dirs_lookup)
  then show ?thesis by simp
qed

lemma create_directories_same:
  assumes "\<And>q. q \<noteq> [] \<Longrightarrow> below q (resolve p) \<Longrightarrow> map_of F q = Some FDir"
  shows "create_directories p F = Some F"
proof -
  have "make_dirs ps F = Some F" if "\<And>q. q \<in> set ps \<Longrightarrow> map_of F q = Some FDir" for ps
    using that by (induction ps) auto
  moreover have "map_of F q = Some FDir" if "q \<in> set (map (\<lambda>n. take n (resolve p)) [1..<length (resolve p) + 1])" for q
    using that assms unfolding dirs_of by blast
  ultimately show ?thesis unfolding create_directories_def Let_def by blast
qed

text \<open>Creating a directory changes nothing outside when the directory around it exists.\<close>

lemma make_dirs_existing:
  "make_dirs ps F = Some F' \<Longrightarrow> q \<in> set ps \<Longrightarrow> map_of F q = None \<or> map_of F q = Some FDir"
proof (induction ps arbitrary: F)
  case (Cons p ps)
  show ?case
  proof (cases "map_of F p")
    case None
    then show ?thesis using Cons by (cases "q = p") (auto dest!: Cons.IH split: if_splits)
  next
    case (Some n)
    then show ?thesis using Cons by (cases n; cases "q = p") auto
  qed
qed simp

definition tree_ok :: "fs \<Rightarrow> bool" where
  "tree_ok F = (\<forall>q p. map_of F q \<noteq> None \<longrightarrow> p \<noteq> [] \<longrightarrow> below p q \<longrightarrow> p \<noteq> q \<longrightarrow> map_of F p = Some FDir)"

lemma only_below_create:
  assumes "create_directories q F = Some F'" "tree_ok F" "map_of F p = Some FDir" "below p (resolve q)"
  shows "only_below p F F'"
  unfolding only_below_def
proof (intro allI impI)
  fix r
  assume r: "\<not> below p r"
  have "map_of F r = Some FDir" if "r \<noteq> []" "below r (resolve q)"
  proof -
    have "below r p" using below_comparable [OF that(2) assms(4)] r by blast
    moreover have "r \<noteq> p" using r by auto
    ultimately show ?thesis using assms(2,3) that(1) unfolding tree_ok_def by blast
  qed
  then show "map_of F' r = map_of F r" using create_directories_lookup [OF assms(1)] by simp
qed

lemma tree_ok_Nil [simp]: "tree_ok []"
  by (simp add: tree_ok_def)

lemma tree_ok_create: "create_directories q F = Some F' \<Longrightarrow> tree_ok F \<Longrightarrow> tree_ok F'"
  unfolding tree_ok_def using create_directories_lookup by (metis below_trans option.distinct(1))

lemma tree_ok_write:
  assumes "write_file q c F = Some F'" "tree_ok F"
  shows "tree_ok F'"
  unfolding tree_ok_def
proof (intro allI impI)
  fix r p
  assume r: "map_of F' r \<noteq> None" "p \<noteq> []" "below p r" "p \<noteq> r"
  have w: "map_of F (resolve q) \<noteq> Some FDir" "resolve q \<noteq> []"
      "fs_node F (butlast (resolve q)) = Some FDir" "F' = oput (resolve q) (FFile c) F"
    using assms(1) by (auto simp: write_file_def Let_def split: if_splits)
  have d: "map_of F p = Some FDir"
  proof (cases "r = resolve q")
    case True
    have p: "below p (butlast (resolve q))"
      using r(3,4) True unfolding below_iff by (metis append_Nil2 butlast_append)
    have b: "butlast (resolve q) \<noteq> [] \<Longrightarrow> map_of F (butlast (resolve q)) = Some FDir"
      using w(3) by (simp add: fs_node_def Let_def)
    show ?thesis
    proof (cases "p = butlast (resolve q)")
      case False
      moreover have "butlast (resolve q) \<noteq> []" using p r(2) by (auto simp: below_def)
      ultimately show ?thesis using p b r(2) assms(2) unfolding tree_ok_def by (metis option.distinct(1))
    qed (use b r(2) in simp)
  next
    case False
    then show ?thesis using r assms(2) w(4) unfolding tree_ok_def by auto
  qed
  then show "map_of F' p = Some FDir" using w by auto
qed

lemma tree_ok_remove_all: "tree_ok F \<Longrightarrow> tree_ok (remove_all p F)"
  unfolding tree_ok_def by (auto simp: fs_simps dest: below_trans)

lemma nothing_below: "tree_ok F \<Longrightarrow> p \<noteq> [] \<Longrightarrow> map_of F p = None \<Longrightarrow> below p q \<Longrightarrow> map_of F q = None"
  unfolding tree_ok_def by (metis option.distinct(1))

lemma fs_exists_iff: "fs_exists F p \<longleftrightarrow> resolve p = [] \<or> map_of F (resolve p) \<noteq> None"
  by (simp add: fs_exists_def fs_node_def Let_def)

subsection \<open>Moving a directory\<close>

definition names_ok :: "fs \<Rightarrow> bool" where
  "names_ok F = (\<forall>q\<in>fst ` set F. dotless q)"

lemma names_ok_create: "create_directories p F = Some F' \<Longrightarrow> names_ok F \<Longrightarrow> names_ok F'"
proof -
  assume c: "create_directories p F = Some F'" and n: "names_ok F"
  have "dotless q" if "q \<in> fst ` set F'" for q
  proof -
    have "map_of F' q \<noteq> None" using that by (simp add: map_of_eq_None_iff)
    then consider "below q (resolve p)" | "map_of F q \<noteq> None"
      using create_directories_lookup [OF c, of q] by (auto split: if_splits)
    then show ?thesis
    proof cases
      case 1
      then show ?thesis using resolve_dotless [of p] by (auto simp: below_iff)
    next
      case 2
      then show ?thesis using n by (auto simp: names_ok_def map_of_eq_None_iff)
    qed
  qed
  then show ?thesis by (simp add: names_ok_def)
qed

lemma names_ok_write: "write_file p c F = Some F' \<Longrightarrow> names_ok F \<Longrightarrow> names_ok F'"
proof -
  assume w: "write_file p c F = Some F'" and n: "names_ok F"
  have "F' = oput (resolve p) (FFile c) F" using w by (simp add: write_file_def Let_def split: if_splits)
  then have "fst ` set F' = insert (resolve p) (fst ` set F)" by (simp only: set_fst_oput)
  then show ?thesis using n resolve_dotless [of p] unfolding names_ok_def by (simp only: ball_simps insert_iff)
qed

lemma names_ok_remove: "names_ok F \<Longrightarrow> names_ok (remove_all p F)"
  by (auto simp: names_ok_def remove_all_def)

lemma map_of_oputs: "map_of (oputs es m) k = (case map_of (rev es) k of None \<Rightarrow> map_of m k | Some v \<Rightarrow> Some v)"
proof (induction es arbitrary: m)
  case (Cons e es)
  then show ?case by (cases e) (auto simp: map_add_def split: option.splits)
qed simp

lemma map_of_moved:
  assumes "distinct (map fst F)"
  shows "map_of (rev (map (\<lambda>(q, n). (b @ drop (length a) q, n)) (filter (\<lambda>(q, n). below a q) F))) k
    = (if below b k then map_of F (a @ drop (length b) k) else None)"
proof -
  let ?F = "filter (\<lambda>(q, n). below a q) F"
  let ?M = "map (\<lambda>(q, n). (b @ drop (length a) q, n)) ?F"
  have inj: "inj_on (\<lambda>q. b @ drop (length a) q) {q. below a q}" by (auto simp: inj_on_def below_iff)
  have fst_M: "map fst ?M = map (\<lambda>q. b @ drop (length a) q) (map fst ?F)" by (simp add: split_beta comp_def)
  have "distinct (map fst ?F)" using assms by (simp add: distinct_map_filter)
  moreover have "set (map fst ?F) \<subseteq> {q. below a q}" by auto
  ultimately have "distinct (map fst ?M)" unfolding fst_M distinct_map using inj inj_on_subset by blast
  then have d: "distinct (map fst (rev ?M))" unfolding rev_map [symmetric] by simp
  have m: "(k, v) \<in> set ?M \<longleftrightarrow> below b k \<and> (a @ drop (length b) k, v) \<in> set F" for v
    by (auto simp: below_iff image_iff split_beta)
  have e: "map_of (rev ?M) k = Some v \<longleftrightarrow> below b k \<and> map_of F (a @ drop (length b) k) = Some v" for v
    using m [of v] map_of_eq_Some_iff [OF d] map_of_eq_Some_iff [OF assms] by (metis set_rev)
  show ?thesis
  proof (cases "map_of (rev ?M) k")
    case None
    then show ?thesis using e by (cases "map_of F (a @ drop (length b) k)") auto
  next
    case (Some v)
    then show ?thesis using e [of v] by auto
  qed
qed

lemma rename_lookup:
  assumes "rename_dir a b F = Some F'" "omap_ok F"
  shows "map_of F' k = (if below (resolve b) k then (case map_of F (resolve a @ drop (length (resolve b)) k) of
            Some n \<Rightarrow> Some n | None \<Rightarrow> if below (resolve a) k then None else map_of F k)
          else if below (resolve a) k then None else map_of F k)"
proof -
  let ?ra = "resolve a" and ?rb = "resolve b"
  have F': "F' = oputs (map (\<lambda>(q, n). (?rb @ drop (length ?ra) q, n)) (filter (\<lambda>(q, n). below ?ra q) F))
      (filter (\<lambda>(q, n). \<not> below ?ra q) F)"
    using assms(1) by (simp add: rename_dir_def Let_def split: if_splits)
  show ?thesis
    unfolding F' map_of_oputs map_of_moved [OF omap_ok_distinct [OF assms(2)]] map_of_filter_key by auto
qed

lemma omap_ok_create: "create_directories p F = Some F' \<Longrightarrow> omap_ok F \<Longrightarrow> omap_ok F'"
proof -
  have "make_dirs ps F = Some F' \<Longrightarrow> omap_ok F \<Longrightarrow> omap_ok F'" for ps
    by (induction ps arbitrary: F) (auto split: option.splits fnode.splits)
  then show "create_directories p F = Some F' \<Longrightarrow> omap_ok F \<Longrightarrow> omap_ok F'"
    unfolding create_directories_def Let_def by blast
qed

lemma omap_ok_remove_all: "omap_ok F \<Longrightarrow> omap_ok (remove_all p F)"
  unfolding remove_all_def by (rule omap_ok_filter)

end
