(* ===== verification/Packages.thy ===== *)
theory Packages
  imports Files Config Lifecycle
begin

section \<open>Packages on disk and in the stores\<close>

text \<open>
  \<open>src/resourcemgr/store_mgr.cpp\<close>: packages are unpacked from an archive into \<open>packages/<name>/<version>\<close> below the home
  directory; the resources and skills a package brings are copied to \<open>crs/_packages\<close> and \<open>skills/_packages\<close>, where the
  framework finds them. \<open>src/resourcemgr/store_client_impl.cpp\<close>: the clients that fetch an archive over FTP or HTTP.
  The archive reader, the YAML parser and the network are parameters. File modes are not modelled.
\<close>

subsection \<open>Specifications and clients\<close>

(* include/resourcemgr/store_client.hpp:22-30 PackageSpec *)
record pkg_spec =
  ps_package :: string
  ps_version :: string
  ps_arch :: string

definition pkg_spec_to_json :: "pkg_spec \<Rightarrow> json" where
  "pkg_spec_to_json s = jobject [(''package'', JStr (ps_package s)), (''version'', JStr (ps_version s)), (''arch'', JStr (ps_arch s))]"

definition pkg_spec_from_json :: "json \<Rightarrow> exn + pkg_spec" where
  "pkg_spec_from_json j =
     rbind (read_required ''package'' get_string j) (\<lambda>p.
     rbind (read_required ''version'' get_string j) (\<lambda>v.
     rbind (read_required ''arch'' get_string j) (\<lambda>a.
       Inr \<lparr>ps_package = p, ps_version = v, ps_arch = a\<rparr>)))"

(* include/resourcemgr/store_client.hpp:27-29 PackageSpec::is_complete *)
definition is_complete :: "pkg_spec \<Rightarrow> bool" where
  "is_complete s = (ps_package s \<noteq> [] \<and> ps_version s \<noteq> [] \<and> ps_arch s \<noteq> [])"

(* include/resourcemgr/store_client.hpp:32-37 HostInfo *)
record host_info =
  hi_os :: string
  hi_os_version :: string
  hi_arch :: string

text \<open>The parts of a URL, and the network: \<open>None\<close> and \<open>Inl\<close> are failed requests.\<close>

record url_view =
  uv_protocol :: string
  uv_host :: string
  uv_username :: string
  uv_password :: string

record ftp_client =
  fc_base_url :: string
  fc_username :: string
  fc_password :: string

datatype zip_entry = ZipBadStat | ZipDir string | ZipFile string "string option"

record store_ext =
  se_home :: path
  se_host :: host_info
  se_urls :: "string list"
  se_parse_url :: "string \<Rightarrow> url_view option"
  se_ftp_list :: "ftp_client \<Rightarrow> string \<Rightarrow> string + string list"
  se_ftp_get :: "ftp_client \<Rightarrow> string \<Rightarrow> string + string"
  se_http_head :: "string \<Rightarrow> string \<Rightarrow> nat option"
  se_http_get :: "string \<Rightarrow> string \<Rightarrow> (nat \<times> string) option"
  se_unzip :: "string \<Rightarrow> zip_entry list option"
  se_load_yaml :: "string \<Rightarrow> exn + yaml"

fun is_sub :: "string \<Rightarrow> string \<Rightarrow> bool" where
  "is_sub s pat = (starts_with s pat \<or> (case s of [] \<Rightarrow> False | _ # s' \<Rightarrow> is_sub s' pat))"

declare is_sub.simps [simp del]

(* src/resourcemgr/store_client_impl.cpp:32-34 version_match *)
definition version_match :: "string \<Rightarrow> string \<Rightarrow> bool" where
  "version_match name version = is_sub name version"

(* src/resourcemgr/store_client_impl.cpp:35-39 make_package_full_name *)
definition make_package_full_name :: "host_info \<Rightarrow> pkg_spec \<Rightarrow> string" where
  "make_package_full_name h s =
     ps_package s @ ''-'' @ ps_version s @ ''-'' @ hi_arch h @ ''-'' @ hi_os h @ ''-'' @ hi_os_version h @ ''.zip''"

datatype store_client = Ftp ftp_client | Http string

(* src/resourcemgr/store_client_impl.cpp:47-61 ClientImplFtp::find_package *)
definition ftp_find :: "store_ext \<Rightarrow> ftp_client \<Rightarrow> pkg_spec \<Rightarrow> pkg_spec option" where
  "ftp_find X c s =
     (case se_ftp_list X c (hi_arch (se_host X) @ ''/'' @ hi_os (se_host X) @ ''/'' @ ps_package s) of
        Inl _ \<Rightarrow> None
      | Inr names \<Rightarrow> if \<exists>n\<in>set names. ends_with n ''.zip'' \<and> version_match n (ps_version s) then Some s else None)"

text \<open>An archive that is fetched as an empty text counts as not fetched.\<close>

(* src/resourcemgr/store_client_impl.cpp:62-75 ClientImplFtp::download *)
definition ftp_download :: "store_ext \<Rightarrow> ftp_client \<Rightarrow> pkg_spec \<Rightarrow> string" where
  "ftp_download X c s =
     (case se_ftp_get X c (hi_arch (se_host X) @ ''/'' @ hi_os (se_host X) @ ''/'' @ ps_package s @ ''/'' @ ps_version s @ ''.zip'') of
        Inl _ \<Rightarrow> []
      | Inr data \<Rightarrow> data)"

(* src/resourcemgr/store_client_impl.cpp:77-86 ClientImplFtp::make *)
definition make_ftp :: "url_view \<Rightarrow> ftp_client" where
  "make_ftp u =
     (let c = \<lparr>fc_base_url = ''ftp://'' @ uv_host u, fc_username = [], fc_password = []\<rparr>;
          c = (if uv_username u \<noteq> [] then c\<lparr>fc_username := uv_username u\<rparr> else c)
      in if uv_password u \<noteq> [] then c\<lparr>fc_username := uv_password u\<rparr> else c)"

(* src/resourcemgr/store_client_impl.cpp:101-117 ClientImplHttp::find_package *)
definition http_find :: "store_ext \<Rightarrow> string \<Rightarrow> pkg_spec \<Rightarrow> pkg_spec option" where
  "http_find X base s =
     (if se_http_head X base (''/packages/'' @ make_package_full_name (se_host X) s) = Some 200 then Some s else None)"

(* src/resourcemgr/store_client_impl.cpp:119-143 ClientImplHttp::download *)
definition http_download :: "store_ext \<Rightarrow> string \<Rightarrow> pkg_spec \<Rightarrow> string" where
  "http_download X base s =
     (case se_http_get X base (''/packages/'' @ make_package_full_name (se_host X) s) of
        None \<Rightarrow> []
      | Some (status, body) \<Rightarrow> if status \<noteq> 200 then [] else body)"

(* src/resourcemgr/store_client_impl.cpp:157-169 StoreClient::make *)
definition make_store_client :: "store_ext \<Rightarrow> string \<Rightarrow> store_client option" where
  "make_store_client X url =
     (case se_parse_url X url of
        None \<Rightarrow> None
      | Some u \<Rightarrow>
          if uv_protocol u = ''ftp:'' then Some (Ftp (make_ftp u))
          else if uv_protocol u = ''http:'' then Some (Http (''http://'' @ uv_host u))
          else None)"

fun client_find :: "store_ext \<Rightarrow> store_client \<Rightarrow> pkg_spec \<Rightarrow> pkg_spec option" where
  "client_find X (Ftp c) s = ftp_find X c s"
| "client_find X (Http b) s = http_find X b s"

fun client_download :: "store_ext \<Rightarrow> store_client \<Rightarrow> pkg_spec \<Rightarrow> string" where
  "client_download X (Ftp c) s = ftp_download X c s"
| "client_download X (Http b) s = http_download X b s"

fun find_in_urls :: "store_ext \<Rightarrow> string list \<Rightarrow> pkg_spec \<Rightarrow> (string \<times> pkg_spec) option" where
  "find_in_urls X [] s = None"
| "find_in_urls X (u # us) s =
     (case make_store_client X u of
        None \<Rightarrow> find_in_urls X us s
      | Some c \<Rightarrow> (case client_find X c s of None \<Rightarrow> find_in_urls X us s | Some s' \<Rightarrow> Some (u, s')))"

(* src/resourcemgr/store_mgr.cpp:40-57 StoreManager::find_package *)
definition find_package :: "store_ext \<Rightarrow> pkg_spec \<Rightarrow> (string \<times> pkg_spec) option" where
  "find_package X s = find_in_urls X (se_urls X) s"

text \<open>A store that has the package but cannot deliver it is passed over.\<close>

fun download_from :: "store_ext \<Rightarrow> string list \<Rightarrow> pkg_spec \<Rightarrow> string" where
  "download_from X [] s = []"
| "download_from X (u # us) s =
     (case make_store_client X u of
        None \<Rightarrow> download_from X us s
      | Some c \<Rightarrow>
          (case client_find X c s of
             None \<Rightarrow> download_from X us s
           | Some s' \<Rightarrow> (let data = client_download X c s' in if data = [] then download_from X us s else data)))"

(* src/resourcemgr/store_mgr.cpp:59-81 StoreManager::download_package *)
definition download_package :: "store_ext \<Rightarrow> pkg_spec \<Rightarrow> string" where
  "download_package X s = download_from X (se_urls X) s"

subsection \<open>The host\<close>

definition trim_back :: "char set \<Rightarrow> string \<Rightarrow> string" where
  "trim_back cs s = rev (dropWhile (\<lambda>c. c \<in> cs) (rev s))"

definition unquote :: "string \<Rightarrow> string" where
  "unquote v = (if v \<noteq> [] \<and> hd v = CHR 34 \<and> last v = CHR 34 then take (length v - 2) (tl v) else v)"

(* src/resourcemgr/store_client_impl.cpp:177-192 parse_os_release_line_to_kv *)
definition parse_os_release_line :: "string \<Rightarrow> string \<times> string" where
  "parse_os_release_line line =
     (case split_at (CHR ''='') line of
        None \<Rightarrow> ([], [])
      | Some (k, v) \<Rightarrow> (trim_back {CHR '' ''} (dropWhile (\<lambda>c. c = CHR '' '') k), unquote v))"

(* src/resourcemgr/store_client_impl.cpp:194-202 parse_os_release *)
definition parse_os_release :: "string \<Rightarrow> (string, string) omap" where
  "parse_os_release data =
     oputs (filter (\<lambda>(k, v). k \<noteq> []) (map parse_os_release_line (getlines (CHR 10) data))) []"

(* src/resourcemgr/store_client_impl.cpp:203-210 trim *)
definition trim :: "string \<Rightarrow> string" where
  "trim s = (let ws = {CHR '' '', CHR 9, CHR 10, CHR 13} in trim_back ws (dropWhile (\<lambda>c. c \<in> ws) s))"

text \<open>The Linux branch: the text of \<open>/etc/os-release\<close> and what \<open>uname -m\<close> printed.\<close>

(* src/resourcemgr/store_client_impl.cpp:247-280 HostInfo::read_from_system *)
definition read_host_info :: "string \<Rightarrow> string \<Rightarrow> exn + host_info" where
  "read_host_info os_release uname =
     (let m = parse_os_release os_release in
      case map_of m ''ID'' of
        None \<Rightarrow> Inl (OutOfRange ''_Map_base::at'')
      | Some os \<Rightarrow>
          (case map_of m ''VERSION_ID'' of
             None \<Rightarrow> Inl (OutOfRange ''_Map_base::at'')
           | Some v \<Rightarrow> Inr \<lparr>hi_os = os, hi_os_version = v, hi_arch = trim uname\<rparr>))"

subsection \<open>Unpacking\<close>

text \<open>A step on the tree: an exception or an expected error or a value, and the tree it left. Directories that a failed
  creation has made are not kept.\<close>

type_synonym 'a disk = "(exn + (string + 'a)) \<times> fs"

definition fs_error :: "string \<Rightarrow> path \<Rightarrow> exn" where
  "fs_error op p = RuntimeError (''filesystem error: '' @ op @ '': '' @ path_text p)"

abbreviation succeeded :: "fs \<Rightarrow> unit disk" where "succeeded F \<equiv> (Inr (Inr ()), F)"
abbreviation failed :: "string \<Rightarrow> fs \<Rightarrow> 'a disk" where "failed e F \<equiv> (Inr (Inl e), F)"
abbreviation threw :: "exn \<Rightarrow> fs \<Rightarrow> 'a disk" where "threw e F \<equiv> (Inl e, F)"

(* src/resourcemgr/store_mgr.cpp:101-155 unzip (loop over the entries) *)
fun unzip_entries :: "path \<Rightarrow> nat \<Rightarrow> zip_entry list \<Rightarrow> fs \<Rightarrow> unit disk" where
  "unzip_entries p i [] F = succeeded F"
| "unzip_entries p i (ZipBadStat # es) F = failed (''Failed to get file information for index '' @ dec i) F"
| "unzip_entries p i (ZipDir name # es) F =
     (let t = path_div p name in
      if fs_exists F t then unzip_entries p (i + 1) es F
      else (case create_directories t F of
              None \<Rightarrow> threw (fs_error ''cannot create directories'' t) F
            | Some F' \<Rightarrow> unzip_entries p (i + 1) es F'))"
| "unzip_entries p i (ZipFile name content # es) F =
     (let t = path_div p name in
      case content of
        None \<Rightarrow> failed (''Failed to extract file: '' @ name) F
      | Some c \<Rightarrow>
          (case create_directories (butlast t) F of
             None \<Rightarrow> threw (fs_error ''cannot create directories'' (butlast t)) F
           | Some F1 \<Rightarrow>
               (case write_file t c F1 of
                  None \<Rightarrow> failed (''Failed to write to file: '' @ path_text t) F1
                | Some F2 \<Rightarrow> unzip_entries p (i + 1) es F2)))"

(* src/resourcemgr/store_mgr.cpp:89-157 unzip *)
definition unzip :: "store_ext \<Rightarrow> string \<Rightarrow> path \<Rightarrow> fs \<Rightarrow> unit disk" where
  "unzip X data p F =
     (case (if fs_exists F p then Some F else create_directories p F) of
        None \<Rightarrow> threw (fs_error ''cannot create directories'' p) F
      | Some F1 \<Rightarrow>
          (case se_unzip X data of
             None \<Rightarrow> failed ''Failed to initialize ZIP archive'' F1
           | Some es \<Rightarrow> unzip_entries p 0 es F1))"

definition is_file_named :: "string \<Rightarrow> path \<times> fnode \<Rightarrow> bool" where
  "is_file_named name e = (case e of (q, FFile _) \<Rightarrow> filename q = name | _ \<Rightarrow> False)"

(* src/resourcemgr/store_mgr.cpp:159-167 find_package_base_dir *)
definition find_package_base_dir :: "fs \<Rightarrow> path \<Rightarrow> path option" where
  "find_package_base_dir F start =
     map_option (\<lambda>e. butlast (fst e)) (find (is_file_named ''package.yaml'') (fs_descendants F start))"

(* src/resourcemgr/store_mgr.cpp:444-451 find_package_yaml_in_deeper *)
definition find_package_yaml_in_deeper :: "fs \<Rightarrow> path \<Rightarrow> path option" where
  "find_package_yaml_in_deeper F p =
     (if \<not> is_directory F p then None
      else map_option fst (find (\<lambda>(q, n). n = FDir \<and> fs_exists F (q @ [''package.yaml''])) (fs_children F p)))"

subsection \<open>Mirrors\<close>

(* src/resourcemgr/store_mgr.cpp:173-177 StoreManager::mirrored_pkg_crs_dir *)
definition mirrored_pkg_crs_dir :: "path \<Rightarrow> string \<Rightarrow> string \<Rightarrow> path" where
  "mirrored_pkg_crs_dir home pkg version = path_div (path_div (home @ [''crs'', ''_packages'']) pkg) version"

(* src/resourcemgr/store_mgr.cpp:239-243 StoreManager::mirrored_pkg_skills_dir *)
definition mirrored_pkg_skills_dir :: "path \<Rightarrow> string \<Rightarrow> string \<Rightarrow> path" where
  "mirrored_pkg_skills_dir home pkg version = path_div (path_div (home @ [''skills'', ''_packages'']) pkg) version"

text \<open>The number of copied files; a file that cannot be copied is passed over.\<close>

fun mirror_files :: "path \<Rightarrow> path \<Rightarrow> (path \<times> fnode) list \<Rightarrow> fs \<Rightarrow> nat \<times> fs" where
  "mirror_files src dest [] F = (0, F)"
| "mirror_files src dest ((q, FDir) # es) F = mirror_files src dest es F"
| "mirror_files src dest ((q, FFile c) # es) F =
     (let t = dest @ relative_to q src;
          F1 = (case create_directories (butlast t) F of None \<Rightarrow> F | Some F' \<Rightarrow> F') in
      case write_file t c F1 of
        None \<Rightarrow> mirror_files src dest es F1
      | Some F2 \<Rightarrow> (let (n, F3) = mirror_files src dest es F2 in (n + 1, F3)))"

definition mirror_tree :: "path \<Rightarrow> path \<Rightarrow> fs \<Rightarrow> nat \<times> fs" where
  "mirror_tree src dest F =
     (if \<not> is_directory F src then (0, F)
      else (case create_directories dest F of
              None \<Rightarrow> (0, F)
            | Some F1 \<Rightarrow> mirror_files (resolve src) dest (fs_descendants F1 src) F1))"

(* src/resourcemgr/store_mgr.cpp:182-217 StoreManager::mirror_package_crs *)
definition mirror_package_crs :: "path \<Rightarrow> path \<Rightarrow> string \<Rightarrow> string \<Rightarrow> fs \<Rightarrow> nat \<times> fs" where
  "mirror_package_crs home dir pkg version F = mirror_tree (dir @ [''crs'']) (mirrored_pkg_crs_dir home pkg version) F"

(* src/resourcemgr/store_mgr.cpp:245-280 StoreManager::mirror_package_skills *)
definition mirror_package_skills :: "path \<Rightarrow> path \<Rightarrow> string \<Rightarrow> string \<Rightarrow> fs \<Rightarrow> nat \<times> fs" where
  "mirror_package_skills home dir pkg version F = mirror_tree (dir @ [''skills'']) (mirrored_pkg_skills_dir home pkg version) F"

definition remove_if_exists :: "path \<Rightarrow> fs \<Rightarrow> fs" where
  "remove_if_exists p F = (if fs_exists F p then remove_all p F else F)"

(* src/resourcemgr/store_mgr.cpp:220-234 StoreManager::unmirror_package_crs *)
definition unmirror_package_crs :: "path \<Rightarrow> string \<Rightarrow> string \<Rightarrow> fs \<Rightarrow> fs" where
  "unmirror_package_crs home pkg version F =
     remove_if_exists (if version = [] then path_div (home @ [''crs'', ''_packages'']) pkg
                       else mirrored_pkg_crs_dir home pkg version) F"

(* src/resourcemgr/store_mgr.cpp:282-296 StoreManager::unmirror_package_skills *)
definition unmirror_package_skills :: "path \<Rightarrow> string \<Rightarrow> string \<Rightarrow> fs \<Rightarrow> fs" where
  "unmirror_package_skills home pkg version F =
     remove_if_exists (if version = [] then path_div (home @ [''skills'', ''_packages'']) pkg
                       else mirrored_pkg_skills_dir home pkg version) F"

subsection \<open>Skills\<close>

definition front_value :: "string \<Rightarrow> string" where
  "front_value v =
     (let v = trim_back {CHR '' '', CHR 13, CHR 9} (dropWhile (\<lambda>c. c = CHR '' '' \<or> c = CHR 9) v)
      in if length v \<ge> 2 then unquote v else v)"

text \<open>The title of a skill: the first heading of the body; else the title or the name of the header, which is searched in
  the first sixty lines.\<close>

fun title_of_lines :: "nat \<Rightarrow> bool \<Rightarrow> string \<Rightarrow> string \<Rightarrow> string list \<Rightarrow> string" where
  "title_of_lines n in_fm name title [] = (if title \<noteq> [] then title else name)"
| "title_of_lines n in_fm name title (line # ls) =
     (if n \<ge> 60 then (if title \<noteq> [] then title else name)
      else if n = 0 \<and> line = ''---'' then title_of_lines (n + 1) True name title ls
      else if in_fm then
        (if line = ''---'' then title_of_lines (n + 1) False name title ls
         else title_of_lines (n + 1) True
           (if starts_with line ''name:'' then front_value (drop 5 line) else name)
           (if starts_with line ''title:'' then front_value (drop 6 line) else title) ls)
      else if starts_with line ''# '' then trim_back {CHR '' '', CHR 13} (drop 2 line)
      else title_of_lines (n + 1) False name title ls)"

(* src/resourcemgr/store_mgr.cpp:303-344 extract_skill_title *)
definition extract_skill_title :: "string \<Rightarrow> string" where
  "extract_skill_title content = title_of_lines 0 False [] [] (getlines (CHR 10) content)"

(* include/resourcemgr/store_mgr.hpp:106-112 StoreManager::SkillEntry *)
record skill_entry =
  sk_package :: string
  sk_version :: string
  sk_filename :: string
  sk_size :: nat
  sk_title :: string

definition rel_text :: "path \<Rightarrow> string" where
  "rel_text p = (if p = [] then ''.'' else tl (path_text p))"

(* src/resourcemgr/store_mgr.cpp:347-373 StoreManager::list_all_skills *)
definition list_all_skills :: "path \<Rightarrow> fs \<Rightarrow> skill_entry list" where
  "list_all_skills home F =
     (let root = home @ [''skills'', ''_packages''];
          dirs = (\<lambda>p. map fst (filter (\<lambda>(q, n). n = FDir) (fs_children F p)))
      in if \<not> fs_exists F root then []
         else concat (map (\<lambda>pkg. concat (map (\<lambda>ver.
           concat (map (\<lambda>(q, n). case n of
               FDir \<Rightarrow> []
             | FFile c \<Rightarrow> [\<lparr>sk_package = filename pkg, sk_version = filename ver, sk_filename = rel_text (relative_to q ver),
                             sk_size = length c, sk_title = extract_skill_title c\<rparr>])
             (fs_descendants F ver))) (dirs pkg))) (dirs root)))"

text \<open>The guard: the resolved file lies below the resolved directory.\<close>

(* src/resourcemgr/store_mgr.cpp:375-393 StoreManager::read_skill *)
definition read_skill :: "path \<Rightarrow> string \<Rightarrow> string \<Rightarrow> string \<Rightarrow> fs \<Rightarrow> string option" where
  "read_skill home pkg version name F =
     (if pkg = [] \<or> version = [] \<or> name = [] then None
      else
        (let base = mirrored_pkg_skills_dir home pkg version;
             target = resolve (path_div base name)
         in if \<not> below (resolve base) target then None
            else if \<not> is_regular_file F target then None
            else read_file F target))"

subsection \<open>Installing and removing\<close>

definition package_dir :: "path \<Rightarrow> string \<Rightarrow> string \<Rightarrow> path" where
  "package_dir home pkg version = path_div (path_div (home @ [''packages'']) pkg) version"

definition mirror_both :: "path \<Rightarrow> path \<Rightarrow> string \<Rightarrow> string \<Rightarrow> fs \<Rightarrow> fs" where
  "mirror_both home dir pkg version F =
     snd (mirror_package_skills home dir pkg version (snd (mirror_package_crs home dir pkg version F)))"

text \<open>\<open>tmp\<close> is a directory below the temporary directory of the system, with a random name.\<close>

(* src/resourcemgr/store_mgr.cpp:395-420 StoreManager::extract_package *)
definition extract_package :: "store_ext \<Rightarrow> path \<Rightarrow> pkg_spec \<Rightarrow> string \<Rightarrow> fs \<Rightarrow> unit disk" where
  "extract_package X tmp spec data F =
     (if \<not> is_complete spec then threw (InvalidArgument ''spec is not complete'') F
      else
        (let dest = package_dir (se_home X) (ps_package spec) (ps_version spec) in
         if fs_exists F dest then failed (''already exists path '' @ path_text dest) F
         else (case create_directories (butlast dest) F of
                 None \<Rightarrow> threw (fs_error ''cannot create directories'' (butlast dest)) F
               | Some F1 \<Rightarrow>
                   (case unzip X data tmp F1 of
                      (Inl e, F2) \<Rightarrow> threw e F2
                    | (Inr (Inl e), F2) \<Rightarrow> failed e F2
                    | (Inr (Inr _), F2) \<Rightarrow>
                        (case find_package_base_dir F2 tmp of
                           None \<Rightarrow> failed ''no \"package.yaml\" found at package content'' F2
                         | Some base \<Rightarrow>
                             (case rename_dir base dest F2 of
                                None \<Rightarrow> threw (fs_error ''cannot rename'' base) F2
                              | Some F3 \<Rightarrow> succeeded (mirror_both (se_home X) dest (ps_package spec) (ps_version spec) F3)))))))"

definition bad_node :: "string \<Rightarrow> exn" where
  "bad_node k = RuntimeError (''invalid node; first invalid key: '' @ CHR 34 # k @ [CHR 34])"

text \<open>A missing key gives an invalid node, and asking it for its kind throws; only a null value gives the message.\<close>

definition spec_node :: "string \<Rightarrow> yaml \<Rightarrow> exn + (string + yaml)" where
  "spec_node k y =
     (case node_at k y of
        Inl _ \<Rightarrow> Inl (RuntimeError ''operator[] call on a scalar'')
      | Inr None \<Rightarrow> Inl (bad_node k)
      | Inr (Some YNull) \<Rightarrow> Inr (Inl (''needs /'' @ k))
      | Inr (Some n) \<Rightarrow> Inr (Inr n))"

fun as_string :: "yaml \<Rightarrow> exn + string" where
  "as_string (YScalar s) = Inr s"
| "as_string _ = Inl (RuntimeError ''bad conversion'')"

(* src/resourcemgr/store_mgr.cpp:433-442 read_package_spec_from_yaml *)
definition read_package_spec_from_yaml :: "yaml \<Rightarrow> exn + (string + pkg_spec)" where
  "read_package_spec_from_yaml y =
     rbind (spec_node ''name'' y) (\<lambda>n. case n of Inl e \<Rightarrow> Inr (Inl e) | Inr n \<Rightarrow>
     rbind (as_string n) (\<lambda>package.
     rbind (spec_node ''version'' y) (\<lambda>v. case v of Inl e \<Rightarrow> Inr (Inl e) | Inr v \<Rightarrow>
     rbind (spec_node ''arch'' y) (\<lambda>a. case a of Inl e \<Rightarrow> Inr (Inl e) | Inr a \<Rightarrow>
     rbind (as_string v) (\<lambda>version.
     rbind (as_string a) (\<lambda>arch.
       Inr (Inr \<lparr>ps_package = package, ps_version = version, ps_arch = arch\<rparr>)))))))"

(* src/resourcemgr/store_mgr.cpp:423-431 read_yaml_from_file *)
definition read_yaml_from_file :: "store_ext \<Rightarrow> fs \<Rightarrow> path \<Rightarrow> string + yaml" where
  "read_yaml_from_file X F p =
     (case (case read_file F p of None \<Rightarrow> Inl (RuntimeError ''bad file'') | Some c \<Rightarrow> se_load_yaml X c) of
        Inl e \<Rightarrow> Inl (''error reading yaml from '' @ path_text p @ '' : '' @ what e)
      | Inr y \<Rightarrow> Inr y)"

(* include/resourcemgr/store_mgr.hpp:63-67 StoreManager::AddPackageRes *)
record add_package_res =
  ap_installed :: bool
  ap_spec :: pkg_spec

definition install_unpacked :: "store_ext \<Rightarrow> path \<Rightarrow> pkg_spec \<Rightarrow> bool \<Rightarrow> fs \<Rightarrow> add_package_res disk" where
  "install_unpacked X src spec force F =
     (let dest = package_dir (se_home X) (ps_package spec) (ps_version spec) in
      if fs_exists F dest \<and> fs_exists F (dest @ [''package.yaml'']) \<and> \<not> force
      then (Inr (Inr \<lparr>ap_installed = False, ap_spec = spec\<rparr>), F)
      else (case create_directories (butlast dest) F of
              None \<Rightarrow> threw (fs_error ''cannot create directories'' (butlast dest)) F
            | Some F1 \<Rightarrow>
                (case rename_dir src dest (remove_all dest F1) of
                   None \<Rightarrow> threw (fs_error ''cannot rename'' src) (remove_all dest F1)
                 | Some F2 \<Rightarrow>
                     (Inr (Inr \<lparr>ap_installed = True, ap_spec = spec\<rparr>),
                      mirror_both (se_home X) dest (ps_package spec) (ps_version spec) F2))))"

(* src/resourcemgr/store_mgr.cpp:454-501 StoreManager::add_package *)
definition add_package :: "store_ext \<Rightarrow> path \<Rightarrow> string \<Rightarrow> string \<Rightarrow> bool \<Rightarrow> fs \<Rightarrow> add_package_res disk" where
  "add_package X tmp file_type data force F =
     (if file_type \<noteq> ''zip'' then threw (InvalidArgument ''currently only zip is supported'') F
      else
        (case unzip X data tmp F of
           (Inl e, F1) \<Rightarrow> threw e F1
         | (Inr (Inl e), F1) \<Rightarrow> failed e F1
         | (Inr (Inr _), F1) \<Rightarrow>
             (case (if fs_exists F1 (tmp @ [''package.yaml'']) then Some tmp else find_package_yaml_in_deeper F1 tmp) of
                None \<Rightarrow> failed ''need /package.yaml in package'' F1
              | Some src \<Rightarrow>
                  (case read_yaml_from_file X F1 (src @ [''package.yaml'']) of
                     Inl e \<Rightarrow> failed e F1
                   | Inr y \<Rightarrow>
                       (case read_package_spec_from_yaml y of
                          Inl e \<Rightarrow> threw e F1
                        | Inr (Inl e) \<Rightarrow> failed e F1
                        | Inr (Inr spec) \<Rightarrow>
                            if ps_arch spec \<noteq> hi_arch (se_host X)
                            then failed (''unsupported architecture, host expected '' @ hi_arch (se_host X)
                                         @ '', but package has '' @ ps_arch spec) F1
                            else install_unpacked X src spec force F1)))))"

(* src/resourcemgr/store_mgr.cpp:504-507 abilities_using_this_package *)
definition abilities_using_this_package :: "pkg_spec \<Rightarrow> string list" where
  "abilities_using_this_package spec = []"

text \<open>\<open>Inr\<close> is the text of the result; the list of users is always empty, so the error is never returned.\<close>

(* src/resourcemgr/store_mgr.cpp:509-526 StoreManager::remove_package *)
definition remove_package :: "store_ext \<Rightarrow> pkg_spec \<Rightarrow> fs \<Rightarrow> (string + string) \<times> fs" where
  "remove_package X spec F =
     (let dest = package_dir (se_home X) (ps_package spec) (ps_version spec) in
      if \<not> (fs_exists F dest \<and> fs_exists F (dest @ [''package.yaml''])) then (Inr ''not-exist'', F)
      else if abilities_using_this_package spec \<noteq> []
      then (Inl (''there is still abilities using it: '' @ concat (abilities_using_this_package spec)), F)
      else (Inr ''success'',
            unmirror_package_skills (se_home X) (ps_package spec) (ps_version spec)
              (unmirror_package_crs (se_home X) (ps_package spec) (ps_version spec) (remove_all dest F))))"

subsection \<open>Reading skills\<close>

text \<open>With ordinary names of a package and a version, reading a skill returns the content of a file below the mirror
  of that version, whatever the file name asks for.\<close>
theorem read_skill_confined:
  assumes "list_all plain home" "plain pkg" "plain version" "read_skill home pkg version name F = Some c"
  shows "\<exists>q. below (home @ [''skills'', ''_packages'', pkg, version]) q \<and> map_of F q = Some (FFile c)"
proof -
  have base: "mirrored_pkg_skills_dir home pkg version = home @ [''skills'', ''_packages'', pkg, version]"
    using assms(2,3) by (simp add: mirrored_pkg_skills_dir_def path_div_plain)
  have "plain ''skills''" "plain ''_packages''" by (simp_all add: plain_def slash_def)
  then have p: "list_all plain (home @ [''skills'', ''_packages'', pkg, version])" using assms(1-3) by simp
  let ?t = "resolve (path_div (home @ [''skills'', ''_packages'', pkg, version]) name)"
  have t: "below (home @ [''skills'', ''_packages'', pkg, version]) ?t" "read_file F ?t = Some c"
    using assms(4) resolve_plain [OF p] by (auto simp: read_skill_def Let_def base split: if_splits)
  have "?t \<noteq> []" using t(1) by (auto simp: below_def)
  then have "map_of F ?t = Some (FFile c)"
    using t(2) by (auto simp: read_file_def fs_node_def Let_def split: option.splits fnode.splits)
  then show ?thesis using t(1) by blast
qed


subsection \<open>Unpacking an archive\<close>

definition safe_name :: "string \<Rightarrow> bool" where
  "safe_name n = ((n = [] \<or> hd n \<noteq> slash) \<and> ''..'' \<notin> set (path_of n))"

fun safe_entry :: "zip_entry \<Rightarrow> bool" where
  "safe_entry ZipBadStat = True"
| "safe_entry (ZipDir n) = safe_name n"
| "safe_entry (ZipFile n c) = (safe_name n \<and> path_of n \<noteq> [])"

lemma path_div_safe:
  assumes "list_all plain p" "safe_name n"
  shows "path_div p n = p @ path_of n" "below p (resolve (path_div p n))" "path_of n \<noteq> [] \<Longrightarrow> below p (resolve (butlast (path_div p n)))"
proof -
  show e: "path_div p n = p @ path_of n" using assms(2) by (auto simp: path_div_def safe_name_def)
  have a: "list_all (\<lambda>c. c \<noteq> ''..'') (path_of n)" using assms(2) by (auto simp: safe_name_def list_all_iff)
  then have b: "list_all (\<lambda>c. c \<noteq> ''..'') (butlast (path_of n))" by (auto simp: list_all_iff dest: in_set_butlastD)
  show "below p (resolve (path_div p n))" using resolve_confined [OF assms(1) a] e by simp
  show "path_of n \<noteq> [] \<Longrightarrow> below p (resolve (butlast (path_div p n)))"
    using resolve_confined [OF assms(1) b] e by (simp add: butlast_append)
qed

lemma create_keeps_dir: "create_directories q F = Some F' \<Longrightarrow> map_of F p = Some FDir \<Longrightarrow> map_of F' p = Some FDir"
  by (simp add: create_directories_lookup)

lemma write_keeps_dir: "write_file q c F = Some F' \<Longrightarrow> map_of F p = Some FDir \<Longrightarrow> map_of F' p = Some FDir"
  by (auto simp: write_file_def Let_def split: if_splits)

lemma unzip_entries_confined:
  assumes "list_all plain p" "list_all safe_entry es" "tree_ok F" "map_of F p = Some FDir"
  shows "only_below p F (snd (unzip_entries p i es F))"
  using assms
proof (induction p i es F rule: unzip_entries.induct)
  case (3 p i name es F)
  have s: "safe_name name" "list_all safe_entry es" using 3 by simp_all
  let ?t = "path_div p name"
  show ?case
  proof (cases "fs_exists F ?t")
    case True
    then show ?thesis using 3(1) [OF refl True 3(3) s(2) 3(5,6)] by simp
  next
    case False
    show ?thesis
    proof (cases "create_directories ?t F")
      case (Some F')
      have "only_below p F F'" using only_below_create [OF Some 3(5,6)] path_div_safe(2) [OF 3(3) s(1)] .
      then show ?thesis
        using 3(2) [OF refl False Some 3(3) s(2) tree_ok_create [OF Some 3(5)] create_keeps_dir [OF Some 3(6)]] False Some
        by (auto intro: only_below_trans)
    qed (use False in simp)
  qed
next
  case (4 p i name content es F)
  have s: "safe_name name" "path_of name \<noteq> []" "list_all safe_entry es" using 4 by simp_all
  let ?t = "path_div p name"
  show ?case
  proof (cases content)
    case c: (Some c)
    show ?thesis
    proof (cases "create_directories (butlast ?t) F")
      case F1: (Some F1)
      have b1: "only_below p F F1"
        using only_below_create [OF F1 4(4,5)] path_div_safe(3) [OF 4(2) s(1,2)] .
      show ?thesis
      proof (cases "write_file ?t c F1")
        case F2: (Some F2)
        have b2: "only_below p F1 F2" using only_below_write [OF F2 path_div_safe(2) [OF 4(2) s(1)]] .
        have ok: "tree_ok F1" "map_of F1 p = Some FDir"
          using tree_ok_create [OF F1 4(4)] create_keeps_dir [OF F1 4(5)] by blast+
        have "only_below p F2 (snd (unzip_entries p (i + 1) es F2))"
          using 4(1) [OF refl c F1 F2 4(2) s(3) tree_ok_write [OF F2 ok(1)] write_keeps_dir [OF F2 ok(2)]] .
        then show ?thesis using b1 b2 c F1 F2 by (auto intro: only_below_trans)
      qed (use b1 c F1 in simp)
    qed (use c in simp)
  qed simp
qed simp_all


text \<open>The names are not checked: an entry whose name starts with two dots is written beside the directory.\<close>
theorem unzip_escapes:
  assumes "list_all plain p" "plain d" "plain name" "tree_ok F" "fs_node F p = Some FDir" "map_of F (p @ [d]) = Some FDir"
    "map_of F (p @ [name]) = None" "se_unzip X data = Some [ZipFile (''../'' @ name) (Some c)]"
  shows "fst (unzip X data (p @ [d]) F) = Inr (Inr ()) \<and> map_of (snd (unzip X data (p @ [d]) F)) (p @ [name]) = Some (FFile c)"
proof -
  have n: "slash \<notin> set name" "name \<noteq> []" "name \<noteq> ''.''" "name \<noteq> ''..''" using assms(3) by (simp_all add: plain_def)
  have po: "path_of (''../'' @ name) = [''..'', name]"
  proof -
    have "''../'' @ name = ''..'' @ slash # name" "slash \<notin> set ''..''" by (simp_all add: slash_def)
    then have "split_all slash (''../'' @ name) = [''..'', name]"
      using split_all_append [of slash "''..''" name] split_all_single [OF n(1)] by metis
    then show ?thesis using n(2) unfolding path_of_def by (simp del: append_Cons append.simps)
  qed
  have t: "path_div (p @ [d]) (''../'' @ name) = p @ [d, ''..'', name]" using po by (simp add: path_div_def slash_def)
  have "list_all plain (p @ [d])" using assms by simp
  note c = norm_clean [OF this] norm_clean [OF assms(1)]
  have r1: "resolve (p @ [d, ''..'', name]) = p @ [name]" using c(2) [of "[d, ''..'', name]"] n assms(2) by (simp add: plain_def)
  have r2: "resolve (p @ [d, ''..'']) = p" using c(2) [of "[d, ''..'']"] assms(2) by (simp add: plain_def)
  have e: "fs_exists F (p @ [d])"
    using assms(1,2,6) by (simp add: fs_exists_def fs_node_def Let_def resolve_plain)
  have F1: "create_directories (p @ [d, ''..'']) F = Some F"
  proof (rule create_directories_same)
    fix q
    assume q: "q \<noteq> []" "below q (resolve (p @ [d, ''..'']))"
    then have "p \<noteq> []" unfolding r2 by (auto simp: below_def)
    then have "map_of F p = Some FDir" using assms(1,5) by (simp add: fs_node_def Let_def resolve_plain)
    then show "map_of F q = Some FDir" using q assms(4) unfolding r2 tree_ok_def by (cases "q = p") auto
  qed
  have w: "write_file (p @ [d, ''..'', name]) c F = Some (oput (p @ [name]) (FFile c) F)"
    using assms(5,7) by (simp add: write_file_def Let_def r1)
  have "unzip_entries (p @ [d]) 0 [ZipFile (''../'' @ name) (Some c)] F = succeeded (oput (p @ [name]) (FFile c) F)"
    unfolding unzip_entries.simps Let_def t using F1 w by (simp add: butlast_append)
  then show ?thesis using e by (simp add: unzip_def assms(8))
qed

subsection \<open>Removing a package\<close>

lemma remove_if_exists_lookup:
  assumes "tree_ok F" "resolve p \<noteq> []"
  shows "map_of (remove_if_exists p F) q = (if below (resolve p) q then None else map_of F q)"
  using nothing_below [OF assms] assms(2) by (auto simp: remove_if_exists_def fs_exists_iff remove_all_lookup)

lemma tree_ok_remove_if_exists: "tree_ok F \<Longrightarrow> tree_ok (remove_if_exists p F)"
  by (simp add: remove_if_exists_def tree_ok_remove_all)

lemma plain_dirs: "plain ''packages''" "plain ''crs''" "plain ''skills''" "plain ''_packages''" "plain ''package.yaml''"
  by (simp_all add: plain_def slash_def)

lemma package_dirs:
  assumes "list_all plain home" "plain pkg" "plain version"
  shows "package_dir home pkg version = home @ [''packages'', pkg, version]"
    "mirrored_pkg_crs_dir home pkg version = home @ [''crs'', ''_packages'', pkg, version]"
    "mirrored_pkg_skills_dir home pkg version = home @ [''skills'', ''_packages'', pkg, version]"
    "resolve (home @ [''packages'', pkg, version]) = home @ [''packages'', pkg, version]"
    "resolve (home @ [''crs'', ''_packages'', pkg, version]) = home @ [''crs'', ''_packages'', pkg, version]"
    "resolve (home @ [''skills'', ''_packages'', pkg, version]) = home @ [''skills'', ''_packages'', pkg, version]"
    "resolve (home @ [''packages'', pkg, version, ''package.yaml'']) = home @ [''packages'', pkg, version, ''package.yaml'']"
  using assms plain_dirs
  by (simp_all add: package_dir_def mirrored_pkg_crs_dir_def mirrored_pkg_skills_dir_def path_div_plain resolve_plain)

definition in_version :: "path \<Rightarrow> pkg_spec \<Rightarrow> path \<Rightarrow> path \<Rightarrow> bool" where
  "in_version home spec dirs q = below (home @ dirs @ [ps_package spec, ps_version spec]) q"

text \<open>C15: removing an installed package removes its directory and the mirrors of its resources and skills and nothing
  else; removing one that is not installed changes nothing and says so.\<close>
theorem remove_package_exact:
  assumes "list_all plain (se_home X)" "plain (ps_package spec)" "plain (ps_version spec)" "tree_ok F"
  shows "if map_of F (se_home X @ [''packages'', ps_package spec, ps_version spec, ''package.yaml'']) \<noteq> None
    then fst (remove_package X spec F) = Inr ''success''
      \<and> (\<forall>q. map_of (snd (remove_package X spec F)) q =
            (if in_version (se_home X) spec [''packages''] q \<or> in_version (se_home X) spec [''crs'', ''_packages''] q \<or> in_version (se_home X) spec [''skills'', ''_packages''] q then None else map_of F q))
    else remove_package X spec F = (Inr ''not-exist'', F)"
proof -
  let ?p = "se_home X @ [''packages'', ps_package spec, ps_version spec]"
  note d = package_dirs [OF assms(1-3)]
  have y: "map_of F (?p @ [''package.yaml'']) \<noteq> None \<Longrightarrow> map_of F ?p \<noteq> None"
    using nothing_below [OF assms(4), of ?p "?p @ [''package.yaml'']"] below_append [of ?p "[''package.yaml'']"]
    by (cases "map_of F ?p") simp_all
  have e: "(fs_exists F ?p \<and> fs_exists F (?p @ [''package.yaml''])) = (map_of F (?p @ [''package.yaml'']) \<noteq> None)"
    using y by (auto simp: fs_exists_iff d)
  show ?thesis
  proof (cases "map_of F (?p @ [''package.yaml'']) = None")
    case False
    define F1 where "F1 = remove_all ?p F"
    have t1: "tree_ok F1" "tree_ok (unmirror_package_crs (se_home X) (ps_package spec) (ps_version spec) F1)"
      using assms(4) by (simp_all add: F1_def tree_ok_remove_all unmirror_package_crs_def tree_ok_remove_if_exists)
    have v: "ps_version spec \<noteq> []" using assms(3) by (simp add: plain_def)
    have r: "remove_package X spec F = (Inr ''success'', unmirror_package_skills (se_home X) (ps_package spec) (ps_version spec)
        (unmirror_package_crs (se_home X) (ps_package spec) (ps_version spec) F1))"
      using False e by (simp add: remove_package_def d(1) abilities_using_this_package_def F1_def)
    have "map_of (snd (remove_package X spec F)) q =
        (if in_version (se_home X) spec [''packages''] q \<or> in_version (se_home X) spec [''crs'', ''_packages''] q \<or> in_version (se_home X) spec [''skills'', ''_packages''] q then None else map_of F q)" for q
      using t1 v unfolding r
      by (simp add: unmirror_package_skills_def unmirror_package_crs_def remove_if_exists_lookup d in_version_def F1_def remove_all_lookup)
    then show ?thesis using False r by simp
  next
    case True
    then show ?thesis using e by (simp add: remove_package_def d(1))
  qed
qed

subsection \<open>Installing a package\<close>

lemma mirror_files_other:
  assumes "dotless dest" "\<forall>(q, n)\<in>set es. dotless q" "\<not> below dest k" "\<not> below k dest"
  shows "map_of (snd (mirror_files src dest es F)) k = map_of F k"
  using assms
proof (induction src dest es F rule: mirror_files.induct)
  case (3 src dest q c es F)
  define t where "t = dest @ relative_to q src"
  have "dotless (relative_to q src)" using 3(4) by (auto simp: relative_to_def list_all_iff dest: in_set_dropD)
  then have t: "dotless t" using 3(3) by (simp add: t_def)
  then have tb: "dotless (butlast t)" by (auto simp: list_all_iff dest: in_set_butlastD)
  then have rt: "resolve t = t" "resolve (butlast t) = butlast t" using t tb by (simp_all add: resolve_def norm_dotless)
  have dt: "below dest t" by (simp add: t_def)
  have bl: "below (butlast t) t" by simp
  define F1 where "F1 = (case create_directories (butlast t) F of None \<Rightarrow> F | Some F' \<Rightarrow> F')"
  have nb: "\<not> below k (butlast t)" using below_trans [OF _ bl] below_comparable [OF _ dt] 3(5,6) by blast
  have F1: "map_of F1 k = map_of F k"
    using nb by (auto simp: F1_def create_directories_lookup rt split: option.splits)
  show ?case
  proof (cases "write_file t c F1")
    case None
    then show ?thesis using 3(1) [OF t_def F1_def None 3(3)] 3(4-6) F1 by (simp add: t_def [symmetric] F1_def [symmetric] Let_def)
  next
    case (Some F2)
    have "k \<noteq> t" using dt 3(5) by blast
    then have "map_of F2 k = map_of F k" using write_file_lookup [OF Some] rt F1 by simp
    then show ?thesis
      using 3(2) [OF t_def F1_def Some 3(3)] 3(4-6) Some
      by (simp add: t_def [symmetric] F1_def [symmetric] Let_def split_beta)
  qed
qed auto

lemma mirror_tree_other:
  assumes "dotless dest" "names_ok F" "\<not> below dest k" "\<not> below k dest"
  shows "map_of (snd (mirror_tree src dest F)) k = map_of F k"
proof (cases "is_directory F src")
  case True
  show ?thesis
  proof (cases "create_directories dest F")
    case (Some F1)
    have "names_ok F1" using names_ok_create [OF Some assms(2)] .
    then have "\<forall>(q, n)\<in>set (fs_descendants F1 src). dotless q" by (auto simp: names_ok_def fs_descendants_def)
    then have "map_of (snd (mirror_files (resolve src) dest (fs_descendants F1 src) F1)) k = map_of F1 k"
      using mirror_files_other [OF assms(1)] assms(3,4) by blast
    moreover have "resolve dest = dest" using assms(1) by (simp add: resolve_def norm_dotless)
    then have "map_of F1 k = map_of F k" using create_directories_lookup [OF Some, of k] assms(4) by simp
    ultimately show ?thesis using True Some by (simp add: mirror_tree_def)
  qed (use True in \<open>simp add: mirror_tree_def\<close>)
qed (simp add: mirror_tree_def)

lemma names_ok_mirror: "names_ok F \<Longrightarrow> names_ok (snd (mirror_tree src dest F))"
proof -
  have "names_ok F \<Longrightarrow> names_ok (snd (mirror_files s d es F))" for s d es F
    by (induction s d es F rule: mirror_files.induct)
      (auto simp: Let_def split_beta names_ok_create names_ok_write split: option.splits)
  then show "names_ok F \<Longrightarrow> ?thesis" by (auto simp: mirror_tree_def names_ok_create split: option.splits)
qed

lemma names_ok_rename: "rename_dir a b F = Some F' \<Longrightarrow> names_ok F \<Longrightarrow> names_ok F'"
proof -
  assume r: "rename_dir a b F = Some F'" and n: "names_ok F"
  have "dotless (resolve b @ drop (length (resolve a)) q)" if "dotless q" for q
    using that resolve_dotless [of b] by (auto simp: list_all_iff dest: in_set_dropD)
  note dl = this
  have incl: "fst ` set F' \<subseteq> (\<lambda>q. resolve b @ drop (length (resolve a)) q) ` fst ` set F \<union> fst ` set F"
  proof -
    have "F' = oputs (map (\<lambda>(q, n). (resolve b @ drop (length (resolve a)) q, n)) (filter (\<lambda>(q, n). below (resolve a) q) F))
        (filter (\<lambda>(q, n). \<not> below (resolve a) q) F)"
      using r by (simp add: rename_dir_def Let_def split: if_splits)
    then have eq: "fst ` set F' = fst ` set (map (\<lambda>(q, n). (resolve b @ drop (length (resolve a)) q, n)) (filter (\<lambda>(q, n). below (resolve a) q) F))
        \<union> fst ` set (filter (\<lambda>(q, n). \<not> below (resolve a) q) F)"
      by (simp only: fst_set_oputs)
    have sub: "fst ` set (map (\<lambda>(q, n). (h q, n)) (filter P F)) \<subseteq> h ` fst ` set F" "fst ` set (filter P F) \<subseteq> fst ` set F"
      for h P by (auto simp: image_image intro: rev_image_eqI)
    show ?thesis unfolding eq by (rule Un_mono [OF sub(1) sub(2)])
  qed
  show ?thesis
    unfolding names_ok_def
  proof
    fix k
    assume "k \<in> fst ` set F'"
    with incl have "k \<in> (\<lambda>q. resolve b @ drop (length (resolve a)) q) ` fst ` set F \<or> k \<in> fst ` set F" by blast
    then show "dotless k"
    proof
      assume "k \<in> (\<lambda>q. resolve b @ drop (length (resolve a)) q) ` fst ` set F"
      then obtain q where "q \<in> fst ` set F" "k = resolve b @ drop (length (resolve a)) q" by (rule imageE)
      then show ?thesis using dl [of q] n by (simp only: names_ok_def)
    qed (use n in \<open>simp only: names_ok_def\<close>)
  qed
qed


subsection \<open>Concrete trees\<close>

definition home_path :: path where "home_path = [''home'']"

definition store_of :: "zip_entry list \<Rightarrow> store_ext" where
  "store_of es = \<lparr>se_home = home_path, se_host = \<lparr>hi_os = ''linux'', hi_os_version = ''1'', hi_arch = ''x''\<rparr>, se_urls = [],
     se_parse_url = (\<lambda>u. None), se_ftp_list = (\<lambda>c d. Inl []), se_ftp_get = (\<lambda>c p. Inl []), se_http_head = (\<lambda>b p. None),
     se_http_get = (\<lambda>b p. None), se_unzip = (\<lambda>data. Some es), se_load_yaml = (\<lambda>c. Inr YNull)\<rparr>"

definition sample_tree :: fs where
  "sample_tree = oputs [([''home''], FDir), ([''home'', ''packages''], FDir), ([''home'', ''packages'', ''a''], FDir),
     ([''home'', ''packages'', ''a'', ''1''], FDir), ([''home'', ''packages'', ''a'', ''1'', ''package.yaml''], FFile ''y''),
     ([''home'', ''skills''], FDir), ([''home'', ''skills'', ''_packages''], FDir), ([''home'', ''skills'', ''_packages'', ''a''], FDir),
     ([''home'', ''skills'', ''_packages'', ''a'', ''1''], FDir), ([''home'', ''skills'', ''_packages'', ''a'', ''1'', ''s.md''], FFile ''# T''),
     ([''home'', ''config.yaml''], FFile ''secret''), ([''tmp''], FDir), ([''tmp'', ''u''], FDir),
     ([''tmp'', ''u'', ''package.yaml''], FFile ''n'')] []"

definition sample_spec :: pkg_spec where
  "sample_spec = \<lparr>ps_package = ''a'', ps_version = ''1'', ps_arch = ''x''\<rparr>"

lemma plain_names [simp]:
  "plain ''a''" "plain ''1''" "plain ''home''" "plain ''tmp''" "plain ''u''" "plain ''s.md''" "plain ''config.yaml''" "plain ''evil''"
  by (simp_all add: plain_def slash_def)

lemma tree_ok_entries:
  assumes "\<forall>(q, n)\<in>set F. \<forall>p\<in>set (map (\<lambda>k. take k q) [1..<length q]). map_of F p = Some FDir"
  shows "tree_ok F"
  unfolding tree_ok_def
proof (intro allI impI)
  fix q p
  assume q: "map_of F q \<noteq> None" "p \<noteq> []" "below p q" "p \<noteq> q"
  then obtain n where n: "(q, n) \<in> set F" by (auto dest: map_of_SomeD)
  have "p = take (length p) q" "length p \<in> set [1..<length q]"
    using q(2-4) by (auto simp: below_iff Suc_le_eq)
  then have "p \<in> set (map (\<lambda>k. take k q) [1..<length q])" unfolding set_map by blast
  then show "map_of F p = Some FDir" using assms n by blast
qed

lemma sample_tree_ok: "tree_ok sample_tree"
  by (rule tree_ok_entries) code_simp

lemma read_skill_confined_witness:
  "\<exists>q. below [''home'', ''skills'', ''_packages'', ''a'', ''1''] q \<and> map_of sample_tree q = Some (FFile ''# T'')"
proof -
  have "read_skill home_path ''a'' ''1'' ''s.md'' sample_tree = Some ''# T''" by code_simp
  from read_skill_confined [OF _ _ _ this] show ?thesis by (simp add: home_path_def)
qed



lemma unzip_escapes_witness:
  "map_of (snd (unzip (store_of [ZipFile ''../evil'' (Some ''c'')]) [] [''tmp'', ''u''] sample_tree)) [''tmp'', ''evil''] = Some (FFile ''c'')"
proof -
  have "fs_node sample_tree [''tmp''] = Some FDir" "map_of sample_tree [''tmp'', ''u''] = Some FDir" "map_of sample_tree [''tmp'', ''evil''] = None"
    by code_simp+
  then show ?thesis
    using unzip_escapes [of "[''tmp'']" "''u''" "''evil''" sample_tree "store_of [ZipFile ''../evil'' (Some ''c'')]" "[]" "''c''"] sample_tree_ok
    by (simp add: store_of_def)
qed

lemma remove_package_exact_witness:
  "map_of (snd (remove_package (store_of []) sample_spec sample_tree)) [''home'', ''skills'', ''_packages'', ''a'', ''1'', ''s.md''] = None
   \<and> map_of (snd (remove_package (store_of []) sample_spec sample_tree)) [''home'', ''config.yaml''] = Some (FFile ''secret'')"
proof -
  have h: "se_home (store_of []) = [''home'']" "ps_package sample_spec = ''a''" "ps_version sample_spec = ''1''"
    by (simp_all add: store_of_def home_path_def sample_spec_def)
  have i: "map_of sample_tree [''home'', ''packages'', ''a'', ''1'', ''package.yaml''] = Some (FFile ''y'')"
    "map_of sample_tree [''home'', ''config.yaml''] = Some (FFile ''secret'')" by code_simp+
  show ?thesis
    using remove_package_exact [of "store_of []" sample_spec sample_tree] sample_tree_ok i
    by (simp add: h in_version_def below_def)
qed


end
