(* ===== verification/Schema.thy ===== *)
theory Schema
  imports Definitions Packages
begin

section \<open>Schemas of ability resources\<close>

text \<open>
  \<open>src/resourcemgr/json_schema_utils.cpp\<close>: the schema a manifest carries is rewritten before a resource is checked
  against it. An \<open>x-intentable\<close> becomes an object with a value and an intent; an \<open>x-ref\<close> is replaced by the part of a
  sub-ability's schema that describes its status; the status becomes optional. Checking a document against a plain
  schema is the JSON schema library's work and a parameter.
\<close>

subsection \<open>Files\<close>

text \<open>The extension of a file name starts at its last dot, unless that is the first character.\<close>

definition extension :: "string \<Rightarrow> string" where
  "extension n =
     (let r = rev n; tail = takeWhile (\<lambda>c. c \<noteq> CHR ''.'') r in
      if n = ''.'' \<or> n = ''..'' \<or> length n \<le> length tail + 1 then []
      else CHR ''.'' # rev tail)"

(* src/resourcemgr/json_schema_utils.cpp:30-33 extension_is_yaml *)
definition extension_is_yaml :: "path \<Rightarrow> bool" where
  "extension_is_yaml p =
     (let e = extension (filename p) in ends_with e ''yaml'' \<or> ends_with e ''yml'')"

text \<open>What the checks read: the home directory, the conversions of the libraries, and the validator, which takes the
  schema and the document and gives its complaint.\<close>

record cr_env =
  ce_store :: store_ext
  ce_text :: text_lib
  ce_yaml :: yaml_lib
  ce_validate :: "json \<Rightarrow> json \<Rightarrow> string option"

(* src/resourcemgr/json_schema_utils.cpp:35-47 read_yaml_from_path *)
definition read_yaml_from_path :: "store_ext \<Rightarrow> fs \<Rightarrow> path \<Rightarrow> string + yaml" where
  "read_yaml_from_path X F p =
     (if \<not> extension_is_yaml p then Inl (CHR 34 # path_text p @ [CHR 34] @ '' is not a yaml'')
      else
        (case (case read_file F p of None \<Rightarrow> Inl (RuntimeError ''bad file'') | Some c \<Rightarrow> se_load_yaml X c) of
           Inl e \<Rightarrow> Inl (''error reading '' @ [CHR 34] @ path_text p @ [CHR 34] @ '' : '' @ what e)
         | Inr y \<Rightarrow> Inr y))"

(* src/resourcemgr/json_schema_utils.cpp:49-64 validate_to_expected *)
definition validate_to_expected :: "cr_env \<Rightarrow> json \<Rightarrow> json \<Rightarrow> string + unit" where
  "validate_to_expected E target sch =
     (case ce_validate E sch target of
        None \<Rightarrow> Inr ()
      | Some m \<Rightarrow> Inl (''validated failed: '' @ m))"

subsection \<open>JSON pointers\<close>

text \<open>A pointer is its list of reference tokens; printing escapes them. The code starts from the pointer \<open>/\<close>, which
  has one empty token.\<close>

fun escape_token :: "string \<Rightarrow> string" where
  "escape_token [] = []"
| "escape_token (c # cs) =
     (if c = CHR ''~'' then ''~0'' else if c = CHR ''/'' then ''~1'' else [c]) @ escape_token cs"

definition pointer_text :: "string list \<Rightarrow> string" where
  "pointer_text ts = concat (map (\<lambda>t. CHR ''/'' # escape_token t) ts)"

text \<open>Following names: a missing name gives the default; a scalar on the way as well; an array does not take a name.\<close>

fun jwalk :: "string list \<Rightarrow> json \<Rightarrow> exn + json option" where
  "jwalk [] j = Inr (Some j)"
| "jwalk (k # ks) (JObj m) = (case map_of m k of None \<Rightarrow> Inr None | Some v \<Rightarrow> jwalk ks v)"
| "jwalk (k # ks) (JArr xs) =
     Inl (JsonError (''[json.exception.parse_error.109] array index '' @ quoted k @ '' is not a number''))"
| "jwalk (k # ks) j = Inr None"

fun jvalue_at :: "string list \<Rightarrow> json \<Rightarrow> json \<Rightarrow> exn + json" where
  "jvalue_at ks d (JObj m) =
     rbind (jwalk ks (JObj m)) (\<lambda>r. Inr (case r of None \<Rightarrow> d | Some v \<Rightarrow> v))"
| "jvalue_at ks d j =
     Inl (JsonError (''[json.exception.type_error.306] cannot use value() with '' @ type_name j))"

subsection \<open>Expanding x-intentable\<close>

definition is_container :: "json \<Rightarrow> bool" where
  "is_container j = (case j of JArr _ \<Rightarrow> True | JObj _ \<Rightarrow> True | _ \<Rightarrow> False)"

lemma is_container_simps [simp]: "is_container (JArr xs)" "is_container (JObj m)"
  by (simp_all add: is_container_def)

lemma jitems_size: "(k, v) \<in> set (jitems j) \<Longrightarrow> is_container j \<Longrightarrow> size v < size j"
proof (cases j)
  case (JArr xs)
  assume "(k, v) \<in> set (jitems j)"
  then have "v \<in> set xs" using JArr by (auto dest: set_zip_rightD)
  then show ?thesis using JArr size_list_estimation' [of v xs "size v" size] by simp
next
  case (JObj m)
  assume a: "(k, v) \<in> set (jitems j)"
  have "(k, v) \<in> set m \<Longrightarrow> size v < size (JObj m)" for m
    by (induction m) auto
  then show ?thesis using a JObj by simp
qed (auto simp: is_container_def)

text \<open>A container is rebuilt element by element from null, so an empty one becomes null.\<close>

definition rebuild_object :: "(string \<times> json) list \<Rightarrow> json" where
  "rebuild_object m = fold (\<lambda>(k, v) r. jput k v r) m JNull"

definition rebuild_array :: "json list \<Rightarrow> json" where
  "rebuild_array xs = (if xs = [] then JNull else JArr xs)"

(* src/resourcemgr/json_schema_utils.cpp:95-101 expand_intentable (the expanded object) *)
definition intentable_schema :: "json \<Rightarrow> json" where
  "intentable_schema inner =
     jobject [(''type'', JStr ''object''),
              (''properties'', jobject [(''value'', inner), (''intent'', inner)]),
              (''required'', JArr [JStr ''value''])]"

(* src/resourcemgr/json_schema_utils.cpp:85-120 expand_intentable *)
function (sequential) expand_intentable :: "string list \<Rightarrow> json \<Rightarrow> exn + json" where
  "expand_intentable cur (JObj m) =
     (case map_of m ''x-intentable'' of
        Some inner \<Rightarrow>
          if jempty inner then Inl (InvalidArgument (''invalid intentable format at'' @ pointer_text cur))
          else Inr (intentable_schema inner)
      | None \<Rightarrow>
          rbind (mapM_r (\<lambda>(k, v). rbind (expand_intentable (cur @ [k]) v) (\<lambda>v'. Inr (k, v'))) (jitems (JObj m)))
            (\<lambda>m'. Inr (rebuild_object m')))"
| "expand_intentable cur (JArr xs) =
     rbind (mapM_r (\<lambda>(k, v). expand_intentable (cur @ [k]) v) (jitems (JArr xs))) (\<lambda>xs'. Inr (rebuild_array xs'))"
| "expand_intentable cur j = Inr j"
  by pat_completeness auto
termination
proof (relation "measure (\<lambda>(cur, j). size j)", goal_cases)
  case (2 cur m z k v)
  have "size v < size (JObj m)" using 2 by (intro jitems_size [of k v]) auto
  then show ?case by simp
next
  case (3 cur xs z k v)
  have "size v < size (JArr xs)" using 3 by (intro jitems_size [of k v]) auto
  then show ?case by simp
qed simp

declare expand_intentable.simps [simp del]

subsection \<open>Expanding x-ref\<close>

text \<open>\<open>std::from_chars\<close> for an \<open>int\<close>: an optional minus sign and digits; what follows is ignored.\<close>

(* src/resourcemgr/json_schema_utils.cpp:122-128 sv_to_integer *)
definition sv_to_integer :: "string \<Rightarrow> exn + int" where
  "sv_to_integer sv =
     (let neg = (sv \<noteq> [] \<and> hd sv = CHR ''-'');
          ds = takeWhile is_digit (if neg then tl sv else sv);
          n = (if neg then - int (undec ds) else int (undec ds)) in
      if ds = [] \<or> n < - (2 ^ 31) \<or> 2 ^ 31 \<le> n then Inl (RuntimeError (''parse number failed:'' @ sv)) else Inr n)"

fun find_text :: "string \<Rightarrow> string \<Rightarrow> nat option" where
  "find_text pat s =
     (if starts_with s pat then Some 0
      else case s of [] \<Rightarrow> None | _ # s' \<Rightarrow> map_option Suc (find_text pat s'))"

declare find_text.simps [simp del]

definition check_failed :: "string \<Rightarrow> exn" where
  "check_failed c = InvalidArgument (''check failed:'' @ c)"

text \<open>The position behind \<open>/sub/\<close> is the found position plus five: not found, that is the largest number plus five,
  it wraps around to four, and the check that follows does not see it.\<close>

(* src/resourcemgr/json_schema_utils.cpp:132-153 SubRefEntry::parse *)
definition parse_sub_ref :: "string \<Rightarrow> exn + (int \<times> string)" where
  "parse_sub_ref ref =
     (let l = (case find_text ''/sub/'' ref of Some i \<Rightarrow> i + 5 | None \<Rightarrow> 4) in
      case find_text ''#'' ref of
        None \<Rightarrow> Inl (check_failed ''r_pos != ref.npos'')
      | Some r \<Rightarrow>
          if length ref < l then Inl (OutOfRange ''basic_string_view::substr'')
          else rbind (sv_to_integer (if l \<le> r then take (r - l) (drop l ref) else drop l ref)) (\<lambda>number.
            if CHR ''/'' \<notin> set ref then Inl (check_failed ''last_slash_pos != ref.npos'')
            else Inr (number, rev (takeWhile (\<lambda>c. c \<noteq> CHR ''/'') (rev ref)))))"

definition null_spec :: exn where
  "null_spec = Undefined ''null specification''"

(* src/resourcemgr/json_schema_utils.cpp:67-82 get_sub_ability_crd *)
definition get_sub_ability_crd :: "cr_env \<Rightarrow> fs \<Rightarrow> ability_spec \<Rightarrow> json" where
  "get_sub_ability_crd E F sub =
     (let dir = package_dir (se_home (ce_store E)) (sf_package (spec_own sub)) (version_to_string (sf_version (spec_own sub)));
          manifest_path = dir @ [''ability.manifest.yaml''] in
      if \<not> fs_exists F manifest_path then JNull
      else (case read_yaml_from_path (ce_store E) F manifest_path of
              Inl _ \<Rightarrow> JNull
            | Inr y \<Rightarrow>
                (case jfind ''schema'' (yaml_to_json (ce_yaml E) y) of
                   None \<Rightarrow> JNull
                 | Some sc \<Rightarrow>
                     (case jfind ''openAPIV3Schema'' sc of
                        None \<Rightarrow> JNull
                      | Some api \<Rightarrow>
                          jobject [(''spec'', jobject [(''schema'', jobject [(''openAPIV3Schema'', api)])])]))))"

definition api_pointer :: "string list" where
  "api_pointer = [''spec'', ''schema'', ''openAPIV3Schema'']"

definition no_api_schema :: string where
  "no_api_schema = ''can'' @ [CHR 0x27] @ ''t find /spec/schema/openAPIV3Schema''"

(* src/resourcemgr/json_schema_utils.cpp:184-224 expand_ref (the reference) *)
definition resolve_ref :: "cr_env \<Rightarrow> fs \<Rightarrow> ability_cr \<Rightarrow> string list \<Rightarrow> json \<Rightarrow> exn + json" where
  "resolve_ref E F cr cur x =
     (if jempty x then Inl (InvalidArgument (''invalid x-ref format at'' @ pointer_text cur))
      else
        rbind (get_string x) (\<lambda>ref.
        rbind (parse_sub_ref ref) (\<lambda>(number, sub_key).
        case acr_spec cr of
          None \<Rightarrow> Inl null_spec
        | Some sp \<Rightarrow>
            if number < 0 \<or> int (length (spec_subs sp)) \<le> number
            then Inl (InvalidArgument (''x-ref out of range at '' @ pointer_text cur @ '', no such sub ability '' @ dec_int number))
            else
              rbind (jvalue_at api_pointer JNull (get_sub_ability_crd E F (spec_subs sp ! nat number))) (\<lambda>api.
              if jempty api then Inl (InvalidArgument no_api_schema)
              else
                rbind (expand_intentable [[]] api) (\<lambda>api'.
                rbind (jvalue_at [''properties'', ''status'', ''properties''] JNull api') (\<lambda>status.
                case jfind sub_key status of
                  None \<Rightarrow> Inl (InvalidArgument (''ref subability does '' @ dec_int number
                                                 @ '' not contain sub_path: /status/'' @ sub_key))
                | Some v \<Rightarrow> Inr v))))))"

text \<open>Inside an array the code goes on with \<^const>\<open>expand_intentable\<close>.\<close>

(* src/resourcemgr/json_schema_utils.cpp:156-224 expand_ref *)
function (sequential) expand_ref :: "cr_env \<Rightarrow> fs \<Rightarrow> ability_cr \<Rightarrow> string list \<Rightarrow> json \<Rightarrow> exn + json" where
  "expand_ref E F cr cur (JArr xs) =
     rbind (mapM_r (\<lambda>(k, v). expand_intentable (cur @ [k]) v) (jitems (JArr xs))) (\<lambda>xs'. Inr (rebuild_array xs'))"
| "expand_ref E F cr cur (JObj m) =
     (case map_of m ''x-ref'' of
        None \<Rightarrow>
          rbind (mapM_r (\<lambda>(k, v). rbind (expand_ref E F cr (cur @ [k]) v) (\<lambda>v'. Inr (k, v'))) (jitems (JObj m)))
            (\<lambda>m'. Inr (rebuild_object m'))
      | Some x \<Rightarrow> resolve_ref E F cr cur x)"
| "expand_ref E F cr cur j = Inr j"
  by pat_completeness auto
termination
proof (relation "measure (\<lambda>(E, F, cr, cur, j). size j)", goal_cases)
  case (2 E F cr cur m z k v)
  have "size v < size (JObj m)" using 2 by (intro jitems_size [of k v]) auto
  then show ?case by simp
qed simp

declare expand_ref.simps [simp del]

(* src/resourcemgr/json_schema_utils.cpp:226-236 make_status_in_crd_optional *)
definition make_status_in_crd_optional :: "json \<Rightarrow> json" where
  "make_status_in_crd_optional j =
     (case jfind ''properties'' j of
        None \<Rightarrow> j
      | Some p \<Rightarrow>
          (case jfind ''status'' p of
             None \<Rightarrow> j
           | Some st \<Rightarrow>
               jput ''properties''
                 (jput ''status'' (jobject [(''anyOf'', JArr [jobject [(''type'', JStr ''null'')], st])]) p) j))"

subsection \<open>Checks\<close>

fun catch_what :: "exn + (string + 'a) \<Rightarrow> string + 'a" where
  "catch_what (Inl e) = Inl (what e)"
| "catch_what (Inr r) = r"

fun prefix_error :: "string \<Rightarrow> string + 'a \<Rightarrow> string + 'a" where
  "prefix_error m (Inl e) = Inl (m @ e)"
| "prefix_error m (Inr x) = Inr x"

definition expand_schema :: "cr_env \<Rightarrow> fs \<Rightarrow> ability_cr \<Rightarrow> json \<Rightarrow> exn + json" where
  "expand_schema E F cr sch =
     rbind (expand_intentable [[]] sch) (\<lambda>s.
     rbind (expand_ref E F cr [[]] s) (\<lambda>s. Inr (make_status_in_crd_optional s)))"

(* src/resourcemgr/json_schema_utils.cpp:385-411 validate_cr_manifest_level *)
definition validate_cr_manifest_level :: "cr_env \<Rightarrow> fs \<Rightarrow> ability_cr \<Rightarrow> manifest \<Rightarrow> string + unit" where
  "validate_cr_manifest_level E F cr mf =
     (let api = si_openAPIV3Schema (mf_schema mf) in
      if jempty api then Inr ()
      else
        (case expand_schema E F cr api of
           Inl e \<Rightarrow> Inl (''manifest-level validation error: '' @ what e)
         | Inr s \<Rightarrow>
             prefix_error ''manifest-level validation failed: ''
               (validate_to_expected E (ability_cr_to_json (ce_text E) cr) s)))"

text \<open>The older check takes the schema of a definition; nothing in the repository calls it any more.\<close>

fun check_subs :: "(ability_spec \<Rightarrow> exn + (string + unit)) \<Rightarrow> ability_spec list \<Rightarrow> exn + (string + unit)" where
  "check_subs f [] = Inr (Inr ())"
| "check_subs f (x # xs) =
     rbind (f x) (\<lambda>r. case r of Inl m \<Rightarrow> Inr (Inl (''inavlid cr: '' @ m)) | Inr _ \<Rightarrow> check_subs f xs)"

(* src/resourcemgr/json_schema_utils.cpp:239-264 check_abstract_ability_cr_validity *)
definition check_abstract_ability_cr_validity ::
  "cr_env \<Rightarrow> fs \<Rightarrow> ability_spec \<Rightarrow> string \<Rightarrow> exn + (string + unit)" where
  "check_abstract_ability_cr_validity E F sp interface_crd =
     (let manifest_path = package_dir (se_home (ce_store E)) (sf_package (spec_own sp)) (version_to_string (sf_version (spec_own sp)))
                          @ [''ability.manifest.yaml''] in
      if \<not> fs_exists F manifest_path then Inr (Inr ())
      else (case read_yaml_from_path (ce_store E) F manifest_path of
              Inl _ \<Rightarrow> Inr (Inl ''read manifest error'')
            | Inr y \<Rightarrow>
                (case jfind ''schema'' (yaml_to_json (ce_yaml E) y) of
                   None \<Rightarrow> Inr (Inr ())
                 | Some sc \<Rightarrow>
                     (case jfind ''openAPIV3Schema'' sc of
                        None \<Rightarrow> Inr (Inr ())
                      | Some api \<Rightarrow>
                          rbind (expand_intentable [[]] api) (\<lambda>s.
                            if jempty s
                            then Inr (Inl (''can'' @ [CHR 0x27] @ ''t find schema/openAPIV3Schema in manifest''))
                            else check_subs (\<lambda>sub. Inr (validate_to_expected E (spec_to_json (ce_text E) sub) s))
                                   (spec_subs sp))))))"

definition check_sub_with_own_crd :: "cr_env \<Rightarrow> fs \<Rightarrow> ability_spec \<Rightarrow> exn + (string + unit)" where
  "check_sub_with_own_crd E F sub =
     (let it = get_sub_ability_crd E F sub in
      if jempty it then Inr (Inr ())
      else rbind (expand_intentable [[]] it) (\<lambda>s.
           rbind (jvalue_at api_pointer JNull s) (\<lambda>sch.
             if jempty sch then Inr (Inl no_api_schema)
             else Inr (prefix_error ''inavlid cr: '' (validate_to_expected E (spec_to_json (ce_text E) sub) sch)))))"

fun check_sub_crds :: "cr_env \<Rightarrow> fs \<Rightarrow> ability_spec list \<Rightarrow> exn + (string + unit)" where
  "check_sub_crds E F [] = Inr (Inr ())"
| "check_sub_crds E F (x # xs) =
     rbind (check_sub_with_own_crd E F x) (\<lambda>r. case r of
       Inl m \<Rightarrow> Inr (Inl m)
     | Inr _ \<Rightarrow> check_sub_crds E F xs)"

definition check_sub_abilities :: "cr_env \<Rightarrow> fs \<Rightarrow> ability_cr \<Rightarrow> json \<Rightarrow> exn + (string + unit)" where
  "check_sub_abilities E F cr crd_json =
     (let subs = (case acr_spec cr of None \<Rightarrow> Inl null_spec | Some sp \<Rightarrow> Inr sp) in
      if acr_kind cr = ''ComposeAbility'' then rbind subs (\<lambda>sp. check_sub_crds E F (spec_subs sp))
      else if acr_kind cr = ''AbstractAbility''
      then
        rbind (jvalue_at [''depends'', ''subabilities'', ''x-implement''] JNull crd_json) (\<lambda>i.
        if jempty i then Inr (Inl (''can'' @ [CHR 0x27] @ ''t find /depends/subabilities/x-implement''))
        else case i of
          JStr s \<Rightarrow>
            rbind subs (\<lambda>sp.
            rbind (check_abstract_ability_cr_validity E F sp s) (\<lambda>r. Inr (prefix_error ''inavlid cr: '' r)))
        | _ \<Rightarrow> Inr (Inl ''/depends/subabilities/x-implement must be string''))
      else Inr (Inr ()))"

(* src/resourcemgr/json_schema_utils.cpp:267-319 validate_with_expanded_crd *)
definition validate_with_expanded_crd :: "cr_env \<Rightarrow> fs \<Rightarrow> ability_cr \<Rightarrow> json \<Rightarrow> string + unit" where
  "validate_with_expanded_crd E F cr crd_json =
     catch_what (
       rbind (jvalue_at api_pointer JNull crd_json) (\<lambda>api.
       if jempty api then Inr (Inl no_api_schema)
       else
         rbind (expand_schema E F cr api) (\<lambda>s.
         case validate_to_expected E (ability_cr_to_json (ce_text E) cr) s of
           Inl m \<Rightarrow> Inr (Inl (''inavlid cr: '' @ m))
         | Inr _ \<Rightarrow> check_sub_abilities E F cr crd_json)))"

text \<open>The part of the schema every resource has to match.\<close>

definition text_type :: json where "text_type = jobject [(''type'', JStr ''string'')]"
definition text_map_type :: json where
  "text_map_type = jobject [(''type'', JStr ''object''), (''additionalProperties'', text_type)]"
definition kind_type :: "string \<Rightarrow> json" where "kind_type t = jobject [(''type'', JStr t)]"

(* src/resourcemgr/builtin_crds.cpp:20-57 ability_crd_schema *)
definition ability_crd_schema :: json where
  "ability_crd_schema =
     jobject
      [(''type'', JStr ''object''),
       (''required'', JArr [JStr ''kind'', JStr ''metadata'', JStr ''spec'']),
       (''properties'', jobject
          [(''kind'', jobject [(''type'', JStr ''string''),
              (''enum'', JArr [JStr ''AtomAbility'', JStr ''ComposeAbility'', JStr ''AbstractAbility''])]),
           (''metadata'', jobject [(''type'', JStr ''object''), (''required'', JArr [JStr ''name'']),
              (''properties'', jobject [(''name'', text_type), (''labels'', text_map_type), (''annotations'', text_map_type)])]),
           (''spec'', jobject [(''type'', JStr ''object''),
              (''required'', JArr [JStr ''package'', JStr ''version'', JStr ''abilityName'']),
              (''properties'', jobject
                 [(''package'', text_type), (''version'', text_type), (''abilityName'', text_type),
                  (''position'', jobject [(''type'', JStr ''string''), (''default'', JStr ''localhost'')]),
                  (''autoStart'', kind_type ''boolean''), (''priority'', kind_type ''integer''),
                  (''activityCondition'', JObj []), (''config'', JObj []), (''debugOption'', JObj []),
                  (''subabilities'', kind_type ''array''), (''devices'', kind_type ''array''),
                  (''models'', kind_type ''array'')])])])]"

definition enum_type :: "string list \<Rightarrow> json" where
  "enum_type vs = jobject [(''type'', JStr ''string''), (''enum'', JArr (map JStr vs))]"

definition default_type :: "string \<Rightarrow> json \<Rightarrow> json" where
  "default_type t d = jobject [(''type'', JStr t), (''default'', d)]"

definition object_type :: "(string \<times> json) list \<Rightarrow> json" where
  "object_type ps = jobject [(''type'', JStr ''object''), (''properties'', jobject ps)]"

(* src/resourcemgr/builtin_crds.cpp:60-118 service_crd_schema *)
definition service_crd_schema :: json where
  "service_crd_schema =
     jput ''required'' (JArr [JStr ''kind'', JStr ''metadata'', JStr ''spec'']) (object_type
       [(''kind'', enum_type [''Service'']),
        (''metadata'', jput ''required'' (JArr [JStr ''name'']) (object_type
           [(''name'', text_type), (''labels'', text_map_type), (''annotations'', text_map_type)])),
        (''spec'', jput ''required'' (JArr [JStr ''package'', JStr ''version'', JStr ''serviceName'']) (object_type
           [(''package'', text_type), (''version'', text_type), (''serviceName'', text_type),
            (''position'', default_type ''string'' (JStr ''localhost'')), (''config'', JObj []),
            (''restartPolicy'', jput ''default'' (JStr ''always'') (enum_type [''always'', ''on-failure'', ''never''])),
            (''maxRestarts'', default_type ''integer'' (JNum 5)),
            (''restartBackoffSeconds'', default_type ''integer'' (JNum 10)),
            (''healthCheck'', object_type
               [(''liveness'', object_type
                  [(''type'', enum_type [''http'', ''process'']), (''path'', text_type), (''port'', kind_type ''integer''),
                   (''intervalSeconds'', default_type ''integer'' (JNum 10)),
                   (''failureThreshold'', default_type ''integer'' (JNum 3))]),
                (''readiness'', object_type
                  [(''type'', enum_type [''http'']), (''path'', text_type), (''port'', kind_type ''integer''),
                   (''intervalSeconds'', default_type ''integer'' (JNum 5))])]),
            (''devices'', kind_type ''array''), (''models'', kind_type ''array'')]))])"

(* src/resourcemgr/json_schema_utils.cpp:322-325 validate_cr_framework_level *)
definition validate_cr_framework_level :: "cr_env \<Rightarrow> json \<Rightarrow> string + unit" where
  "validate_cr_framework_level E cr_json = validate_to_expected E cr_json ability_crd_schema"

subsection \<open>The tasks of a resource\<close>

(* src/resourcemgr/json_schema_utils.cpp:348-355 validate_cr_tasks_field (names of the manifest) *)
definition manifest_task_names :: "json \<Rightarrow> string list" where
  "manifest_task_names tasks =
     (case tasks of
        JArr xs \<Rightarrow> concat (map (\<lambda>t. case jfind ''taskName'' t of Some (JStr n) \<Rightarrow> [n] | _ \<Rightarrow> []) xs)
      | _ \<Rightarrow> [])"

(* src/resourcemgr/json_schema_utils.cpp:361-379 validate_cr_tasks_field (one task) *)
definition undeclared_task :: "string list \<Rightarrow> nat \<Rightarrow> json \<Rightarrow> string" where
  "undeclared_task names i t =
     (let item = [CHR 0x0A] @ ''  - spec.tasks['' @ dec i @ '']'' in
      if \<not> is_obj t then item @ '' must be an object''
      else case jfind ''taskName'' t of
        Some (JStr n) \<Rightarrow>
          if n \<in> set names then [] else item @ '' taskName '' @ quoted n @ '' not found in manifest tasks''
      | _ \<Rightarrow> item @ '' missing required field: taskName'')"

definition task_errors :: "string list \<Rightarrow> json list \<Rightarrow> string" where
  "task_errors names ts = concat (map (\<lambda>(i, t). undeclared_task names i t) (enumerate 0 ts))"

(* src/resourcemgr/json_schema_utils.cpp:328-382 validate_cr_tasks_field *)
definition validate_cr_tasks_field :: "json \<Rightarrow> manifest \<Rightarrow> string + unit" where
  "validate_cr_tasks_field cr_json mf =
     (case jfind ''spec'' cr_json of
        Some (JObj sp) \<Rightarrow>
          (case map_of sp ''tasks'' of
             None \<Rightarrow> Inl ''missing required field: spec.tasks (CR must declare which manifest tasks it uses)''
           | Some (JArr ts) \<Rightarrow>
               if ts = [] then Inl ''spec.tasks must be a non-empty array''
               else if manifest_task_names (mf_tasks mf) = [] then Inl ''manifest defines no tasks; cannot validate CR tasks''
               else let errors = task_errors (manifest_task_names (mf_tasks mf)) ts in
                    if errors \<noteq> [] then Inl (''task field validation failed:'' @ errors) else Inr ()
           | Some _ \<Rightarrow> Inl ''spec.tasks must be a non-empty array'')
      | _ \<Rightarrow> Inl ''missing required field: spec'')"

subsection \<open>Properties\<close>

text \<open>A schema without marks and without empty containers is its own expansion.\<close>

fun plain_schema :: "json \<Rightarrow> bool" where
  "plain_schema (JObj m) =
     (m \<noteq> [] \<and> omap_ok m \<and> map_of m ''x-intentable'' = None \<and> list_all (\<lambda>(k, v). plain_schema v) m)"
| "plain_schema (JArr xs) = (xs \<noteq> [] \<and> list_all plain_schema xs)"
| "plain_schema j = True"

lemma fold_jput_object: "fold (\<lambda>(k, v) r. jput k v r) m (JObj acc) = JObj (oputs m acc)"
  by (induction m arbitrary: acc) auto

lemma rebuild_sorted:
  assumes "m \<noteq> []" "omap_ok m"
  shows "rebuild_object m = JObj m"
proof -
  have eq: "oputs m [] = m"
  proof (rule omap_ok_set_eq)
    show "set (oputs m []) = set m" using omap_ok_distinct [OF assms(2)] by (subst set_oputs) auto
  qed (use assms in simp_all)
  obtain k v m' where m: "m = (k, v) # m'" using assms(1) by (cases m) auto
  have "rebuild_object m = JObj (oputs m' [(k, v)])"
    unfolding m rebuild_object_def by (simp add: fold_jput_object)
  also have "oputs m' [(k, v)] = oputs m []" by (simp add: m)
  finally show ?thesis by (simp add: eq)
qed

lemma mapM_r_self: "(\<And>x. x \<in> set xs \<Longrightarrow> f x = Inr x) \<Longrightarrow> mapM_r f xs = Inr xs"
  by (induction xs) auto

lemma mapM_r_items:
  "(\<And>k v. (k, v) \<in> set ps \<Longrightarrow> f k v = Inr v) \<Longrightarrow> mapM_r (\<lambda>(k, v). f k v) ps = Inr (map snd ps)"
  by (induction ps) auto

lemma map_snd_jitems [simp]: "map snd (zip (map dec [0..<length xs]) xs) = xs"
  by simp

lemma expand_intentable_id: "plain_schema j \<Longrightarrow> expand_intentable cur j = Inr j"
proof (induction cur j rule: expand_intentable.induct)
  case (1 cur m)
  have none: "map_of m ''x-intentable'' = None" and m: "m \<noteq> []" "omap_ok m"
    and sub: "\<And>k v. (k, v) \<in> set m \<Longrightarrow> plain_schema v"
    using "1.prems" by (auto simp: list_all_iff)
  have "mapM_r (\<lambda>(k, v). rbind (expand_intentable (cur @ [k]) v) (\<lambda>v'. Inr (k, v'))) m = Inr m"
  proof (rule mapM_r_self)
    fix p
    assume p: "p \<in> set m"
    obtain k v where kv: "p = (k, v)" by (cases p)
    have "expand_intentable (cur @ [k]) v = Inr v"
      by (rule "1.IH" [of p k v]) (use p kv none sub in auto)
    then show "(case p of (k, v) \<Rightarrow> rbind (expand_intentable (cur @ [k]) v) (\<lambda>v'. Inr (k, v'))) = Inr p"
      by (simp add: kv)
  qed
  then show ?case by (simp add: expand_intentable.simps none rebuild_sorted m)
next
  case (2 cur xs)
  have "mapM_r (\<lambda>(k, v). expand_intentable (cur @ [k]) v) (jitems (JArr xs)) = Inr (map snd (jitems (JArr xs)))"
  proof (rule mapM_r_items)
    fix k v
    assume a: "(k, v) \<in> set (jitems (JArr xs))"
    then have "v \<in> set xs" by (auto dest: set_zip_rightD)
    then show "expand_intentable (cur @ [k]) v = Inr v"
      using "2.IH" [OF a refl] "2.prems" by (simp add: list_all_iff)
  qed
  then show ?case using "2.prems" by (simp add: expand_intentable.simps rebuild_array_def)
qed (simp_all add: expand_intentable.simps)

text \<open>The code handles a reference only where it reaches it through objects; an element of an array is expanded as if
  references did not exist.\<close>

lemma expand_ref_array: "expand_ref E F cr cur (JArr xs) = expand_intentable cur (JArr xs)"
  by (simp add: expand_ref.simps expand_intentable.simps)

text \<open>A schema in which no \<open>x-intentable\<close> and no empty container occurs is its own expansion; and an array of such
  schemas passes the expansion of references unchanged too, whatever \<open>x-ref\<close> occurs in its elements.\<close>

theorem references_in_arrays_stay:
  assumes "plain_schema (JArr xs)"
  shows "expand_intentable cur (JArr xs) = Inr (JArr xs) \<and> expand_ref E F cr cur (JArr xs) = Inr (JArr xs)"
  using expand_intentable_id [OF assms] by (simp_all add: expand_ref_array)

lemma find_text_char: "c \<notin> set a \<Longrightarrow> find_text [c] (a @ c # b) = Some (length a)"
proof (induction a)
  case Nil
  then show ?case by (simp add: find_text.simps starts_with_def)
next
  case (Cons x a)
  then show ?case by (subst find_text.simps) (auto simp: starts_with_def)
qed

lemma from_chars_dec: "n < 2 ^ 31 \<Longrightarrow> sv_to_integer (dec n) = Inr (int n)"
proof -
  assume n: "n < 2 ^ 31"
  have d: "\<And>c. c \<in> set (dec n) \<Longrightarrow> is_digit c" by (rule dec_digits)
  have t: "takeWhile is_digit (dec n) = dec n" using d by (simp add: takeWhile_eq_all_conv)
  have h: "hd (dec n) \<noteq> CHR ''-''"
  proof
    assume "hd (dec n) = CHR ''-''"
    then have "CHR ''-'' \<in> set (dec n)" using hd_in_set [OF dec_nonempty [of n]] by simp
    then show False using d [of "CHR ''-''"] by (simp add: is_digit_def)
  qed
  have "int n < 2 ^ 31" using n by simp
  then show ?thesis using h by (simp add: sv_to_integer_def t Let_def)
qed

lemma rev_last_part:
  assumes "d \<notin> set b"
  shows "rev (takeWhile (\<lambda>c. c \<noteq> d) (rev (a @ d # b))) = b"
proof -
  have "takeWhile (\<lambda>c. c \<noteq> d) (rev b @ d # rev a) = rev b"
    by (rule while_append_delim(1)) (use assms in simp)
  then show ?thesis by simp
qed

definition sub_ref :: "nat \<Rightarrow> string \<Rightarrow> string" where
  "sub_ref n key = ''/sub/'' @ dec n @ ''#/status/'' @ key"

lemma parse_sub_ref_text:
  assumes "n < 2 ^ 31" "CHR ''/'' \<notin> set key"
  shows "parse_sub_ref (sub_ref n key) = Inr (int n, key)"
proof -
  have digits: "CHR ''#'' \<notin> set (dec n)" using dec_digits [of "CHR ''#''" n] by (auto simp: is_digit_def)
  define a where "a = ''/sub/'' @ dec n"
  have a: "CHR ''#'' \<notin> set a" "length a = 5 + length (dec n)" "drop 5 a = dec n"
    using digits by (simp_all add: a_def)
  define b where "b = ''/status/'' @ key"
  have ref: "sub_ref n key = a @ CHR ''#'' # b" by (simp add: sub_ref_def a_def b_def)
  have l: "find_text ''/sub/'' (sub_ref n key) = Some 0"
    by (subst find_text.simps) (simp add: sub_ref_def starts_with_def)
  have r: "find_text ''#'' (sub_ref n key) = Some (length a)" unfolding ref by (rule find_text_char) (rule a)
  have num: "take (length a - 5) (drop 5 (sub_ref n key)) = dec n" unfolding ref using a by simp
  define a' where "a' = a @ ''#/status''"
  have ref': "sub_ref n key = a' @ CHR ''/'' # key" by (simp add: ref b_def a'_def)
  have last: "rev (takeWhile (\<lambda>c. c \<noteq> CHR ''/'') (rev (sub_ref n key))) = key" "CHR ''/'' \<in> set (sub_ref n key)"
    unfolding ref' using rev_last_part [OF assms(2), of a'] by simp_all
  have len: "\<not> length (sub_ref n key) < 5" "5 \<le> length a" using a(2) by (simp_all add: ref)
  show ?thesis
    unfolding parse_sub_ref_def Let_def l r option.case add_0
    using len last num by (simp add: from_chars_dec [OF assms(1)])
qed

text \<open>The schema a sub-ability's manifest on disk has.\<close>

definition manifest_path_of :: "cr_env \<Rightarrow> ability_spec \<Rightarrow> path" where
  "manifest_path_of E sub =
     package_dir (se_home (ce_store E)) (sf_package (spec_own sub)) (version_to_string (sf_version (spec_own sub)))
     @ [''ability.manifest.yaml'']"

lemma manifest_yaml: "extension_is_yaml (manifest_path_of E sub)"
  by (simp add: extension_is_yaml_def manifest_path_of_def filename_def extension_def ends_with_def Let_def)

lemma get_sub_ability_crd_found:
  assumes "read_file F (manifest_path_of E sub) = Some text" "fs_exists F (manifest_path_of E sub)"
    and "se_load_yaml (ce_store E) text = Inr y"
    and "jfind ''schema'' (yaml_to_json (ce_yaml E) y) = Some sc" "jfind ''openAPIV3Schema'' sc = Some api"
  shows "jvalue_at api_pointer JNull (get_sub_ability_crd E F sub) = Inr api"
  using assms manifest_yaml [of E sub]
  by (simp add: get_sub_ability_crd_def manifest_path_of_def [symmetric] Let_def read_yaml_from_path_def jobject_def
      api_pointer_def)

text \<open>C30: A reference \<open>/sub/<n>#/status/<key>\<close> in a schema is replaced by what the manifest of the n-th
  sub-ability says of that part of its status: whatever the files hold otherwise, when the manifest is on disk, its
  schema is plain, and it describes the key.\<close>

theorem reference_resolves:
  assumes x: "map_of m ''x-ref'' = Some (JStr (sub_ref n key))" and key: "CHR ''/'' \<notin> set key"
    and sp: "acr_spec cr = Some sp" and n: "n < length (spec_subs sp)" "n < 2 ^ 31"
    and disk: "read_file F (manifest_path_of E (spec_subs sp ! n)) = Some text"
      "fs_exists F (manifest_path_of E (spec_subs sp ! n))" "se_load_yaml (ce_store E) text = Inr y"
    and sch: "jfind ''schema'' (yaml_to_json (ce_yaml E) y) = Some sc" "jfind ''openAPIV3Schema'' sc = Some (JObj api)"
      "plain_schema (JObj api)"
    and status: "jwalk [''properties'', ''status'', ''properties''] (JObj api) = Inr (Some st)" "jfind key st = Some v"
  shows "expand_ref E F cr cur (JObj m) = Inr v"
proof -
  have crd: "jvalue_at api_pointer JNull (get_sub_ability_crd E F (spec_subs sp ! n)) = Inr (JObj api)"
    by (rule get_sub_ability_crd_found [OF disk sch(1,2)])
  have ne: "api \<noteq> []" using sch(3) by simp
  have range: "\<not> (int n < 0 \<or> int (length (spec_subs sp)) \<le> int n)" "nat (int n) = n" using n by simp_all
  have st: "jvalue_at [''properties'', ''status'', ''properties''] JNull (JObj api) = Inr st"
    using status(1) by simp
  have exp: "expand_intentable [[]] (JObj api) = Inr (JObj api)" by (rule expand_intentable_id [OF sch(3)])
  have "expand_ref E F cr cur (JObj m) = resolve_ref E F cr cur (JStr (sub_ref n key))"
    by (simp add: expand_ref.simps x)
  also have "\<dots> = Inr v"
    unfolding resolve_ref_def parse_sub_ref_text [OF n(2) key] jempty.simps get_string.simps rbind.simps prod.case sp
      option.case if_False range crd exp st status(2)
    using ne n by simp
  finally show ?thesis .
qed

lemma manifest_task_names_iff:
  "n \<in> set (manifest_task_names tasks) \<longleftrightarrow>
     (\<exists>xs m. tasks = JArr xs \<and> JObj m \<in> set xs \<and> map_of m ''taskName'' = Some (JStr n))"
proof (cases tasks)
  case (JArr xs)
  have item: "n \<in> set (case jfind ''taskName'' t of Some (JStr n) \<Rightarrow> [n] | _ \<Rightarrow> []) \<longleftrightarrow>
      (\<exists>m. t = JObj m \<and> map_of m ''taskName'' = Some (JStr n))" for t
    by (cases t) (auto split: option.splits json.splits)
  then show ?thesis unfolding JArr manifest_task_names_def json.case set_concat set_map by auto
qed (simp_all add: manifest_task_names_def)

lemma task_error_none:
  "undeclared_task names i t = [] \<longleftrightarrow> (\<exists>m n. t = JObj m \<and> map_of m ''taskName'' = Some (JStr n) \<and> n \<in> set names)"
  by (cases t) (auto simp: undeclared_task_def is_obj_def Let_def split: option.splits json.splits)

lemma task_errors_none:
  "task_errors names ts = [] \<longleftrightarrow>
     list_all (\<lambda>t. \<exists>m n. t = JObj m \<and> map_of m ''taskName'' = Some (JStr n) \<and> n \<in> set names) ts"
proof -
  have "task_errors names ts = [] \<longleftrightarrow> (\<forall>p\<in>set (enumerate 0 ts). undeclared_task names (fst p) (snd p) = [])"
    by (auto simp: task_errors_def)
  also have "\<dots> \<longleftrightarrow> (\<forall>t\<in>set (map snd (enumerate 0 ts)).
      \<exists>m n. t = JObj m \<and> map_of m ''taskName'' = Some (JStr n) \<and> n \<in> set names)"
    by (simp add: task_error_none del: map_snd_enumerate)
  finally show ?thesis by (simp add: list_all_iff)
qed

text \<open>C29: The check of the tasks accepts a resource exactly when \<open>spec.tasks\<close> is a non-empty array of objects, each
  naming a task that an entry of the manifest's tasks names.\<close>

theorem tasks_field_exact:
  "validate_cr_tasks_field cr mf = Inr () \<longleftrightarrow>
     (\<exists>sp ts. jfind ''spec'' cr = Some (JObj sp) \<and> map_of sp ''tasks'' = Some (JArr ts) \<and> ts \<noteq> [] \<and>
        list_all (\<lambda>t. \<exists>m n xs m'. t = JObj m \<and> map_of m ''taskName'' = Some (JStr n) \<and>
                    mf_tasks mf = JArr xs \<and> JObj m' \<in> set xs \<and> map_of m' ''taskName'' = Some (JStr n)) ts)"
proof -
  let ?names = "manifest_task_names (mf_tasks mf)"
  have "validate_cr_tasks_field cr mf = Inr () \<longleftrightarrow>
      (\<exists>sp ts. jfind ''spec'' cr = Some (JObj sp) \<and> map_of sp ''tasks'' = Some (JArr ts) \<and> ts \<noteq> [] \<and>
        ?names \<noteq> [] \<and> task_errors ?names ts = [])"
    by (auto simp: validate_cr_tasks_field_def Let_def split: option.splits json.splits if_splits)
  also have "\<dots> \<longleftrightarrow> (\<exists>sp ts. jfind ''spec'' cr = Some (JObj sp) \<and> map_of sp ''tasks'' = Some (JArr ts) \<and> ts \<noteq> [] \<and>
        list_all (\<lambda>t. \<exists>m n. t = JObj m \<and> map_of m ''taskName'' = Some (JStr n) \<and> n \<in> set ?names) ts)"
    (is "?l \<longleftrightarrow> ?r")
  proof
    assume ?r
    then obtain sp ts where a: "jfind ''spec'' cr = Some (JObj sp)" "map_of sp ''tasks'' = Some (JArr ts)" "ts \<noteq> []"
      "list_all (\<lambda>t. \<exists>m n. t = JObj m \<and> map_of m ''taskName'' = Some (JStr n) \<and> n \<in> set ?names) ts" by blast
    then have "?names \<noteq> []" by (cases ts) auto
    then show ?l using a task_errors_none by blast
  qed (auto simp: task_errors_none)
  finally show ?thesis unfolding manifest_task_names_iff by (simp add: list_all_iff)
qed

subsection \<open>A concrete manifest\<close>

definition pose_schema :: json where
  "pose_schema = JObj [(''properties'', JObj [(''status'', JObj [(''properties'', JObj [(''pose'', JStr ''text'')])])])]"

definition pose_yaml :: yaml where
  "pose_yaml = YMap [(''schema'', YMap [(''openAPIV3Schema'', json_to_yaml pose_schema)])]"

definition pose_env :: cr_env where
  "pose_env = \<lparr>ce_store = store_of []\<lparr>se_load_yaml := \<lambda>c. Inr pose_yaml\<rparr>, ce_text = decimal_lib, ce_yaml = decimal_yaml,
     ce_validate = \<lambda>s j. None\<rparr>"

definition pose_tree :: fs where
  "pose_tree = oputs [([''home'', ''packages'', ''pkg'', ''1.2.0'', ''ability.manifest.yaml''], FFile ''m'')]
     [([''home''], FDir), ([''home'', ''packages''], FDir), ([''home'', ''packages'', ''pkg''], FDir),
      ([''home'', ''packages'', ''pkg'', ''1.2.0''], FDir)]"

lemma references_in_arrays_stay_witness:
  "expand_ref pose_env pose_tree sample_cr [[]] (JArr [JObj [(''x-ref'', JStr ''/sub/0#/status/pose'')]])
     = Inr (JArr [JObj [(''x-ref'', JStr ''/sub/0#/status/pose'')]])"
  by (rule references_in_arrays_stay [THEN conjunct2]) (simp add: omap_ok_def)

lemma reference_resolves_witness:
  "expand_ref pose_env pose_tree sample_cr [[]] (JObj [(''x-ref'', JStr (sub_ref 0 ''pose''))]) = Inr (JStr ''text'')"
proof (rule reference_resolves)
  let ?sub = "spec_subs (the (acr_spec sample_cr)) ! 0"
  have p: "manifest_path_of pose_env ?sub = [''home'', ''packages'', ''pkg'', ''1.2.0'', ''ability.manifest.yaml'']"
    by code_simp
  show "read_file pose_tree (manifest_path_of pose_env ?sub) = Some ''m''"
    "fs_exists pose_tree (manifest_path_of pose_env ?sub)" unfolding p by code_simp+
  show "se_load_yaml (ce_store pose_env) ''m'' = Inr pose_yaml" by (simp add: pose_env_def)
  show "jfind ''schema'' (yaml_to_json (ce_yaml pose_env) pose_yaml) = Some (JObj [(''openAPIV3Schema'', pose_schema)])"
    by (simp add: pose_env_def pose_yaml_def pose_schema_def convert_scalar_def decimal_yaml_def is_digit_def Let_def)
  show "jfind ''openAPIV3Schema'' (JObj [(''openAPIV3Schema'', pose_schema)])
      = Some (JObj [(''properties'', JObj [(''status'', JObj [(''properties'', JObj [(''pose'', JStr ''text'')])])])])"
    by (simp add: pose_schema_def)
  show "CHR ''/'' \<notin> set ''pose''" by simp
  show "jfind ''pose'' (JObj [(''pose'', JStr ''text'')]) = Some (JStr ''text'')" by simp
qed (simp_all add: sample_cr_def omap_ok_def)

definition task_manifest :: manifest where
  "task_manifest = \<lparr>mf_abilityName = ''a'', mf_kind = ''AtomAbility'', mf_provides = JNull, mf_types = JNull, mf_rpcMethods = JNull,
     mf_tasks = JArr [JObj [(''taskName'', JStr ''grasp'')]], mf_config = JNull, mf_debugOption = JNull, mf_schema = no_schema,
     mf_depends = no_deps, mf_fwk = no_fwk\<rparr>"

lemma tasks_field_exact_witness:
  "validate_cr_tasks_field (JObj [(''spec'', JObj [(''tasks'', JArr [JObj [(''taskName'', JStr ''grasp'')]])])]) task_manifest = Inr ()"
proof -
  have "JObj [(''spec'', JObj [(''tasks'', JArr [JObj [(''taskName'', JStr ''grasp'')]])])] = JObj [(''spec'', JObj [(''tasks'', JArr [JObj [(''taskName'', JStr ''grasp'')]])])]
    \<and> list_all (\<lambda>t. \<exists>m n xs m'. t = JObj m \<and> map_of m ''taskName'' = Some (JStr n) \<and>
                    mf_tasks task_manifest = JArr xs \<and> JObj m' \<in> set xs \<and> map_of m' ''taskName'' = Some (JStr n))
        [JObj [(''taskName'', JStr ''grasp'')]]"
    by (auto simp: task_manifest_def)
  then show ?thesis by (subst tasks_field_exact) simp
qed

end
