(* ===== verification/Reconcile.thy ===== *)
theory Reconcile
  imports Schema Ownership
begin

section \<open>Loading packages and resources\<close>

text \<open>
  The round of \<open>ResourceManager::update\<close> (\<open>src/resourcemgr/resource_mgr.cpp\<close>): the packages on disk are read, their
  definitions go into the database, the resource files below \<open>crs\<close> are checked and stored, and every resource whose
  file is gone is deleted. A round is a function from the state to an outcome and a state: an exception leaves it with
  what was done before. The timer of \<open>main\<close> catches it and tries again at the next tick.
\<close>

subsection \<open>Fields of a YAML document\<close>

text \<open>Indexing a valid node; indexing a scalar throws, and so does indexing the node a missing key gives.\<close>

definition yaml_at :: "string \<Rightarrow> yaml \<Rightarrow> exn + yaml option" where
  "yaml_at k y = (case node_at k y of Inl _ \<Rightarrow> Inl (RuntimeError ''operator[] call on a scalar'') | Inr r \<Rightarrow> Inr r)"

definition yaml_at2 :: "string \<Rightarrow> string \<Rightarrow> yaml \<Rightarrow> exn + yaml option" where
  "yaml_at2 a b y = rbind (yaml_at a y) (\<lambda>r. case r of None \<Rightarrow> Inl (bad_node a) | Some z \<Rightarrow> yaml_at b z)"

fun scalar_or :: "string \<Rightarrow> string \<Rightarrow> yaml option \<Rightarrow> string + string" where
  "scalar_or missing wrong None = Inl missing"
| "scalar_or missing wrong (Some (YScalar s)) = Inr s"
| "scalar_or missing wrong (Some _) = Inl wrong"

(* src/resourcemgr/resource_mgr.cpp:72-76 get_kind *)
definition get_kind :: "yaml \<Rightarrow> exn + (string + string)" where
  "get_kind y = rbind (yaml_at ''kind'' y) (\<lambda>r. Inr (scalar_or ''needs /kind'' ''needs /kind be scalar'' r))"

(* src/resourcemgr/resource_mgr.cpp:78-84 get_name *)
definition get_name :: "yaml \<Rightarrow> exn + (string + string)" where
  "get_name y = rbind (yaml_at2 ''metadata'' ''name'' y)
     (\<lambda>r. Inr (scalar_or ''needs /metadata/name'' ''needs /metadata/name be string'' r))"

(* src/resourcemgr/resource_mgr.cpp:86-90 get_spec_package *)
definition get_spec_package :: "yaml \<Rightarrow> exn + (string + string)" where
  "get_spec_package y = rbind (yaml_at2 ''spec'' ''package'' y)
     (\<lambda>r. Inr (scalar_or ''needs /spec/package'' ''needs /spec/package be scalar'' r))"

(* src/resourcemgr/resource_mgr.cpp:98-100 is_ability *)
definition is_ability :: "string \<Rightarrow> bool" where
  "is_ability kind = is_sub kind ''Ability''"

definition parse_version :: "string + string \<Rightarrow> string + version" where
  "parse_version r =
     (case r of Inl e \<Rightarrow> Inl e
      | Inr s \<Rightarrow> (case version_of s of Inl e \<Rightarrow> Inl (''error parsing version: '' @ what e) | Inr v \<Rightarrow> Inr v))"

(* src/resourcemgr/resource_mgr.cpp:102-111 read_version *)
definition read_version :: "yaml \<Rightarrow> exn + (string + version)" where
  "read_version y = rbind (yaml_at ''version'' y) (\<lambda>r. Inr (parse_version (scalar_or ''need /version'' ''need /version'' r)))"

(* src/resourcemgr/resource_mgr.cpp:113-124 get_spec_version *)
definition get_spec_version :: "yaml \<Rightarrow> exn + (string + version)" where
  "get_spec_version y = rbind (yaml_at2 ''spec'' ''version'' y)
     (\<lambda>r. Inr (parse_version (scalar_or ''need /spec/version'' ''need /spec/version'' r)))"

(* src/resourcemgr/resource_mgr.cpp:126-130 read_name *)
definition read_name :: "yaml \<Rightarrow> exn + (string + string)" where
  "read_name y = rbind (yaml_at ''name'' y) (\<lambda>r. Inr (scalar_or ''need /name'' ''need /name'' r))"

(* src/resourcemgr/resource_mgr.cpp:55-64 is_semver *)
definition is_semver :: "string \<Rightarrow> bool" where
  "is_semver s = is_ok (version_of s)"

(* src/resourcemgr/resource_mgr.cpp:132-134 name_is_semver *)
definition name_is_semver :: "path \<Rightarrow> bool" where
  "name_is_semver p = is_semver (filename p)"

(* src/resourcemgr/resource_mgr.cpp:66-68 is_package *)
definition is_package :: "fs \<Rightarrow> path \<Rightarrow> bool" where
  "is_package F p = (fs_exists F (p @ [''package.yaml'']) \<and> fs_exists F (p @ [''ability.manifest.yaml'']))"

subsection \<open>State\<close>

text \<open>A package keeps one manifest and the definition made from it. The devices of a package are never filled.\<close>

(* include/resourcemgr/ability_pkg.hpp:26-37 AbilityPackage *)
record ability_package =
  ap_name :: string
  ap_version :: version
  ap_abilities :: "(uuid \<times> ability_crd) list"
  ap_manifests :: "(string \<times> manifest) list"
  ap_path :: path

(* src/resourcemgr/ability_pkg.cpp:19-25 AbilityPackage::ability_path *)
definition ability_path :: "ability_package \<Rightarrow> string \<Rightarrow> path" where
  "ability_path pkg name =
     (if \<exists>p\<in>set (ap_abilities pkg). md_name (crd_metadata (snd p)) = name then path_div (ap_path pkg @ [''bin'']) name else [])"

text \<open>What the manager does not compute: the libraries, the other frameworks, its id and name, and new uuids, drawn
  from a supply.\<close>

record load_ext =
  rx_env :: cr_env
  rx_own :: own_ext
  rx_make_uuid :: "string list \<Rightarrow> uuid"
  rx_framework_id :: uuid
  rx_framework_name :: "exn + string"
  rx_fresh :: "nat \<Rightarrow> uuid"

text \<open>The log of failed checks is a file; its entries are kept as tuples of file, kind, name and reason.\<close>

(* include/resourcemgr/resource_mgr.hpp:186-194 ResourceManager (members) *)
record rmgr =
  rm_db :: rdb
  rm_packages :: "ability_package list"
  rm_compose :: "ability_cr list"
  rm_fs :: fs
  rm_log :: "(path \<times> string \<times> string \<times> string) list"
  rm_drawn :: nat

abbreviation rx_store :: "load_ext \<Rightarrow> store_ext" where "rx_store X \<equiv> ce_store (rx_env X)"
abbreviation rx_text :: "load_ext \<Rightarrow> text_lib" where "rx_text X \<equiv> ce_text (rx_env X)"

subsection \<open>Packages\<close>

(* src/resourcemgr/resource_mgr.cpp:371-391 read_package (the definition) *)
definition crd_of_manifest :: "load_ext \<Rightarrow> string \<Rightarrow> version \<Rightarrow> manifest \<Rightarrow> ability_crd" where
  "crd_of_manifest X name v mf =
     \<lparr>crd_id = rx_make_uuid X [name, version_to_string v, mf_abilityName mf, mf_kind mf], crd_packageName = name,
      crd_version = v, crd_kind = mf_kind mf,
      crd_metadata = \<lparr>md_name = mf_abilityName mf, md_labels = [], md_annotations = []\<rparr>, crd_depends = mf_depends mf,
      crd_spec = \<lparr>cs_provides = mf_provides mf, cs_schema = mf_schema mf, cs_types = mf_types mf,
                  cs_rpcMethods = mf_rpcMethods mf, cs_tasks = mf_tasks mf, cs_config = mf_config mf,
                  cs_debugOption = mf_debugOption mf\<rparr>,
      crd_fwk = no_fwk\<rparr>"

text \<open>A package that cannot be read is left out; a \<open>package.yaml\<close> that is a mere scalar throws.\<close>

(* src/resourcemgr/resource_mgr.cpp:339-393 read_package *)
definition read_package :: "load_ext \<Rightarrow> fs \<Rightarrow> path \<Rightarrow> exn + ability_package option" where
  "read_package X F dir =
     (case read_yaml_from_path (rx_store X) F (dir @ [''package.yaml'']) of
        Inl _ \<Rightarrow> Inr None
      | Inr desc \<Rightarrow>
          rbind (read_name desc) (\<lambda>n. case n of Inl _ \<Rightarrow> Inr None | Inr name \<Rightarrow>
          rbind (read_version desc) (\<lambda>v. case v of Inl _ \<Rightarrow> Inr None | Inr v \<Rightarrow>
            (case read_yaml_from_path (rx_store X) F (dir @ [''ability.manifest.yaml'']) of
               Inl _ \<Rightarrow> Inr None
             | Inr y \<Rightarrow>
                 (case manifest_from_json (yaml_to_json (ce_yaml (rx_env X)) y) of
                    Inl _ \<Rightarrow> Inr None
                  | Inr mf \<Rightarrow>
                      Inr (Some \<lparr>ap_name = name, ap_version = v,
                                 ap_abilities = [(crd_id (crd_of_manifest X name v mf), crd_of_manifest X name v mf)],
                                 ap_manifests = [(mf_abilityName mf, mf)], ap_path = dir\<rparr>))))))"

text \<open>The directories \<open>packages/<name>/<version>\<close> that look like a package.\<close>

(* src/resourcemgr/resource_mgr.cpp:408-416 recursively_search_packages (the directories) *)
definition package_dirs :: "fs \<Rightarrow> path \<Rightarrow> path list" where
  "package_dirs F start =
     concat (map (\<lambda>(p, n). if n = FDir
                   then filter (\<lambda>v. name_is_semver v \<and> is_package F v)
                          (map fst (filter (\<lambda>(v, n). n = FDir) (fs_children F p)))
                   else [])
              (fs_children F start))"

definition add_crds :: "text_lib \<Rightarrow> ability_package \<Rightarrow> rdb \<Rightarrow> exn + rdb" where
  "add_crds L pkg T = fold (\<lambda>(i, crd) r. rbind r (add_ability_crd L crd)) (ap_abilities pkg) (Inr T)"

(* src/resourcemgr/resource_mgr.cpp:1775-1789 ResourceManager::update (packages) *)
fun load_packages :: "load_ext \<Rightarrow> path list \<Rightarrow> rmgr \<Rightarrow> (exn + unit) \<times> rmgr" where
  "load_packages X [] M = (Inr (), M)"
| "load_packages X (d # ds) M =
     (case read_package X (rm_fs M) d of
        Inl e \<Rightarrow> (Inl e, M)
      | Inr None \<Rightarrow> load_packages X ds M
      | Inr (Some pkg) \<Rightarrow>
          (let M1 = M\<lparr>rm_packages := rm_packages M @ [pkg]\<rparr> in
           case add_crds (rx_text X) pkg (rm_db M1) of
             Inl e \<Rightarrow> (Inl e, M1)
           | Inr T \<Rightarrow>
               load_packages X ds
                 (M1\<lparr>rm_db := T,
                     rm_fs := mirror_both (se_home (rx_store X)) (ap_path pkg) (ap_name pkg)
                                (version_to_string (ap_version pkg)) (rm_fs M1)\<rparr>)))"

(* src/resourcemgr/resource_mgr.cpp:1268-1278 ResourceManager::get_ability_manifest *)
definition get_ability_manifest :: "ability_package list \<Rightarrow> string \<Rightarrow> string \<Rightarrow> manifest option" where
  "get_ability_manifest pkgs name v =
     map_option (\<lambda>pkg. the (map_of (ap_manifests pkg) name))
       (find (\<lambda>pkg. version_to_string (ap_version pkg) = v \<and> map_of (ap_manifests pkg) name \<noteq> None) pkgs)"

subsection \<open>Checks\<close>

(* src/resourcemgr/resource_mgr.cpp:1681-1691 ResourceManager::check_local_ability_cr_validity *)
definition check_local_ability_cr_validity :: "load_ext \<Rightarrow> rmgr \<Rightarrow> ability_cr \<Rightarrow> ability_spec \<Rightarrow> string + unit" where
  "check_local_ability_cr_validity X M cr sp =
     (let name = sf_abilityName (spec_own sp); v = version_to_string (sf_version (spec_own sp)) in
      case get_ability_manifest (rm_packages M) name v of
        None \<Rightarrow> Inl (''manifest not found for '' @ name @ '' '' @ v)
      | Some mf \<Rightarrow>
          (case validate_cr_framework_level (rx_env X) (ability_cr_to_json (rx_text X) cr) of
             Inl e \<Rightarrow> Inl e
           | Inr _ \<Rightarrow> validate_cr_manifest_level (rx_env X) (rm_fs M) cr mf))"

text \<open>A resource placed elsewhere is checked by the framework at that position.\<close>

(* src/resourcemgr/resource_mgr.cpp:1695-1705 check_remote_ability_cr_validity *)
definition check_remote_ability_cr_validity :: "load_ext \<Rightarrow> ability_cr \<Rightarrow> ability_spec \<Rightarrow> exn + (string + unit)" where
  "check_remote_ability_cr_validity X cr sp =
     (case send_post_request (rx_text X) (rx_own X) (sf_position (spec_own sp)) ''/api/resourcemgr/check_ability_cr_validity''
             (ability_cr_to_json (rx_text X) cr) of
        None \<Rightarrow> Inr (Inl ''post error'')
      | Some body \<Rightarrow>
          rbind (parse (rx_text X) body) (\<lambda>j.
          rbind (jvalue ''result'' (JStr []) j) (\<lambda>r.
          rbind (get_string r) (\<lambda>s.
            Inr (if s = ''success'' then Inr () else Inl ''remote check cr validity error'')))))"

text \<open>A missing specification stops the process (\<open>CHECK_NOTNULL\<close>).\<close>

(* src/resourcemgr/resource_mgr.cpp:1708-1714 ResourceManager::check_ability_cr_validity *)
definition check_ability_cr_validity :: "load_ext \<Rightarrow> rmgr \<Rightarrow> ability_cr \<Rightarrow> exn + (string + unit)" where
  "check_ability_cr_validity X M cr =
     (case acr_spec cr of
        None \<Rightarrow> Inl (Undefined ''Check failed: cr.spec Must be non NULL'')
      | Some sp \<Rightarrow>
          if sf_position (spec_own sp) = [] \<or> is_local_cr (rx_own X) (sf_position (spec_own sp))
          then Inr (check_local_ability_cr_validity X M cr sp)
          else check_remote_ability_cr_validity X cr sp)"

(* src/resourcemgr/resource_mgr.cpp:1717-1726 check_remote_device_cr_validity *)
definition check_remote_device_cr_validity :: "load_ext \<Rightarrow> device_cr \<Rightarrow> exn + (string + unit)" where
  "check_remote_device_cr_validity X cr =
     (case send_post_request (rx_text X) (rx_own X) (ds_position (dcr_spec cr)) ''/api/resourcemgr/check_device_cr_validity''
             (device_cr_to_json (rx_text X) cr) of
        None \<Rightarrow> Inr (Inl ''post error'')
      | Some body \<Rightarrow>
          rbind (parse (rx_text X) body) (\<lambda>j.
          rbind (jindex ''result'' j) (\<lambda>r.
            Inr (if r = JStr ''success'' then Inr () else Inl ''remote check cr validity error''))))"

(* src/resourcemgr/resource_mgr.cpp:1728-1742 get_device_crd_path *)
definition get_device_crd_path :: "load_ext \<Rightarrow> fs \<Rightarrow> device_cr \<Rightarrow> string + path" where
  "get_device_crd_path X F cr =
     (let s = dcr_spec cr;
          p = path_div (package_dir (se_home (rx_store X)) (ds_package s) (version_to_string (ds_version s)) @ [''crds''])
                (ds_deviceName s @ ''.crd.yaml'') in
      if fs_exists F p then Inr p
      else Inl (''device: '' @ md_name (dcr_metadata cr) @ '' is not supported, file'' @ path_text p @ '' does not exist''))"

(* src/resourcemgr/resource_mgr.cpp:1745-1755 ResourceManager::check_local_device_cr_validity *)
definition check_local_device_cr_validity :: "load_ext \<Rightarrow> fs \<Rightarrow> device_cr \<Rightarrow> string + unit" where
  "check_local_device_cr_validity X F cr =
     (case get_device_crd_path X F cr of
        Inl e \<Rightarrow> Inl e
      | Inr p \<Rightarrow>
          (case read_yaml_from_path (rx_store X) F p of
             Inl e \<Rightarrow> Inl e
           | Inr y \<Rightarrow> validate_to_expected (rx_env X) (device_cr_to_json (rx_text X) cr) (yaml_to_json (ce_yaml (rx_env X)) y)))"

(* src/resourcemgr/resource_mgr.cpp:1757-1762 ResourceManager::check_device_cr_validity *)
definition check_device_cr_validity :: "load_ext \<Rightarrow> fs \<Rightarrow> device_cr \<Rightarrow> exn + (string + unit)" where
  "check_device_cr_validity X F cr =
     (if ds_position (dcr_spec cr) = [] \<or> is_local_cr (rx_own X) (ds_position (dcr_spec cr))
      then Inr (check_local_device_cr_validity X F cr)
      else check_remote_device_cr_validity X cr)"

subsection \<open>Reading a resource file\<close>

text \<open>\<open>j[k1][k2]... = v\<close>: null becomes an object, anything else that is no object throws.\<close>

fun jset :: "string list \<Rightarrow> json \<Rightarrow> json \<Rightarrow> exn + json" where
  "jset [] v j = Inr v"
| "jset (k # ks) v j = rbind (jindex k j) (\<lambda>c. rbind (jset ks v c) (\<lambda>c'. Inr (jput k c' j)))"

fun jsets :: "(string list \<times> json) list \<Rightarrow> json \<Rightarrow> exn + json" where
  "jsets [] j = Inr j"
| "jsets ((ks, v) # es) j = rbind (jset ks v j) (jsets es)"

definition node_id_label :: "load_ext \<Rightarrow> (string list \<times> json)" where
  "node_id_label X = ([''metadata'', ''labels'', ''fwk.io/onNode/id''], uuid_to_json (rx_text X) (rx_framework_id X))"

definition node_name_label :: "string \<Rightarrow> (string list \<times> json)" where
  "node_name_label name = ([''metadata'', ''labels'', ''fwk.io/onNode/name''], JStr name)"

definition file_marks :: "(string list \<times> json) list" where
  "file_marks = [([''tag'', ''source''], JStr ''file''), ([''tag'', ''parent''], JStr ''file'')]"

definition fresh_run_info :: "(string list \<times> json) list" where
  "fresh_run_info = [([''runInfo'', ''lifecycleState''], JStr ''Inactive''), ([''runInfo'', ''lastUpdate''], JNum 0),
     ([''runInfo'', ''lastConnect''], JNum 0)]"

datatype loaded = NoCR | LoadedAbility ability_cr | LoadedDevice device_cr

type_synonym log_entry = "path \<times> string \<times> string \<times> string"

text \<open>An outcome and the entries it adds to the log of failed checks.\<close>

fun checked :: "path \<Rightarrow> string \<Rightarrow> string \<Rightarrow> string + unit \<Rightarrow> loaded \<Rightarrow> loaded \<times> log_entry list" where
  "checked p kind name (Inl reason) c = (NoCR, [(p, kind, name, reason)])"
| "checked p kind name (Inr _) c = (c, [])"

definition check_tasks :: "rmgr \<Rightarrow> json \<Rightarrow> ability_spec \<Rightarrow> string + unit" where
  "check_tasks M j sp =
     (let name = sf_abilityName (spec_own sp); v = version_to_string (sf_version (spec_own sp)) in
      case get_ability_manifest (rm_packages M) name v of
        None \<Rightarrow> Inl (''manifest not found for '' @ name @ '' '' @ v)
      | Some mf \<Rightarrow> validate_cr_tasks_field j mf)"

(* src/resourcemgr/resource_mgr.cpp:1474-1522 read_cr_from_yaml (abilities) *)
definition read_ability_cr :: "load_ext \<Rightarrow> rmgr \<Rightarrow> path \<Rightarrow> yaml \<Rightarrow> string \<Rightarrow> string \<Rightarrow> exn + (loaded \<times> log_entry list)" where
  "read_ability_cr X M p y name kind =
     rbind (get_spec_package y) (\<lambda>pk. case pk of Inl _ \<Rightarrow> Inr (NoCR, []) | Inr pk \<Rightarrow>
     rbind (get_spec_version y) (\<lambda>v. case v of Inl _ \<Rightarrow> Inr (NoCR, []) | Inr v \<Rightarrow>
       (let i = rx_make_uuid X [pk, version_to_string v, name, kind] in
        rbind (jsets (([''id''], uuid_to_json (rx_text X) i) # file_marks @ [node_id_label X])
                 (yaml_to_json (ce_yaml (rx_env X)) y)) (\<lambda>j.
        rbind (rx_framework_name X) (\<lambda>fname.
        rbind (jsets (node_name_label fname # fresh_run_info) j) (\<lambda>j.
        rbind (ability_cr_from_json (rx_text X) j) (\<lambda>cr.
        rbind (check_ability_cr_validity X M cr) (\<lambda>r.
          Inr (case r of
                 Inl _ \<Rightarrow> checked p kind (md_name (acr_metadata cr)) r NoCR
               | Inr _ \<Rightarrow>
                   (case acr_spec cr of
                      None \<Rightarrow> (NoCR, [])
                    | Some sp \<Rightarrow> checked p kind (md_name (acr_metadata cr)) (check_tasks M j sp) (LoadedAbility cr)))))))))))"

(* src/resourcemgr/resource_mgr.cpp:1523-1551 read_cr_from_yaml (devices) *)
definition read_device_cr :: "load_ext \<Rightarrow> rmgr \<Rightarrow> path \<Rightarrow> yaml \<Rightarrow> string \<Rightarrow> string \<Rightarrow> exn + (loaded \<times> log_entry list)" where
  "read_device_cr X M p y name kind =
     rbind (get_spec_package y) (\<lambda>pk. case pk of Inl _ \<Rightarrow> Inr (NoCR, []) | Inr pk \<Rightarrow>
     rbind (get_spec_version y) (\<lambda>v. case v of Inl _ \<Rightarrow> Inr (NoCR, []) | Inr v \<Rightarrow>
       (let i = rx_make_uuid X [pk, version_to_string v, name, kind] in
        rbind (jsets [([''id''], uuid_to_json (rx_text X) i), node_id_label X] (yaml_to_json (ce_yaml (rx_env X)) y)) (\<lambda>j.
        rbind (rx_framework_name X) (\<lambda>fname.
        rbind (jsets [node_name_label fname] j) (\<lambda>j.
        rbind (device_cr_from_json (rx_text X) j) (\<lambda>cr.
        rbind (check_device_cr_validity X (rm_fs M) cr) (\<lambda>r.
          Inr (checked p kind (md_name (dcr_metadata cr)) r (LoadedDevice cr))))))))))"

(* src/resourcemgr/resource_mgr.cpp:1461-1557 read_cr_from_yaml *)
definition read_cr_from_yaml :: "load_ext \<Rightarrow> rmgr \<Rightarrow> path \<Rightarrow> yaml \<Rightarrow> exn + (loaded \<times> log_entry list)" where
  "read_cr_from_yaml X M p y =
     rbind (get_name y) (\<lambda>n. case n of Inl _ \<Rightarrow> Inr (NoCR, []) | Inr name \<Rightarrow>
     rbind (get_kind y) (\<lambda>k. case k of Inl _ \<Rightarrow> Inr (NoCR, []) | Inr kind \<Rightarrow>
       if is_ability kind then read_ability_cr X M p y name kind
       else if kind = ''Device'' then read_device_cr X M p y name kind
       else Inr (NoCR, [])))"

subsection \<open>A round\<close>

text \<open>The keys of the resources loaded so far in a round, of abilities and of devices.\<close>

type_synonym cr_key = "string \<times> string \<times> string"

definition device_key :: "device_row \<Rightarrow> cr_key" where
  "device_key r = (dr_device_name r, dr_device_version r, dr_instance_name r)"

definition device_cr_key :: "device_cr \<Rightarrow> cr_key" where
  "device_cr_key cr = (ds_deviceName (dcr_spec cr), version_to_string (ds_version (dcr_spec cr)), md_name (dcr_metadata cr))"

definition ability_cr_key :: "ability_cr \<Rightarrow> cr_key" where
  "ability_cr_key cr = spec_key (the (acr_spec cr)) (md_name (acr_metadata cr))"

(* src/resourcemgr/resource_mgr.cpp:1580-1594 ResourceManager::read_crs_into_db (one resource) *)
definition store_loaded :: "load_ext \<Rightarrow> time \<Rightarrow> loaded \<Rightarrow> rmgr \<Rightarrow> exn + rmgr" where
  "store_loaded X now c M =
     (case c of
        NoCR \<Rightarrow> Inr M
      | LoadedAbility cr \<Rightarrow>
          rbind (add_ability_cr (rx_text X) now (rx_fresh X (rm_drawn M)) cr (rm_db M)) (\<lambda>(i, T).
            Inr (M\<lparr>rm_db := T, rm_drawn := Suc (rm_drawn M),
                   rm_compose := rm_compose M @
                     (if acr_kind cr = ''ComposeAbility'' \<or> acr_kind cr = ''AbstractAbility'' then [cr] else [])\<rparr>))
      | LoadedDevice cr \<Rightarrow> Inr (M\<lparr>rm_db := add_device_cr (rx_text X) now cr (rm_db M)\<rparr>))"

fun note_key :: "loaded \<Rightarrow> cr_key list \<times> cr_key list \<Rightarrow> cr_key list \<times> cr_key list" where
  "note_key NoCR ks = ks"
| "note_key (LoadedAbility cr) (as, ds) = (ability_cr_key cr # as, ds)"
| "note_key (LoadedDevice cr) (as, ds) = (as, device_cr_key cr # ds)"

(* src/resourcemgr/resource_mgr.cpp:1573-1598 ResourceManager::read_crs_into_db (the files) *)
fun load_files :: "load_ext \<Rightarrow> time \<Rightarrow> (path \<times> fnode) list \<Rightarrow> cr_key list \<times> cr_key list \<Rightarrow> rmgr
    \<Rightarrow> (exn + (cr_key list \<times> cr_key list)) \<times> rmgr" where
  "load_files X now [] ks M = (Inr ks, M)"
| "load_files X now ((p, n) # fs) ks M =
     (if n = FDir \<or> \<not> extension_is_yaml p then load_files X now fs ks M
      else case read_yaml_from_path (rx_store X) (rm_fs M) p of
        Inl _ \<Rightarrow> load_files X now fs ks M
      | Inr y \<Rightarrow>
          (case read_cr_from_yaml X M p y of
             Inl e \<Rightarrow> (Inl e, M)
           | Inr (c, log) \<Rightarrow>
               (let M1 = M\<lparr>rm_log := rm_log M @ log\<rparr> in
                case store_loaded X now c M1 of
                  Inl e \<Rightarrow> (Inl e, M1)
                | Inr M2 \<Rightarrow> load_files X now fs (note_key c ks) M2)))"

text \<open>The rows that no file names any more, and all that belongs to them.\<close>

(* src/resourcemgr/resource_mgr.cpp:1602-1633 ResourceManager::read_crs_into_db (ability rows) *)
definition reconcile_abilities :: "cr_key list \<Rightarrow> rdb \<Rightarrow> rdb" where
  "reconcile_abilities keys T =
     (let stale = map ar_id (filter (\<lambda>r. ability_key r \<notin> set keys) (rt_ability_crs T)) in
      fold (\<lambda>i T. T\<lparr>rt_ability_crs := delete_where (\<lambda>r. ar_id r = i) (rt_ability_crs T),
                   rt_ability_labels := kv_clear i (rt_ability_labels T),
                   rt_ability_annotations := kv_clear i (rt_ability_annotations T)\<rparr>) stale T)"

(* src/resourcemgr/resource_mgr.cpp:1634-1663 ResourceManager::read_crs_into_db (device rows) *)
definition reconcile_devices :: "cr_key list \<Rightarrow> rdb \<Rightarrow> rdb" where
  "reconcile_devices keys T =
     (let stale = map dr_id (filter (\<lambda>r. device_key r \<notin> set keys) (rt_device_crs T)) in
      fold (\<lambda>i T. T\<lparr>rt_device_crs := delete_where (\<lambda>r. dr_id r = i) (rt_device_crs T),
                   rt_device_labels := kv_clear i (rt_device_labels T),
                   rt_device_annotations := kv_clear i (rt_device_annotations T)\<rparr>) stale T)"

(* src/resourcemgr/resource_mgr.cpp:1561-1664 ResourceManager::read_crs_into_db *)
definition read_crs_into_db :: "load_ext \<Rightarrow> time \<Rightarrow> path \<Rightarrow> rmgr \<Rightarrow> (exn + unit) \<times> rmgr" where
  "read_crs_into_db X now dir M =
     (case load_files X now (fs_descendants (rm_fs M) dir) ([], []) (M\<lparr>rm_compose := [], rm_log := []\<rparr>) of
        (Inl e, M1) \<Rightarrow> (Inl e, M1)
      | (Inr (abilities, devices), M1) \<Rightarrow>
          (Inr (), M1\<lparr>rm_db := reconcile_devices devices (reconcile_abilities abilities (rm_db M1))\<rparr>))"

(* src/resourcemgr/resource_mgr.cpp:1666-1679 ResourceManager::read_cr_in_framework_cr_dir *)
definition read_cr_in_framework_cr_dir :: "load_ext \<Rightarrow> time \<Rightarrow> path \<Rightarrow> rmgr \<Rightarrow> (exn + (string + unit)) \<times> rmgr" where
  "read_cr_in_framework_cr_dir X now dir M =
     (if \<not> fs_exists (rm_fs M) dir then (Inr (Inl ''path does not exists''), M)
      else if \<not> is_directory (rm_fs M) dir then (Inr (Inl ''path is not a directory''), M)
      else (case read_crs_into_db X now dir M of (Inl e, M1) \<Rightarrow> (Inl e, M1) | (Inr _, M1) \<Rightarrow> (Inr (Inr ()), M1)))"

subsection \<open>What a round leaves in the database\<close>

text \<open>What a file gives, when nothing throws.\<close>

definition file_result :: "load_ext \<Rightarrow> rmgr \<Rightarrow> path \<times> fnode \<Rightarrow> loaded" where
  "file_result X M f =
     (if snd f = FDir \<or> \<not> extension_is_yaml (fst f) then NoCR
      else case read_yaml_from_path (rx_store X) (rm_fs M) (fst f) of
        Inl _ \<Rightarrow> NoCR
      | Inr y \<Rightarrow> (case read_cr_from_yaml X M (fst f) y of Inl _ \<Rightarrow> NoCR | Inr (c, _) \<Rightarrow> c))"

fun ability_of :: "loaded \<Rightarrow> ability_cr list" where
  "ability_of (LoadedAbility cr) = [cr]"
| "ability_of _ = []"

definition valid_abilities :: "load_ext \<Rightarrow> rmgr \<Rightarrow> (path \<times> fnode) list \<Rightarrow> ability_cr list" where
  "valid_abilities X M fs = concat (map (\<lambda>f. ability_of (file_result X M f)) fs)"

lemma valid_abilities_simps [simp]:
  "valid_abilities X M [] = []"
  "valid_abilities X M (f # fs) = ability_of (file_result X M f) @ valid_abilities X M fs"
  by (simp_all add: valid_abilities_def)

text \<open>Reading a file looks at the packages and the files only.\<close>

lemma read_cr_from_yaml_cong:
  assumes "rm_packages M' = rm_packages M" "rm_fs M' = rm_fs M"
  shows "read_cr_from_yaml X M' = read_cr_from_yaml X M"
proof -
  have 1: "check_local_ability_cr_validity X M' = check_local_ability_cr_validity X M"
    by (intro ext) (simp only: check_local_ability_cr_validity_def assms)
  have 2: "check_ability_cr_validity X M' = check_ability_cr_validity X M"
    by (intro ext) (simp only: check_ability_cr_validity_def 1)
  have 3: "check_tasks M' = check_tasks M"
    by (intro ext) (simp only: check_tasks_def assms)
  have 4: "read_ability_cr X M' = read_ability_cr X M"
    by (intro ext) (simp only: read_ability_cr_def 2 3)
  have 5: "read_device_cr X M' = read_device_cr X M"
    by (intro ext) (simp only: read_device_cr_def assms)
  show ?thesis by (intro ext) (simp only: read_cr_from_yaml_def 4 5)
qed

lemma valid_abilities_cong:
  assumes "rm_packages M' = rm_packages M" "rm_fs M' = rm_fs M"
  shows "valid_abilities X M' = valid_abilities X M"
proof -
  have "file_result X M' = file_result X M"
    by (intro ext) (simp only: file_result_def read_cr_from_yaml_cong [OF assms] assms)
  then show ?thesis by (intro ext) (simp only: valid_abilities_def)
qed

text \<open>The next \<open>k\<close> uuids that are drawn are new and different.\<close>

definition supply_ok :: "load_ext \<Rightarrow> nat \<Rightarrow> rmgr \<Rightarrow> bool" where
  "supply_ok X k M \<longleftrightarrow> inj_on (rx_fresh X) {rm_drawn M..<rm_drawn M + k} \<and>
     (\<forall>n\<in>{rm_drawn M..<rm_drawn M + k}. rx_fresh X n \<notin> ar_id ` set (rt_ability_crs (rm_db M)))"

lemma supply_ok_Suc: "supply_ok X (Suc k) M \<Longrightarrow> supply_ok X k M"
  by (auto simp: supply_ok_def inj_on_def)

text \<open>From one database to the next, keys are added and every old row keeps its key and its id.\<close>

definition grows :: "cr_key set \<Rightarrow> rdb \<Rightarrow> rdb \<Rightarrow> bool" where
  "grows K T T' \<longleftrightarrow> rdb_ok T' \<and>
     ability_key ` set (rt_ability_crs T') = ability_key ` set (rt_ability_crs T) \<union> K \<and>
     (\<forall>r\<in>set (rt_ability_crs T). \<exists>r'\<in>set (rt_ability_crs T'). ar_id r' = ar_id r \<and> ability_key r' = ability_key r)"

lemma grows_refl [simp]: "rdb_ok T \<Longrightarrow> grows {} T T"
  by (auto simp: grows_def)

lemma grows_trans:
  assumes "grows K T T'" "grows K' T' T''"
  shows "grows (K \<union> K') T T''"
proof -
  have "\<exists>r''\<in>set (rt_ability_crs T''). ar_id r'' = ar_id r \<and> ability_key r'' = ability_key r"
    if r: "r \<in> set (rt_ability_crs T)" for r
  proof -
    obtain r' where r': "r' \<in> set (rt_ability_crs T')" "ar_id r' = ar_id r" "ability_key r' = ability_key r"
      using assms(1) r by (auto simp: grows_def)
    then show ?thesis using assms(2) unfolding grows_def by metis
  qed
  moreover have "ability_key ` set (rt_ability_crs T'') = ability_key ` set (rt_ability_crs T) \<union> (K \<union> K')"
    using assms by (simp add: grows_def Un_assoc)
  ultimately show ?thesis using assms(2) by (simp add: grows_def)
qed

lemma add_ability_cr_grows:
  assumes ok: "rdb_ok T" and add: "add_ability_cr L now fresh cr T = Inr (i, T')"
    and fresh: "fresh \<notin> ar_id ` set (rt_ability_crs T)"
  shows "grows {ability_cr_key cr} T T'" "ar_id ` set (rt_ability_crs T') \<subseteq> insert fresh (ar_id ` set (rt_ability_crs T))"
proof -
  obtain sp where sp: "acr_spec cr = Some sp" using add by (auto simp: add_ability_cr_def split: option.splits)
  have ok': "rdb_ok T'" by (rule add_ability_cr_ok [OF ok add])
  let ?key = "spec_key sp (md_name (acr_metadata cr))" and ?rows = "rt_ability_crs T"
  have key: "ability_cr_key cr = ?key" by (simp add: ability_cr_key_def sp)
  have "grows {?key} T T' \<and> ar_id ` set (rt_ability_crs T') \<subseteq> insert fresh (ar_id ` set ?rows)"
  proof (cases "exists_ability_cr_by_name T sp (md_name (acr_metadata cr))")
    case None
    then have "\<exists>r. rt_ability_crs T' = replace_row ar_id r ?rows \<and> ar_id r = fresh \<and> ability_key r = ?key"
      using add by (clarsimp simp: add_ability_cr_def sp Let_def)
        (rule exI, rule conjI, rule refl, simp add: ability_key_def spec_key_def)
    then obtain r where r: "rt_ability_crs T' = replace_row ar_id r ?rows" "ar_id r = fresh" "ability_key r = ?key" by blast
    have "\<forall>x\<in>set ?rows. ar_id x \<noteq> ar_id r" using fresh r(2) by (auto simp: image_iff)
    then have "set (rt_ability_crs T') = insert r (set ?rows)"
      unfolding r(1) set_replace_row by blast
    then show ?thesis using ok' r by (auto simp: grows_def)
  next
    case (Some k)
    then obtain r0 where r0: "find (\<lambda>r. ability_key r = ?key) ?rows = Some r0" "k = ar_id r0"
      by (auto simp: exists_by_name_iff)
    then have in0: "r0 \<in> set ?rows" "ability_key r0 = ?key" by (auto simp: find_Some_iff)
    have "\<exists>f. rt_ability_crs T' = update_where (\<lambda>r. ar_id r = ar_id r0) f ?rows \<and>
        (\<forall>r. ability_key (f r) = ?key \<and> ar_id (f r) = ar_id r)"
      using add Some r0(2) by (clarsimp simp: add_ability_cr_def sp Let_def)
        (rule exI, rule conjI, rule refl, simp add: ability_key_def spec_key_def)
    then obtain f where f: "rt_ability_crs T' = update_where (\<lambda>r. ar_id r = ar_id r0) f ?rows"
      "\<And>r. ability_key (f r) = ?key" "\<And>r. ar_id (f r) = ar_id r" by blast
    have same: "r = r0" if "r \<in> set ?rows" "ar_id r = ar_id r0" for r
      using ok that in0 by (auto simp: rdb_ok_def distinct_map dest: inj_onD)
    have one: "ar_id (if ar_id r = ar_id r0 then f r else r) = ar_id r"
      "ability_key (if ar_id r = ar_id r0 then f r else r) = ability_key r" if "r \<in> set ?rows" for r
      using same [OF that] f in0 by auto
    have rows: "set (rt_ability_crs T') = (\<lambda>r. if ar_id r = ar_id r0 then f r else r) ` set ?rows"
      unfolding f(1) set_update_where by simp
    have k: "ability_key ` set (rt_ability_crs T') = ability_key ` set ?rows"
      unfolding rows image_image using one(2) by (intro image_cong) simp_all
    have i: "ar_id ` set (rt_ability_crs T') = ar_id ` set ?rows"
      unfolding rows image_image using one(1) by (intro image_cong) simp_all
    have "\<forall>r\<in>set ?rows. \<exists>r'\<in>set (rt_ability_crs T'). ar_id r' = ar_id r \<and> ability_key r' = ability_key r"
      unfolding rows using one by blast
    then show ?thesis using ok' k i in0 by (auto simp: grows_def intro: rev_image_eqI)
  qed
  then show "grows {ability_cr_key cr} T T'" "ar_id ` set (rt_ability_crs T') \<subseteq> insert fresh (ar_id ` set (rt_ability_crs T))"
    by (simp_all add: key)
qed

lemma store_loaded_grows:
  assumes "rdb_ok (rm_db M)" "supply_ok X (Suc k) M" "store_loaded X now c M = Inr M'"
  shows "grows (ability_cr_key ` set (ability_of c)) (rm_db M) (rm_db M')" "supply_ok X k M'"
    "rm_packages M' = rm_packages M" "rm_fs M' = rm_fs M"
proof -
  have "grows (ability_cr_key ` set (ability_of c)) (rm_db M) (rm_db M') \<and> supply_ok X k M' \<and>
      rm_packages M' = rm_packages M \<and> rm_fs M' = rm_fs M"
  proof (cases c)
    case (LoadedAbility cr)
    then obtain i T where T: "add_ability_cr (rx_text X) now (rx_fresh X (rm_drawn M)) cr (rm_db M) = Inr (i, T)"
      and M': "rm_db M' = T" "rm_drawn M' = Suc (rm_drawn M)" "rm_packages M' = rm_packages M" "rm_fs M' = rm_fs M"
      using assms(3) by (auto simp: store_loaded_def result_simps)
    have new: "rx_fresh X (rm_drawn M) \<notin> ar_id ` set (rt_ability_crs (rm_db M))"
      using assms(2) by (auto simp: supply_ok_def)
    note g = add_ability_cr_grows [OF assms(1) T new]
    have "rx_fresh X n \<notin> ar_id ` set (rt_ability_crs T)" if n: "Suc (rm_drawn M) \<le> n" "n < Suc (rm_drawn M) + k" for n
    proof
      assume "rx_fresh X n \<in> ar_id ` set (rt_ability_crs T)"
      then have "rx_fresh X n = rx_fresh X (rm_drawn M) \<or> rx_fresh X n \<in> ar_id ` set (rt_ability_crs (rm_db M))"
        using g(2) by auto
      moreover have "rx_fresh X n \<noteq> rx_fresh X (rm_drawn M)"
        using assms(2) n by (auto simp: supply_ok_def dest: inj_onD [where x = n and y = "rm_drawn M"])
      ultimately show False using assms(2) n by (auto simp: supply_ok_def)
    qed
    moreover have "inj_on (rx_fresh X) {Suc (rm_drawn M)..<Suc (rm_drawn M) + k}"
      using assms(2) by (auto simp: supply_ok_def inj_on_def)
    ultimately have "supply_ok X k M'" using M' by (simp add: supply_ok_def)
    then show ?thesis using g(1) M' LoadedAbility by simp
  next
    case (LoadedDevice cr)
    then have M': "M' = M\<lparr>rm_db := add_device_cr (rx_text X) now cr (rm_db M)\<rparr>"
      using assms(3) by (simp add: store_loaded_def)
    have r: "rt_ability_crs (add_device_cr (rx_text X) now cr (rm_db M)) = rt_ability_crs (rm_db M)"
      by (simp add: add_device_cr_def Let_def)
    have ok: "rdb_ok (add_device_cr (rx_text X) now cr (rm_db M))"
      using assms(1) by (auto simp: add_device_cr_def rdb_ok_def Let_def distinct_replace_row intro!: distinct_update_where)
    show ?thesis using supply_ok_Suc [OF assms(2)] ok LoadedDevice by (auto simp: M' grows_def supply_ok_def r)
  qed (use assms supply_ok_Suc [OF assms(2)] in \<open>simp add: store_loaded_def\<close>)
  then show "grows (ability_cr_key ` set (ability_of c)) (rm_db M) (rm_db M')" "supply_ok X k M'"
    "rm_packages M' = rm_packages M" "rm_fs M' = rm_fs M" by blast+
qed

lemma note_key_abilities: "set (fst (note_key c ks)) = ability_cr_key ` set (ability_of c) \<union> set (fst ks)"
  by (cases c; cases ks) auto

lemma load_files_grows:
  assumes "load_files X now fs ks M = (Inr ks', M')" "rdb_ok (rm_db M)" "supply_ok X (length fs) M"
  shows "grows (ability_cr_key ` set (valid_abilities X M fs)) (rm_db M) (rm_db M') \<and>
    set (fst ks') = set (fst ks) \<union> ability_cr_key ` set (valid_abilities X M fs) \<and>
    rm_packages M' = rm_packages M \<and> rm_fs M' = rm_fs M"
  using assms
proof (induction X now fs ks M rule: load_files.induct)
  case (2 X now p n fs ks M)
  show ?case
  proof (cases "n = FDir \<or> \<not> extension_is_yaml p")
    case True
    then show ?thesis using 2 supply_ok_Suc by (simp add: file_result_def)
  next
    case good: False
    show ?thesis
    proof (cases "read_yaml_from_path (rx_store X) (rm_fs M) p")
      case (Inl e)
      then show ?thesis using 2 good supply_ok_Suc by (simp add: file_result_def)
    next
      case (Inr y)
      then obtain c log M2 where c: "read_cr_from_yaml X M p y = Inr (c, log)"
        and M2: "store_loaded X now c (M\<lparr>rm_log := rm_log M @ log\<rparr>) = Inr M2"
        and rest: "load_files X now fs (note_key c ks) M2 = (Inr ks', M')"
        using "2.prems"(1) good by (auto simp: Let_def split: sum.splits prod.splits)
      have res: "file_result X M (p, n) = c" using good Inr c by (simp add: file_result_def)
      have "rdb_ok (rm_db (M\<lparr>rm_log := rm_log M @ log\<rparr>))" "supply_ok X (Suc (length fs)) (M\<lparr>rm_log := rm_log M @ log\<rparr>)"
        using "2.prems"(2,3) by (simp_all add: supply_ok_def)
      note st = store_loaded_grows [OF this M2, simplified]
      have eq: "valid_abilities X M2 fs = valid_abilities X M fs" using valid_abilities_cong st(3,4) by metis
      have ok2: "rdb_ok (rm_db M2)" using st(1) by (simp add: grows_def)
      have "grows (ability_cr_key ` set (valid_abilities X M2 fs)) (rm_db M2) (rm_db M') \<and>
          set (fst ks') = set (fst (note_key c ks)) \<union> ability_cr_key ` set (valid_abilities X M2 fs) \<and>
          rm_packages M' = rm_packages M2 \<and> rm_fs M' = rm_fs M2"
        by (rule "2.IH"(3) [OF good Inr c refl refl M2 rest ok2 st(2)])
      note ih = this [unfolded eq]
      have "grows (ability_cr_key ` set (ability_of c) \<union> ability_cr_key ` set (valid_abilities X M fs)) (rm_db M) (rm_db M')"
        using grows_trans [OF st(1)] ih by blast
      then show ?thesis using ih st(3,4) by (simp add: res note_key_abilities image_Un Un_ac)
    qed
  qed
qed simp

lemma reconcile_abilities_rows:
  fixes T keys
  defines "ids \<equiv> ar_id ` set (filter (\<lambda>r. ability_key r \<notin> set keys) (rt_ability_crs T))"
  shows "rt_ability_crs (reconcile_abilities keys T) = filter (\<lambda>r. ar_id r \<notin> ids) (rt_ability_crs T)"
    "rt_ability_labels (reconcile_abilities keys T) = filter (\<lambda>r. fst r \<notin> ids) (rt_ability_labels T)"
    "rt_ability_annotations (reconcile_abilities keys T) = filter (\<lambda>r. fst r \<notin> ids) (rt_ability_annotations T)"
    "rt_device_crs (reconcile_abilities keys T) = rt_device_crs T"
    "rt_instances (reconcile_abilities keys T) = rt_instances T" "rt_services (reconcile_abilities keys T) = rt_services T"
proof -
  define f where "f = (\<lambda>i T. T\<lparr>rt_ability_crs := delete_where (\<lambda>r. ar_id r = i) (rt_ability_crs T),
                   rt_ability_labels := kv_clear i (rt_ability_labels T),
                   rt_ability_annotations := kv_clear i (rt_ability_annotations T)\<rparr> :: rdb)"
  have f: "rt_ability_crs (fold f is T) = filter (\<lambda>r. ar_id r \<notin> set is) (rt_ability_crs T)"
    "rt_ability_labels (fold f is T) = filter (\<lambda>r. fst r \<notin> set is) (rt_ability_labels T)"
    "rt_ability_annotations (fold f is T) = filter (\<lambda>r. fst r \<notin> set is) (rt_ability_annotations T)"
    "rt_device_crs (fold f is T) = rt_device_crs T" "rt_instances (fold f is T) = rt_instances T"
    "rt_services (fold f is T) = rt_services T" for "is" and T :: rdb
    by (induction "is" arbitrary: T) (auto simp: f_def delete_where_def kv_clear_def filter_filter intro!: filter_cong)
  have e: "reconcile_abilities keys T = fold f (map ar_id (filter (\<lambda>r. ability_key r \<notin> set keys) (rt_ability_crs T))) T"
    by (simp add: reconcile_abilities_def f_def Let_def)
  show "rt_ability_crs (reconcile_abilities keys T) = filter (\<lambda>r. ar_id r \<notin> ids) (rt_ability_crs T)"
    "rt_ability_labels (reconcile_abilities keys T) = filter (\<lambda>r. fst r \<notin> ids) (rt_ability_labels T)"
    "rt_ability_annotations (reconcile_abilities keys T) = filter (\<lambda>r. fst r \<notin> ids) (rt_ability_annotations T)"
    "rt_device_crs (reconcile_abilities keys T) = rt_device_crs T"
    "rt_instances (reconcile_abilities keys T) = rt_instances T" "rt_services (reconcile_abilities keys T) = rt_services T"
    unfolding e f ids_def by (simp_all only: set_map)
qed

lemma reconcile_devices_other:
  "rt_ability_crs (reconcile_devices keys T) = rt_ability_crs T"
  "rt_ability_labels (reconcile_devices keys T) = rt_ability_labels T"
proof -
  define f where "f = (\<lambda>i T. T\<lparr>rt_device_crs := delete_where (\<lambda>r. dr_id r = i) (rt_device_crs T),
                   rt_device_labels := kv_clear i (rt_device_labels T),
                   rt_device_annotations := kv_clear i (rt_device_annotations T)\<rparr> :: rdb)"
  have "rt_ability_crs (fold f is T) = rt_ability_crs T" "rt_ability_labels (fold f is T) = rt_ability_labels T" for "is" and T :: rdb
    by (induction "is" arbitrary: T) (auto simp: f_def)
  then show "rt_ability_crs (reconcile_devices keys T) = rt_ability_crs T"
    "rt_ability_labels (reconcile_devices keys T) = rt_ability_labels T"
    by (simp_all add: reconcile_devices_def f_def Let_def)
qed

text \<open>With one row per id, the rows whose id is not among the stale ones are those with a key of the round.\<close>

lemma reconcile_keeps:
  assumes "rdb_ok T"
  shows "rt_ability_crs (reconcile_abilities keys T) = filter (\<lambda>r. ability_key r \<in> set keys) (rt_ability_crs T)"
  unfolding reconcile_abilities_rows(1)
proof (rule filter_cong [OF refl])
  fix r
  assume r: "r \<in> set (rt_ability_crs T)"
  have inj: "inj_on ar_id (set (rt_ability_crs T))" using assms by (simp add: rdb_ok_def distinct_map)
  have "ar_id r \<in> ar_id ` {r \<in> set (rt_ability_crs T). ability_key r \<notin> set keys} \<longleftrightarrow>
      r \<in> {r \<in> set (rt_ability_crs T). ability_key r \<notin> set keys}"
    by (rule inj_on_image_mem_iff [OF inj r]) auto
  then show "(ar_id r \<notin> ar_id ` set (filter (\<lambda>r. ability_key r \<notin> set keys) (rt_ability_crs T))) = (ability_key r \<in> set keys)"
    using r by simp
qed

lemma reconcile_facts:
  assumes run: "read_crs_into_db X now dir M = (Inr (), M')" and ok: "rdb_ok (rm_db M)" "supply_ok X (length (fs_descendants (rm_fs M) dir)) M"
  defines "keys \<equiv> ability_cr_key ` set (valid_abilities X M (fs_descendants (rm_fs M) dir))"
  shows "ability_key ` set (rt_ability_crs (rm_db M')) = keys"
    "distinct (map ability_key (rt_ability_crs (rm_db M')))"
    "r \<in> set (rt_ability_crs (rm_db M)) \<Longrightarrow> ability_key r \<in> keys \<Longrightarrow>
       \<exists>r'\<in>set (rt_ability_crs (rm_db M')). ar_id r' = ar_id r \<and> ability_key r' = ability_key r"
    "r \<in> set (rt_ability_crs (rm_db M)) \<Longrightarrow> ability_key r \<notin> keys \<Longrightarrow> kv_get (ar_id r) (rt_ability_labels (rm_db M')) = []"
proof -
  let ?M0 = "M\<lparr>rm_compose := [], rm_log := []\<rparr>" and ?fs = "fs_descendants (rm_fs M) dir"
  obtain as ds M1 where load: "load_files X now ?fs ([], []) ?M0 = (Inr (as, ds), M1)"
    and M': "rm_db M' = reconcile_devices ds (reconcile_abilities as (rm_db M1))"
    using run by (auto simp: read_crs_into_db_def split: prod.splits sum.splits)
  have eq: "valid_abilities X ?M0 ?fs = valid_abilities X M ?fs"
    by (rule fun_cong [OF valid_abilities_cong]) simp_all
  have g: "grows keys (rm_db M) (rm_db M1)" and as: "set as = keys"
    using load_files_grows [OF load] ok by (simp_all add: keys_def supply_ok_def eq)
  have ok1: "rdb_ok (rm_db M1)" using g by (simp add: grows_def)
  have rows: "rt_ability_crs (rm_db M') = filter (\<lambda>r. ability_key r \<in> keys) (rt_ability_crs (rm_db M1))"
    by (simp add: M' reconcile_devices_other reconcile_keeps [OF ok1] as)
  have all: "ability_key ` set (rt_ability_crs (rm_db M1)) = ability_key ` set (rt_ability_crs (rm_db M)) \<union> keys"
    using g by (simp add: grows_def)
  show "ability_key ` set (rt_ability_crs (rm_db M')) = keys"
  proof
    show "keys \<subseteq> ability_key ` set (rt_ability_crs (rm_db M'))"
    proof
      fix k assume k: "k \<in> keys"
      then have "k \<in> ability_key ` set (rt_ability_crs (rm_db M1))" using all by simp
      then show "k \<in> ability_key ` set (rt_ability_crs (rm_db M'))" unfolding rows using k by auto
    qed
  qed (auto simp: rows)
  show "distinct (map ability_key (rt_ability_crs (rm_db M')))"
    using ok1 unfolding rows by (simp add: rdb_ok_def distinct_map_filter)
  show "\<exists>r'\<in>set (rt_ability_crs (rm_db M')). ar_id r' = ar_id r \<and> ability_key r' = ability_key r"
    if r: "r \<in> set (rt_ability_crs (rm_db M))" "ability_key r \<in> keys" for r
  proof -
    obtain r' where "r' \<in> set (rt_ability_crs (rm_db M1))" "ar_id r' = ar_id r" "ability_key r' = ability_key r"
      using g r(1) by (auto simp: grows_def)
    then show ?thesis unfolding rows using r(2) by auto
  qed
  show "kv_get (ar_id r) (rt_ability_labels (rm_db M')) = []"
    if r: "r \<in> set (rt_ability_crs (rm_db M))" "ability_key r \<notin> keys" for r
  proof -
    obtain r' where "r' \<in> set (rt_ability_crs (rm_db M1))" "ar_id r' = ar_id r" "ability_key r' = ability_key r"
      using g r(1) by (auto simp: grows_def)
    then have "ar_id r \<in> ar_id ` set (filter (\<lambda>r. ability_key r \<notin> set as) (rt_ability_crs (rm_db M1)))"
      using r(2) as by (auto intro: rev_image_eqI)
    then have "\<forall>x\<in>set (rt_ability_labels (reconcile_abilities as (rm_db M1))). fst x \<noteq> ar_id r"
      unfolding reconcile_abilities_rows(2) set_filter by (metis (no_types, lifting) mem_Collect_eq)
    then have "filter (\<lambda>x. fst x = ar_id r) (rt_ability_labels (rm_db M')) = []"
      unfolding M' reconcile_devices_other(2) by (simp add: filter_empty_conv)
    then show ?thesis by (simp add: kv_get_def)
  qed
qed

text \<open>C3: After a round that ends, the templates in the database are exactly those of the valid resource files, one row
  for each class, version and name; a template that was there before and still has a file keeps its instance id; and the
  labels of the templates that were dropped are gone.\<close>

theorem reconcile_exact:
  assumes "read_crs_into_db X now dir M = (Inr (), M')" "rdb_ok (rm_db M)"
    and "supply_ok X (length (fs_descendants (rm_fs M) dir)) M"
  shows "let keys = ability_cr_key ` set (valid_abilities X M (fs_descendants (rm_fs M) dir)) in
      ability_key ` set (rt_ability_crs (rm_db M')) = keys
    \<and> distinct (map ability_key (rt_ability_crs (rm_db M')))
    \<and> (\<forall>r\<in>set (rt_ability_crs (rm_db M)).
         (ability_key r \<in> keys \<longrightarrow> (\<exists>r'\<in>set (rt_ability_crs (rm_db M')). ar_id r' = ar_id r \<and> ability_key r' = ability_key r))
       \<and> (ability_key r \<notin> keys \<longrightarrow> kv_get (ar_id r) (rt_ability_labels (rm_db M')) = []))"
  unfolding Let_def using reconcile_facts [OF assms] by blast

lemma load_files_only_grows:
  assumes "load_files X now fs ks M = (r, M')" "rdb_ok (rm_db M)" "supply_ok X (length fs) M"
  shows "\<exists>K. grows K (rm_db M) (rm_db M')"
  using assms
proof (induction X now fs ks M rule: load_files.induct)
  case (1 X now ks M)
  then show ?case by (auto intro: exI [of _ "{}"])
next
  case (2 X now p n fs ks M)
  show ?case
  proof (cases "n = FDir \<or> \<not> extension_is_yaml p")
    case True
    then show ?thesis using 2 supply_ok_Suc by simp
  next
    case good: False
    show ?thesis
    proof (cases "read_yaml_from_path (rx_store X) (rm_fs M) p")
      case (Inl e)
      then show ?thesis using 2 good supply_ok_Suc by simp
    next
      case y: (Inr y)
      show ?thesis
      proof (cases "read_cr_from_yaml X M p y")
        case (Inl e)
        then show ?thesis using "2.prems" good y by (auto intro: exI [of _ "{}"])
      next
        case (Inr cl)
        obtain c log where c: "cl = (c, log)" by (cases cl)
        let ?M1 = "M\<lparr>rm_log := rm_log M @ log\<rparr>"
        have ok1: "rdb_ok (rm_db ?M1)" "supply_ok X (Suc (length fs)) ?M1" using "2.prems"(2,3) by (simp_all add: supply_ok_def)
        show ?thesis
        proof (cases "store_loaded X now c ?M1")
          case (Inl e)
          then have "M' = ?M1" using "2.prems"(1) good y Inr c by simp
          then show ?thesis using grows_refl [OF "2.prems"(2)] by auto
        next
          case M2: (Inr M2)
          have rest: "load_files X now fs (note_key c ks) M2 = (r, M')"
            using "2.prems"(1) good y Inr c M2 by simp
          note st = store_loaded_grows [OF ok1 M2, simplified]
          have "rdb_ok (rm_db M2)" using st(1) by (simp add: grows_def)
          then obtain K where "grows K (rm_db M2) (rm_db M')"
            using "2.IH"(3) [OF good y Inr c [symmetric] refl M2 rest _ st(2)] by blast
          then show ?thesis using grows_trans [OF st(1)] by blast
        qed
      qed
    qed
  qed
qed

text \<open>A resource file whose document has no \<open>metadata\<close>.\<close>

definition no_metadata :: "load_ext \<Rightarrow> fs \<Rightarrow> path \<Rightarrow> bool" where
  "no_metadata X F p =
     (extension_is_yaml p \<and>
      (case read_yaml_from_path (rx_store X) F p of Inl _ \<Rightarrow> False | Inr y \<Rightarrow> yaml_at ''metadata'' y = Inr None))"

lemma load_files_no_metadata:
  assumes "(p, n) \<in> set fs" "n \<noteq> FDir" "no_metadata X (rm_fs M) p"
  shows "\<exists>e M'. load_files X now fs ks M = (Inl e, M')"
  using assms
proof (induction X now fs ks M rule: load_files.induct)
  case (2 X now q k fs ks M)
  show ?case
  proof (cases "k = FDir \<or> \<not> extension_is_yaml q")
    case True
    then have "(p, n) \<in> set fs" using "2.prems" by (auto simp: no_metadata_def)
    then show ?thesis using 2 True by auto
  next
    case good: False
    show ?thesis
    proof (cases "read_yaml_from_path (rx_store X) (rm_fs M) q")
      case (Inl e)
      then have "(p, n) \<in> set fs" using "2.prems" by (auto simp: no_metadata_def)
      then show ?thesis using 2 good Inl by auto
    next
      case y: (Inr y)
      show ?thesis
      proof (cases "read_cr_from_yaml X M q y")
        case (Inl e)
        then show ?thesis using good y by auto
      next
        case (Inr cl)
        obtain c log where c: "cl = (c, log)" by (cases cl)
        have "yaml_at ''metadata'' y \<noteq> Inr None"
          using Inr by (auto simp: read_cr_from_yaml_def get_name_def yaml_at2_def)
        then have "(p, n) \<in> set fs" using "2.prems" y by (auto simp: no_metadata_def)
        moreover have "rm_fs M2 = rm_fs M" if "store_loaded X now c (M\<lparr>rm_log := rm_log M @ log\<rparr>) = Inr M2" for M2
          using that by (auto simp: store_loaded_def result_simps split: loaded.splits)
        ultimately show ?thesis
          using "2.IH"(3) [OF good y Inr c [symmetric] refl] "2.prems"(2,3) good y Inr c
          by (cases "store_loaded X now c (M\<lparr>rm_log := rm_log M @ log\<rparr>)") auto
      qed
    qed
  qed
qed simp

text \<open>C39: One file below \<open>crs\<close> that parses but has no \<open>metadata\<close> ends every round with an exception: no template is ever
  dropped, whatever happened to its file, until that file is repaired.\<close>

theorem bad_file_blocks_round:
  assumes "(p, n) \<in> set (fs_descendants (rm_fs M) dir)" "n \<noteq> FDir" "no_metadata X (rm_fs M) p"
    and "rdb_ok (rm_db M)" "supply_ok X (length (fs_descendants (rm_fs M) dir)) M"
  shows "\<exists>e M'. read_crs_into_db X now dir M = (Inl e, M') \<and>
           ability_key ` set (rt_ability_crs (rm_db M)) \<subseteq> ability_key ` set (rt_ability_crs (rm_db M'))"
proof -
  let ?M0 = "M\<lparr>rm_compose := [], rm_log := []\<rparr>"
  obtain e M' where l: "load_files X now (fs_descendants (rm_fs M) dir) ([], []) ?M0 = (Inl e, M')"
    using load_files_no_metadata [OF assms(1,2), of X ?M0 now "([], [])"] assms(3) by auto
  have "rdb_ok (rm_db ?M0)" "supply_ok X (length (fs_descendants (rm_fs M) dir)) ?M0" using assms(4,5) by (simp_all add: supply_ok_def)
  then obtain K where "grows K (rm_db ?M0) (rm_db M')" using load_files_only_grows [OF l] by blast
  then show ?thesis by (auto simp: read_crs_into_db_def l grows_def)
qed

subsection \<open>A concrete round\<close>

definition grasp_yaml :: yaml where
  "grasp_yaml = YMap [(''kind'', YScalar ''AtomAbility''), (''metadata'', YMap [(''name'', YScalar ''left'')]),
     (''spec'', YMap [(''package'', YScalar ''p''), (''version'', YScalar ''1.0.0''), (''abilityName'', YScalar ''a''),
        (''tasks'', YSeq [YMap [(''taskName'', YScalar ''grasp'')]])])]"

definition grasp_ext :: load_ext where
  "grasp_ext = \<lparr>rx_env = pose_env\<lparr>ce_store := (store_of [])\<lparr>se_load_yaml := \<lambda>c. if c = ''g'' then Inr grasp_yaml else Inr YNull\<rparr>\<rparr>,
     rx_own = \<lparr>ox_local_addresses = [], ox_post = \<lambda>a b c. None\<rparr>, rx_make_uuid = \<lambda>_. 5, rx_framework_id = 1,
     rx_framework_name = Inr ''fw'', rx_fresh = \<lambda>n. word_of_int (int n)\<rparr>"

definition grasp_package :: ability_package where
  "grasp_package = \<lparr>ap_name = ''p'', ap_version = Version 1 0 0 NoPre None, ap_abilities = [],
     ap_manifests = [(''a'', task_manifest)], ap_path = [''home'', ''packages'', ''p'', ''1.0.0'']\<rparr>"

definition old_row :: "uuid \<Rightarrow> string \<Rightarrow> ability_row" where
  "old_row i name = \<lparr>ar_id = i, ar_ability_name = ''a'', ar_ability_version = ''1.0.0'', ar_instance_name = name, ar_insert_time = 0,
     ar_update_time = 0, ar_autostart = False, ar_auto_started = False, ar_keep_alive = False, ar_singleton = True, ar_cr_detail = []\<rparr>"

definition grasp_mgr :: "string \<Rightarrow> rmgr" where
  "grasp_mgr text = \<lparr>rm_db = empty_rdb\<lparr>rt_ability_crs := [old_row 100 ''left'', old_row 101 ''gone'']\<rparr>, rm_packages = [grasp_package],
     rm_compose = [], rm_fs = [([''home''], FDir), ([''home'', ''crs''], FDir), ([''home'', ''crs'', ''l.yaml''], FFile text)],
     rm_log = [], rm_drawn = 0\<rparr>"

lemma grasp_mgr_ok: "rdb_ok (rm_db (grasp_mgr t))" "supply_ok grasp_ext (length (fs_descendants (rm_fs (grasp_mgr t)) [''home'', ''crs''])) (grasp_mgr t)"
proof -
  show "rdb_ok (rm_db (grasp_mgr t))" by (simp add: rdb_ok_def grasp_mgr_def empty_rdb_def old_row_def ability_key_def)
  have "fs_descendants (rm_fs (grasp_mgr t)) [''home'', ''crs''] = [([''home'', ''crs'', ''l.yaml''], FFile t)]"
    by (simp add: grasp_mgr_def fs_descendants_def below_def resolve_def)
  then show "supply_ok grasp_ext (length (fs_descendants (rm_fs (grasp_mgr t)) [''home'', ''crs''])) (grasp_mgr t)"
    by (simp add: supply_ok_def grasp_mgr_def grasp_ext_def old_row_def)
qed

lemma reconcile_exact_witness:
  "\<exists>M'. read_crs_into_db grasp_ext 3 [''home'', ''crs''] (grasp_mgr ''g'') = (Inr (), M') \<and>
     ability_key ` set (rt_ability_crs (rm_db M')) = {(''a'', ''1.0.0'', ''left'')} \<and>
     (\<exists>r'\<in>set (rt_ability_crs (rm_db M')). ar_id r' = 100) \<and> kv_get 101 (rt_ability_labels (rm_db M')) = []"
proof -
  let ?M = "grasp_mgr ''g''" and ?dir = "[''home'', ''crs'']"
  let ?keys = "ability_cr_key ` set (valid_abilities grasp_ext ?M (fs_descendants (rm_fs ?M) ?dir))"
  let ?N = "?M\<lparr>rm_compose := [], rm_log := []\<rparr>" and ?p = "[''home'', ''crs'', ''l.yaml'']"
  have one: "fs_descendants (rm_fs ?M) ?dir = [(?p, FFile ''g'')]"
    by (simp add: grasp_mgr_def fs_descendants_def below_def resolve_def)
  have yaml: "extension_is_yaml ?p" by code_simp
  have content: "read_yaml_from_path (rx_store grasp_ext) (rm_fs ?N) ?p = Inr grasp_yaml"
    by (simp add: read_yaml_from_path_def yaml grasp_mgr_def grasp_ext_def pose_env_def store_of_def read_file_def fs_node_def resolve_def)
  have "case read_cr_from_yaml grasp_ext ?N ?p grasp_yaml of Inr (LoadedAbility cr, log) \<Rightarrow> acr_spec cr \<noteq> None | _ \<Rightarrow> False"
    by code_simp
  then obtain cr log sp where cr: "read_cr_from_yaml grasp_ext ?N ?p grasp_yaml = Inr (LoadedAbility cr, log)" "acr_spec cr = Some sp"
    by (auto split: sum.splits prod.splits loaded.splits)
  have "\<exists>M2. store_loaded grasp_ext 3 (LoadedAbility cr) (?N\<lparr>rm_log := rm_log ?N @ log\<rparr>) = Inr M2"
    by (simp add: store_loaded_def add_ability_cr_def cr Let_def split: prod.splits option.splits)
  then obtain M2 where M2: "store_loaded grasp_ext 3 (LoadedAbility cr) (?N\<lparr>rm_log := rm_log ?N @ log\<rparr>) = Inr M2" ..
  have "load_files grasp_ext 3 [(?p, FFile ''g'')] ([], []) ?N = (Inr ([ability_cr_key cr], []), M2)"
    by (simp only: load_files.simps fnode.distinct simp_thms yaml if_False content sum.case cr(1) prod.case Let_def M2 note_key.simps)
  then obtain M' where run: "read_crs_into_db grasp_ext 3 ?dir ?M = (Inr (), M')"
    unfolding read_crs_into_db_def one by simp
  have map: "map ability_cr_key (valid_abilities grasp_ext ?M (fs_descendants (rm_fs ?M) ?dir)) = [(''a'', ''1.0.0'', ''left'')]"
    by code_simp
  have keys: "?keys = {(''a'', ''1.0.0'', ''left'')}" using arg_cong [OF map, where f = set] by (simp only: set_map list.set)
  have rows: "old_row 100 ''left'' \<in> set (rt_ability_crs (rm_db ?M))" "old_row 101 ''gone'' \<in> set (rt_ability_crs (rm_db ?M))"
    by (simp_all add: grasp_mgr_def)
  have key: "ability_key (old_row 100 ''left'') \<in> ?keys" "ability_key (old_row 101 ''gone'') \<notin> ?keys"
    unfolding keys by (simp_all add: old_row_def ability_key_def)
  note exact = reconcile_exact [OF run grasp_mgr_ok, unfolded Let_def]
  have "\<exists>r'\<in>set (rt_ability_crs (rm_db M')). ar_id r' = 100"
    using exact rows(1) key(1) by (fastforce simp: old_row_def)
  moreover have "kv_get 101 (rt_ability_labels (rm_db M')) = []"
    using exact rows(2) key(2) by (fastforce simp: old_row_def)
  ultimately show ?thesis using run exact keys by auto
qed

lemma bad_file_blocks_round_witness:
  "\<exists>e M'. read_crs_into_db grasp_ext 3 [''home'', ''crs''] (grasp_mgr ''x'') = (Inl e, M') \<and>
     ability_key ` set (rt_ability_crs (rm_db (grasp_mgr ''x''))) \<subseteq> ability_key ` set (rt_ability_crs (rm_db M'))"
proof (rule bad_file_blocks_round)
  show "([''home'', ''crs'', ''l.yaml''], FFile ''x'') \<in> set (fs_descendants (rm_fs (grasp_mgr ''x'')) [''home'', ''crs''])"
    by (simp add: grasp_mgr_def fs_descendants_def below_def resolve_def)
  show "no_metadata grasp_ext (rm_fs (grasp_mgr ''x'')) [''home'', ''crs'', ''l.yaml'']" by code_simp
qed (use grasp_mgr_ok in simp_all)

end
