(* ===== verification/Launch.thy ===== *)
theory Launch
  imports Reconcile TaskMgr
begin

section \<open>Starting instances and installing packages\<close>

text \<open>
  What ends a round of \<open>ResourceManager::update\<close>: the templates marked \<open>autoStart\<close> are started once after the framework
  has started, those marked \<open>keepAlive\<close> whenever no instance of their ability is active
  (\<open>src/resourcemgr/resource_mgr.cpp\<close>). Then the tasks that download, install and remove packages, their factories, and
  the chain of tasks that starts an instance for \<open>POST /api/instance\<close>
  (\<open>src/resourcemgr/resource_mgr_http_apis.cpp\<close>). A task works on a world that holds the resource manager, the heartbeat
  table of LifecycleMgr and the lifecycle requests sent so far.
\<close>

subsection \<open>Starting instances from templates\<close>

text \<open>\<open>start_records\<close> counts the starts of a template and keeps the time of the last; an absent record counts none. The
  log of spawned instances stands for the tasks that are submitted for them.\<close>

(* include/resourcemgr/resource_mgr.hpp:66-70 ResourceManager::StartRecord, start_records *)
record amgr =
  am_rm :: rmgr
  am_starts :: "uuid \<Rightarrow> nat \<times> time"
  am_spawned :: "(uuid \<times> uuid) list"

definition am_db :: "amgr \<Rightarrow> rdb" where "am_db A = rm_db (am_rm A)"

definition set_db :: "rdb \<Rightarrow> amgr \<Rightarrow> amgr" where
  "set_db T A = A\<lparr>am_rm := (am_rm A)\<lparr>rm_db := T\<rparr>\<rparr>"

definition MAX_STARTS :: nat where "MAX_STARTS = 3"
definition RESTART_DELAY :: time where "RESTART_DELAY = 20000"

text \<open>A new instance takes five uuids: its own and those of its four tasks.\<close>

definition count_start :: "uuid \<Rightarrow> time \<Rightarrow> amgr \<Rightarrow> amgr" where
  "count_start t now A = A\<lparr>am_starts := (am_starts A)(t := (Suc (fst (am_starts A t)), now))\<rparr>"

(* src/resourcemgr/resource_mgr.cpp:2370-2445 ResourceManager::auto_start_ability (spawn_instance_from_template) *)
definition spawn_instance_from_template :: "load_ext \<Rightarrow> task_env \<Rightarrow> uuid \<Rightarrow> amgr \<Rightarrow> (exn + uuid option) \<times> amgr" where
  "spawn_instance_from_template X E t A =
     (case get_ability_cr (rx_text X) (am_db A) t of
        Inl e \<Rightarrow> (Inl e, A)
      | Inr None \<Rightarrow> (Inr None, A)
      | Inr (Some tmpl) \<Rightarrow>
          (case acr_spec tmpl of
             None \<Rightarrow> (Inr None, A)
           | Some sp \<Rightarrow>
               if opt_or True (sf_singleton (spec_own sp))
                  \<and> get_active_instances_by_ability_name (rx_text X) (am_db A) (sf_abilityName (spec_own sp)) \<noteq> []
               then (Inr None, A)
               else
                 (let (n, last) = am_starts A t; now = te_steady_now E in
                  if MAX_STARTS \<le> n then (Inr None, A)
                  else if 0 < n \<and> now - last < RESTART_DELAY then (Inr None, A)
                  else
                    (let A1 = count_start t now A; i = rx_fresh X (rm_drawn (am_rm A)) in
                     case create_ability_instance (rx_text X) (te_sys_now E) i tmpl (am_db A1) of
                       Inl e \<Rightarrow> (Inl e, A1)
                     | Inr T \<Rightarrow>
                         (Inr (Some i),
                          A1\<lparr>am_rm := (am_rm A1)\<lparr>rm_db := T, rm_drawn := rm_drawn (am_rm A) + 5\<rparr>,
                             am_spawned := am_spawned A1 @ [(t, i)]\<rparr>)))))"

(* src/resourcemgr/resource_mgr.cpp:2326-2335 db_get_ability_cr_is_autostart *)
definition db_get_ability_cr_is_autostart :: "rdb \<Rightarrow> uuid \<Rightarrow> bool" where
  "db_get_ability_cr_is_autostart T i =
     (case find (\<lambda>r. ar_id r = i) (rt_ability_crs T) of None \<Rightarrow> False | Some r \<Rightarrow> ar_autostart r)"

(* src/resourcemgr/resource_mgr.cpp:2337-2347 db_get_ability_cr_need_autostart *)
definition db_get_ability_cr_need_autostart :: "rdb \<Rightarrow> uuid list" where
  "db_get_ability_cr_need_autostart T =
     map ar_id (filter (\<lambda>r. ar_autostart r \<and> \<not> ar_auto_started r) (rt_ability_crs T))"

(* src/resourcemgr/resource_mgr.cpp:2349-2358 db_get_ability_cr_keep_alive *)
definition db_get_ability_cr_keep_alive :: "rdb \<Rightarrow> uuid list" where
  "db_get_ability_cr_keep_alive T = map ar_id (filter ar_keep_alive (rt_ability_crs T))"

(* src/resourcemgr/resource_mgr.cpp:2360-2365 db_mark_auto_started *)
definition db_mark_auto_started :: "uuid \<Rightarrow> rdb \<Rightarrow> rdb" where
  "db_mark_auto_started i T =
     T\<lparr>rt_ability_crs := update_where (\<lambda>r. ar_id r = i) (\<lambda>r. r\<lparr>ar_auto_started := True\<rparr>) (rt_ability_crs T)\<rparr>"

(* src/resourcemgr/resource_mgr.cpp:2447-2453 ResourceManager::auto_start_ability (autoStart) *)
fun auto_starts :: "load_ext \<Rightarrow> task_env \<Rightarrow> uuid list \<Rightarrow> amgr \<Rightarrow> (exn + unit) \<times> amgr" where
  "auto_starts X E [] A = (Inr (), A)"
| "auto_starts X E (t # ts) A =
     (case spawn_instance_from_template X E t (set_db (db_mark_auto_started t (am_db A)) A) of
        (Inl e, A1) \<Rightarrow> (Inl e, A1)
      | (Inr _, A1) \<Rightarrow> auto_starts X E ts A1)"

definition no_active_instance :: "load_ext \<Rightarrow> uuid \<Rightarrow> amgr \<Rightarrow> exn + bool" where
  "no_active_instance X t A =
     rbind (get_ability_cr (rx_text X) (am_db A) t) (\<lambda>op.
       Inr (case op of
              None \<Rightarrow> False
            | Some tmpl \<Rightarrow>
                (case acr_spec tmpl of
                   None \<Rightarrow> False
                 | Some sp \<Rightarrow>
                     get_active_instances_by_ability_name (rx_text X) (am_db A) (sf_abilityName (spec_own sp)) = [])))"

(* src/resourcemgr/resource_mgr.cpp:2455-2464 ResourceManager::auto_start_ability (keepAlive) *)
fun keep_alives :: "load_ext \<Rightarrow> task_env \<Rightarrow> uuid list \<Rightarrow> amgr \<Rightarrow> (exn + unit) \<times> amgr" where
  "keep_alives X E [] A = (Inr (), A)"
| "keep_alives X E (t # ts) A =
     (case no_active_instance X t A of
        Inl e \<Rightarrow> (Inl e, A)
      | Inr False \<Rightarrow> keep_alives X E ts A
      | Inr True \<Rightarrow>
          (case spawn_instance_from_template X E t A of
             (Inl e, A1) \<Rightarrow> (Inl e, A1)
           | (Inr _, A1) \<Rightarrow> keep_alives X E ts A1))"

(* src/resourcemgr/resource_mgr.cpp:2367-2465 ResourceManager::auto_start_ability *)
definition auto_start_ability :: "load_ext \<Rightarrow> task_env \<Rightarrow> amgr \<Rightarrow> (exn + unit) \<times> amgr" where
  "auto_start_ability X E A =
     (case auto_starts X E (db_get_ability_cr_need_autostart (am_db A)) A of
        (Inl e, A1) \<Rightarrow> (Inl e, A1)
      | (Inr _, A1) \<Rightarrow> keep_alives X E (db_get_ability_cr_keep_alive (am_db A1)) A1)"

text \<open>The directory \<open>packages\<close> is listed before anything is read; without it the listing throws.\<close>

(* src/resourcemgr/resource_mgr.cpp:1771-1793 ResourceManager::update *)
definition update :: "load_ext \<Rightarrow> task_env \<Rightarrow> amgr \<Rightarrow> (exn + unit) \<times> amgr" where
  "update X E A =
     (let home = se_home (rx_store X); M = (am_rm A)\<lparr>rm_packages := []\<rparr> in
      if \<not> is_directory (rm_fs M) (home @ [''packages''])
      then (Inl (fs_error ''directory iterator cannot open directory'' (home @ [''packages''])), A\<lparr>am_rm := M\<rparr>)
      else
        (case load_packages X (package_dirs (rm_fs M) (home @ [''packages''])) M of
           (Inl e, M1) \<Rightarrow> (Inl e, A\<lparr>am_rm := M1\<rparr>)
         | (Inr _, M1) \<Rightarrow>
             (case read_cr_in_framework_cr_dir X (te_sys_now E) (home @ [''crs'']) M1 of
                (Inl e, M2) \<Rightarrow> (Inl e, A\<lparr>am_rm := M2\<rparr>)
              | (Inr _, M2) \<Rightarrow> auto_start_ability X E (A\<lparr>am_rm := M2\<rparr>))))"

subsection \<open>How often a template is started\<close>

definition spawns :: "uuid \<Rightarrow> amgr \<Rightarrow> nat" where
  "spawns t A = length (filter (\<lambda>p. fst p = t) (am_spawned A))"

definition starts_ok :: "amgr \<Rightarrow> bool" where
  "starts_ok A \<longleftrightarrow> (\<forall>t. spawns t A \<le> fst (am_starts A t) \<and> fst (am_starts A t) \<le> MAX_STARTS)"

lemma spawn_cases:
  assumes "spawn_instance_from_template X E t A = (r, A')"
  obtains (same) "A' = A"
    | (counted) "\<not> MAX_STARTS \<le> fst (am_starts A t)" "A' = count_start t (te_steady_now E) A"
    | (spawned) i tmpl T M where "\<not> MAX_STARTS \<le> fst (am_starts A t)" "rm_db M = T"
        "create_ability_instance (rx_text X) (te_sys_now E) i tmpl (am_db (count_start t (te_steady_now E) A)) = Inr T"
        "A' = (count_start t (te_steady_now E) A)\<lparr>am_rm := M, am_spawned := am_spawned A @ [(t, i)]\<rparr>"
proof (cases "get_ability_cr (rx_text X) (am_db A) t")
  case (Inr op)
  note cr = this
  show thesis
  proof (cases op)
    case None
    then have "A' = A" using assms cr by (simp add: spawn_instance_from_template_def)
    then show thesis by (rule same)
  next
    case op: (Some tmpl)
    show thesis
    proof (cases "acr_spec tmpl")
      case None
      then have "A' = A" using assms cr op by (simp add: spawn_instance_from_template_def)
      then show thesis by (rule same)
    next
      case sp: (Some sp)
      let ?A1 = "count_start t (te_steady_now E) A"
      let ?T = "create_ability_instance (rx_text X) (te_sys_now E) (rx_fresh X (rm_drawn (am_rm A))) tmpl (am_db ?A1)"
      have spawned_same: "am_spawned ?A1 = am_spawned A" by (simp add: count_start_def)
      consider "A' = A" | (go) "\<not> MAX_STARTS \<le> fst (am_starts A t)"
          "(r, A') = (case ?T of Inl e \<Rightarrow> (Inl e, ?A1)
            | Inr T \<Rightarrow> (Inr (Some (rx_fresh X (rm_drawn (am_rm A)))),
                ?A1\<lparr>am_rm := (am_rm ?A1)\<lparr>rm_db := T, rm_drawn := rm_drawn (am_rm A) + 5\<rparr>,
                    am_spawned := am_spawned ?A1 @ [(t, rx_fresh X (rm_drawn (am_rm A)))]\<rparr>))"
        using assms unfolding spawn_instance_from_template_def cr op sp Let_def sum.case option.case
        by (cases "am_starts A t") (simp split: if_splits)
      then show thesis
      proof cases
        case go
        show thesis
        proof (cases ?T)
          case (Inl e)
          then show thesis using go counted by simp
        next
          case (Inr T)
          then show thesis using go spawned [OF go(1) _ Inr, of "(am_rm ?A1)\<lparr>rm_db := T, rm_drawn := rm_drawn (am_rm A) + 5\<rparr>"]
            by (simp add: spawned_same)
        qed
      qed (rule same)
    qed
  qed
next
  case (Inl e)
  then have "A' = A" using assms by (simp add: spawn_instance_from_template_def)
  then show thesis by (rule same)
qed

lemma created_crs: "create_ability_instance L now i cr T = Inr T' \<Longrightarrow> rt_ability_crs T' = rt_ability_crs T"
  by (auto simp: create_ability_instance_def split: option.splits if_splits)

lemma spawn_facts:
  assumes "spawn_instance_from_template X E t A = (r, A')"
  shows "rt_ability_crs (am_db A') = rt_ability_crs (am_db A)" "starts_ok A \<Longrightarrow> starts_ok A'"
proof -
  have db: "am_db (count_start t now A) = am_db A" for now by (simp add: am_db_def count_start_def)
  show "rt_ability_crs (am_db A') = rt_ability_crs (am_db A)"
    using assms
  proof (cases rule: spawn_cases)
    case (spawned i tmpl T M)
    then show ?thesis using created_crs [OF spawned(3)] by (simp add: am_db_def count_start_def)
  qed (simp_all add: db)
  show "starts_ok A'" if "starts_ok A"
    using assms
  proof (cases rule: spawn_cases)
    case counted
    then show ?thesis using that by (auto simp: starts_ok_def count_start_def spawns_def not_le intro: le_SucI)
  next
    case (spawned i tmpl T M)
    then show ?thesis using that by (auto simp: starts_ok_def count_start_def spawns_def)
  qed (simp add: that)
qed

lemma starts_ok_set_db [simp]: "starts_ok (set_db T A) = starts_ok A"
  by (simp add: starts_ok_def set_db_def spawns_def)

lemma starts_ok_rm [simp]: "starts_ok (A\<lparr>am_rm := M\<rparr>) = starts_ok A"
  by (simp add: starts_ok_def spawns_def)

lemma auto_starts_ok: "auto_starts X E ts A = (r, A') \<Longrightarrow> starts_ok A \<Longrightarrow> starts_ok A'"
  by (induction X E ts A arbitrary: r A' rule: auto_starts.induct)
    (auto split: sum.splits prod.splits dest: spawn_facts(2))

lemma keep_alives_ok: "keep_alives X E ts A = (r, A') \<Longrightarrow> starts_ok A \<Longrightarrow> starts_ok A'"
  by (induction X E ts A arbitrary: r A' rule: keep_alives.induct)
    (auto split: sum.splits prod.splits bool.splits dest: spawn_facts(2))

lemma auto_start_ability_ok: "auto_start_ability X E A = (r, A') \<Longrightarrow> starts_ok A \<Longrightarrow> starts_ok A'"
  by (auto simp: auto_start_ability_def split: sum.splits prod.splits dest: auto_starts_ok keep_alives_ok)

lemma update_ok: "update X E A = (r, A') \<Longrightarrow> starts_ok A \<Longrightarrow> starts_ok A'"
  by (auto simp: update_def Let_def split: sum.splits prod.splits if_splits dest: auto_start_ability_ok)

text \<open>A session: rounds of the timer, whose exceptions it catches, and whatever else changes the tables and the files.\<close>

datatype session_event = EvUpdate task_env | EvChange "rmgr \<Rightarrow> rmgr"

fun session_step :: "load_ext \<Rightarrow> session_event \<Rightarrow> amgr \<Rightarrow> amgr" where
  "session_step X (EvUpdate E) A = snd (update X E A)"
| "session_step X (EvChange f) A = A\<lparr>am_rm := f (am_rm A)\<rparr>"

lemma session_ok: "starts_ok A \<Longrightarrow> starts_ok (fold (session_step X) es A)"
proof (induction es arbitrary: A)
  case (Cons e es)
  have "starts_ok (session_step X e A)"
  proof (cases e)
    case (EvUpdate E)
    then show ?thesis using update_ok [OF prod.collapse [symmetric] Cons.prems] by simp
  qed (use Cons.prems in simp)
  then show ?case using Cons.IH by simp
qed simp

text \<open>C12: In a session no template is started more than three times, by \<open>autoStart\<close> and \<open>keepAlive\<close> together, whatever the
  instances and the files do meanwhile: the count of a template is never reset, so an ability that is to be kept alive
  stays down after its third end.\<close>

theorem starts_bounded:
  assumes "am_starts A = (\<lambda>t. (0, 0))" "am_spawned A = []"
  shows "spawns t (fold (session_step X) es A) \<le> 3"
proof -
  have "starts_ok A" using assms by (simp add: starts_ok_def spawns_def)
  then have "starts_ok (fold (session_step X) es A)" by (rule session_ok)
  then have "spawns t (fold (session_step X) es A) \<le> MAX_STARTS" unfolding starts_ok_def using le_trans by blast
  then show ?thesis by (simp add: MAX_STARTS_def)
qed

definition auto_ids :: "rdb \<Rightarrow> uuid set" where
  "auto_ids T = ar_id ` {r \<in> set (rt_ability_crs T). ar_autostart r \<and> \<not> ar_auto_started r}"

lemma auto_ids_mark: "auto_ids (db_mark_auto_started i T) \<subseteq> auto_ids T - {i}"
proof
  fix k
  assume "k \<in> auto_ids (db_mark_auto_started i T)"
  then obtain r where r: "r \<in> set (rt_ability_crs T)" "k = ar_id (if ar_id r = i then r\<lparr>ar_auto_started := True\<rparr> else r)"
      "ar_autostart (if ar_id r = i then r\<lparr>ar_auto_started := True\<rparr> else r)"
      "\<not> ar_auto_started (if ar_id r = i then r\<lparr>ar_auto_started := True\<rparr> else r)"
    unfolding auto_ids_def db_mark_auto_started_def by (auto simp: set_update_where)
  then have "ar_id r \<noteq> i" by (cases "ar_id r = i") simp_all
  then show "k \<in> auto_ids T - {i}" using r by (auto simp: auto_ids_def)
qed

lemma auto_ids_same: "rt_ability_crs T' = rt_ability_crs T \<Longrightarrow> auto_ids T' = auto_ids T"
  by (simp add: auto_ids_def)

lemma auto_starts_marks:
  "auto_starts X E ts A = (Inr (), A') \<Longrightarrow> auto_ids (am_db A') \<subseteq> auto_ids (am_db A) - set ts"
proof (induction X E ts A arbitrary: A' rule: auto_starts.induct)
  case (2 X E t ts A)
  let ?A0 = "set_db (db_mark_auto_started t (am_db A)) A"
  obtain r A1 where sp: "spawn_instance_from_template X E t ?A0 = (Inr r, A1)" and rest: "auto_starts X E ts A1 = (Inr (), A')"
    using "2.prems" by (auto split: prod.splits sum.splits)
  have "auto_ids (am_db A1) = auto_ids (db_mark_auto_started t (am_db A))"
    using spawn_facts(1) [OF sp] by (intro auto_ids_same) (simp add: set_db_def am_db_def)
  moreover have "auto_ids (am_db A') \<subseteq> auto_ids (am_db A1) - set ts"
    using "2.IH" [OF sp [symmetric] refl rest] .
  ultimately show ?case using auto_ids_mark [of t "am_db A"] by auto
qed simp

lemma keep_alives_crs: "keep_alives X E ts A = (r, A') \<Longrightarrow> rt_ability_crs (am_db A') = rt_ability_crs (am_db A)"
  by (induction X E ts A arbitrary: r A' rule: keep_alives.induct)
    (auto split: sum.splits prod.splits bool.splits dest: spawn_facts(1))

lemma need_autostart_ids: "set (db_get_ability_cr_need_autostart T) = auto_ids T"
  by (auto simp: db_get_ability_cr_need_autostart_def auto_ids_def)


text \<open>A template that is auto-started: its document is the one the text library reads.\<close>

definition start_doc :: json where
  "start_doc = JObj [(''kind'', JStr ''AtomAbility''), (''metadata'', JObj [(''name'', JStr ''left'')]),
     (''spec'', JObj [(''abilityName'', JStr ''a''), (''package'', JStr ''p''), (''version'', JStr ''1.0.0'')])]"

definition start_ext :: load_ext where
  "start_ext = grasp_ext\<lparr>rx_env := pose_env\<lparr>ce_text := decimal_lib\<lparr>parse := \<lambda>s. Inr start_doc\<rparr>\<rparr>\<rparr>"

definition start_mgr :: amgr where
  "start_mgr = \<lparr>am_rm = (grasp_mgr ''g'')\<lparr>rm_db := empty_rdb\<lparr>rt_ability_crs := [(old_row 100 ''left'')\<lparr>ar_autostart := True\<rparr>]\<rparr>\<rparr>,
     am_starts = \<lambda>t. (0, 0), am_spawned = []\<rparr>"

lemma starts_bounded_witness:
  "spawns 100 (fold (session_step start_ext) [EvUpdate sample_env, EvChange (\<lambda>M. M), EvUpdate sample_env] start_mgr) \<le> 3"
  by (rule starts_bounded) (simp_all add: start_mgr_def)


subsection \<open>The tasks that start an instance\<close>

text \<open>The world of these tasks. A lifecycle request is answered by LifecycleMgr, which submits a task of its own
  (\<^const>\<open>on_lifecycle_request\<close>); the sender only logs a failed answer, so what remains is that it was sent. The id of a
  new instance is shared by the tasks of one chain, here under a key of the chain.\<close>

record launch_world =
  lw_mgr :: amgr
  lw_life :: "unit lmgr"
  lw_env :: task_env
  lw_entries :: "(uuid \<times> uuid) list"
  lw_requests :: "(uuid \<times> string) list"

record launch_ext =
  lx_load :: load_ext
  lx_life :: "unit lext"
  lx_tmp :: path

abbreviation lx_text :: "launch_ext \<Rightarrow> text_lib" where "lx_text X \<equiv> rx_text (lx_load X)"
abbreviation lx_store :: "launch_ext \<Rightarrow> store_ext" where "lx_store X \<equiv> rx_store (lx_load X)"

definition world_db :: "launch_world \<Rightarrow> rdb" where "world_db w = am_db (lw_mgr w)"

definition send_lifecycle :: "uuid \<Rightarrow> string \<Rightarrow> launch_world \<Rightarrow> launch_world" where
  "send_lifecycle i cmd w = w\<lparr>lw_requests := lw_requests w @ [(i, cmd)]\<rparr>"

(* src/resourcemgr/resource_mgr.cpp:2295-2314 is_ability_running *)
definition is_ability_running :: "launch_ext \<Rightarrow> uuid \<Rightarrow> launch_world \<Rightarrow> bool" where
  "is_ability_running X i w =
     (case get_heartbeat (lx_life X) (lw_life w) i of None \<Rightarrow> False | Some hb \<Rightarrow> is_active (hb_state hb))"

(* src/resourcemgr/resource_mgr.cpp:2413-2444 ResourceManager::auto_start_ability (tasks of a spawned instance) *)
definition lifecycle_adjust_task ::
  "launch_ext \<Rightarrow> task_env \<Rightarrow> uuid \<times> uuid \<times> uuid \<times> uuid \<Rightarrow> uuid \<Rightarrow> launch_world task" where
  "lifecycle_adjust_task X E ids i =
     (let (i1, i2, i3, i4) = ids in
      tasks_sequence i4 ''lifecycle-adjust''
       [tasks_atomic i1 ''start-ability'' (\<lambda>w. (Inr (), send_lifecycle i ''start'' w)),
        tasks_wait_once E i2 ''wait-heartbeat'' (\<lambda>w. (Inr (is_ability_running X i w), w)) 15000
          (Some (\<lambda>w. (Inr (''wait instance heartbeat '' @ show_uuid (lx_text X) i @ '' timeout ''), w))),
        tasks_atomic i3 ''connect-ability'' (\<lambda>w. (Inr (), send_lifecycle i ''connect'' w))])"

text \<open>The shared id of a chain, nil and empty before the instance is created.\<close>

(* src/resourcemgr/resource_mgr_http_apis.cpp:74-81 IDEntry *)
definition entry_raw :: "uuid \<Rightarrow> launch_world \<Rightarrow> uuid" where
  "entry_raw key w = (case map_of (lw_entries w) key of None \<Rightarrow> 0 | Some i \<Rightarrow> i)"

definition entry_str :: "launch_ext \<Rightarrow> uuid \<Rightarrow> launch_world \<Rightarrow> string" where
  "entry_str X key w = (case map_of (lw_entries w) key of None \<Rightarrow> [] | Some i \<Rightarrow> show_uuid (lx_text X) i)"

definition action_json :: "launch_ext \<Rightarrow> uuid \<Rightarrow> string \<Rightarrow> launch_world \<Rightarrow> json" where
  "action_json X key act w = jobject [(''abilityInstanceId'', JStr (entry_str X key w)), (''taskAction'', JStr act)]"

(* src/resourcemgr/resource_mgr_http_apis.cpp:90-99 prepare_task_start_ability (create-instance) *)
definition create_instance_action :: "launch_ext \<Rightarrow> uuid \<Rightarrow> ability_cr \<Rightarrow> (launch_world, json) closure" where
  "create_instance_action X key cr w =
     (let M = am_rm (lw_mgr w); i = rx_fresh (lx_load X) (rm_drawn M) in
      case create_ability_instance (lx_text X) (te_sys_now (lw_env w)) i cr (rm_db M) of
        Inl e \<Rightarrow> (Inl e, w)
      | Inr T \<Rightarrow>
          (Inr JNull,
           w\<lparr>lw_mgr := (lw_mgr w)\<lparr>am_rm := M\<lparr>rm_db := T, rm_drawn := Suc (rm_drawn M)\<rparr>\<rparr>,
             lw_entries := (key, i) # lw_entries w\<rparr>))"

(* src/resourcemgr/resource_mgr_http_apis.cpp:133-142 prepare_task_start_ability (wait-standby) *)
definition reached_standby :: "launch_ext \<Rightarrow> uuid \<Rightarrow> launch_world \<Rightarrow> bool" where
  "reached_standby X key w =
     (case get_ability_instance (lx_text X) (world_db w) (entry_raw key w) of
        None \<Rightarrow> False
      | Some info \<Rightarrow> ii_state info = ''Standby'' \<or> ii_state info = ''Running'')"

(* src/resourcemgr/resource_mgr_http_apis.cpp:82-160 prepare_task_start_ability *)
definition prepare_task_start_ability ::
  "launch_ext \<Rightarrow> task_env \<Rightarrow> uuid list \<Rightarrow> uuid \<Rightarrow> ability_cr \<Rightarrow> bool \<Rightarrow> bool \<Rightarrow> launch_world task list" where
  "prepare_task_start_ability X E ids key cr start connect =
     (let create = tasks_atomic_with_return_value (ids ! 0) ''create-instance'' (create_instance_action X key cr);
          send = (\<lambda>cmd act w. (Inr (action_json X key act w), send_lifecycle (entry_raw key w) cmd w)) in
      if \<not> start \<and> \<not> connect
      then [create, tasks_atomic_with_return_value (ids ! 1) ''noop-start''
              (\<lambda>w. (Inr (action_json X key ''add instance without starting'' w), w))]
      else
        [create, tasks_atomic_with_return_value (ids ! 1) ''start-ability'' (send ''start'' ''start ability'')] @
        (if \<not> connect then []
         else [tasks_wait_once E (ids ! 2) ''wait-standby'' (\<lambda>w. (Inr (reached_standby X key w), w)) 30000
                 (Some (\<lambda>w. (Inr (''wait instance '' @ entry_str X key w @ '' reach Standby timeout''), w))),
               tasks_atomic_with_return_value (ids ! 3) ''connect-ability'' (send ''connect'' ''connect ability'')]))"

(* src/resourcemgr/resource_mgr_http_apis.cpp:162-168 make_task_start_ability *)
definition make_task_start_ability ::
  "launch_ext \<Rightarrow> task_env \<Rightarrow> uuid list \<Rightarrow> uuid \<Rightarrow> ability_cr \<Rightarrow> bool \<Rightarrow> bool \<Rightarrow> launch_world task" where
  "make_task_start_ability X E ids key cr start connect =
     tasks_sequence key ''auto-start-ability'' (prepare_task_start_ability X E ids key cr start connect)"

subsection \<open>Packages\<close>

text \<open>The specification of the package has no architecture: the aggregate leaves it empty.\<close>

(* src/resourcemgr/resource_mgr.cpp:2316-2324 ResourceManager::task_download_package *)
definition download_action :: "launch_ext \<Rightarrow> pkg_spec \<Rightarrow> (launch_world, unit) closure" where
  "download_action X spec w =
     (let data = download_package (lx_store X) spec in
      if data = [] then (Inl (RuntimeError ''download package failed''), w)
      else
        (let M = am_rm (lw_mgr w); (r, F) = extract_package (lx_store X) (lx_tmp X) spec data (rm_fs M);
             w1 = w\<lparr>lw_mgr := (lw_mgr w)\<lparr>am_rm := M\<lparr>rm_fs := F\<rparr>\<rparr>\<rparr> in
         case r of
           Inl e \<Rightarrow> (Inl e, w1)
         | Inr (Inl m) \<Rightarrow> (Inl (RuntimeError (''extract file failed: '' @ m)), w1)
         | Inr (Inr _) \<Rightarrow> (let (u, A) = update (lx_load X) (lw_env w1) (lw_mgr w1) in (u, w1\<lparr>lw_mgr := A\<rparr>))))"

definition task_download_package :: "launch_ext \<Rightarrow> uuid \<Rightarrow> pkg_spec \<Rightarrow> launch_world task" where
  "task_download_package X i spec = tasks_atomic i ''download-package'' (download_action X spec)"

(* src/resourcemgr/resource_mgr_http_apis.cpp:170-186 make_task_download_pkg_and_start_ability *)
definition make_task_download_pkg_and_start_ability ::
  "launch_ext \<Rightarrow> task_env \<Rightarrow> uuid list \<Rightarrow> uuid \<Rightarrow> uuid \<Rightarrow> ability_cr \<Rightarrow> ability_spec \<Rightarrow> bool \<Rightarrow> bool \<Rightarrow> launch_world task" where
  "make_task_download_pkg_and_start_ability X E ids i key cr sp start connect =
     tasks_sequence key ''download-start-ability''
       (task_download_package X i
          \<lparr>ps_package = sf_package (spec_own sp), ps_version = version_to_string (sf_version (spec_own sp)), ps_arch = []\<rparr>
        # prepare_task_start_ability X E ids key cr start connect)"

(* src/resourcemgr/resource_mgr.cpp:2487-2490 exists_package *)
definition exists_package :: "store_ext \<Rightarrow> fs \<Rightarrow> string \<Rightarrow> string \<Rightarrow> bool" where
  "exists_package X F name version = fs_exists F (package_dir (se_home X) name version)"

definition removal_dir :: "store_ext \<Rightarrow> string \<Rightarrow> string \<Rightarrow> path" where
  "removal_dir X name version =
     (let dir = path_div (se_home X @ [''packages'']) name in if version \<noteq> [] then path_div dir version else dir)"

definition with_files :: "fs \<Rightarrow> launch_world \<Rightarrow> launch_world" where
  "with_files F w = w\<lparr>lw_mgr := (lw_mgr w)\<lparr>am_rm := (am_rm (lw_mgr w))\<lparr>rm_fs := F\<rparr>\<rparr>\<rparr>"

definition world_files :: "launch_world \<Rightarrow> fs" where "world_files w = rm_fs (am_rm (lw_mgr w))"

(* src/resourcemgr/resource_mgr.cpp:2491-2498 task_remove_package *)
definition task_remove_package :: "launch_ext \<Rightarrow> uuid \<Rightarrow> string \<Rightarrow> string \<Rightarrow> launch_world task" where
  "task_remove_package X i name version =
     tasks_atomic i (''remove old package '' @ name @ '' '' @ version)
       (\<lambda>w. (Inr (), with_files (remove_all (removal_dir (lx_store X) name version) (world_files w)) w))"

(* src/resourcemgr/resource_mgr.cpp:2479-2485 CHECK_TASK_PARAM *)
definition string_param :: "text_lib \<Rightarrow> string \<Rightarrow> json \<Rightarrow> exn + string" where
  "string_param L name params =
     (case jfind name params of
        None \<Rightarrow> Inl (InvalidArgument (''missing param '' @ name))
      | Some (JStr s) \<Rightarrow> Inr s
      | Some v \<Rightarrow> Inl (InvalidArgument (''invalid param, expected it is_string, but get '' @ dump L v)))"

text \<open>The factories see the files of the manager at the time of the call.\<close>

(* src/resourcemgr/resource_mgr.cpp:2500-2538 InstallPackageTaskFactory *)
definition install_package_factory :: "launch_ext \<Rightarrow> (nat \<Rightarrow> uuid) \<Rightarrow> fs \<Rightarrow> launch_world task_factory" where
  "install_package_factory X new F i params =
     rbind (string_param (lx_text X) ''package_name'' params) (\<lambda>name.
     rbind (string_param (lx_text X) ''package_version'' params) (\<lambda>version.
     rbind (case jfind ''override_local_package'' params of None \<Rightarrow> Inr False | Some v \<Rightarrow> get_bool v) (\<lambda>override.
       let spec = \<lparr>ps_package = name, ps_version = version, ps_arch = []\<rparr>;
           exist = exists_package (lx_store X) F name version in
       if exist \<and> \<not> override
       then Inl (InvalidArgument (''package '' @ name @ '' '' @ version
              @ '' already exists, add param '' @ quoted ''override_local_package = true'' @ '' to force reinstall it''))
       else if \<not> exist then Inr (Some (task_download_package X i spec))
       else Inr (Some (tasks_sequence i (''override install package '' @ name @ '' '' @ version)
              [task_remove_package X (new 0) name version, task_download_package X (new 1) spec])))))"

(* src/resourcemgr/resource_mgr.cpp:2540-2548 UninstallPackageTaskFactory *)
definition uninstall_package_factory :: "launch_ext \<Rightarrow> launch_world task_factory" where
  "uninstall_package_factory X i params =
     rbind (string_param (lx_text X) ''package_name'' params) (\<lambda>name.
     rbind (jvalue ''package_version'' (JStr []) params) (\<lambda>v.
     rbind (get_string v) (\<lambda>version. Inr (Some (task_remove_package X i name version)))))"

text \<open>The second registration under \<open>package.install_package\<close> replaces the first.\<close>

(* src/resourcemgr/resource_mgr.cpp:2550-2558 ResourceManager::on_register (factories) *)
definition register_factories ::
  "launch_ext \<Rightarrow> (nat \<Rightarrow> uuid) \<Rightarrow> fs \<Rightarrow> launch_world task_factory \<Rightarrow> launch_world task_mgr \<Rightarrow> launch_world task_mgr" where
  "register_factories X new F install_model TM =
     snd (tm_add_task_factory ''package.install_package'' (Some (uninstall_package_factory X))
       (snd (tm_add_task_factory ''model.install_model'' (Some install_model)
         (snd (tm_add_task_factory ''package.install_package'' (Some (install_package_factory X new F)) TM)))))"

subsection \<open>What the tasks achieve\<close>

lemma resume_tasks_atomic:
  "f w = (r, w') \<Longrightarrow> \<exists>t l. resume E (tasks_atomic i n f) w = Some (t, w', l, case r of Inr _ \<Rightarrow> Finished | Inl e \<Rightarrow> Errored)
     \<and> task_error t = (case r of Inr _ \<Rightarrow> None | Inl e \<Rightarrow> Some e)"
  by (auto simp: tasks_atomic_def resume_atomic_def first_try_def fresh_base_def Let_def ret_status_def ret_error_def
      split: sum.splits)

lemma tasks_atomic_unstarted [simp]: "task_state_of (tasks_atomic i n f) = Unstarted"
  by (simp add: tasks_atomic_def fresh_base_def)

text \<open>The first step of a sequence fails: the whole sequence ends in this round with its exception.\<close>

lemma sequence_first_step_fails:
  assumes "f w = (Inl e, w')"
  shows "\<exists>t l. resume E (tasks_sequence k n (tasks_atomic i m f # ts)) w = Some (t, w', l, Errored) \<and> task_error t = Some e"
proof -
  let ?subs = "tasks_atomic i m f # ts"
  obtain t1 l1 where r: "resume E (tasks_atomic i m f) w = Some (t1, w', l1, Errored)" and t1: "task_error t1 = Some e"
    using resume_tasks_atomic [of f w "Inl e" w' E i m] assms by auto
  obtain b1 l0 where ft: "first_try E (task_result (SequentialTask (fresh_base k n) ?subs 0)) (fresh_base k n) = (b1, l0)"
    by fastforce
  obtain me l2 where sa: "sequence_after E b1 (?subs[0 := t1]) 0 Errored = (me, l2)" by fastforce
  have "task_state_of me = Errored" "task_error me = Some e"
    using sequence_after_state [of E b1 "?subs[0 := t1]" 0 Errored] sequence_after_exception [of E b1 "?subs[0 := t1]" 0 Errored]
      sa t1 by auto
  moreover have "resume E (tasks_sequence k n ?subs) w = Some (me, w', l0 @ l1 @ l2, task_state_of me)"
    using ft r sa by (simp add: tasks_sequence_def Let_def)
  ultimately show ?thesis by auto
qed

lemma download_without_arch:
  assumes "ps_arch spec = []"
  shows "\<exists>e. download_action X spec w = (Inl e, w) \<and>
    (e = RuntimeError ''download package failed'' \<or> e = InvalidArgument ''spec is not complete'')"
  using assms by (auto simp: download_action_def Let_def extract_package_def is_complete_def)

text \<open>C40: The task that \<open>POST /api/instance\<close> submits when the package of the template is not installed always fails in its
  first round, whatever the stores serve: the specification it downloads by has no architecture, so that even a package
  that was fetched is refused. No file is written, no instance is created and no lifecycle request is sent.\<close>

theorem download_and_start_fails:
  "\<exists>t l e. resume E' (make_task_download_pkg_and_start_ability X E ids i key cr sp start connect) w = Some (t, w, l, Errored)
     \<and> task_error t = Some e
     \<and> (e = RuntimeError ''download package failed'' \<or> e = InvalidArgument ''spec is not complete'')"
proof -
  let ?spec = "\<lparr>ps_package = sf_package (spec_own sp), ps_version = version_to_string (sf_version (spec_own sp)), ps_arch = []\<rparr>"
  obtain e where d: "download_action X ?spec w = (Inl e, w)"
    and e: "e = RuntimeError ''download package failed'' \<or> e = InvalidArgument ''spec is not complete''"
    using download_without_arch [of ?spec X w] by auto
  obtain t l where "resume E' (make_task_download_pkg_and_start_ability X E ids i key cr sp start connect) w = Some (t, w, l, Errored)"
      "task_error t = Some e"
    using sequence_first_step_fails [where f = "download_action X ?spec" and w = w, OF d]
    unfolding make_task_download_pkg_and_start_ability_def task_download_package_def by blast
  then show ?thesis using e by blast
qed

lemma resume_remove_package:
  "\<exists>t' l. resume E (task_remove_package X i name version) w
     = Some (t', with_files (remove_all (removal_dir (lx_store X) name version) (world_files w)) w, l, Finished)"
proof -
  let ?f = "\<lambda>w. (Inr () :: exn + unit, with_files (remove_all (removal_dir (lx_store X) name version) (world_files w)) w)"
  have "?f w = (Inr (), with_files (remove_all (removal_dir (lx_store X) name version) (world_files w)) w)" by simp
  from resume_tasks_atomic [where f = ?f, OF this, unfolded sum.case]
  show ?thesis unfolding task_remove_package_def by blast
qed

text \<open>After the resource manager has registered its factories, a task of type \<open>package.install_package\<close> is built by the
  factory that uninstalls: with a package name and a version its only step removes the directory of that package and
  changes nothing else, and no type of task installs a package.\<close>

theorem install_type_uninstalls:
  assumes "jfind ''package_name'' params = Some (JStr name)" "jfind ''package_version'' params = Some (JStr version)"
  shows "\<exists>f t. tm_factories (register_factories X new F im TM) ''package.install_package'' = Some f
      \<and> f i params = Inr (Some t)
      \<and> (\<exists>t' l. resume E t w
            = Some (t', with_files (remove_all (removal_dir (lx_store X) name version) (world_files w)) w, l, Finished))"
proof -
  let ?t = "task_remove_package X i name version"
  have f: "tm_factories (register_factories X new F im TM) ''package.install_package'' = Some (uninstall_package_factory X)"
    by (simp add: register_factories_def tm_add_task_factory_def)
  have t: "uninstall_package_factory X i params = Inr (Some ?t)"
    using assms by (cases params) (auto simp: uninstall_package_factory_def string_param_def )
  with f t show ?thesis using resume_remove_package by blast
qed

lemma path_of_path_text: "list_all plain q \<Longrightarrow> path_of (Files.path_text q) = q"
proof -
  assume q: "list_all plain q"
  have "split_all slash (Files.path_text q) = [] # q"
    using q
  proof (induction q)
    case (Cons k q)
    then show ?case using split_all_prefix [of slash k "Files.path_text q"] by (simp add: Files.path_text_def plain_def)
  qed (simp add: Files.path_text_def)
  then show ?thesis using q by (auto simp: path_of_def plain_def list_all_iff filter_id_conv)
qed

text \<open>The package name of an uninstall task is used as a path without a check: an absolute path removes that directory
  of the machine with all that is below it, and nothing else, wherever it lies.\<close>

theorem uninstall_reaches_any_directory:
  assumes "list_all plain q" "q \<noteq> []" "jfind ''package_name'' params = Some (JStr (Files.path_text q))"
    and "jfind ''package_version'' params = None"
  shows "\<exists>t t' w' l. uninstall_package_factory X i params = Inr (Some t) \<and> resume E t w = Some (t', w', l, Finished)
     \<and> (\<forall>p. map_of (world_files w') p = (if below q p then None else map_of (world_files w) p))"
proof -
  have "uninstall_package_factory X i params = Inr (Some (task_remove_package X i (Files.path_text q) []))"
    using assms(3,4) by (cases params) (auto simp: uninstall_package_factory_def string_param_def)
  moreover have "resolve (removal_dir (lx_store X) (Files.path_text q) []) = q"
  proof -
    have "Files.path_text q \<noteq> []" "hd (Files.path_text q) = slash"
      using assms(2) by (cases q; simp add: Files.path_text_def)+
    then have "path_div p (Files.path_text q) = q" for p
      using path_of_path_text [OF assms(1)] by (simp add: path_div_def)
    then show ?thesis using resolve_plain [OF assms(1)] by (simp add: removal_dir_def)
  qed
  ultimately show ?thesis using resume_remove_package [of E X i "Files.path_text q" "[]" w]
    by (fastforce simp: world_files_def with_files_def fs_simps)
qed

lemma files_with_files [simp]: "world_files (with_files F w) = F"
  by (simp add: world_files_def with_files_def)

text \<open>To reinstall a package over itself, the install factory builds a task that first removes the package and then
  downloads it without an architecture: driven for two rounds it ends in error, and the installed package is gone.\<close>

theorem override_loses_package:
  assumes "install_package_factory X new (world_files w) i params = Inr (Some t)"
    and "jfind ''package_name'' params = Some (JStr name)" "jfind ''package_version'' params = Some (JStr version)"
    and "exists_package (lx_store X) (world_files w) name version"
  shows "\<exists>t' w'. drive [E1, E2] t w = Some (t', w') \<and> task_state_of t' = Errored
     \<and> world_files w' = remove_all (removal_dir (lx_store X) name version) (world_files w)"
proof -
  let ?spec = "\<lparr>ps_package = name, ps_version = version, ps_arch = []\<rparr>"
  let ?rm = "\<lambda>w. (Inr () :: exn + unit, with_files (remove_all (removal_dir (lx_store X) name version) (world_files w)) w)"
  let ?ps = "[(new 0, ''remove old package '' @ name @ '' '' @ version, ?rm), (new 1, ''download-package'', download_action X ?spec)]"
  have t: "t = tasks_sequence i (''override install package '' @ name @ '' '' @ version) (map atomic_of ?ps)"
    using assms by (auto simp: install_package_factory_def string_param_def atomic_of_def task_remove_package_def
        task_download_package_def Let_def result_simps split: if_splits option.splits)
  let ?w = "snd (?rm w)"
  obtain e where e: "download_action X ?spec ?w = (Inl e, ?w)" using download_without_arch [of ?spec X ?w] by auto
  have run: "run_actions (map step_action ?ps) w = (Some e, ?w)" using e by (simp add: step_action_def)
  obtain t' where "drive [E1, E2] t w = Some (t', ?w)" "task_error t' = Some e"
      "task_state_of t' = (if task_error t' = None then Finished else Errored)"
    using drive_sequence_suffix [of "[]" 0 "fresh_base i (''override install package '' @ name @ '' '' @ version)" ?ps "[E1, E2]" w]
    unfolding run t by (auto simp: tasks_sequence_def fresh_base_def)
  then show ?thesis by auto
qed

subsection \<open>The package tasks on a tree of files\<close>

definition launch_lext :: "unit lext" where
  "launch_lext = \<lparr>le_lib = decimal_lib, le_hash = unat, le_parse_url = split_url,
     le_heartbeat_event = (\<lambda>hb r. (Inr (True, ''yes''), r)), le_find_instance = (\<lambda>i r. Inr ()),
     le_find_storage = (\<lambda>i r. Inl ''none''), le_find_parent = (\<lambda>i r. Inl ''none''),
     le_subability_error = (\<lambda>p j r. r), le_instance_exited = (\<lambda>i r. r),
     le_start_process = (\<lambda>po r. (Inr (True, []), r)), le_post_command = (\<lambda>c cmd r. (Inr (), r)),
     le_framework_address = JObj [], le_instance_dir = (\<lambda>i. Inr ''/d''), le_assets_exist = (\<lambda>p. False)\<rparr>"

definition sample_launch :: launch_ext where
  "sample_launch = \<lparr>lx_load = start_ext, lx_life = launch_lext, lx_tmp = [''tmp'', ''u'']\<rparr>"

definition sample_world :: launch_world where
  "sample_world = \<lparr>lw_mgr = start_mgr\<lparr>am_rm := (am_rm start_mgr)\<lparr>rm_fs := sample_tree\<rparr>\<rparr>,
     lw_life = \<lparr>lm_heartbeats = sm_empty HEARTBEAT_SHARD_COUNT, lm_rest = ()\<rparr>, lw_env = sample_env,
     lw_entries = [], lw_requests = []\<rparr>"

definition reinstall_params :: json where
  "reinstall_params = JObj [(''override_local_package'', JBool True), (''package_name'', JStr ''a''), (''package_version'', JStr ''1'')]"

lemma install_type_uninstalls_witness:
  "\<exists>f t. tm_factories (register_factories sample_launch (\<lambda>n. 0) sample_tree (\<lambda>i p. Inr None) empty_task_mgr)
         ''package.install_package'' = Some f
      \<and> f 9 reinstall_params = Inr (Some t)
      \<and> (\<exists>t' l. resume sample_env t sample_world
            = Some (t', with_files (remove_all (removal_dir (lx_store sample_launch) ''a'' ''1'') (world_files sample_world)) sample_world, l, Finished))"
  by (rule install_type_uninstalls) (simp_all add: reinstall_params_def)

lemma uninstall_reaches_any_directory_witness:
  "\<exists>t t' w' l. uninstall_package_factory sample_launch 9 (JObj [(''package_name'', JStr ''/home/skills'')]) = Inr (Some t)
     \<and> resume sample_env t sample_world = Some (t', w', l, Finished)
     \<and> (\<forall>p. map_of (world_files w') p = (if below [''home'', ''skills''] p then None else map_of (world_files sample_world) p))"
proof -
  have "list_all plain [''home'', ''skills'']" by (simp add: plain_def slash_def)
  moreover have "Files.path_text [''home'', ''skills''] = ''/home/skills''" by (simp add: Files.path_text_def slash_def)
  ultimately show ?thesis by (intro uninstall_reaches_any_directory) simp_all
qed

lemma override_loses_package_witness:
  "\<exists>t t' w'. install_package_factory sample_launch (\<lambda>n. 0) sample_tree 9 reinstall_params = Inr (Some t)
     \<and> drive [sample_env, sample_env] t sample_world = Some (t', w') \<and> task_state_of t' = Errored
     \<and> map_of (world_files w') [''home'', ''packages'', ''a'', ''1'', ''package.yaml''] = None"
proof -
  have F: "world_files sample_world = sample_tree" by (simp add: world_files_def sample_world_def)
  have ex: "exists_package (lx_store sample_launch) sample_tree ''a'' ''1''" by code_simp
  have p: "jfind ''package_name'' reinstall_params = Some (JStr ''a'')" "jfind ''package_version'' reinstall_params = Some (JStr ''1'')"
    by (simp_all add: reinstall_params_def)
  have "\<exists>t. install_package_factory sample_launch (\<lambda>n. 0) sample_tree 9 reinstall_params = Inr (Some t)"
    using ex p by (simp add: install_package_factory_def string_param_def Let_def reinstall_params_def)
  then obtain t where t: "install_package_factory sample_launch (\<lambda>n. 0) sample_tree 9 reinstall_params = Inr (Some t)" ..
  obtain t' w' where d: "drive [sample_env, sample_env] t sample_world = Some (t', w')" "task_state_of t' = Errored"
      "world_files w' = remove_all (removal_dir (lx_store sample_launch) ''a'' ''1'') sample_tree"
    using override_loses_package [of sample_launch "\<lambda>n. 0" sample_world 9 reinstall_params t "''a''" "''1''" sample_env sample_env]
      t p ex F by auto
  have "map_of (remove_all (removal_dir (lx_store sample_launch) ''a'' ''1'') sample_tree)
      [''home'', ''packages'', ''a'', ''1'', ''package.yaml''] = None" by code_simp
  then show ?thesis using t d by auto
qed

end
