(* ===== verification/Tables.thy ===== *)
theory Tables
  imports Launch
begin

section \<open>The tables keep their keys\<close>

text \<open>
  The operations of the resource manager on its tables, from ResourceDb, Instances, Ownership, Reconcile and Launch, as
  the steps of one transition function, and the theorem that every table keeps its primary key: the lists of rows that
  stand for the tables of SQLite never hold two rows of a key, though the model checks no constraint of its own except
  where the code relies on it (\<open>INSERT INTO AbilityInstance\<close>).
\<close>

subsection \<open>Well-formed tables\<close>

definition kv_key :: "kv_row \<Rightarrow> uuid \<times> string" where
  "kv_key = (\<lambda>(i, k, v). (i, k))"

definition keys_unique :: "rdb \<Rightarrow> bool" where
  "keys_unique T = (distinct (map kv_key (rt_ability_labels T)) \<and> distinct (map kv_key (rt_ability_annotations T))
     \<and> distinct (map kv_key (rt_device_labels T)) \<and> distinct (map kv_key (rt_device_annotations T))
     \<and> distinct (map fst (rt_ability_crds T)) \<and> distinct (map fst (rt_device_crds T))
     \<and> distinct (map own_key (rt_ownership T)))"

text \<open>With \<open>rdb_ok\<close>: ids of abilities, devices, instances and services, and class, version and name of abilities.\<close>

definition tables_ok :: "rdb \<Rightarrow> bool" where
  "tables_ok T \<longleftrightarrow> rdb_ok T \<and> keys_unique T"

lemma tables_ok_empty [simp]: "tables_ok empty_rdb"
  by (simp add: tables_ok_def rdb_ok_def keys_unique_def empty_rdb_def)

lemma kv_unique_clear: "distinct (map kv_key rows) \<Longrightarrow> distinct (map kv_key (kv_clear i rows))"
  by (simp add: kv_clear_def distinct_delete_where)

lemma kv_unique_rewrite: "distinct (map kv_key rows) \<Longrightarrow> distinct (map kv_key (kv_rewrite i m rows))"
proof -
  have "distinct (map kv_key rs) \<Longrightarrow> distinct (map kv_key (fold (\<lambda>(k, v). kv_write i k v) m rs))" for rs
  proof (induction m arbitrary: rs)
    case (Cons e m)
    then show ?case
      using distinct_replace_row [of kv_key rs] by (auto simp: kv_write_def kv_key_def split: prod.split)
  qed simp
  then show "distinct (map kv_key rows) \<Longrightarrow> distinct (map kv_key (kv_rewrite i m rows))"
    by (simp add: kv_rewrite_def kv_unique_clear)
qed

lemmas row_keys = distinct_replace_row distinct_delete_where distinct_update_where kv_unique_clear kv_unique_rewrite

subsection \<open>Each operation\<close>

text \<open>Operations that touch neither abilities nor devices nor services.\<close>

lemma tables_ok_ownership:
  "tables_ok T \<Longrightarrow> distinct (map own_key rows) \<Longrightarrow> tables_ok (T\<lparr>rt_ownership := rows\<rparr>)"
  "tables_ok T \<Longrightarrow> distinct (map ir_id is) \<Longrightarrow> tables_ok (T\<lparr>rt_instances := is\<rparr>)"
  "tables_ok T \<Longrightarrow> distinct (map sr_id ss) \<Longrightarrow> tables_ok (T\<lparr>rt_services := ss\<rparr>)"
  "tables_ok T \<Longrightarrow> distinct (map fst cs) \<Longrightarrow> tables_ok (T\<lparr>rt_ability_crds := cs\<rparr>)"
  "tables_ok T \<Longrightarrow> distinct (map fst cs) \<Longrightarrow> tables_ok (T\<lparr>rt_device_crds := cs\<rparr>)"
  by (simp_all add: tables_ok_def rdb_ok_def keys_unique_def)

lemma tables_ok_parts:
  assumes "tables_ok T"
  shows "distinct (map own_key (rt_ownership T))" "distinct (map ir_id (rt_instances T))"
    "distinct (map sr_id (rt_services T))" "distinct (map fst (rt_ability_crds T))" "distinct (map fst (rt_device_crds T))"
  using assms by (simp_all add: tables_ok_def rdb_ok_def keys_unique_def)

lemma tables_ok_add_ability: "tables_ok T \<Longrightarrow> add_ability_cr L now fresh cr T = Inr (i, T') \<Longrightarrow> tables_ok T'"
proof -
  assume ok: "tables_ok T" and add: "add_ability_cr L now fresh cr T = Inr (i, T')"
  obtain sp where sp: "acr_spec cr = Some sp" using add by (auto simp: add_ability_cr_def split: option.splits)
  have "rdb_ok T'" using add_ability_cr_ok [OF _ add] ok by (simp add: tables_ok_def)
  moreover have "keys_unique T'"
    using ok add sp by (auto simp: add_ability_cr_def tables_ok_def keys_unique_def Let_def row_keys split: prod.splits)
  ultimately show "tables_ok T'" by (simp add: tables_ok_def)
qed

lemma tables_ok_add_device: "tables_ok T \<Longrightarrow> tables_ok (add_device_cr L now cr T)"
  unfolding tables_ok_def
  by (auto simp: add_device_cr_def rdb_ok_def keys_unique_def Let_def row_keys intro!: distinct_update_where)

lemma distinct_map_update:
  "distinct (map key rows) \<Longrightarrow> (\<And>x. key (f x) = key x) \<Longrightarrow> distinct (map key (update_where P f rows))"
  by (rule distinct_update_where)

lemma tables_ok_removals:
  assumes "tables_ok T"
  shows "tables_ok (remove_ability_cr i T)" "tables_ok (remove_device_cr i T)" "tables_ok (remove_service_cr i T)"
    "tables_ok (delete_ability_instance i T)" "tables_ok (impl_remove_ownership p c k m T)"
  using assms unfolding tables_ok_def
  by (simp_all add: remove_ability_cr_def remove_device_cr_def remove_service_cr_def delete_ability_instance_def
      impl_remove_ownership_def rdb_ok_def keys_unique_def row_keys)

lemma tables_ok_mark: "tables_ok T \<Longrightarrow> tables_ok (db_mark_auto_started i T)"
  unfolding tables_ok_def
  by (auto simp: db_mark_auto_started_def rdb_ok_def keys_unique_def ability_key_def intro!: distinct_map_update)

lemma tables_ok_cleanup: "tables_ok T \<Longrightarrow> tables_ok (register_cleanup now T)"
  unfolding tables_ok_def
  by (auto simp: register_cleanup_def rdb_ok_def keys_unique_def ability_key_def intro!: distinct_map_update)

lemma tables_ok_heartbeat:
  assumes "tables_ok T"
  shows "tables_ok (snd (on_event_heartbeat L hb T))"
  using assms tables_ok_removals(4) [OF assms]
  by (auto simp: on_event_heartbeat_def Let_def tables_ok_parts intro!: tables_ok_ownership distinct_map_update)

lemma tables_ok_create: "tables_ok T \<Longrightarrow> create_ability_instance L now fresh cr T = Inr T' \<Longrightarrow> tables_ok T'"
  using tables_ok_parts(2) [of T]
  by (auto simp: create_ability_instance_def intro!: tables_ok_ownership split: option.splits if_splits)

lemma tables_ok_decision: "tables_ok T \<Longrightarrow> tables_ok (snd (write_decision d i child position T))"
  using tables_ok_parts(1) [of T]
  by (auto simp: write_decision_def add_ability_sharers_def add_ability_owner_def put_own_def row_keys
      intro!: tables_ok_ownership split: sum.split option.split ownership_mode.split)

lemma tables_ok_decision_eq: "write_decision d i child position T = (r, T') \<Longrightarrow> tables_ok T \<Longrightarrow> tables_ok T'"
  by (metis snd_conv tables_ok_decision)

text \<open>The operations on occupation leave the tables, write one decision, or remove one entry.\<close>

lemma tables_ok_own: "tables_ok T \<Longrightarrow> tables_ok (own_step L X e T)"
proof (cases e)
  case (OccupyAbility p a c m)
  then show "tables_ok T \<Longrightarrow> tables_ok (own_step L X e T)"
    by (auto simp: occupy_ability_def kept_def rbind_case dest: tables_ok_decision_eq split: option.splits sum.splits)
next
  case (OccupyDevice p a c m)
  then show "tables_ok T \<Longrightarrow> tables_ok (own_step L X e T)"
    by (auto simp: occupy_device_def kept_def rbind_case dest: tables_ok_decision_eq split: option.splits sum.splits)
next
  case (UnoccupyAbility p c m)
  then show "tables_ok T \<Longrightarrow> tables_ok (own_step L X e T)"
    by (auto simp: unoccupy_ability_def kept_def rbind_case remove_ability_sharer_def remove_ability_owner_def
        intro!: tables_ok_removals split: option.splits sum.splits ownership_mode.splits)
next
  case (UnoccupyDevice p c m)
  then show "tables_ok T \<Longrightarrow> tables_ok (own_step L X e T)"
    by (auto simp: unoccupy_device_def kept_def rbind_case remove_device_sharer_def remove_device_owner_def
        intro!: tables_ok_removals split: option.splits sum.splits ownership_mode.splits)
qed

lemma tables_ok_crds:
  assumes "tables_ok T"
  shows "add_ability_crd L crd T = Inr T' \<Longrightarrow> tables_ok T'" "tables_ok (add_device_crd L dcrd T)"
    "add_service_cr L now scr T = Inr T' \<Longrightarrow> tables_ok T'"
  using assms tables_ok_parts [OF assms]
  by (auto simp: add_ability_crd_def add_device_crd_def add_service_cr_def rbind_eq_Inr row_keys
      intro!: tables_ok_ownership split: option.splits)

lemma tables_ok_fold: "(\<And>x T. tables_ok T \<Longrightarrow> tables_ok (f x T)) \<Longrightarrow> tables_ok T \<Longrightarrow> tables_ok (fold f xs T)"
  by (induction xs arbitrary: T) auto

lemma tables_ok_reconcile:
  assumes "tables_ok T"
  shows "tables_ok (reconcile_devices dkeys (reconcile_abilities akeys T))"
  unfolding reconcile_devices_def reconcile_abilities_def Let_def
  by (intro tables_ok_fold assms) (simp_all add: tables_ok_def rdb_ok_def keys_unique_def row_keys)

lemma tables_ok_entries: "add_device_entries L now fresh devs crs T = Inr T' \<Longrightarrow> tables_ok T \<Longrightarrow> tables_ok T'"
  by (induction L now fresh devs crs T rule: add_device_entries.induct)
    (auto simp: rbind_eq_Inr Let_def dest: tables_ok_add_ability split: option.splits if_splits)

subsection \<open>Every history of operations\<close>

datatype table_op =
    DbAddAbility time uuid ability_cr | DbRemoveAbility uuid
  | DbAddDevice time device_cr | DbRemoveDevice uuid
  | DbDeviceEntries time uuid
  | DbAddAbilityCRD ability_crd | DbAddDeviceCRD device_crd
  | DbAddService time service_cr | DbRemoveService uuid
  | DbCreateInstance time uuid ability_cr | DbDeleteInstance uuid | DbHeartbeat heartbeat
  | DbMarkStarted uuid | DbReconcile "cr_key list" "cr_key list" | DbOwn own_op | DbReopen time

text \<open>An operation that throws rolls back or has not written: the tables stay.\<close>

definition or_same :: "rdb \<Rightarrow> exn + rdb \<Rightarrow> rdb" where
  "or_same T r = (case r of Inl _ \<Rightarrow> T | Inr T' \<Rightarrow> T')"

fun table_step :: "text_lib \<Rightarrow> own_ext \<Rightarrow> table_op \<Rightarrow> rdb \<Rightarrow> rdb" where
  "table_step L X (DbAddAbility now fresh cr) T = kept T (add_ability_cr L now fresh cr T)"
| "table_step L X (DbRemoveAbility i) T = remove_ability_cr i T"
| "table_step L X (DbAddDevice now cr) T = add_device_cr L now cr T"
| "table_step L X (DbRemoveDevice i) T = remove_device_cr i T"
| "table_step L X (DbDeviceEntries now fresh) T = or_same T (add_device_entry_for_ability_cr L now fresh T)"
| "table_step L X (DbAddAbilityCRD crd) T = or_same T (add_ability_crd L crd T)"
| "table_step L X (DbAddDeviceCRD crd) T = add_device_crd L crd T"
| "table_step L X (DbAddService now cr) T = or_same T (add_service_cr L now cr T)"
| "table_step L X (DbRemoveService i) T = remove_service_cr i T"
| "table_step L X (DbCreateInstance now fresh cr) T = or_same T (create_ability_instance L now fresh cr T)"
| "table_step L X (DbDeleteInstance i) T = delete_ability_instance i T"
| "table_step L X (DbHeartbeat hb) T = snd (on_event_heartbeat L hb T)"
| "table_step L X (DbMarkStarted i) T = db_mark_auto_started i T"
| "table_step L X (DbReconcile akeys dkeys) T = reconcile_devices dkeys (reconcile_abilities akeys T)"
| "table_step L X (DbOwn e) T = own_step L X e T"
| "table_step L X (DbReopen now) T = register_cleanup now (open_rdb T)"

lemma tables_ok_reopen: "tables_ok T \<Longrightarrow> tables_ok (register_cleanup now (open_rdb T))"
  by (auto simp: open_rdb_def intro!: tables_ok_cleanup tables_ok_ownership)

lemma tables_ok_step: "tables_ok T \<Longrightarrow> tables_ok (table_step L X e T)"
  by (cases e)
    (auto simp: kept_def or_same_def add_device_entry_for_ability_cr_def rbind_eq_Inr tables_ok_removals tables_ok_add_device
      tables_ok_crds(2) tables_ok_heartbeat tables_ok_mark tables_ok_reconcile tables_ok_own tables_ok_reopen
      intro: tables_ok_add_ability tables_ok_crds(1,3) tables_ok_create tables_ok_entries
      split: sum.split)



end
