(* ===== verification/Models.thy ===== *)
theory Models
  imports Launch Config
begin

section \<open>Models\<close>

text \<open>
  Models are files of a repository that the framework downloads (\<open>src/resourcemgr/model_mgr.cpp\<close>) and stores below
  \<open>data/model\<close>, one directory for each, with a row in the table \<open>ModelStorage\<close>; the task \<open>model.install_model\<close>
  (\<open>src/resourcemgr/task_factories/install_model.cpp\<close>) installs one. The repository and the YAML conversions are
  parameters. A \<open>CHECK\<close> that fails ends the process: the world has a mark for it, and nothing is claimed of what a task
  returns afterwards.
\<close>

subsection \<open>What a repository says of a model\<close>

text \<open>A floating point field has a codec of the JSON library.\<close>

record 'f float_codec =
  fc_get :: "json \<Rightarrow> exn + 'f"
  fc_put :: "'f \<Rightarrow> json"

(* include/resourcemgr/model_info.hpp:19-26 ModelInfoMetric *)
record 'f model_metric =
  mm_parameters :: "int option"
  mm_quantization :: "string option"
  mm_gpu_memory_gb :: "'f option"
  mm_storage_gb :: "'f option"

(* include/resourcemgr/model_info.hpp:29-41 ModelInfo *)
record 'f model_info =
  mi_id :: "int option"
  mi_name :: string
  mi_fullname :: string
  mi_architecture :: string
  mi_framework :: string
  mi_version :: string
  mi_description :: string
  mi_tags :: json
  mi_metrics :: "'f model_metric"

definition no_metric :: "'f model_metric" where
  "no_metric = \<lparr>mm_parameters = None, mm_quantization = None, mm_gpu_memory_gb = None, mm_storage_gb = None\<rparr>"

(* src/resourcemgr/model_info.cpp:24-33 from_json(ModelInfoMetric) *)
definition metric_from_json :: "'f float_codec \<Rightarrow> json \<Rightarrow> exn + 'f model_metric" where
  "metric_from_json K j =
     (if jempty j then Inr no_metric
      else
        rbind (read_optional_unless_empty ''parameters'' (get_some get_int) None j) (\<lambda>p.
        rbind (read_optional_unless_empty ''quantization'' (get_some get_string) None j) (\<lambda>q.
        rbind (read_optional_unless_empty ''gpu_memory_gb'' (get_some (fc_get K)) None j) (\<lambda>g.
        rbind (read_optional_unless_empty ''storage_gb'' (get_some (fc_get K)) None j) (\<lambda>s.
          Inr \<lparr>mm_parameters = p, mm_quantization = q, mm_gpu_memory_gb = g, mm_storage_gb = s\<rparr>)))))"

(* src/resourcemgr/model_info.cpp:34-39 to_json(ModelInfoMetric) *)
definition metric_to_json :: "'f float_codec \<Rightarrow> 'f model_metric \<Rightarrow> json" where
  "metric_to_json K x =
     jput_opt ''storage_gb'' (fc_put K) (mm_storage_gb x)
      (jput_opt ''gpu_memory_gb'' (fc_put K) (mm_gpu_memory_gb x)
       (jput_opt ''quantization'' JStr (mm_quantization x)
        (jput_opt ''parameters'' JNum (mm_parameters x) JNull)))"

(* src/resourcemgr/model_info.cpp:40-50 from_json(ModelInfo) *)
definition model_info_from_json :: "'f float_codec \<Rightarrow> json \<Rightarrow> exn + 'f model_info" where
  "model_info_from_json K j =
     rbind (read_optional ''id'' (get_some get_int) None j) (\<lambda>i.
     rbind (read_required ''name'' get_string j) (\<lambda>n.
     rbind (read_required ''fullname'' get_string j) (\<lambda>f.
     rbind (read_required ''architecture'' get_string j) (\<lambda>a.
     rbind (read_required ''framework'' get_string j) (\<lambda>fw.
     rbind (read_required ''version'' get_string j) (\<lambda>v.
     rbind (read_optional_unless_empty ''description'' get_string [] j) (\<lambda>d.
     rbind (read_optional_unless_empty ''tags'' Inr JNull j) (\<lambda>t.
     rbind (read_optional ''metrics'' (metric_from_json K) no_metric j) (\<lambda>m.
       Inr \<lparr>mi_id = i, mi_name = n, mi_fullname = f, mi_architecture = a, mi_framework = fw, mi_version = v,
            mi_description = d, mi_tags = t, mi_metrics = m\<rparr>)))))))))"

(* src/resourcemgr/model_info.cpp:51-61 to_json(ModelInfo) *)
definition model_info_to_json :: "'f float_codec \<Rightarrow> 'f model_info \<Rightarrow> json" where
  "model_info_to_json K x =
     jput ''metrics'' (metric_to_json K (mi_metrics x))
      (jput_if (\<not> jempty (mi_tags x)) ''tags'' (mi_tags x)
       (jput_if (mi_description x \<noteq> []) ''description'' (JStr (mi_description x))
        (jput ''version'' (JStr (mi_version x))
         (jput ''framework'' (JStr (mi_framework x))
          (jput ''architecture'' (JStr (mi_architecture x))
           (jput ''fullname'' (JStr (mi_fullname x))
            (jput ''name'' (JStr (mi_name x))
             (jput_opt ''id'' JNum (mi_id x) JNull))))))))"

text \<open>A float is written as a number.\<close>

definition float_codec_ok :: "'f float_codec \<Rightarrow> bool" where
  "float_codec_ok K \<longleftrightarrow> (\<forall>x. fc_get K (fc_put K x) = Inr x \<and> \<not> jempty (fc_put K x))"

definition int32_opt :: "int option \<Rightarrow> bool" where
  "int32_opt i = (case i of None \<Rightarrow> True | Some n \<Rightarrow> - (2 ^ 31) \<le> n \<and> n < 2 ^ 31)"

lemma read_opt_unless:
  "read_optional_unless_empty k get cur j = (case jfind k j of None \<Rightarrow> Inr cur | Some v \<Rightarrow> if jempty v then Inr cur else get v)"
  by (simp add: read_optional_unless_empty_def)

lemma jempty_put_opt: "is_doc j \<Longrightarrow> jempty (jput_opt k f x j) \<longleftrightarrow> x = None \<and> jempty j"
  by (cases x) auto

lemma metric_roundtrip:
  assumes "float_codec_ok K" "int32_opt (mm_parameters x)"
  shows "metric_from_json K (metric_to_json K x) = Inr x"
proof (cases "jempty (metric_to_json K x)")
  case True
  then have "x = no_metric"
    unfolding metric_to_json_def no_metric_def
    by (cases x) (simp add: jempty_put_opt del: jput.simps jput_opt.simps)
  then show ?thesis using True by (simp add: metric_from_json_def)
next
  case False
  have f: "jfind k (metric_to_json K x) =
     (if k = ''storage_gb'' \<and> mm_storage_gb x \<noteq> None then Some (fc_put K (the (mm_storage_gb x)))
      else if k = ''gpu_memory_gb'' \<and> mm_gpu_memory_gb x \<noteq> None then Some (fc_put K (the (mm_gpu_memory_gb x)))
      else if k = ''quantization'' \<and> mm_quantization x \<noteq> None then Some (JStr (the (mm_quantization x)))
      else if k = ''parameters'' \<and> mm_parameters x \<noteq> None then Some (JNum (the (mm_parameters x))) else None)" for k
    unfolding metric_to_json_def by (simp only: doc_puts)
  let ?j = "metric_to_json K x"
  have "read_optional_unless_empty ''parameters'' (get_some get_int) None ?j = Inr (mm_parameters x)"
    "read_optional_unless_empty ''quantization'' (get_some get_string) None ?j = Inr (mm_quantization x)"
    "read_optional_unless_empty ''gpu_memory_gb'' (get_some (fc_get K)) None ?j = Inr (mm_gpu_memory_gb x)"
    "read_optional_unless_empty ''storage_gb'' (get_some (fc_get K)) None ?j = Inr (mm_storage_gb x)"
    using assms by (auto simp: read_opt_unless f get_some_def float_codec_ok_def int32_opt_def to_int32_id)
  then show ?thesis using False by (simp add: metric_from_json_def)
qed

text \<open>What the repository writes of a model is what the framework reads.\<close>

lemma model_info_roundtrip:
  assumes "float_codec_ok K" "int32_opt (mi_id x)" "int32_opt (mm_parameters (mi_metrics x))"
    and "jempty (mi_tags x) \<Longrightarrow> mi_tags x = JNull"
  shows "model_info_from_json K (model_info_to_json K x) = Inr x"
proof -
  let ?j = "model_info_to_json K x"
  have f: "jfind k ?j =
     (if k = ''metrics'' then Some (metric_to_json K (mi_metrics x))
      else if k = ''tags'' \<and> \<not> jempty (mi_tags x) then Some (mi_tags x)
      else if k = ''description'' \<and> mi_description x \<noteq> [] then Some (JStr (mi_description x))
      else if k = ''version'' then Some (JStr (mi_version x))
      else if k = ''framework'' then Some (JStr (mi_framework x))
      else if k = ''architecture'' then Some (JStr (mi_architecture x))
      else if k = ''fullname'' then Some (JStr (mi_fullname x))
      else if k = ''name'' then Some (JStr (mi_name x))
      else if k = ''id'' \<and> mi_id x \<noteq> None then Some (JNum (the (mi_id x))) else None)" for k
    unfolding model_info_to_json_def by (simp only: doc_puts)
  have o: "is_obj ?j" unfolding model_info_to_json_def by (simp del: jput.simps)
  have "read_optional ''id'' (get_some get_int) None ?j = Inr (mi_id x)"
    using assms(2) by (auto simp: read_optional_def f get_some_def int32_opt_def to_int32_id)
  moreover have "read_optional_unless_empty ''tags'' Inr JNull ?j = Inr (mi_tags x)"
    "read_optional_unless_empty ''description'' get_string [] ?j = Inr (mi_description x)"
    "read_optional ''metrics'' (metric_from_json K) no_metric ?j = Inr (mi_metrics x)"
    using assms(4) metric_roundtrip [OF assms(1,3)] by (auto simp: read_opt_unless read_optional_def f)
  ultimately show ?thesis
    using o by (simp add: model_info_from_json_def read_required_find f)
qed

subsection \<open>The client of a repository\<close>

text \<open>A request has the host, the port and the authorization header, if any; its answer is an error of the transport or a
  status and a body. A download delivers the bytes it received, whatever its result.\<close>

record repo_net =
  rn_get :: "string \<Rightarrow> int \<Rightarrow> string option \<Rightarrow> string \<Rightarrow> string + (int \<times> string)"
  rn_post :: "string \<Rightarrow> int \<Rightarrow> string \<Rightarrow> string \<Rightarrow> string + (int \<times> string)"
  rn_download :: "string \<Rightarrow> int \<Rightarrow> string option \<Rightarrow> string \<Rightarrow> string \<times> (string + int)"

(* include/resourcemgr/model_mgr.hpp:46-50 ModelRepoClient *)
record repo_client =
  rc_user :: string
  rc_password :: string
  rc_token :: string
  rc_host :: string
  rc_port :: int

(* include/resourcemgr/model_mgr.hpp:30-36 ModelRepoClient::FileInfo *)
record repo_file =
  rf_id :: int
  rf_filename :: string
  rf_size :: int

definition repo_file_from_json :: "json \<Rightarrow> exn + repo_file" where
  "repo_file_from_json j =
     rbind (read_required ''id'' get_int j) (\<lambda>i.
     rbind (read_required ''filename'' get_string j) (\<lambda>n.
     rbind (read_required ''size'' get_int64 j) (\<lambda>s. Inr \<lparr>rf_id = i, rf_filename = n, rf_size = s\<rparr>)))"

(* src/resourcemgr/model_mgr.cpp:33-47 login *)
definition login :: "text_lib \<Rightarrow> repo_net \<Rightarrow> string \<Rightarrow> int \<Rightarrow> string \<Rightarrow> string \<Rightarrow> exn + string" where
  "login L N host port user password =
     (case rn_post N host port ''/auth/login''
             (dump L (jobject [(''username'', JStr user), (''password'', JStr password)])) of
        Inl e \<Rightarrow> Inl (RuntimeError (''login failed: '' @ e))
      | Inr (status, body) \<Rightarrow>
          if status \<noteq> 200 then Inl (RuntimeError (''login failed, status: '' @ dec_int status @ '', info: '' @ body))
          else rbind (parse L body) (\<lambda>j. rbind (jat ''access_token'' j) get_string))"

(* src/resourcemgr/model_mgr.cpp:50-56 ModelRepoClient::ModelRepoClient *)
definition make_repo_client :: "text_lib \<Rightarrow> repo_net \<Rightarrow> string \<Rightarrow> int \<Rightarrow> string \<Rightarrow> string \<Rightarrow> exn + repo_client" where
  "make_repo_client L N host port user password =
     rbind (login L N host port user password) (\<lambda>token.
       Inr \<lparr>rc_user = user, rc_password = password, rc_token = token, rc_host = host, rc_port = port\<rparr>)"

text \<open>The list and the description of a model are asked for without the token.\<close>

(* src/resourcemgr/model_mgr.cpp:79-99 ModelRepoClient::list_model_files *)
definition list_model_files :: "text_lib \<Rightarrow> repo_net \<Rightarrow> repo_client \<Rightarrow> string \<Rightarrow> exn + repo_file list" where
  "list_model_files L N c i =
     (case rn_get N (rc_host c) (rc_port c) None (''/models/'' @ i @ ''/files'') of
        Inl e \<Rightarrow> Inl (RuntimeError (''get model info '' @ i @ '' failed: '' @ e))
      | Inr (status, body) \<Rightarrow>
          if status \<noteq> 200
          then Inl (RuntimeError (''get model info '' @ i @ '' failed, status: '' @ dec_int status @ '', info: '' @ body))
          else rbind (parse L body) (\<lambda>j. if jempty j then Inr [] else get_array repo_file_from_json j))"

(* src/resourcemgr/model_mgr.cpp:156-166 ModelRepoClient::get_model_info *)
definition repo_model_info :: "text_lib \<Rightarrow> 'f float_codec \<Rightarrow> repo_net \<Rightarrow> repo_client \<Rightarrow> string \<Rightarrow> exn + 'f model_info" where
  "repo_model_info L K N c i =
     (case rn_get N (rc_host c) (rc_port c) None (''/models/'' @ i) of
        Inl e \<Rightarrow> Inl (RuntimeError (''get_model_info failed: '' @ e))
      | Inr (status, body) \<Rightarrow>
          if status \<noteq> 200
          then Inl (RuntimeError (''get_model_info failed, status= '' @ dec_int status @ '', body: '' @ body))
          else rbind (parse L body) (model_info_from_json K))"

text \<open>A file that cannot be opened loses what is written to it, without an error. The file is opened before the request,
  and what arrives is written to it whatever the status. The body of the answer, consumed by the receiver, is empty.\<close>

definition write_or_drop :: "path \<Rightarrow> string \<Rightarrow> fs \<Rightarrow> fs" where
  "write_or_drop p c F = (case write_file p c F of None \<Rightarrow> F | Some F' \<Rightarrow> F')"

(* src/resourcemgr/model_mgr.cpp:101-121 download_file *)
definition download_file :: "repo_net \<Rightarrow> repo_client \<Rightarrow> string option \<Rightarrow> int \<Rightarrow> path \<Rightarrow> fs \<Rightarrow> (exn + unit) \<times> fs" where
  "download_file N c auth i target F =
     (let (bytes, res) = rn_download N (rc_host c) (rc_port c) auth (''/files/'' @ dec_int i @ ''/download'');
          F' = write_or_drop target bytes F in
      case res of
        Inl e \<Rightarrow> (Inl (RuntimeError (''get file '' @ dec_int i @ '' failed: '' @ e)), F')
      | Inr status \<Rightarrow>
          if status \<noteq> 200
          then (Inl (RuntimeError (''get file '' @ dec_int i @ '' failed, status: '' @ dec_int status @ '', msg: '')), F')
          else (Inr (), F'))"

fun download_files :: "repo_net \<Rightarrow> repo_client \<Rightarrow> string option \<Rightarrow> path \<Rightarrow> repo_file list \<Rightarrow> fs \<Rightarrow> (exn + unit) \<times> fs" where
  "download_files N c auth dir [] F = (Inr (), F)"
| "download_files N c auth dir (f # fs) F =
     (case download_file N c auth (rf_id f) (path_div dir (rf_filename f)) F of
        (Inl e, F') \<Rightarrow> (Inl e, F')
      | (Inr u, F') \<Rightarrow> download_files N c auth dir fs F')"

(* src/resourcemgr/model_mgr.cpp:123-134 ModelRepoClient::download_model_by_id *)
definition repo_download_model :: "text_lib \<Rightarrow> repo_net \<Rightarrow> repo_client \<Rightarrow> string \<Rightarrow> path \<Rightarrow> fs \<Rightarrow> (exn + unit) \<times> fs" where
  "repo_download_model L N c i dir F =
     (case list_model_files L N c i of
        Inl e \<Rightarrow> (Inl e, F)
      | Inr fs \<Rightarrow>
          (case create_directories dir F of
             None \<Rightarrow> (Inl (fs_error ''cannot create directories'' dir), F)
           | Some F' \<Rightarrow> download_files N c (Some (''Bearer: '' @ rc_token c)) dir fs F'))"

(* src/resourcemgr/model_mgr.cpp:136-155 ModelRepoClient::check_server_availability *)
definition check_server_availability :: "repo_net \<Rightarrow> string \<Rightarrow> int \<Rightarrow> bool" where
  "check_server_availability N host port =
     (case rn_get N host port None ''/system/health'' of Inl e \<Rightarrow> False | Inr (status, body) \<Rightarrow> status = 200)"

subsection \<open>The manager\<close>

record yaml_conv =
  yc_string :: "yaml \<Rightarrow> exn + string"
  yc_int :: "yaml \<Rightarrow> exn + int"

definition node_exn :: "node_error \<Rightarrow> exn" where
  "node_exn e = RuntimeError (case e of PathNotFound \<Rightarrow> ''Path not found'' | LoadFailed \<Rightarrow> ''load config failed''
     | BadSubscript \<Rightarrow> ''YAML error'')"

(* include/util/global_vars.hpp:91-106 get_config(path) *)
definition get_config_required :: "(yaml \<Rightarrow> exn + 'a) \<Rightarrow> yaml \<Rightarrow> string \<Rightarrow> exn + 'a" where
  "get_config_required conv config p =
     (case get_node_by_path config p of
        Inl e \<Rightarrow> Inl (node_exn e)
      | Inr y \<Rightarrow> (case conv y of Inl _ \<Rightarrow> Inl (RuntimeError (''Type mismatch at path: '' @ p)) | Inr x \<Rightarrow> Inr x))"

(* src/util/global_vars.cpp:161-167 has_config *)
definition has_config :: "yaml \<Rightarrow> string \<Rightarrow> bool" where
  "has_config config p = (case get_node_by_path config p of Inl _ \<Rightarrow> False | Inr y \<Rightarrow> y \<noteq> YNull)"

text \<open>An unavailable repository is logged and then asked all the same.\<close>

(* src/resourcemgr/model_mgr.cpp:168-179 make_client_from_config *)
definition make_client_from_config :: "text_lib \<Rightarrow> repo_net \<Rightarrow> yaml_conv \<Rightarrow> yaml \<Rightarrow> exn + repo_client" where
  "make_client_from_config L N Y config =
     (let host = get_config (yc_string Y) ''localhost'' config ''/model_repo/hostname'';
          port = get_config (yc_int Y) 8000 config ''/model_repo/port'' in
      rbind (get_config_required (yc_string Y) config ''/model_repo/user'') (\<lambda>user.
      rbind (get_config_required (yc_string Y) config ''/model_repo/password'') (\<lambda>password.
        make_repo_client L N host port user password)))"

(* src/resourcemgr/model_mgr.cpp:187-199 ModelManager::ModelManager *)
definition init_client :: "text_lib \<Rightarrow> repo_net \<Rightarrow> yaml_conv \<Rightarrow> yaml \<Rightarrow> repo_client option" where
  "init_client L N Y config =
     (if has_config config ''/model_repo''
      then (case make_client_from_config L N Y config of Inl _ \<Rightarrow> None | Inr c \<Rightarrow> Some c)
      else None)"

(* src/resourcemgr/model_mgr.cpp:181-185 SQL_CREATE_TABLE_MODEL_INFO *)
record model_row =
  mr_id :: string
  mr_storage_dir :: string
  mr_fullname :: string

record model_world =
  mw_files :: fs
  mw_rows :: "model_row list"
  mw_client :: "repo_client option"
  mw_aborted :: bool

(* include/resourcemgr/model_mgr.hpp:57-62 ModelManager::ModelStorageInfo *)
record model_storage =
  ms_id :: string
  ms_fullname :: string
  ms_path :: path

definition storage_to_json :: "model_storage \<Rightarrow> json" where
  "storage_to_json m =
     jobject [(''id'', JStr (ms_id m)), (''fullname'', JStr (ms_fullname m)), (''path'', JStr (Files.path_text (ms_path m)))]"

(* src/resourcemgr/model_mgr.cpp:201-203 ModelManager::model_home_dir *)
definition model_home_dir :: "path \<Rightarrow> path" where
  "model_home_dir home = home @ [''data'', ''model'']"

text \<open>No table \<open>ModelBasic\<close> is ever created.\<close>

(* src/resourcemgr/model_mgr.cpp:205-214 ModelManager::list_model_names *)
definition list_model_names :: "model_world \<Rightarrow> exn + string list" where
  "list_model_names w = Inl (SqliteError ''no such table: ModelBasic'')"

text \<open>A relative directory is one of the models' home.\<close>

(* src/resourcemgr/model_mgr.cpp:216-231 ModelManager::get_model_info *)
definition stored_model :: "path \<Rightarrow> string \<Rightarrow> model_world \<Rightarrow> model_storage option" where
  "stored_model home i w =
     map_option (\<lambda>r. \<lparr>ms_id = i, ms_fullname = mr_fullname r, ms_path = path_div (model_home_dir home) (mr_storage_dir r)\<rparr>)
       (find (\<lambda>r. mr_id r = i) (mw_rows w))"

(* src/resourcemgr/model_mgr.cpp:234-237 make_storage_path_name *)
definition make_storage_path_name :: "int \<Rightarrow> string \<Rightarrow> string" where
  "make_storage_path_name i fullname = dec_int i @ ''-'' @ fullname"

(* src/resourcemgr/model_mgr.cpp:240-262 ModelManager::download_model_by_id *)
definition download_model_by_id ::
  "text_lib \<Rightarrow> 'f float_codec \<Rightarrow> repo_net \<Rightarrow> path \<Rightarrow> string \<Rightarrow> model_world \<Rightarrow> (exn + unit) \<times> model_world" where
  "download_model_by_id L K N home i w =
     (if stored_model home i w \<noteq> None then (Inr (), w)
      else
        (case mw_client w of
           None \<Rightarrow> (Inl (RuntimeError (''can'' @ [CHR 39] @ ''t download model in local mode'')), w)
         | Some c \<Rightarrow>
             (case repo_model_info L K N c i of
                Inl e \<Rightarrow> (Inl e, w)
              | Inr info \<Rightarrow>
                  (case mi_id info of
                     None \<Rightarrow> (Inl (BadAccess ''bad optional access''), w)
                   | Some k \<Rightarrow>
                       (let name = make_storage_path_name k (mi_fullname info);
                            (r, F) = repo_download_model L N c i (path_div (model_home_dir home) name) (mw_files w);
                            w1 = w\<lparr>mw_files := F\<rparr> in
                        case r of
                          Inl e \<Rightarrow> (Inl e, w1)
                        | Inr u \<Rightarrow>
                            (Inr (), w1\<lparr>mw_rows := mw_rows w @ [\<lparr>mr_id = i, mr_storage_dir = name, mr_fullname = mi_fullname info\<rparr>]\<rparr>))))))"

subsection \<open>The task that installs a model\<close>

text \<open>The body of the task; a failed \<open>CHECK\<close> marks the world.\<close>

(* src/resourcemgr/task_factories/install_model.cpp:40-54 InstallModelByIdTaskFactory (task body) *)
definition install_action ::
  "text_lib \<Rightarrow> 'f float_codec \<Rightarrow> repo_net \<Rightarrow> path \<Rightarrow> string \<Rightarrow> (model_world, json) closure" where
  "install_action L K N home i w =
     (case download_model_by_id L K N home i w of
        (Inl e, w1) \<Rightarrow> (Inl e, w1)
      | (Inr u, w1) \<Rightarrow>
          (case stored_model home i w1 of
             None \<Rightarrow> (Inl (RuntimeError (''error downloading model id: '' @ i @ '', after download, it is still empty'')), w1)
           | Some m \<Rightarrow> (Inr (storage_to_json m), if fs_exists (mw_files w1) (ms_path m) then w1 else w1\<lparr>mw_aborted := True\<rparr>)))"

definition model_id_text :: "json \<Rightarrow> exn + string" where
  "model_id_text v = (case v of JNum n \<Rightarrow> Inr (dec_int n) | _ \<Rightarrow> get_string v)"

text \<open>The factory sees the world at the time of the call.\<close>

(* src/resourcemgr/task_factories/install_model.cpp:22-55 InstallModelByIdTaskFactory::operator() *)
definition install_model_factory ::
  "text_lib \<Rightarrow> 'f float_codec \<Rightarrow> repo_net \<Rightarrow> path \<Rightarrow> model_world \<Rightarrow> model_world task_factory" where
  "install_model_factory L K N home w t params =
     (case jfind ''model_id'' params of
        None \<Rightarrow> Inl (InvalidArgument ''missing param model_id'')
      | Some v \<Rightarrow>
          rbind (model_id_text v) (\<lambda>i.
            case stored_model home i w of
              Some m \<Rightarrow>
                if fs_exists (mw_files w) (ms_path m)
                then Inr (Some (tasks_atomic_with_return_value t (''install-model-'' @ i) (\<lambda>w. (Inr (storage_to_json m), w))))
                else if mw_client w = None
                then Inl (RuntimeError (''model is not locally available, but framework can'' @ [CHR 39] @ ''t download model in local mode''))
                else Inr (Some (tasks_atomic_with_return_value t (''install-model-'' @ i) (install_action L K N home i)))
            | None \<Rightarrow>
                if mw_client w = None
                then Inl (RuntimeError (''model is not locally available, but framework can'' @ [CHR 39] @ ''t download model in local mode''))
                else Inr (Some (tasks_atomic_with_return_value t (''install-model-'' @ i) (install_action L K N home i)))))"

subsection \<open>What an installation leaves\<close>

definition file_bytes :: "repo_net \<Rightarrow> repo_client \<Rightarrow> repo_file \<Rightarrow> string" where
  "file_bytes N c f = fst (rn_download N (rc_host c) (rc_port c) (Some (''Bearer: '' @ rc_token c))
     (''/files/'' @ dec_int (rf_id f) @ ''/download''))"

definition file_arrives :: "repo_net \<Rightarrow> repo_client \<Rightarrow> repo_file \<Rightarrow> bool" where
  "file_arrives N c f \<longleftrightarrow> snd (rn_download N (rc_host c) (rc_port c) (Some (''Bearer: '' @ rc_token c))
     (''/files/'' @ dec_int (rf_id f) @ ''/download'')) = Inr 200"

definition model_files :: "repo_net \<Rightarrow> repo_client \<Rightarrow> path \<Rightarrow> repo_file list \<Rightarrow> path \<Rightarrow> fnode option" where
  "model_files N c dir fs q = map_option (\<lambda>f. FFile (file_bytes N c f)) (find (\<lambda>f. q = dir @ [rf_filename f]) fs)"

lemma write_new_file:
  assumes "list_all plain dir" "plain n" "map_of F dir = Some FDir" "map_of F (dir @ [n]) = None"
  shows "map_of (write_or_drop (path_div dir n) c F) = (map_of F)(dir @ [n] \<mapsto> FFile c)"
proof -
  have p: "list_all plain (dir @ [n])" using assms(1,2) by simp
  have r: "resolve (path_div dir n) = dir @ [n]" using resolve_plain [OF p] by (simp add: path_div_plain assms(2))
  have "fs_node F dir = Some FDir" using assms(1,3) by (simp add: fs_node_def resolve_plain Let_def)
  then have "write_file (path_div dir n) c F = Some (oput (dir @ [n]) (FFile c) F)"
    using assms(4) by (simp add: write_file_def r Let_def)
  then show ?thesis using write_file_lookup [of "path_div dir n" c F] r by (simp add: write_or_drop_def)
qed

lemma model_files_Cons:
  "model_files N c dir (f # fs) q =
     (if q = dir @ [rf_filename f] then Some (FFile (file_bytes N c f)) else model_files N c dir fs q)"
  by (simp add: model_files_def)

lemma download_files_exact:
  assumes "list_all plain dir" "map_of F dir = Some FDir" "list_all (\<lambda>f. plain (rf_filename f) \<and> file_arrives N c f) fs"
    and "distinct (map rf_filename fs)" "\<forall>f\<in>set fs. map_of F (dir @ [rf_filename f]) = None"
  shows "\<exists>F'. download_files N c (Some (''Bearer: '' @ rc_token c)) dir fs F = (Inr (), F')
     \<and> (\<forall>q. map_of F' q = (case model_files N c dir fs q of None \<Rightarrow> map_of F q | Some n \<Rightarrow> Some n))"
  using assms(2-)
proof (induction fs arbitrary: F)
  case (Cons f fs)
  define F1 where "F1 = write_or_drop (path_div dir (rf_filename f)) (file_bytes N c f) F"
  have F1: "map_of F1 = (map_of F)(dir @ [rf_filename f] \<mapsto> FFile (file_bytes N c f))"
    unfolding F1_def using Cons.prems assms(1) by (intro write_new_file) auto
  have d: "download_file N c (Some (''Bearer: '' @ rc_token c)) (rf_id f) (path_div dir (rf_filename f)) F = (Inr (), F1)"
    using Cons.prems(2) by (auto simp: download_file_def file_arrives_def file_bytes_def F1_def split: prod.splits)
  have "map_of F1 dir = Some FDir" "\<forall>g\<in>set fs. map_of F1 (dir @ [rf_filename g]) = None"
    using Cons.prems by (auto simp: F1 image_iff)
  then obtain F' where F': "download_files N c (Some (''Bearer: '' @ rc_token c)) dir fs F1 = (Inr (), F')"
    "\<forall>q. map_of F' q = (case model_files N c dir fs q of None \<Rightarrow> map_of F1 q | Some n \<Rightarrow> Some n)"
    using Cons.IH [of F1] Cons.prems by auto
  have "rf_filename f \<notin> rf_filename ` set fs" using Cons.prems(3) by simp
  then have no: "model_files N c dir fs (dir @ [rf_filename f]) = None" by (auto simp: model_files_def find_None_iff)
  have "map_of F' q = (case model_files N c dir (f # fs) q of None \<Rightarrow> map_of F q | Some n \<Rightarrow> Some n)" for q
    using F'(2) no by (cases "q = dir @ [rf_filename f]") (simp_all add: model_files_Cons F1 split: option.split)
  moreover have "download_files N c (Some (''Bearer: '' @ rc_token c)) dir (f # fs) F = (Inr (), F')"
    using d F'(1) by simp
  ultimately show ?case by blast
qed (simp add: model_files_def)

text \<open>C18: Installing a model that is not stored: when the repository describes it, lists files with plain and distinct names
  and delivers each, the task answers with the model's place, the table gains its one row, and in the file system exactly
  the model's directory with exactly the delivered files is new; the next request is answered from the table, without
  the repository.\<close>

theorem install_model_exact:
  fixes N :: repo_net
  assumes "mw_client w = Some c" "stored_model home i w = None"
    and "repo_model_info L K N c i = Inr info" "mi_id info = Some k"
    and "list_model_files L N c i = Inr fs" "list_all (\<lambda>f. plain (rf_filename f) \<and> file_arrives N c f) fs"
    and "distinct (map rf_filename fs)"
    and "list_all plain home" "plain (make_storage_path_name k (mi_fullname info))"
    and "tree_ok (mw_files w)" "map_of (mw_files w) (model_home_dir home) = Some FDir"
    and "dest = model_home_dir home @ [make_storage_path_name k (mi_fullname info)]" "map_of (mw_files w) dest = None"
    and "m = \<lparr>ms_id = i, ms_fullname = mi_fullname info, ms_path = dest\<rparr>"
  shows "\<exists>w'. install_action L K N home i w = (Inr (storage_to_json m), w')
     \<and> mw_aborted w' = mw_aborted w \<and> stored_model home i w' = Some m
     \<and> (\<forall>j. j \<noteq> i \<longrightarrow> stored_model home j w' = stored_model home j w)
     \<and> (\<forall>q. map_of (mw_files w') q = (if q = dest then Some FDir
          else case model_files N c dest fs q of None \<Rightarrow> map_of (mw_files w) q | Some n \<Rightarrow> Some n))
     \<and> (\<forall>t params. jfind ''model_id'' params = Some (JStr i) \<longrightarrow>
          install_model_factory L K N home w' t params
            = Inr (Some (tasks_atomic_with_return_value t (''install-model-'' @ i) (\<lambda>w. (Inr (storage_to_json m), w)))))"
proof -
  let ?name = "make_storage_path_name k (mi_fullname info)" and ?F = "mw_files w"
  have hp: "list_all plain (model_home_dir home)" using assms(8) by (simp add: model_home_dir_def plain_def slash_def)
  have dp: "list_all plain dest" using hp assms(9) by (simp add: assms(12))
  have dir: "path_div (model_home_dir home) ?name = dest" using assms(9) by (simp add: path_div_plain assms(12))
  have rd: "resolve dest = dest" by (rule resolve_plain [OF dp])
  have dne: "dest \<noteq> []" by (simp add: assms(12))
  have anc: "q = dest \<or> map_of ?F q = Some FDir" if "q \<noteq> []" "below q dest" for q
  proof (cases "q = dest")
    case False
    then have "below q (model_home_dir home)" using that(2) unfolding assms(12) below_iff by (metis append_eq_append_conv2 append_is_Nil_conv butlast_append butlast_snoc self_append_conv)
    then show ?thesis using assms(10,11) that(1) unfolding tree_ok_def by (metis option.distinct(1))
  qed simp
  obtain F1 where F1: "create_directories dest ?F = Some F1"
  proof -
    have "\<exists>F'. make_dirs ps F = Some F'" if "\<And>q. q \<in> set ps \<Longrightarrow> map_of F q = None \<or> map_of F q = Some FDir" for ps F
      using that
    proof (induction ps arbitrary: F)
      case (Cons p ps)
      then show ?case using Cons.IH [of "oput p FDir F"] Cons.IH [of F] by (cases "map_of F p") force+
    qed simp
    moreover have "map_of ?F q = None \<or> map_of ?F q = Some FDir"
      if "q \<in> set (map (\<lambda>n. take n dest) [1..<length dest + 1])" for q
      using that anc assms(13) unfolding dirs_of by auto
    ultimately show ?thesis using that unfolding create_directories_def rd Let_def by blast
  qed
  have m1: "map_of F1 q = (if q = dest then Some FDir else map_of ?F q)" for q
    using create_directories_lookup [OF F1, of q] anc [of q] dne unfolding rd by auto
  have none: "map_of F1 (dest @ [n]) = None" for n
    using nothing_below [OF assms(10) dne assms(13) below_append] by (simp add: m1)
  have "map_of F1 dest = Some FDir" "\<forall>f\<in>set fs. map_of F1 (dest @ [rf_filename f]) = None" by (simp add: m1, simp add: none)
  then obtain F2 where F2: "download_files N c (Some (''Bearer: '' @ rc_token c)) dest fs F1 = (Inr (), F2)"
    "\<forall>q. map_of F2 q = (case model_files N c dest fs q of None \<Rightarrow> map_of F1 q | Some n \<Rightarrow> Some n)"
    using download_files_exact [OF dp _ assms(6,7)] by blast
  let ?w = "w\<lparr>mw_files := F2, mw_rows := mw_rows w @ [\<lparr>mr_id = i, mr_storage_dir = ?name, mr_fullname = mi_fullname info\<rparr>]\<rparr>"
  have d: "download_model_by_id L K N home i w = (Inr (), ?w)"
    using assms(1-5) F1 F2(1) by (simp add: download_model_by_id_def repo_download_model_def Let_def dir)
  have app: "find P (xs @ ys) = (case find P xs of None \<Rightarrow> find P ys | Some x \<Rightarrow> Some x)" for P and xs ys :: "model_row list"
    by (induction xs) auto
  have st: "stored_model home i ?w = Some m"
    using assms(2) by (simp add: stored_model_def app dir assms(14) split: option.splits)
  have other: "stored_model home j ?w = stored_model home j w" if "j \<noteq> i" for j
    using that by (simp add: stored_model_def app split: option.splits)
  have mf: "model_files N c dest fs dest = None" by (auto simp: model_files_def find_None_iff)
  then have ex: "fs_exists F2 dest" using F2(2) m1 by (simp add: fs_exists_iff rd)
  have msp: "ms_path m = dest" by (simp add: assms(14))
  have a: "install_action L K N home i w = (Inr (storage_to_json m), ?w)"
    using d st ex by (simp add: install_action_def msp)
  have fac: "install_model_factory L K N home ?w t params
      = Inr (Some (tasks_atomic_with_return_value t (''install-model-'' @ i) (\<lambda>w. (Inr (storage_to_json m), w))))"
    if "jfind ''model_id'' params = Some (JStr i)" for t params
    using that st ex by (simp add: install_model_factory_def model_id_text_def msp)
  have lk: "map_of (mw_files ?w) q = (if q = dest then Some FDir
          else case model_files N c dest fs q of None \<Rightarrow> map_of ?F q | Some n \<Rightarrow> Some n)" for q
    using F2(2) m1 mf by (auto split: option.split)
  show ?thesis
    using a st other lk fac by (intro exI [of _ ?w] conjI allI impI) simp_all
qed

text \<open>A download that fails leaves no row: the model counts as absent, and a later request downloads it again.\<close>

lemma failed_install_not_recorded:
  "install_action L K N home i w = (Inl e, w') \<Longrightarrow> stored_model home i w = None \<Longrightarrow> mw_rows w' = mw_rows w"
proof -
  assume a: "install_action L K N home i w = (Inl e, w')" and n: "stored_model home i w = None"
  obtain r w1 where d: "download_model_by_id L K N home i w = (r, w1)" by fastforce
  have found: "stored_model home i (v\<lparr>mw_rows := mw_rows w @ [\<lparr>mr_id = i, mr_storage_dir = x, mr_fullname = y\<rparr>]\<rparr>) \<noteq> None" for v x y
    by (auto simp: stored_model_def find_None_iff)
  show "mw_rows w' = mw_rows w"
  proof (cases r)
    case (Inl e1)
    then show ?thesis using a d n
      by (auto simp: install_action_def download_model_by_id_def Let_def split: prod.splits sum.splits option.splits if_splits)
  next
    case (Inr u)
    then have "\<exists>v x y. w1 = v\<lparr>mw_rows := mw_rows w @ [\<lparr>mr_id = i, mr_storage_dir = x, mr_fullname = y\<rparr>]\<rparr>"
      using d n by (auto simp: download_model_by_id_def Let_def split: prod.splits sum.splits option.splits)
    then have "stored_model home i w1 \<noteq> None" using found by metis
    then show ?thesis using a d Inr by (auto simp: install_action_def split: option.splits)
  qed
qed

text \<open>A model whose directory was removed while its row stays: a request for it while the repository can be reached builds a
  task whose body downloads nothing, as the row says that the model is there, and then fails its \<open>CHECK\<close>: the framework
  ends.\<close>

lemma lost_directory_ends_process:
  assumes "stored_model home i w = Some m" "\<not> fs_exists (mw_files w) (ms_path m)" "mw_client w \<noteq> None"
    and "jfind ''model_id'' params = Some (JStr i)"
  shows "\<exists>f. install_model_factory L K N home w t params = Inr (Some (tasks_atomic_with_return_value t (''install-model-'' @ i) f))
    \<and> mw_aborted (snd (f w)) \<and> mw_files (snd (f w)) = mw_files w"
proof -
  have "install_action L K N home i w = (Inr (storage_to_json m), w\<lparr>mw_aborted := True\<rparr>)"
    using assms(1,2) by (simp add: install_action_def download_model_by_id_def)
  then show ?thesis
    using assms by (intro exI [of _ "install_action L K N home i"]) (simp add: install_model_factory_def model_id_text_def)
qed

text \<open>Nothing names the table of \<open>list_model_names\<close>: it always throws.\<close>

subsection \<open>An installation on a sample\<close>

definition unit_codec :: "unit float_codec" where
  "unit_codec = \<lparr>fc_get = (\<lambda>j. Inr ()), fc_put = (\<lambda>u. JNum 0)\<rparr>"

definition yolo_doc :: json where
  "yolo_doc = jobject [(''id'', JNum 7), (''name'', JStr ''yolo''), (''fullname'', JStr ''yolo-v8''), (''architecture'', JStr ''cnn''),
     (''framework'', JStr ''torch''), (''version'', JStr ''8'')]"

definition yolo_list :: json where
  "yolo_list = JArr [jobject [(''id'', JNum 1), (''filename'', JStr ''w.pt''), (''size'', JNum 2)]]"

definition yolo_lib :: text_lib where
  "yolo_lib = decimal_lib\<lparr>parse := (\<lambda>s. Inr (if s = ''d'' then yolo_doc else yolo_list))\<rparr>"

definition yolo_net :: repo_net where
  "yolo_net = \<lparr>rn_get = (\<lambda>h p a s. Inr (200, if s = ''/models/7'' then ''d'' else ''l'')), rn_post = (\<lambda>h p s b. Inl []),
     rn_download = (\<lambda>h p a s. (''ab'', Inr 200))\<rparr>"

definition yolo_world :: model_world where
  "yolo_world = \<lparr>mw_files = [([''data''], FDir), ([''data'', ''model''], FDir)], mw_rows = [],
     mw_client = Some \<lparr>rc_user = [], rc_password = [], rc_token = ''t'', rc_host = ''h'', rc_port = 80\<rparr>, mw_aborted = False\<rparr>"

lemma install_model_exact_witness:
  "\<exists>w'. stored_model [] ''7'' w' = Some \<lparr>ms_id = ''7'', ms_fullname = ''yolo-v8'', ms_path = [''data'', ''model'', ''7-yolo-v8'']\<rparr>
     \<and> map_of (mw_files w') [''data'', ''model'', ''7-yolo-v8'', ''w.pt''] = Some (FFile ''ab'')"
proof -
  let ?c = "\<lparr>rc_user = [], rc_password = [], rc_token = ''t'', rc_host = ''h'', rc_port = 80\<rparr>"
  let ?fs = "[\<lparr>rf_id = 1, rf_filename = ''w.pt'', rf_size = 2\<rparr>]"
  obtain info :: "unit model_info" where info: "repo_model_info yolo_lib unit_codec yolo_net ?c ''7'' = Inr info" "mi_id info = Some 7"
    "mi_fullname info = ''yolo-v8''"
    by (auto simp: repo_model_info_def yolo_net_def yolo_lib_def yolo_doc_def model_info_from_json_def jobject_def read_required_def
        read_optional_def read_opt_unless get_some_def to_int32_id)
  have name: "make_storage_path_name 7 ''yolo-v8'' = ''7-yolo-v8''" by code_simp
  have fs: "list_model_files yolo_lib yolo_net ?c ''7'' = Inr ?fs"
    by (simp add: list_model_files_def yolo_net_def yolo_lib_def yolo_list_def repo_file_from_json_def jobject_def read_required_def to_int32_id)
  have tree: "tree_ok (mw_files yolo_world)" by (rule tree_ok_entries) code_simp
  have ok: "plain ''7-yolo-v8''" "plain ''w.pt''" by code_simp+
  have arr: "list_all (\<lambda>f. plain (rf_filename f) \<and> file_arrives yolo_net ?c f) ?fs" using ok by (simp add: file_arrives_def yolo_net_def)
  have w: "mw_client yolo_world = Some ?c" "stored_model [] ''7'' yolo_world = None"
    "map_of (mw_files yolo_world) (model_home_dir []) = Some FDir"
    by (simp_all add: yolo_world_def stored_model_def model_home_dir_def)
  have dest: "[''data'', ''model'', ''7-yolo-v8''] = model_home_dir [] @ [make_storage_path_name 7 (mi_fullname info)]"
    by (simp add: info(3) name model_home_dir_def)
  have none: "map_of (mw_files yolo_world) [''data'', ''model'', ''7-yolo-v8''] = None" by (simp add: yolo_world_def)
  have pl: "plain (make_storage_path_name 7 (mi_fullname info))" using ok by (simp add: info(3) name)
  show ?thesis
    using install_model_exact [OF w(1,2) info(1,2) fs arr _ _ pl tree w(3) dest none refl]
    by (auto simp: info(3) model_files_def file_bytes_def yolo_net_def)
qed

end
