(* ===== verification/Server.thy ===== *)
theory Server
  imports Config Files
begin

section \<open>The HTTP server: errors, configuration, log\<close>

text \<open>
  What \<open>src/main.cpp\<close> and \<open>src/util/handle_http_error.cpp\<close> put around the endpoints of the modules. An exception that
  leaves an endpoint is turned into a problem document (\<open>handle_error_to_http\<close>, which is \<open>noexcept\<close>); the framework
  serves its configuration and the end of its log. The JSON library refuses to print a text that is not valid UTF-8,
  so that property of byte strings is part of the model.
\<close>

subsection \<open>UTF-8\<close>

text \<open>The check of \<open>nlohmann::json::dump\<close>: one to four bytes, no overlong form, no surrogate, nothing above U+10FFFF.\<close>

definition byte :: "char \<Rightarrow> nat" where "byte c = of_char c"

definition cont :: "char \<Rightarrow> bool" where "cont c = (0x80 \<le> byte c \<and> byte c \<le> 0xBF)"

definition second_ok :: "nat \<Rightarrow> char \<Rightarrow> bool" where
  "second_ok a c =
     (if a = 0xE0 then 0xA0 \<le> byte c \<and> byte c \<le> 0xBF
      else if a = 0xED then 0x80 \<le> byte c \<and> byte c \<le> 0x9F
      else if a = 0xF0 then 0x90 \<le> byte c \<and> byte c \<le> 0xBF
      else if a = 0xF4 then 0x80 \<le> byte c \<and> byte c \<le> 0x8F
      else cont c)"

fun utf8 :: "string \<Rightarrow> bool" where
  "utf8 [] = True"
| "utf8 (c # s) =
     (let a = byte c in
      if a \<le> 0x7F then utf8 s
      else if 0xC2 \<le> a \<and> a \<le> 0xDF then (case s of d # t \<Rightarrow> second_ok a d \<and> utf8 t | _ \<Rightarrow> False)
      else if 0xE0 \<le> a \<and> a \<le> 0xEF then (case s of d # e # t \<Rightarrow> second_ok a d \<and> cont e \<and> utf8 t | _ \<Rightarrow> False)
      else if 0xF0 \<le> a \<and> a \<le> 0xF4
      then (case s of d # e # f # t \<Rightarrow> second_ok a d \<and> cont e \<and> cont f \<and> utf8 t | _ \<Rightarrow> False)
      else False)"

fun json_utf8 :: "json \<Rightarrow> bool" where
  "json_utf8 (JStr s) = utf8 s"
| "json_utf8 (JArr xs) = (\<forall>x\<in>set xs. json_utf8 x)"
| "json_utf8 (JObj m) = (\<forall>p\<in>set m. utf8 (fst p) \<and> json_utf8 (snd p))"
| "json_utf8 j = True"

lemma utf8_ascii_cons: "byte c \<le> 0x7F \<Longrightarrow> utf8 (c # s) = utf8 s"
  by (simp add: Let_def)

declare utf8.simps(2) [simp del]

lemma utf8_ascii_append: "list_all (\<lambda>c. byte c \<le> 0x7F) s \<Longrightarrow> utf8 (s @ t) = utf8 t"
  by (induction s) (auto simp: utf8_ascii_cons)

lemma utf8_ascii: "list_all (\<lambda>c. byte c \<le> 0x7F) s \<Longrightarrow> utf8 s"
  using utf8_ascii_append [of s "[]"] by simp

subsection \<open>Problem documents\<close>

(* include/util/problem_detail.hpp:17-24 ProblemDetail *)
record problem =
  pd_status :: nat
  pd_type :: string
  pd_title :: string
  pd_detail :: string
  pd_instance :: string

definition problem_to_json :: "problem \<Rightarrow> json" where
  "problem_to_json p =
     jobject [(''status'', JNum (int (pd_status p))), (''type'', JStr (pd_type p)), (''title'', JStr (pd_title p)),
              (''detail'', JStr (pd_detail p)), (''instance'', JStr (pd_instance p))]"

text \<open>The document of each kind of exception. \<open>Undefined\<close> is no exception; its line is never reached by one.\<close>

fun problem_of :: "string \<Rightarrow> exn \<Rightarrow> problem" where
  "problem_of path (ProblemEx st ty ti d i) =
     \<lparr>pd_status = st, pd_type = ty, pd_title = ti, pd_detail = d, pd_instance = (if i = [] then path else i)\<rparr>"
| "problem_of path (InvalidArgument m) =
     \<lparr>pd_status = 400, pd_type = ''exception'', pd_title = ''invalid argument'', pd_detail = m, pd_instance = path\<rparr>"
| "problem_of path (FormatError m c) =
     \<lparr>pd_status = 500, pd_type = ''exception'', pd_title = ''invalid message format'',
      pd_detail = what (FormatError m c), pd_instance = path\<rparr>"
| "problem_of path e =
     \<lparr>pd_status = 500, pd_type = ''exception'', pd_title = ''exception'', pd_detail = what e, pd_instance = path\<rparr>"

fun problem_body :: "exn \<Rightarrow> problem \<Rightarrow> json" where
  "problem_body (FormatError m c) p = jput ''message_content'' (JStr c) (problem_to_json p)"
| "problem_body e p = problem_to_json p"

text \<open>\<open>None\<close> is the end of the process: printing throws inside a function that is \<open>noexcept\<close>.\<close>

(* src/util/handle_http_error.cpp:27-70 handle_error_to_http *)
definition handle_error_to_http :: "string \<Rightarrow> exn \<Rightarrow> (nat \<times> json) option" where
  "handle_error_to_http path e =
     (let p = problem_of path e; body = problem_body e p in
      if json_utf8 body then Some (pd_status p, body) else None)"

lemma problem_to_json_fields [simp]:
  "jfind ''status'' (problem_to_json p) = Some (JNum (int (pd_status p)))"
  "jfind ''instance'' (problem_to_json p) = Some (JStr (pd_instance p))"
  "jfind ''detail'' (problem_to_json p) = Some (JStr (pd_detail p))"
  by (simp_all add: problem_to_json_def jobject_def)

lemma utf8_keys [simp]:
  "utf8 ''status''" "utf8 ''type''" "utf8 ''title''" "utf8 ''detail''" "utf8 ''instance''" "utf8 ''message_content''"
  by code_simp+

lemma problem_to_json_utf8:
  "json_utf8 (problem_to_json p) \<longleftrightarrow> utf8 (pd_type p) \<and> utf8 (pd_title p) \<and> utf8 (pd_detail p) \<and> utf8 (pd_instance p)"
  by (auto simp: problem_to_json_def jobject_def)

lemma message_content_utf8:
  "json_utf8 (jput ''message_content'' (JStr c) (problem_to_json p)) \<longleftrightarrow> json_utf8 (problem_to_json p) \<and> utf8 c"
  by (auto simp: problem_to_json_def jobject_def)

text \<open>The texts of the exception itself, without the request.\<close>

fun own_texts_utf8 :: "exn \<Rightarrow> bool" where
  "own_texts_utf8 (ProblemEx st ty ti d i) = (utf8 ty \<and> utf8 ti \<and> utf8 d \<and> utf8 i)"
| "own_texts_utf8 (FormatError m c) = (utf8 m \<and> utf8 c)"
| "own_texts_utf8 e = utf8 (what e)"

lemma utf8_titles [simp]:
  "utf8 ''exception''" "utf8 ''invalid argument''" "utf8 ''invalid message format''"
  by code_simp+

lemma format_error_utf8 [simp]: "utf8 (what (FormatError m c)) = utf8 m"
proof -
  have "list_all (\<lambda>c. byte c \<le> 0x7F) ''FormatError: ''" by code_simp
  then show ?thesis using utf8_ascii_append [of "''FormatError: ''" m] by simp
qed

text \<open>The handler of uncaught exceptions ends the framework, instead of answering, for an exception with valid texts
  exactly when the path of the request is no valid UTF-8 and is put into the answer, which it is unless the endpoint
  named an instance of its own. One request \<open>GET /api/cr/%ff\<close> is enough.\<close>

theorem bad_path_ends_process:
  assumes "own_texts_utf8 e"
  shows "handle_error_to_http path e = None \<longleftrightarrow>
    \<not> utf8 path \<and> (\<forall>st ty ti d i. e = ProblemEx st ty ti d i \<longrightarrow> i = [])"
proof -
  note defs = handle_error_to_http_def Let_def message_content_utf8 problem_to_json_utf8
  show ?thesis
  proof (cases e)
    case (FormatError m c)
    then show ?thesis using assms by (simp add: defs del: what.simps)
  qed (use assms in \<open>auto simp: defs\<close>)
qed

lemma bad_path_ends_process_witness:
  "handle_error_to_http (''/api/cr/'' @ [char_of (255 :: nat)]) (InvalidArgument ''invalid uuid'') = None"
proof -
  have "own_texts_utf8 (InvalidArgument ''invalid uuid'')" by code_simp
  moreover have "\<not> utf8 (''/api/cr/'' @ [char_of (255 :: nat)])" by code_simp
  ultimately show ?thesis using bad_path_ends_process by blast
qed

text \<open>An answer always carries the status of its document, which is an error status for exceptions other than the
  endpoint's own problem.\<close>

lemma error_answer:
  "handle_error_to_http path e = Some (st, body) \<Longrightarrow>
     jfind ''status'' body = Some (JNum (int st)) \<and> (st = 400 \<or> st = 500 \<or> (\<exists>ty ti d i. e = ProblemEx st ty ti d i))"
  by (cases e) (auto simp: handle_error_to_http_def Let_def problem_to_json_def jobject_def split: if_splits)

end
