(* ===== verification/Processes.thy ===== *)
theory Processes
  imports Ownership MessageBus Files
begin

section \<open>Child processes and controllers\<close>

text \<open>
  \<open>src/subprocessmgr/subprocessmgr.cpp\<close> starts the processes of abilities, services and controllers and keeps their
  handles; \<open>src/controllermgr/controller_mgr.cpp\<close> starts, every few seconds, the controller of each running ability
  whose controller does not report. The operating system is a parameter: the status of a file, the user and groups of
  the framework, and the result of \<open>uv_spawn\<close>. A closed handle has been erased from the table.
\<close>

subsection \<open>May a file be executed\<close>

text \<open>The permission bits for owner, group and others are bits 6, 3 and 0 of the mode.\<close>

record file_status =
  st_mode :: "32 word"
  st_uid :: nat
  st_gid :: nat

record os_ext =
  os_stat :: "string \<Rightarrow> file_status option"
  os_uid :: nat
  os_groups :: "nat list"
  os_spawn :: "string \<Rightarrow> string list \<Rightarrow> string list option \<Rightarrow> int"
  os_strerror :: "int \<Rightarrow> string"

(* src/subprocessmgr/subprocessmgr.cpp:100-128 can_execute *)
definition can_execute :: "os_ext \<Rightarrow> string \<Rightarrow> bool" where
  "can_execute S f =
     (case os_stat S f of
        None \<Rightarrow> False
      | Some st \<Rightarrow>
          if bit (st_mode st) 0 then True
          else if st_uid st = os_uid S \<and> bit (st_mode st) 6 then True
          else st_gid st \<in> set (os_groups S) \<and> bit (st_mode st) 3)"

subsection \<open>The process table\<close>

record child =
  ch_path :: string
  ch_args :: "string list"
  ch_labels :: "(string \<times> string) list"

(* include/subprocessmgr/subprocess_mgr.hpp:26-31 SubprocessManager *)
record subproc =
  sp_handles :: "(uuid \<times> child) list"
  sp_signalled :: "uuid list"

definition no_processes :: subproc where "no_processes = \<lparr>sp_handles = [], sp_signalled = []\<rparr>"

text \<open>Without variables of its own a child gets those of the framework.\<close>

(* src/subprocessmgr/subprocessmgr.cpp:46-74 EnvParams *)
definition env_params :: "(string \<times> string) list \<Rightarrow> string list option" where
  "env_params envs = (if envs = [] then None else Some (map (\<lambda>(k, v). k @ ''='' @ v) envs))"

(* include/subprocessmgr/subprocess_mgr.hpp:58-61 SubprocessManager::add *)
definition add_handle :: "uuid \<Rightarrow> child \<Rightarrow> subproc \<Rightarrow> subproc" where
  "add_handle i c P = (if i \<in> fst ` set (sp_handles P) then P else P\<lparr>sp_handles := sp_handles P @ [(i, c)]\<rparr>)"

(* src/subprocessmgr/subprocessmgr.cpp:133-178 SubprocessManager::start_process *)
definition start_process :: "os_ext \<Rightarrow> uuid \<Rightarrow> process_option \<Rightarrow> subproc \<Rightarrow> (exn + uuid) \<times> subproc" where
  "start_process S fresh opt P =
     (let path = po_path opt in
      if os_stat S path = None then (Inl (InvalidArgument (''executable file do not exist: '' @ path)), P)
      else if \<not> can_execute S path
      then (Inl (InvalidArgument (''file do not have executable permission: '' @ path)), P)
      else
        (let ret = os_spawn S path (path # po_args opt) (env_params (po_envs opt)) in
         if ret < 0 then (Inl (RuntimeError (''spawn subprocess failed:'' @ os_strerror S ret)), P)
         else (Inr fresh, add_handle fresh \<lparr>ch_path = path, ch_args = po_args opt, ch_labels = po_labels opt\<rparr> P)))"

text \<open>The exit of a child: its callback is called, then its handle is closed and erased.\<close>

(* src/subprocessmgr/subprocessmgr.cpp:156-163 exit_event handler *)
definition process_exited :: "uuid \<Rightarrow> subproc \<Rightarrow> subproc" where
  "process_exited i P = P\<lparr>sp_handles := filter (\<lambda>h. fst h \<noteq> i) (sp_handles P)\<rparr>"

(* src/subprocessmgr/subprocessmgr.cpp:224-235 SubprocessManager::on_exit *)
definition subprocess_on_exit :: "subproc \<Rightarrow> subproc" where
  "subprocess_on_exit P = P\<lparr>sp_signalled := sp_signalled P @ map fst (sp_handles P)\<rparr>"

subsection \<open>Messages\<close>

(* src/param/process_option.cpp:27-32 from_json(ProcessOption) *)
definition process_option_from_json :: "json \<Rightarrow> exn + process_option" where
  "process_option_from_json j =
     rbind (read_required ''path'' get_string j) (\<lambda>p.
     rbind (read_optional ''args'' (get_array get_string) [] j) (\<lambda>a.
     rbind (read_optional ''envs'' get_string_map [] j) (\<lambda>e.
     rbind (read_optional ''labels'' get_string_map [] j) (\<lambda>l.
       Inr \<lparr>po_path = p, po_args = a, po_envs = e, po_labels = l\<rparr>))))"

(* src/param/process_option.cpp:39-44 to_json(ProcessOption) *)
definition process_option_to_json :: "process_option \<Rightarrow> json" where
  "process_option_to_json x =
     jput_if (po_labels x \<noteq> []) ''labels'' (put_string_map (po_labels x))
      (jput_if (po_envs x \<noteq> []) ''envs'' (put_string_map (po_envs x))
       (jput_if (po_args x \<noteq> []) ''args'' (JArr (map JStr (po_args x)))
        (jput ''path'' (JStr (po_path x)) JNull)))"

text \<open>A failed start of a controller is logged and not answered.\<close>

(* src/subprocessmgr/subprocessmgr.cpp:180-222 SubprocessManager::on_receive *)
definition subprocess_on_receive :: "text_lib \<Rightarrow> os_ext \<Rightarrow> uuid \<Rightarrow> ('x, subproc) handler" where
  "subprocess_on_receive L S fresh m P =
     (if msg_operation m = ''start_process'' then
        (case parse_as L process_option_from_json m of
           Inl e \<Rightarrow> (quiet (Throws e), P)
         | Inr opt \<Rightarrow>
             (case start_process S fresh opt P of
                (Inr i, P') \<Rightarrow> (ok_reply (dump L (jobject [(''processId'', uuid_to_json L i)])), P')
              | (Inl e, P') \<Rightarrow> (err_reply (what e), P')))
      else if msg_operation m = ''start_controller'' then
        (case rbind (parse L (msg_content m)) (\<lambda>j.
              rbind (index_as ''controllerPath'' get_string j) (\<lambda>path.
              rbind (index_as ''controllerId'' get_string j) (\<lambda>cid.
              rbind (jindex ''nested'' j) (\<lambda>nested.
                Inr \<lparr>po_path = path, po_args = [cid, dump L nested], po_envs = [], po_labels = []\<rparr>)))) of
           Inl e \<Rightarrow> (quiet (Throws e), P)
         | Inr opt \<Rightarrow> (quiet (Returns (Inr ())), snd (start_process S fresh opt P)))
      else (quiet (Returns (Inl (err_invalid_operation m))), P))"

subsection \<open>Controllers\<close>

(* include/controllermgr/controller_heartbeat.hpp:23-35 ControllerHeartbeat *)
record controller_heartbeat =
  ct_port :: int
  ct_instance :: string
  ct_package :: string
  ct_version :: string
  ct_abilityName :: string
  ct_protocol :: string

definition controller_heartbeat_from_json :: "json \<Rightarrow> exn + controller_heartbeat" where
  "controller_heartbeat_from_json j =
     rbind (read_required ''port'' get_int j) (\<lambda>p.
     rbind (read_required ''controllerInstanceId'' get_string j) (\<lambda>i.
     rbind (read_required ''package'' get_string j) (\<lambda>pk.
     rbind (read_required ''version'' get_string j) (\<lambda>v.
     rbind (read_required ''abilityName'' get_string j) (\<lambda>n.
     rbind (read_required ''protocol'' get_string j) (\<lambda>pr.
       Inr \<lparr>ct_port = p, ct_instance = i, ct_package = pk, ct_version = v, ct_abilityName = n, ct_protocol = pr\<rparr>))))))"

type_synonym controllers = "(string, controller_heartbeat \<times> time) omap"

(* src/controllermgr/controller_mgr.cpp:43-49 ControllerManager::on_receive_heartbeat *)
definition on_controller_heartbeat :: "time \<Rightarrow> controller_heartbeat \<Rightarrow> controllers \<Rightarrow> controllers" where
  "on_controller_heartbeat now hb C = oput (ct_instance hb) (hb, now) C"

(* src/controllermgr/controller_mgr.cpp:68-75 POST /api/controller-heartbeat *)
definition api_controller_heartbeat ::
  "text_lib \<Rightarrow> (string \<Rightarrow> exn + json) \<Rightarrow> time \<Rightarrow> string option \<Rightarrow> string \<Rightarrow> controllers \<Rightarrow> exn + controllers" where
  "api_controller_heartbeat L from_cbor now content_type body C =
     rbind (read_json_by_content_type L from_cbor (case content_type of Some c \<Rightarrow> c | None \<Rightarrow> ''application/json'') body) (\<lambda>j.
     rbind (controller_heartbeat_from_json j) (\<lambda>hb. Inr (on_controller_heartbeat now hb C)))"

(* src/controllermgr/controller_mgr.cpp:149-157 ControllerManager::is_process_running *)
definition is_process_running :: "time \<Rightarrow> string \<Rightarrow> controllers \<Rightarrow> bool" where
  "is_process_running now cid C = (case map_of C cid of None \<Rightarrow> False | Some (hb, t) \<Rightarrow> now - t < 30000)"

definition controller_id :: "string \<Rightarrow> string \<Rightarrow> string \<Rightarrow> string" where
  "controller_id package version name = ''controller-'' @ package @ ''-'' @ name @ ''-'' @ version"

definition controller_path :: "path \<Rightarrow> string \<Rightarrow> string \<Rightarrow> string \<Rightarrow> path" where
  "controller_path home package version name =
     path_div (path_div (path_div (home @ [''packages'']) package) version @ [''bin'']) (name @ ''.controller'')"

definition start_controller_payload :: "string \<Rightarrow> path \<Rightarrow> json" where
  "start_controller_payload cid p =
     jobject [(''controllerPath'', JStr (Files.path_text p)), (''controllerId'', JStr cid),
       (''nested'', jobject [(''protocol'', JStr ''http''), (''port'', JNum 8080)])]"

text \<open>The message that is sent, if any.\<close>

(* src/controllermgr/controller_mgr.cpp:160-195 ControllerManager::check_and_start_controllers *)
definition check_and_start_controllers ::
  "path \<Rightarrow> fs \<Rightarrow> time \<Rightarrow> string \<Rightarrow> string \<Rightarrow> string \<Rightarrow> controllers \<Rightarrow> json option" where
  "check_and_start_controllers home F now package version name C =
     (let cid = controller_id package version name; p = controller_path home package version name in
      if is_process_running now cid C then None
      else if \<not> fs_exists F p then None
      else Some (start_controller_payload cid p))"

text \<open>One round over the running abilities; \<open>get_ability\<close> is answered by the resource manager, and a failed answer
  passes over the ability.\<close>

(* src/controllermgr/controller_mgr.cpp:107-142 ControllerManager::fetch_and_check_abilities (round) *)
definition controller_round ::
  "text_lib \<Rightarrow> rdb \<Rightarrow> path \<Rightarrow> fs \<Rightarrow> time \<Rightarrow> heartbeat list \<Rightarrow> controllers \<Rightarrow> json list" where
  "controller_round L T home F now hbs C =
     concat (map (\<lambda>hb. case find_ability_id L T (hb_id hb) of
         Inr (Some (package, version)) \<Rightarrow>
           (case check_and_start_controllers home F now package version (hb_abilityName hb) C of
              None \<Rightarrow> [] | Some j \<Rightarrow> [j])
       | _ \<Rightarrow> []) hbs)"

text \<open>The messages reach SubprocessMgr, each start with an id of its own.\<close>

definition start_controller_message :: "text_lib \<Rightarrow> json \<Rightarrow> 'x message" where
  "start_controller_message L j = make_message 0 0 ''ControllerMgr'' ''SubprocessMgr'' ''start_controller'' (dump L j)"

fun deliver_starts :: "text_lib \<Rightarrow> os_ext \<Rightarrow> (nat \<Rightarrow> uuid) \<Rightarrow> nat \<Rightarrow> json list \<Rightarrow> subproc \<Rightarrow> subproc" where
  "deliver_starts L S fresh n [] P = P"
| "deliver_starts L S fresh n (j # js) P =
     deliver_starts L S fresh (Suc n) js
       (snd (subprocess_on_receive L S (fresh n) (start_controller_message L j :: unit message) P))"

subsection \<open>No child is forgotten\<close>

text \<open>What happens to the table: a request to start a process, with its own id, the exit of a child, the end of the
  framework.\<close>

datatype proc_event = PStart uuid process_option | PExit uuid

fun proc_step :: "os_ext \<Rightarrow> proc_event \<Rightarrow> subproc \<Rightarrow> subproc" where
  "proc_step S (PStart i opt) P = snd (start_process S i opt P)"
| "proc_step S (PExit i) P = process_exited i P"

definition started :: "os_ext \<Rightarrow> process_option \<Rightarrow> bool" where
  "started S opt = (os_stat S (po_path opt) \<noteq> None \<and> can_execute S (po_path opt)
     \<and> 0 \<le> os_spawn S (po_path opt) (po_path opt # po_args opt) (env_params (po_envs opt)))"

text \<open>The children the system runs: those that were spawned and have not exited.\<close>

fun alive :: "os_ext \<Rightarrow> proc_event list \<Rightarrow> uuid set" where
  "alive S [] = {}"
| "alive S (PStart i opt # es) = (if started S opt then insert i (alive S es) else alive S es)"
| "alive S (PExit i # es) = alive S es - {i}"

fun start_ids :: "proc_event list \<Rightarrow> uuid list" where
  "start_ids [] = []"
| "start_ids (PStart i opt # es) = i # start_ids es"
| "start_ids (PExit i # es) = start_ids es"

lemma start_process_handles:
  "sp_handles (snd (start_process S i opt P)) =
     (if started S opt \<and> i \<notin> fst ` set (sp_handles P)
      then sp_handles P @ [(i, \<lparr>ch_path = po_path opt, ch_args = po_args opt, ch_labels = po_labels opt\<rparr>)] else sp_handles P)"
  "sp_signalled (snd (start_process S i opt P)) = sp_signalled P"
  by (auto simp: start_process_def started_def add_handle_def Let_def)

lemma alive_start_ids: "alive S es \<subseteq> set (start_ids es)"
  by (induction es rule: start_ids.induct) auto

text \<open>The last event is the head of the list.\<close>

fun run_procs :: "os_ext \<Rightarrow> proc_event list \<Rightarrow> subproc" where
  "run_procs S [] = no_processes"
| "run_procs S (e # es) = proc_step S e (run_procs S es)"

lemma run_procs_handles:
  "distinct (start_ids es) \<Longrightarrow> fst ` set (sp_handles (run_procs S es)) = alive S es
     \<and> distinct (map fst (sp_handles (run_procs S es))) \<and> sp_signalled (run_procs S es) = []"
proof (induction es)
  case (Cons e es)
  then show ?case
  proof (cases e)
    case (PStart i opt)
    then have "i \<notin> alive S es" using Cons.prems alive_start_ids [of S es] by auto
    then show ?thesis using Cons PStart by (auto simp: start_process_handles)
  next
    case (PExit i)
    then show ?thesis using Cons by (auto simp: process_exited_def distinct_map_filter)
  qed
qed (simp add: no_processes_def)

text \<open>C25: After any history of starts, successful or not, and exits, the end of the framework signals exactly the children
  that run, each once: no ability, service or controller outlives it.\<close>

theorem exit_signals_all_children:
  assumes "distinct (start_ids es)"
  shows "set (sp_signalled (subprocess_on_exit (run_procs S es))) = alive S es
    \<and> distinct (sp_signalled (subprocess_on_exit (run_procs S es)))"
  using run_procs_handles [OF assms, of S] by (simp add: subprocess_on_exit_def)

text \<open>The options of a process survive the message.\<close>

lemma process_option_roundtrip:
  assumes "omap_ok (po_envs x)" "omap_ok (po_labels x)"
  shows "process_option_from_json (process_option_to_json x) = Inr x"
proof -
  have "get_array get_string (JArr (map JStr xs)) = Inr xs" for xs by (induction xs) auto
  then show ?thesis
    unfolding process_option_from_json_def process_option_to_json_def
    using assms
    by (simp del: jput.simps jat.simps jfind.simps get_array.simps
        add: read_required_def read_optional_def jat_find json_simps get_put_string_map)
qed

subsection \<open>Controllers are started again and again\<close>

lemma deliver_start:
  assumes "json_text_ok L (start_controller_payload cid p)" "started S \<lparr>po_path = Files.path_text p,
      po_args = [cid, dump L (jobject [(''protocol'', JStr ''http''), (''port'', JNum 8080)])], po_envs = [], po_labels = []\<rparr>"
    and "i \<notin> fst ` set (sp_handles P)"
  shows "sp_handles (snd (subprocess_on_receive L S i (start_controller_message L (start_controller_payload cid p)) P))
    = sp_handles P @ [(i, \<lparr>ch_path = Files.path_text p,
        ch_args = [cid, dump L (jobject [(''protocol'', JStr ''http''), (''port'', JNum 8080)])], ch_labels = []\<rparr>)]"
proof -
  have parse: "parse L (dump L (start_controller_payload cid p)) = Inr (start_controller_payload cid p)"
    using assms(1) by (simp add: json_text_ok_def)
  have fields: "index_as ''controllerPath'' get_string (start_controller_payload cid p) = Inr (Files.path_text p)"
    "index_as ''controllerId'' get_string (start_controller_payload cid p) = Inr cid"
    "jindex ''nested'' (start_controller_payload cid p) = Inr (jobject [(''protocol'', JStr ''http''), (''port'', JNum 8080)])"
    by (simp_all add: index_as_def start_controller_payload_def jobject_def)
  show ?thesis
    using assms(2,3) parse
    by (simp add: subprocess_on_receive_def start_controller_message_def make_message_def fields start_process_handles)
qed

text \<open>Rounds at the times of a list, while the controllers' heartbeats and the running abilities stay as they are.\<close>

fun controller_rounds ::
  "text_lib \<Rightarrow> rdb \<Rightarrow> path \<Rightarrow> fs \<Rightarrow> os_ext \<Rightarrow> (nat \<Rightarrow> uuid) \<Rightarrow> heartbeat list \<Rightarrow> controllers \<Rightarrow> nat \<Rightarrow> time list \<Rightarrow> subproc \<Rightarrow> subproc" where
  "controller_rounds L T home F S fresh hbs C n [] P = P"
| "controller_rounds L T home F S fresh hbs C n (t # ts) P =
     (let js = controller_round L T home F t hbs C in
      controller_rounds L T home F S fresh hbs C (n + length js) ts (deliver_starts L S fresh n js P))"

definition copies :: "string \<Rightarrow> subproc \<Rightarrow> nat" where
  "copies path P = length (filter (\<lambda>h. ch_path (snd h) = path) (sp_handles P))"

definition controller_option :: "text_lib \<Rightarrow> string \<Rightarrow> path \<Rightarrow> process_option" where
  "controller_option L cid p = \<lparr>po_path = Files.path_text p,
     po_args = [cid, dump L (jobject [(''protocol'', JStr ''http''), (''port'', JNum 8080)])], po_envs = [], po_labels = []\<rparr>"

lemma controller_rounds_copies:
  assumes "\<And>t. t \<in> set ts \<Longrightarrow> controller_round L T home F t hbs C = [start_controller_payload cid p]"
    and "json_text_ok L (start_controller_payload cid p)" "started S (controller_option L cid p)"
    and "inj_on fresh {n..<n + length ts}" "\<forall>k\<in>{n..<n + length ts}. fresh k \<notin> fst ` set (sp_handles P)"
  shows "copies (Files.path_text p) (controller_rounds L T home F S fresh hbs C n ts P) = copies (Files.path_text p) P + length ts"
  using assms(1,4,5)
proof (induction ts arbitrary: n P)
  case (Cons t ts)
  let ?m = "start_controller_message L (start_controller_payload cid p) :: unit message"
  let ?P = "snd (subprocess_on_receive L S (fresh n) ?m P)"
  have P: "sp_handles ?P = sp_handles P @ [(fresh n, \<lparr>ch_path = Files.path_text p,
        ch_args = [cid, dump L (jobject [(''protocol'', JStr ''http''), (''port'', JNum 8080)])], ch_labels = []\<rparr>)]"
    by (rule deliver_start [OF assms(2)]) (use assms(3) Cons.prems(3) in \<open>simp_all add: controller_option_def\<close>)
  have "fresh k \<noteq> fresh n" if "k \<in> {Suc n..<Suc n + length ts}" for k
    using inj_onD [OF Cons.prems(2), of k n] that by auto
  then have "\<forall>k\<in>{Suc n..<Suc n + length ts}. fresh k \<notin> fst ` set (sp_handles ?P)"
    using Cons.prems(3) unfolding P by auto
  moreover have "inj_on fresh {Suc n..<Suc n + length ts}"
    using Cons.prems(2) by (rule inj_on_subset) auto
  ultimately have "copies (Files.path_text p) (controller_rounds L T home F S fresh hbs C (Suc n) ts ?P)
      = copies (Files.path_text p) ?P + length ts"
    using Cons.IH [of "Suc n" ?P] Cons.prems(1) by simp
  then show ?case using Cons.prems(1) by (simp add: copies_def P)
qed simp

text \<open>C34: A controller whose start does not lead to a heartbeat within thirty seconds is not remembered: in every round in
  which its last heartbeat is that old, or missing, one more process of it is started, so that \<open>n\<close> rounds leave \<open>n\<close> more
  copies of the controller running.\<close>

theorem controllers_multiply:
  assumes "find_ability_id L T (hb_id hb) = Inr (Some (package, version))"
    and "\<forall>t\<in>set ts. \<not> is_process_running t (controller_id package version (hb_abilityName hb)) C"
    and "fs_exists F (controller_path home package version (hb_abilityName hb))"
    and "json_text_ok L (start_controller_payload (controller_id package version (hb_abilityName hb))
           (controller_path home package version (hb_abilityName hb)))"
    and "started S (controller_option L (controller_id package version (hb_abilityName hb))
           (controller_path home package version (hb_abilityName hb)))"
    and "inj_on fresh {..<length ts}" "\<forall>k<length ts. fresh k \<notin> fst ` set (sp_handles P)"
  shows "copies (Files.path_text (controller_path home package version (hb_abilityName hb)))
      (controller_rounds L T home F S fresh [hb] C 0 ts P)
    = copies (Files.path_text (controller_path home package version (hb_abilityName hb))) P + length ts"
  using controller_rounds_copies [of ts L T home F "[hb]" C _ _ S fresh 0 P] assms
  by (simp add: controller_round_def check_and_start_controllers_def Let_def atLeast0LessThan)

text \<open>A controller that reports is left alone.\<close>

lemma reporting_controller_not_started:
  assumes "map_of C (controller_id package version name) = Some (chb, t)" "now - t < 30000"
  shows "check_and_start_controllers home F now package version name C = None"
  using assms by (simp add: check_and_start_controllers_def is_process_running_def Let_def)

subsection \<open>The theorems on samples\<close>

definition sample_os :: os_ext where
  "sample_os = \<lparr>os_stat = (\<lambda>p. if p = ''/bin/a'' \<or> p = ''/home/packages/pkg/1.0.0/bin/Nav.controller''
       then Some \<lparr>st_mode = 0x1C0, st_uid = 1000, st_gid = 1000\<rparr> else None),
     os_uid = 1000, os_groups = [], os_spawn = (\<lambda>p a e. 0), os_strerror = (\<lambda>n. [])\<rparr>"

definition bare_option :: "string \<Rightarrow> process_option" where
  "bare_option p = \<lparr>po_path = p, po_args = [], po_envs = [], po_labels = []\<rparr>"

lemma exit_signals_all_children_witness:
  "set (sp_signalled (subprocess_on_exit (run_procs sample_os
      [PStart 3 (bare_option ''/bin/b''), PExit 1, PStart 2 (bare_option ''/bin/a''), PStart 1 (bare_option ''/bin/a'')]))) = {2}"
proof -
  let ?es = "[PStart 3 (bare_option ''/bin/b''), PExit 1, PStart 2 (bare_option ''/bin/a''), PStart 1 (bare_option ''/bin/a'')]"
  have "started sample_os (bare_option ''/bin/a'')" "\<not> started sample_os (bare_option ''/bin/b'')"
    by (code_simp, code_simp)
  then have "alive sample_os ?es = {2}" by auto
  then show ?thesis using exit_signals_all_children [of ?es sample_os] by simp
qed

definition nav_payload :: json where
  "nav_payload = start_controller_payload ''controller-pkg-Nav-1.0.0'' [''home'', ''packages'', ''pkg'', ''1.0.0'', ''bin'', ''Nav.controller'']"

definition nav_crd_doc :: json where
  "nav_crd_doc = (case ability_crd_to_json decimal_lib sample_crd of Inl _ \<Rightarrow> JNull | Inr j \<Rightarrow> j)"

definition nav_lib :: text_lib where
  "nav_lib = decimal_lib\<lparr>dump := (\<lambda>j. if j = nav_payload then ''p'' else []),
     parse := (\<lambda>s. Inr (if s = ''p'' then nav_payload else if s = ''a'' then ability_cr_to_json decimal_lib sample_cr
        else nav_crd_doc))\<rparr>"

definition nav_db :: rdb where
  "nav_db = empty_rdb\<lparr>rt_ability_crs := [\<lparr>ar_id = 5, ar_ability_name = ''Nav'', ar_ability_version = ''1.0.0'',
       ar_instance_name = ''c0'', ar_insert_time = 0, ar_update_time = 0, ar_autostart = False, ar_auto_started = False,
       ar_keep_alive = False, ar_singleton = True, ar_cr_detail = ''a''\<rparr>],
     rt_ability_crds := map (\<lambda>k. (k, ''d'')) [(sf_abilityName sample_fields, version_to_string (sf_version sample_fields))]\<rparr>"

definition nav_heartbeat :: heartbeat where
  "nav_heartbeat = \<lparr>hb_abilityName = ''Nav'', hb_version = ''1.0.0'', hb_instanceName = ''c0'', hb_id = 5, hb_state = LsRunning,
     hb_IPCProtocol = Http, hb_IPCPort = 9001, hb_abilityPort = 9002\<rparr>"

lemma nav_lib_show: "show_uuid nav_lib = show_uuid decimal_lib" "read_uuid nav_lib = read_uuid decimal_lib"
  by (simp_all add: nav_lib_def)

lemma nav_ability: "find_ability_id nav_lib nav_db 5 = Inr (Some (''pkg'', ''1.0.0''))"
proof -
  have L: "uuid_text_ok nav_lib" using decimal_lib_ok by (simp add: uuid_text_ok_def nav_lib_show)
  have "ability_cr_to_json nav_lib sample_cr = ability_cr_to_json decimal_lib sample_cr"
    by (rule ability_cr_to_json_show) (rule nav_lib_show)
  then have cr: "ability_cr_from_json nav_lib (ability_cr_to_json decimal_lib sample_cr) = Inr sample_cr"
    using ability_cr_json [OF L sample_cr_ok] by simp
  obtain j where j: "ability_crd_to_json nav_lib sample_crd = Inr j"
      "ability_crd_from_json nav_lib j = Inr (sample_crd\<lparr>crd_fwk := no_fwk\<rparr>)"
    using ability_crd_roundtrip [OF L, of sample_crd]
    by (auto simp: ability_crd_ok_def sample_crd_def version_ok_def crd_spec_ok_def null_or_full_def deps_ok_def deps_empty_def)
  have "ability_crd_to_json nav_lib sample_crd = ability_crd_to_json decimal_lib sample_crd"
    by (simp add: ability_crd_to_json_def nav_lib_show)
  then have "ability_crd_to_json decimal_lib sample_crd = Inr j" using j(1) by simp
  then have "nav_crd_doc = j" by (simp add: nav_crd_doc_def)
  then have crd: "ability_crd_from_json nav_lib nav_crd_doc = Inr (sample_crd\<lparr>crd_fwk := no_fwk\<rparr>)" using j(2) by simp
  have p: "parse nav_lib ''a'' = Inr (ability_cr_to_json decimal_lib sample_cr)" "parse nav_lib ''d'' = Inr nav_crd_doc"
    by (simp_all add: nav_lib_def)
  have spec: "acr_spec sample_cr = Some (AbilitySpec sample_fields [AbilitySpec sample_fields []])" by (simp add: sample_cr_def)
  have "\<exists>cr sp. get_ability_cr nav_lib nav_db 5 = Inr (Some cr) \<and> acr_spec cr = Some sp
      \<and> sf_abilityName (spec_own sp) = sf_abilityName sample_fields \<and> sf_version (spec_own sp) = sf_version sample_fields"
    by (simp add: get_ability_cr_def nav_db_def empty_rdb_def ability_cr_from_row_def p cr append_ability_kv_def spec)
  moreover have "get_ability_crd nav_lib nav_db (sf_abilityName sample_fields) (version_to_string (sf_version sample_fields))
      = Inr (Some (sample_crd\<lparr>crd_fwk := no_fwk\<rparr>))"
    by (simp add: get_ability_crd_def nav_db_def first_crd_def crd_of_text_def p crd)
  moreover have "crd_packageName sample_crd = ''pkg''" "version_to_string (crd_version sample_crd) = ''1.0.0''"
    by (simp add: sample_crd_def, code_simp)
  ultimately show ?thesis
    by (auto simp: find_ability_id_def resolve_ability_cr_by_id_def nav_db_def empty_rdb_def)
qed

lemma nav_texts:
  "controller_id ''pkg'' ''1.0.0'' ''Nav'' = ''controller-pkg-Nav-1.0.0''"
  "controller_path [''home''] ''pkg'' ''1.0.0'' ''Nav'' = [''home'', ''packages'', ''pkg'', ''1.0.0'', ''bin'', ''Nav.controller'']"
  "Files.path_text [''home'', ''packages'', ''pkg'', ''1.0.0'', ''bin'', ''Nav.controller''] = ''/home/packages/pkg/1.0.0/bin/Nav.controller''"
  by code_simp+

lemma controllers_multiply_witness:
  "copies ''/home/packages/pkg/1.0.0/bin/Nav.controller''
     (controller_rounds nav_lib nav_db [''home''] [([''home'', ''packages'', ''pkg'', ''1.0.0'', ''bin'', ''Nav.controller''], FFile ''x'')]
        sample_os word_of_nat [nav_heartbeat] [] 0 [10000, 20000, 30000] no_processes) = 3"
proof -
  let ?F = "[([''home'', ''packages'', ''pkg'', ''1.0.0'', ''bin'', ''Nav.controller''], FFile ''x'')]"
  have hb: "hb_id nav_heartbeat = 5" "hb_abilityName nav_heartbeat = ''Nav''" by (simp_all add: nav_heartbeat_def)
  have ok: "json_text_ok nav_lib nav_payload" by (simp add: json_text_ok_def nav_lib_def)
  have st: "started sample_os (controller_option nav_lib cid [''home'', ''packages'', ''pkg'', ''1.0.0'', ''bin'', ''Nav.controller''])" for cid
    by (simp add: started_def controller_option_def nav_texts(3) can_execute_def sample_os_def)
  have ex: "fs_exists ?F [''home'', ''packages'', ''pkg'', ''1.0.0'', ''bin'', ''Nav.controller'']" by code_simp
  have fresh: "inj_on (word_of_nat :: nat \<Rightarrow> uuid) {..<length [10000, 20000, 30000 :: time]}"
    by (rule inj_onI) (auto simp: lessThan_Suc eval_nat_numeral)
  have empty: "sp_handles no_processes = []" by (simp add: no_processes_def)
  show ?thesis
    using controllers_multiply [of nav_lib nav_db nav_heartbeat "''pkg''" "''1.0.0''" "[10000, 20000, 30000]" "[]" ?F "[''home'']"
        sample_os word_of_nat no_processes] nav_ability ok st ex fresh
    unfolding hb nav_texts nav_payload_def
    by (simp add: is_process_running_def copies_def empty)
qed

end
