(* ===== verification/Alerts.thy ===== *)
theory Alerts
  imports Heartbeat TaskStatus
begin

section \<open>Alerts of abilities\<close>

text \<open>
  \<open>src/abilityalertmgr/\<close>: abilities post alerts, which are kept in a table of a database of their own with the key
  (ability, time), and read back newest first. The table is a list of rows in the order of insertion; the texts of a
  row are what SQLite stores, and reading a column ends at a NUL byte. Two columns that hold texts are declared
  \<open>INT\<close>; \<open>numeric\<close> is what such a column gives back for a text (the text itself unless it looks like a number).
\<close>

subsection \<open>Levels\<close>

(* include/abilityalertmgr/ability_alert.hpp:23-33 AbilityAlertLevel *)
datatype alert_level = AlUnknown | AlInfo | AlAnomaly | AlError | AlFatal

definition alert_levels :: "alert_level list" where
  "alert_levels = [AlUnknown, AlInfo, AlAnomaly, AlError, AlFatal]"

(* src/abilityalertmgr/ablity_alert.cpp:18-30 to_string(AbilityAlertLevel) *)
fun show_level :: "alert_level \<Rightarrow> string" where
  "show_level AlUnknown = ''unknown''"
| "show_level AlInfo = ''info''"
| "show_level AlAnomaly = ''anomaly''"
| "show_level AlError = ''error''"
| "show_level AlFatal = ''fatal''"

(* src/abilityalertmgr/ablity_alert.cpp:34-47 from_sv<AbilityAlertLevel> *)
definition level_from_sv :: "string \<Rightarrow> exn + alert_level" where
  "level_from_sv s =
     (case find (\<lambda>l. show_level l = s) alert_levels of
        Some l \<Rightarrow> Inr l
      | None \<Rightarrow> Inl (InvalidArgument (''invalid alert level '' @ s)))"

text \<open>The JSON enumeration falls back to its first entry.\<close>

(* include/abilityalertmgr/ability_alert.hpp:37-44 NLOHMANN_JSON_SERIALIZE_ENUM(AbilityAlertLevel) *)
definition level_from_json :: "json \<Rightarrow> exn + alert_level" where
  "level_from_json j =
     Inr (case find (\<lambda>l. j = JStr (show_level l)) alert_levels of Some l \<Rightarrow> l | None \<Rightarrow> AlUnknown)"

subsection \<open>Alerts\<close>

(* include/abilityalertmgr/ability_alert.hpp:72-76 AbilityAlert::ErrorLocation *)
record error_location =
  el_file :: string
  el_line :: int
  el_function :: string

(* include/abilityalertmgr/ability_alert.hpp:46-78 AbilityAlert *)
record alert =
  al_code :: int
  al_message :: string
  al_error_operation :: string
  al_level :: alert_level
  al_time :: string
  al_info :: heartbeat
  al_detail :: json
  al_context :: json
  al_location :: error_location

(* include/abilityalertmgr/ability_alert.hpp:83-83 NLOHMANN_DEFINE_TYPE_NON_INTRUSIVE(AbilityAlert::ErrorLocation) *)
definition location_from_json :: "json \<Rightarrow> exn + error_location" where
  "location_from_json j =
     rbind (read_required ''file'' get_string j) (\<lambda>f.
     rbind (read_required ''line'' get_int j) (\<lambda>l.
     rbind (read_required ''function'' get_string j) (\<lambda>fn.
       Inr \<lparr>el_file = f, el_line = l, el_function = fn\<rparr>)))"

definition location_to_json :: "error_location \<Rightarrow> json" where
  "location_to_json x =
     jput ''function'' (JStr (el_function x)) (jput ''line'' (JNum (el_line x)) (jput ''file'' (JStr (el_file x)) (JObj [])))"

(* include/abilityalertmgr/ability_alert.hpp:84-96 NLOHMANN_DEFINE_TYPE_NON_INTRUSIVE(AbilityAlert) from_json *)
definition alert_from_json :: "text_lib \<Rightarrow> json \<Rightarrow> exn + alert" where
  "alert_from_json L j =
     rbind (read_required ''code'' get_int j) (\<lambda>c.
     rbind (read_required ''message'' get_string j) (\<lambda>m.
     rbind (read_required ''error_operation'' get_string j) (\<lambda>op.
     rbind (read_required ''level'' level_from_json j) (\<lambda>lv.
     rbind (read_required ''time'' get_string j) (\<lambda>t.
     rbind (read_required ''abilityInfo'' (heartbeat_from_json L) j) (\<lambda>hb.
     rbind (read_required ''detail'' Inr j) (\<lambda>d.
     rbind (read_required ''context'' Inr j) (\<lambda>cx.
     rbind (read_required ''location'' location_from_json j) (\<lambda>lo.
       Inr \<lparr>al_code = c, al_message = m, al_error_operation = op, al_level = lv, al_time = t, al_info = hb,
            al_detail = d, al_context = cx, al_location = lo\<rparr>)))))))))"

(* include/abilityalertmgr/ability_alert.hpp:84-96 NLOHMANN_DEFINE_TYPE_NON_INTRUSIVE(AbilityAlert) to_json *)
definition alert_to_json :: "text_lib \<Rightarrow> alert \<Rightarrow> json" where
  "alert_to_json L x =
     jput ''location'' (location_to_json (al_location x))
      (jput ''context'' (al_context x)
       (jput ''detail'' (al_detail x)
        (jput ''abilityInfo'' (heartbeat_to_json L (al_info x))
         (jput ''time'' (JStr (al_time x))
          (jput ''level'' (JStr (show_level (al_level x)))
           (jput ''error_operation'' (JStr (al_error_operation x))
            (jput ''message'' (JStr (al_message x))
             (jput ''code'' (JNum (al_code x)) (JObj [])))))))))"

subsection \<open>The table\<close>

text \<open>The columns in the order of the insert statement.\<close>

(* src/abilityalertmgr/abilityalert_mgr.cpp:209-231 CREATE TABLE AbilityAlert *)
record alert_row =
  aw_code :: int
  aw_id :: string
  aw_message :: string
  aw_error_operation :: string
  aw_level :: string
  aw_input_time :: string
  aw_ability_name :: string
  aw_instance_name :: string
  aw_version :: string
  aw_state :: string
  aw_ability_port :: int
  aw_ipc_port :: int
  aw_ipc_protocol :: string
  aw_detail :: string
  aw_context :: string
  aw_file :: string
  aw_line :: int
  aw_function :: string

definition alert_row_of :: "text_lib \<Rightarrow> (string \<Rightarrow> string) \<Rightarrow> alert \<Rightarrow> alert_row" where
  "alert_row_of L numeric x =
     (let hb = al_info x in
      \<lparr>aw_code = al_code x, aw_id = show_uuid L (hb_id hb), aw_message = al_message x,
       aw_error_operation = al_error_operation x, aw_level = show_level (al_level x), aw_input_time = al_time x,
       aw_ability_name = hb_abilityName hb, aw_instance_name = hb_instanceName hb, aw_version = hb_version hb,
       aw_state = show_lifecycle (hb_state hb), aw_ability_port = uint (hb_abilityPort hb), aw_ipc_port = uint (hb_IPCPort hb),
       aw_ipc_protocol = numeric (show_protocol (hb_IPCProtocol hb)), aw_detail = dump L (al_detail x),
       aw_context = dump L (al_context x), aw_file = el_file (al_location x), aw_line = el_line (al_location x),
       aw_function = numeric (el_function (al_location x))\<rparr>)"

definition alert_key :: "alert_row \<Rightarrow> string \<times> string" where
  "alert_key r = (aw_id r, aw_input_time r)"

(* src/abilityalertmgr/abilityalert_mgr.cpp:33-118 insert *)
definition alert_insert :: "text_lib \<Rightarrow> (string \<Rightarrow> string) \<Rightarrow> alert \<Rightarrow> alert_row list \<Rightarrow> exn + alert_row list" where
  "alert_insert L numeric x db =
     (let r = alert_row_of L numeric x in
      if alert_key r \<in> alert_key ` set db
      then Inl (RuntimeError ''Failed to insert data: UNIQUE constraint failed: AbilityAlert.id, AbilityAlert.input_time'')
      else Inr (db @ [r]))"

definition c_text :: "string \<Rightarrow> string" where
  "c_text s = takeWhile (\<lambda>c. c \<noteq> CHR 0x00) s"

(* src/abilityalertmgr/abilityalert_mgr.cpp:119-123 parse_id *)
definition parse_alert_id :: "text_lib \<Rightarrow> string \<Rightarrow> exn + uuid" where
  "parse_alert_id L sv =
     (case read_uuid L sv of None \<Rightarrow> Inl (InvalidArgument (''invalid instance id '' @ sv)) | Some i \<Rightarrow> Inr i)"

(* src/abilityalertmgr/abilityalert_mgr.cpp:137-162 from_db_row *)
definition alert_from_row :: "text_lib \<Rightarrow> alert_row \<Rightarrow> exn + alert" where
  "alert_from_row L r =
     rbind (parse_alert_id L (c_text (aw_id r))) (\<lambda>i.
     rbind (level_from_sv (c_text (aw_level r))) (\<lambda>lv.
     rbind (lifecycle_from_sv (c_text (aw_state r))) (\<lambda>st.
     rbind (protocol_from_sv (c_text (aw_ipc_protocol r))) (\<lambda>pr.
     rbind (parse L (c_text (aw_detail r))) (\<lambda>d.
     rbind (parse L (c_text (aw_context r))) (\<lambda>cx.
       Inr \<lparr>al_code = aw_code r, al_message = c_text (aw_message r), al_error_operation = c_text (aw_error_operation r),
            al_level = lv, al_time = c_text (aw_input_time r),
            al_info = \<lparr>hb_abilityName = c_text (aw_ability_name r), hb_version = c_text (aw_version r),
              hb_instanceName = c_text (aw_instance_name r), hb_id = i, hb_state = st, hb_IPCProtocol = pr,
              hb_IPCPort = word_of_int (aw_ipc_port r), hb_abilityPort = word_of_int (aw_ability_port r)\<rparr>,
            al_detail = d, al_context = cx,
            al_location = \<lparr>el_file = c_text (aw_file r), el_line = aw_line r, el_function = c_text (aw_function r)\<rparr>\<rparr>))))))"

text \<open>Newest first, rows of one time in the order of insertion; a negative limit is none. The nil id asks for all.\<close>

definition newest_by :: "('a \<Rightarrow> string) \<Rightarrow> 'a list \<Rightarrow> 'a list" where
  "newest_by f xs = rev (sort_key f (rev xs))"

(* src/abilityalertmgr/abilityalert_mgr.cpp:168-205 query_ability_alerts *)
definition query_ability_alerts :: "text_lib \<Rightarrow> uuid \<Rightarrow> int \<Rightarrow> alert_row list \<Rightarrow> exn + alert list" where
  "query_ability_alerts L i n db =
     mapM_r (alert_from_row L)
       (sql_limit n (newest_by aw_input_time (filter (\<lambda>r. i = 0 \<or> aw_id r = show_uuid L i) db)))"

subsection \<open>HTTP interface\<close>

text \<open>\<open>std::stoi\<close>: leading white space, a sign, then at least one digit; what follows is ignored.\<close>

definition is_space :: "char \<Rightarrow> bool" where
  "is_space c = (c \<in> {CHR '' '', CHR 0x09, CHR 0x0A, CHR 0x0B, CHR 0x0C, CHR 0x0D})"

definition stoi :: "string \<Rightarrow> exn + int" where
  "stoi s =
     (let t = dropWhile is_space s;
          neg = (t \<noteq> [] \<and> hd t = CHR ''-'');
          u = (if t \<noteq> [] \<and> (hd t = CHR ''-'' \<or> hd t = CHR ''+'') then tl t else t);
          ds = takeWhile is_digit u;
          n = (if neg then - int (undec ds) else int (undec ds))
      in if ds = [] then Inl (InvalidArgument ''stoi'')
         else if n < - (2 ^ 31) \<or> 2 ^ 31 \<le> n then Inl (OutOfRange ''stoi'')
         else Inr n)"

(* src/abilityalertmgr/abilityalert_mgr.cpp:280-285 POST /api/ability-alert *)
definition api_alert_post :: "text_lib \<Rightarrow> (string \<Rightarrow> string) \<Rightarrow> string \<Rightarrow> alert_row list \<Rightarrow> exn + alert_row list" where
  "api_alert_post L numeric body db =
     rbind (rbind (parse L body) (alert_from_json L)) (\<lambda>x. alert_insert L numeric x db)"

(* src/abilityalertmgr/abilityalert_mgr.cpp:272-272 DEFAULT_ALERT_NUM *)
definition DEFAULT_ALERT_NUM :: int where "DEFAULT_ALERT_NUM = 20"

(* src/abilityalertmgr/abilityalert_mgr.cpp:286-309 GET /api/ability-alert *)
definition api_alert_get :: "text_lib \<Rightarrow> string \<Rightarrow> string \<Rightarrow> alert_row list \<Rightarrow> exn + json" where
  "api_alert_get L id_str latest db =
     rbind (if id_str = [] then Inr 0
            else (case read_uuid L id_str of
                    None \<Rightarrow> Inl (InvalidArgument (''invalid instance id '' @ id_str)) | Some i \<Rightarrow> Inr i)) (\<lambda>i.
     rbind (if latest = [] then Inr DEFAULT_ALERT_NUM else stoi latest) (\<lambda>n.
     rbind (query_ability_alerts L i n db) (\<lambda>as. Inr (JArr (map (alert_to_json L) as)))))"

subsection \<open>The table keeps the alerts\<close>

text \<open>What survives the columns: texts without NUL, documents the library reads back, and no text in an \<open>INT\<close> column
  that looks like a number.\<close>

definition plain_text :: "string \<Rightarrow> bool" where "plain_text s = (CHR 0x00 \<notin> set s)"

definition storable :: "text_lib \<Rightarrow> (string \<Rightarrow> string) \<Rightarrow> alert \<Rightarrow> bool" where
  "storable L numeric x =
     (list_all plain_text [al_message x, al_error_operation x, al_time x, hb_abilityName (al_info x), hb_version (al_info x),
        hb_instanceName (al_info x), el_file (al_location x), el_function (al_location x), show_uuid L (hb_id (al_info x)),
        dump L (al_detail x), dump L (al_context x)]
      \<and> json_text_ok L (al_detail x) \<and> json_text_ok L (al_context x)
      \<and> numeric (el_function (al_location x)) = el_function (al_location x)
      \<and> numeric (show_protocol (hb_IPCProtocol (al_info x))) = show_protocol (hb_IPCProtocol (al_info x)))"

lemma c_text_plain [simp]: "plain_text s \<Longrightarrow> c_text s = s"
  by (simp add: c_text_def plain_text_def takeWhile_eq_all_conv) metis

lemma level_text_roundtrip [simp]: "level_from_sv (show_level l) = Inr l"
  by (cases l) (simp_all add: level_from_sv_def alert_levels_def)

lemma level_json_roundtrip [simp]: "level_from_json (JStr (show_level l)) = Inr l"
  by (cases l) (simp_all add: level_from_json_def alert_levels_def)

lemma protocol_text_roundtrip [simp]: "protocol_from_sv (show_protocol p) = Inr p"
  by (cases p) (simp_all add: protocol_from_sv_def)

lemma plain_constants [simp]:
  "plain_text (show_level l)" "plain_text (show_lifecycle s)" "plain_text (show_protocol p)"
proof -
  show "plain_text (show_level l)" by (cases l) (simp_all add: plain_text_def)
  show "plain_text (show_lifecycle s)" by (cases s) (simp_all add: plain_text_def)
  show "plain_text (show_protocol p)" by (cases p) (simp_all add: plain_text_def)
qed

lemma alert_row_roundtrip:
  assumes "uuid_text_ok L" "storable L numeric x"
  shows "alert_from_row L (alert_row_of L numeric x) = Inr x"
  using assms by (simp add: alert_from_row_def alert_row_of_def Let_def storable_def uuid_text_ok_def json_text_ok_def
      parse_alert_id_def)

lemma insort_key_map: "insort_key f (g x) (map g ys) = map g (insort_key (f \<circ> g) x ys)"
  by (induction ys) auto

lemma newest_by_map: "newest_by f (map g xs) = map g (newest_by (f \<circ> g) xs)"
proof -
  have "sort_key f (map g ys) = map g (sort_key (f \<circ> g) ys)" for ys by (induction ys) (simp_all add: insort_key_map comp_def)
  then show ?thesis by (simp add: newest_by_def rev_map)
qed

lemma newest_by_sorted: "sorted (map f (rev (newest_by f xs)))" "set (newest_by f xs) = set xs"
  by (simp_all add: newest_by_def)

lemma sql_limit_map: "sql_limit n (map f xs) = map f (sql_limit n xs)"
  by (simp add: sql_limit_def take_map)

lemma set_sql_limit: "set (sql_limit n xs) \<subseteq> set xs"
  by (auto simp: sql_limit_def dest: in_set_takeD)

lemma show_uuid_eq: "uuid_text_ok L \<Longrightarrow> show_uuid L i = show_uuid L k \<longleftrightarrow> i = k"
  unfolding uuid_text_ok_def by (metis option.inject)

text \<open>C24: On alerts whose texts the columns keep, the table is the list of alerts: storing one appends it, and fails exactly
  when the ability has an alert with the same time already; reading gives back the alerts of an ability, or of all for
  the nil id, newest first and at most as many as asked for, a negative number asking for all.\<close>

theorem alert_table_refines_list:
  assumes "uuid_text_ok L" "\<forall>a\<in>set (x # as). storable L numeric a"
  shows "alert_insert L numeric x (map (alert_row_of L numeric) as) =
      (if \<exists>a\<in>set as. hb_id (al_info a) = hb_id (al_info x) \<and> al_time a = al_time x
       then Inl (RuntimeError ''Failed to insert data: UNIQUE constraint failed: AbilityAlert.id, AbilityAlert.input_time'')
       else Inr (map (alert_row_of L numeric) (as @ [x])))
    \<and> query_ability_alerts L i n (map (alert_row_of L numeric) as) =
      Inr (sql_limit n (newest_by al_time (filter (\<lambda>a. i = 0 \<or> hb_id (al_info a) = i) as)))"
proof
  have key: "alert_key (alert_row_of L numeric x) \<in> alert_key ` set (map (alert_row_of L numeric) as)
      \<longleftrightarrow> (\<exists>a\<in>set as. hb_id (al_info a) = hb_id (al_info x) \<and> al_time a = al_time x)"
    by (auto simp: alert_key_def alert_row_of_def Let_def image_iff show_uuid_eq [OF assms(1)]) metis
  show "alert_insert L numeric x (map (alert_row_of L numeric) as) =
      (if \<exists>a\<in>set as. hb_id (al_info a) = hb_id (al_info x) \<and> al_time a = al_time x
       then Inl (RuntimeError ''Failed to insert data: UNIQUE constraint failed: AbilityAlert.id, AbilityAlert.input_time'')
       else Inr (map (alert_row_of L numeric) (as @ [x])))"
    unfolding alert_insert_def Let_def key by simp
  let ?P = "\<lambda>a. i = 0 \<or> hb_id (al_info a) = i"
  have "filter (\<lambda>r. i = 0 \<or> aw_id r = show_uuid L i) (map (alert_row_of L numeric) as) = map (alert_row_of L numeric) (filter ?P as)"
    by (simp add: filter_map comp_def alert_row_of_def Let_def show_uuid_eq [OF assms(1)])
  moreover have "aw_input_time \<circ> alert_row_of L numeric = al_time" by (simp add: fun_eq_iff alert_row_of_def Let_def)
  ultimately have rows: "query_ability_alerts L i n (map (alert_row_of L numeric) as)
      = mapM_r (alert_from_row L) (map (alert_row_of L numeric) (sql_limit n (newest_by al_time (filter ?P as))))"
    by (simp add: query_ability_alerts_def newest_by_map sql_limit_map)
  have "alert_from_row L (alert_row_of L numeric a) = Inr a" if "a \<in> set (sql_limit n (newest_by al_time (filter ?P as)))" for a
  proof -
    have "a \<in> set as" using that set_sql_limit [of n] newest_by_sorted(2) [of al_time "filter ?P as"] by fastforce
    then show ?thesis using alert_row_roundtrip [OF assms(1)] assms(2) by simp
  qed
  then show "query_ability_alerts L i n (map (alert_row_of L numeric) as)
      = Inr (sql_limit n (newest_by al_time (filter ?P as)))"
    unfolding rows by (subst mapM_r_map [where h = "\<lambda>a. a"]) simp_all
qed

definition sample_alert :: "string \<Rightarrow> alert" where
  "sample_alert t = \<lparr>al_code = 3, al_message = ''stuck'', al_error_operation = ''move'', al_level = AlError, al_time = t,
     al_info = \<lparr>hb_abilityName = ''nav'', hb_version = ''1.0.0'', hb_instanceName = ''nav-1'', hb_id = 7,
       hb_state = LsRunning, hb_IPCProtocol = Http, hb_IPCPort = 9001, hb_abilityPort = 9002\<rparr>,
     al_detail = JNum 1, al_context = JNum 2, al_location = \<lparr>el_file = ''a.cpp'', el_line = 10, el_function = ''f''\<rparr>\<rparr>"

lemma alert_table_refines_list_witness:
  "query_ability_alerts decimal_lib 7 1 (map (alert_row_of decimal_lib (\<lambda>s. s)) [sample_alert ''09:00'', sample_alert ''10:00''])
     = Inr [sample_alert ''10:00'']"
proof -
  have ok: "\<forall>a\<in>set [sample_alert ''11:00'', sample_alert ''09:00'', sample_alert ''10:00'']. storable decimal_lib (\<lambda>s. s) a"
    by code_simp
  have "sql_limit 1 (newest_by al_time (filter (\<lambda>a. (7 :: uuid) = 0 \<or> hb_id (al_info a) = 7) [sample_alert ''09:00'', sample_alert ''10:00'']))
      = [sample_alert ''10:00'']" by code_simp
  then show ?thesis using alert_table_refines_list [OF decimal_lib_ok ok, of 7 1] by simp
qed

text \<open>A second alert of the same time is refused, and with it the request.\<close>

lemma same_time_refused:
  "alert_insert decimal_lib (\<lambda>s. s) (sample_alert t) [alert_row_of decimal_lib (\<lambda>s. s) (sample_alert t)] =
     Inl (RuntimeError ''Failed to insert data: UNIQUE constraint failed: AbilityAlert.id, AbilityAlert.input_time'')"
  by (simp add: alert_insert_def Let_def)

text \<open>The document of an alert is read back as it was written.\<close>

lemma alert_json_roundtrip:
  assumes "uuid_text_ok L" "to_int32 (al_code x) = al_code x" "to_int32 (el_line (al_location x)) = el_line (al_location x)"
  shows "alert_from_json L (alert_to_json L x) = Inr x"
  using assms
  by (simp add: alert_from_json_def alert_to_json_def location_from_json_def location_to_json_def read_required_def jat_find
      json_simps heartbeat_json_roundtrip del: jput.simps jat.simps jfind.simps)

end
