(* ===== verification/Startup.thy ===== *)
theory Startup
  imports Complex_Main Server Processes Alerts Network
begin

section \<open>The program: options, start, endpoints of its own, stop\<close>

text \<open>
  \<open>src/main.cpp\<close> with the helpers only it and the discovery use: the options of the command line
  (\<open>src/util/arg_parser.cpp\<close>), the directories of the workspace, the endpoints on the configuration and the log, the order
  in which modules are registered and stopped, the load of the machine (\<open>src/discoverymgr/system_status.cpp\<close>), its network
  addresses (\<open>src/util/discovery_utils.cpp\<close>, \<open>src/util/addr_parse.cpp\<close>) and the test endpoint of the bus
  (\<open>src/messagebus/add_test_api.cpp\<close>). Parameters: the parser of command lines, the interfaces of the machine, and what
  \<open>getloadavg\<close> tells.
\<close>

subsection \<open>Load of the machine\<close>

text \<open>Doubles are read as rationals: the code compares them and forms \<open>cores / 2\<close> and \<open>cores * 1.5\<close>, which are exact.\<close>

datatype system_load = SlIdle | SlBusy | SlOptimal | SlOverloaded | SlUnknown
datatype load_trend = TrIncreasing | TrDecreasing | TrStable | TrUnknown

(* include/discoverymgr/system_status.hpp:40-45 SystemInfo *)
record system_info =
  sy_load :: system_load
  sy_trend :: load_trend

(* src/discoverymgr/system_status.cpp:23-27 getSystemLoadTrend *)
definition system_load_trend :: "rat \<Rightarrow> rat \<Rightarrow> rat \<Rightarrow> load_trend" where
  "system_load_trend l1 l5 l15 =
     (if l1 > l5 \<and> l5 > l15 then TrIncreasing else if l1 < l5 \<and> l5 < l15 then TrDecreasing else TrStable)"

(* src/discoverymgr/system_status.cpp:28-33 getSystemLoad *)
definition system_load_of :: "rat \<Rightarrow> rat \<Rightarrow> nat \<Rightarrow> system_load" where
  "system_load_of l1 l15 cores =
     (if l15 > of_nat cores then SlOverloaded
      else if l1 < of_nat cores / 2 then SlIdle
      else if l1 \<ge> of_nat cores / 2 \<and> l1 \<le> of_nat cores * (3 / 2) then SlOptimal
      else SlBusy)"

text \<open>The POSIX branch.\<close>

(* src/discoverymgr/system_status.cpp:35-51 SystemInfo::current *)
definition system_info_current :: "(rat \<times> rat \<times> rat) option \<Rightarrow> nat \<Rightarrow> system_info" where
  "system_info_current loads concurrency =
     (case loads of
        None \<Rightarrow> \<lparr>sy_load = SlUnknown, sy_trend = TrUnknown\<rparr>
      | Some (l1, l5, l15) \<Rightarrow>
          \<lparr>sy_load = system_load_of l1 l15 (max 1 concurrency), sy_trend = system_load_trend l1 l5 l15\<rparr>)"

text \<open>The enumerations are written as their names; an unknown text is read as the first name.\<close>

fun show_load :: "system_load \<Rightarrow> string" where
  "show_load SlIdle = ''idle''"
| "show_load SlBusy = ''busy''"
| "show_load SlOptimal = ''optimal''"
| "show_load SlOverloaded = ''overloaded''"
| "show_load SlUnknown = ''unknown''"

fun show_trend :: "load_trend \<Rightarrow> string" where
  "show_trend TrIncreasing = ''increasing''"
| "show_trend TrDecreasing = ''decreasing''"
| "show_trend TrStable = ''stable''"
| "show_trend TrUnknown = ''unknown''"

(* include/discoverymgr/system_status.hpp:31-38 NLOHMANN_JSON_SERIALIZE_ENUM(SystemLoad) *)
definition load_from_json :: "json \<Rightarrow> system_load" where
  "load_from_json j =
     (case find (\<lambda>l. j = JStr (show_load l)) [SlIdle, SlBusy, SlOptimal, SlOverloaded, SlUnknown] of
        Some l \<Rightarrow> l | None \<Rightarrow> SlIdle)"

(* include/discoverymgr/system_status.hpp:24-30 NLOHMANN_JSON_SERIALIZE_ENUM(SystemLoadTrend) *)
definition trend_from_json :: "json \<Rightarrow> load_trend" where
  "trend_from_json j =
     (case find (\<lambda>t. j = JStr (show_trend t)) [TrIncreasing, TrDecreasing, TrStable, TrUnknown] of
        Some t \<Rightarrow> t | None \<Rightarrow> TrIncreasing)"

definition system_info_to_json :: "system_info \<Rightarrow> json" where
  "system_info_to_json x = jobject [(''load'', JStr (show_load (sy_load x))), (''trend'', JStr (show_trend (sy_trend x)))]"

definition system_info_from_json :: "json \<Rightarrow> exn + system_info" where
  "system_info_from_json j =
     rbind (jat ''load'' j) (\<lambda>l. rbind (jat ''trend'' j) (\<lambda>t.
       Inr \<lparr>sy_load = load_from_json l, sy_trend = trend_from_json t\<rparr>))"

lemma system_info_roundtrip: "system_info_from_json (system_info_to_json x) = Inr x"
proof -
  have "load_from_json (JStr (show_load l)) = l" for l by (cases l) (simp_all add: load_from_json_def)
  moreover have "trend_from_json (JStr (show_trend t)) = t" for t by (cases t) (simp_all add: trend_from_json_def)
  ultimately show ?thesis by (cases x) (simp add: system_info_from_json_def system_info_to_json_def jobject_def)
qed

text \<open>A machine is called overloaded by its load of the last fifteen minutes only: however high the load of the last minute,
  before that it is at most busy.\<close>

lemma load_classes:
  "system_load_of l1 l15 n = SlOverloaded \<longleftrightarrow> of_nat n < l15"
  "system_load_of l1 l15 n = SlBusy \<longleftrightarrow> l15 \<le> of_nat n \<and> of_nat n * (3 / 2) < l1"
  "system_load_of l1 l15 n \<noteq> SlUnknown"
proof -
  have h: "of_nat n / 2 \<le> of_nat n * (3 / 2 :: rat)" by simp
  then show "system_load_of l1 l15 n = SlOverloaded \<longleftrightarrow> of_nat n < l15"
    "system_load_of l1 l15 n = SlBusy \<longleftrightarrow> l15 \<le> of_nat n \<and> of_nat n * (3 / 2) < l1"
    "system_load_of l1 l15 n \<noteq> SlUnknown"
    by (auto simp: system_load_of_def)
qed

subsection \<open>Network addresses\<close>

text \<open>An interface with an address; \<open>None\<close> of the whole is a failure of \<open>getifaddrs\<close>.\<close>

datatype family = Inet | Inet6 | OtherFamily

record ifaddr =
  if_name :: string
  if_addr :: "(family \<times> string) option"

(* src/util/discovery_utils.cpp:122-143 get_all_interfaces *)
definition get_all_interfaces :: "ifaddr list option \<Rightarrow> string list" where
  "get_all_interfaces ifs = (case ifs of None \<Rightarrow> [] | Some xs \<Rightarrow> map if_name (filter (\<lambda>x. if_addr x \<noteq> None) xs))"

definition addresses_of :: "family \<Rightarrow> string \<Rightarrow> ifaddr list \<Rightarrow> string list" where
  "addresses_of fam loopback xs =
     List.map_filter (\<lambda>x. case if_addr x of
         Some (f, a) \<Rightarrow> if f = fam \<and> a \<noteq> loopback then Some a else None | None \<Rightarrow> None) xs"

(* src/util/discovery_utils.cpp:208-236 get_ipv4_addresses *)
definition get_ipv4_addresses :: "ifaddr list option \<Rightarrow> string list" where
  "get_ipv4_addresses ifs = (case ifs of None \<Rightarrow> [] | Some xs \<Rightarrow> addresses_of Inet ''127.0.0.1'' xs)"

(* src/util/discovery_utils.cpp:239-267 get_ipv6_addresses *)
definition get_ipv6_addresses :: "ifaddr list option \<Rightarrow> string list" where
  "get_ipv6_addresses ifs = (case ifs of None \<Rightarrow> [] | Some xs \<Rightarrow> addresses_of Inet6 ''::1'' xs)"

text \<open>The addresses of this machine, the loopback ones included, and then the name of the framework. Without a configured
  name the reader of the configuration throws.\<close>

(* src/util/addr_parse.cpp:47-72 get_local_ip_addresses *)
definition get_local_ip_addresses :: "ifaddr list option \<Rightarrow> exn + string \<Rightarrow> exn + string list" where
  "get_local_ip_addresses ifs framework_name =
     (case ifs of
        None \<Rightarrow> Inr []
      | Some xs \<Rightarrow> rbind framework_name (\<lambda>n.
          Inr (List.map_filter (\<lambda>x. case if_addr x of
                 Some (f, a) \<Rightarrow> if f = Inet \<or> f = Inet6 then Some a else None | None \<Rightarrow> None) xs @ [n])))"

text \<open>The addresses a node announces belong to the machine, so a position it announced is local to it.\<close>

lemma announced_is_local:
  assumes "get_local_ip_addresses ifs framework_name = Inr as" "a \<in> set (get_ipv4_addresses ifs @ get_ipv6_addresses ifs)"
  shows "a \<in> set as"
proof -
  have "a \<in> set (addresses_of f l xs) \<Longrightarrow> f = Inet \<or> f = Inet6 \<Longrightarrow>
      a \<in> set (List.map_filter (\<lambda>x. case if_addr x of
                 Some (f, a) \<Rightarrow> if f = Inet \<or> f = Inet6 then Some a else None | None \<Rightarrow> None) xs)" for f l xs
    by (induction xs) (auto simp: addresses_of_def List.map_filter_simps split: option.splits if_splits)
  then show ?thesis
    using assms by (auto simp: get_local_ip_addresses_def get_ipv4_addresses_def get_ipv6_addresses_def rbind_eq_Inr split: option.splits)
qed

text \<open>Words of a line, separated by white space; a missing word stays empty.\<close>

function words :: "string \<Rightarrow> string list" where
  "words s =
     (let t = dropWhile is_space s in
      if t = [] then [] else takeWhile (\<lambda>c. \<not> is_space c) t # words (dropWhile (\<lambda>c. \<not> is_space c) t))"
  by pat_completeness auto
termination
proof (relation "measure length")
  fix s t :: string
  assume t: "t = dropWhile is_space s" "t \<noteq> []"
  then have "\<not> is_space (hd t)" using hd_dropWhile by metis
  then have "length (dropWhile (\<lambda>c. \<not> is_space c) t) < length t"
    using t(2) by (cases t) (simp_all add: le_imp_less_Suc length_dropWhile_le)
  also have "\<dots> \<le> length s" using t(1) by (simp add: length_dropWhile_le)
  finally show "(dropWhile (\<lambda>c. \<not> is_space c) t, s) \<in> measure length" by simp
qed simp

declare words.simps [simp del]

definition word_at :: "nat \<Rightarrow> string list \<Rightarrow> string" where
  "word_at k ws = (if k < length ws then ws ! k else [])"

text \<open>The Linux branch, from the text of \<open>/proc/net/route\<close>.\<close>

(* src/util/discovery_utils.cpp:98-118 get_default_interface *)
definition get_default_interface :: "string \<Rightarrow> string" where
  "get_default_interface content =
     (case find (\<lambda>ws. word_at 1 ws = ''00000000'' \<and> word_at 2 ws \<noteq> ''00000000'') (map words (getlines (CHR 10) content)) of
        None \<Rightarrow> [] | Some ws \<Rightarrow> word_at 0 ws)"

subsection \<open>The command line\<close>

(* include/util/arg_parser.hpp:21-35 ProgramOptions *)
record program_options =
  op_show_help :: bool
  op_dump_default :: bool
  op_show_version :: bool
  op_full_config :: bool
  op_log_to_stdout :: bool
  op_config_file :: string
  op_output_file :: string
  op_verbose_log :: int

definition default_options :: program_options where
  "default_options = \<lparr>op_show_help = False, op_dump_default = False, op_show_version = False, op_full_config = False,
     op_log_to_stdout = False, op_config_file = [], op_output_file = [], op_verbose_log = 0\<rparr>"

text \<open>What the library makes of the arguments: how often an option occurs, and the value of one that takes a value.\<close>

record parsed_args =
  pa_count :: "string \<Rightarrow> nat"
  pa_value :: "string \<Rightarrow> string"
  pa_number :: "string \<Rightarrow> int"

text \<open>With \<open>--help\<close> nothing else is read.\<close>

(* src/util/arg_parser.cpp:101-143 parse_arguments *)
definition parse_arguments :: "(string list \<Rightarrow> exn + parsed_args) \<Rightarrow> string list \<Rightarrow> exn + program_options" where
  "parse_arguments lib argv =
     (case lib argv of
        Inl e \<Rightarrow> Inl (RuntimeError (what e))
      | Inr r \<Rightarrow>
          if pa_count r ''help'' > 0 then Inr (default_options\<lparr>op_show_help := True\<rparr>)
          else Inr \<lparr>op_show_help = False, op_dump_default = pa_count r ''dump'' > 0,
                 op_show_version = pa_count r ''version'' > 0, op_full_config = pa_count r ''full'' > 0,
                 op_log_to_stdout = pa_count r ''log-to-stdout'' > 0,
                 op_config_file = (if pa_count r ''config'' > 0 then pa_value r ''config'' else []),
                 op_output_file = (if pa_count r ''output'' > 0 then pa_value r ''output'' else []),
                 op_verbose_log = (if pa_count r ''verbose'' > 0 then pa_number r ''verbose'' else 0)\<rparr>)"

subsection \<open>The start\<close>

fun create_all :: "path list \<Rightarrow> fs \<Rightarrow> fs option" where
  "create_all [] F = Some F"
| "create_all (p # ps) F = (case create_directories p F of None \<Rightarrow> None | Some F' \<Rightarrow> create_all ps F')"

text \<open>\<open>None\<close> is \<open>exit(-1)\<close>.\<close>

(* src/main.cpp:71-98 init_workspace_paths *)
definition init_workspace_paths :: "path \<Rightarrow> fs \<Rightarrow> fs option" where
  "init_workspace_paths home =
     create_all [home, home @ [''log''], home @ [''packages''], home @ [''crs''], home @ [''databases'']]"

text \<open>How \<open>main\<close> ends before the modules exist, or goes on with them. \<open>texts\<close> are the two configurations the source
  embeds, the basic and the full one; \<open>cwd\<close> is the working directory. An exception that leaves \<open>main\<close> aborts it.\<close>

datatype start_result = Exit int | Aborts | Runs program_options

(* src/main.cpp:228-278 main (until the workspace) *)
definition main_start ::
  "(string list \<Rightarrow> exn + parsed_args) \<Rightarrow> string \<times> string \<Rightarrow> path \<Rightarrow> path \<Rightarrow> string list \<Rightarrow> fs \<Rightarrow> start_result \<times> fs" where
  "main_start lib texts cwd home argv F =
     (case parse_arguments lib argv of
        Inl e \<Rightarrow> (Exit 1, F)
      | Inr o1 \<Rightarrow>
          if op_show_help o1 \<or> op_show_version o1 \<or> op_dump_default o1 then (Exit 0, F)
          else if op_output_file o1 \<noteq> []
          then (case write_file (path_div cwd (op_output_file o1)) (if op_full_config o1 then snd texts else fst texts) F of
                  None \<Rightarrow> (Exit 1, F) | Some F' \<Rightarrow> (Exit 0, F'))
          else (case create_directories (home @ [''log'']) F of
                  None \<Rightarrow> (Aborts, F)
                | Some F1 \<Rightarrow> (case init_workspace_paths home F1 of
                     None \<Rightarrow> (Exit (- 1), F1) | Some F2 \<Rightarrow> (Runs o1, F2))))"

lemma create_all_lookup:
  "create_all ps F = Some F' \<Longrightarrow>
     map_of F' q = (if q \<noteq> [] \<and> (\<exists>p\<in>set ps. below q (resolve p)) then Some FDir else map_of F q)"
proof (induction ps arbitrary: F)
  case (Cons p ps)
  then obtain F1 where F1: "create_directories p F = Some F1" "create_all ps F1 = Some F'" by (auto split: option.splits)
  show ?case using Cons.IH [OF F1(2)] create_directories_lookup [OF F1(1), of q] by auto
qed simp

text \<open>The framework runs only with its directories in place, and the start has made nothing but directories on the way to
  them; in every other case but \<open>-o\<close> no file was written.\<close>

lemma runs_with_workspace:
  assumes "main_start lib texts cwd home argv F = (Runs o1, F')" "list_all plain home"
  shows "\<forall>d\<in>{''log'', ''packages'', ''crs'', ''databases''}. map_of F' (home @ [d]) = Some FDir"
    "map_of F' q \<noteq> map_of F q \<Longrightarrow> map_of F' q = Some FDir \<and>
       (\<exists>d\<in>{''log'', ''packages'', ''crs'', ''databases''}. below q (home @ [d]))"
proof -
  obtain F1 where F1: "create_directories (home @ [''log'']) F = Some F1" "init_workspace_paths home F1 = Some F'"
    using assms(1) by (auto simp: main_start_def split: sum.splits if_splits option.splits)
  have pl: "resolve home = home" "resolve (home @ [''log'']) = home @ [''log'']" "resolve (home @ [''packages'']) = home @ [''packages'']"
    "resolve (home @ [''crs'']) = home @ [''crs'']" "resolve (home @ [''databases'']) = home @ [''databases'']"
    using assms(2) by (auto intro!: resolve_plain simp: plain_def slash_def)
  note l = create_all_lookup [OF F1(2) [unfolded init_workspace_paths_def]] create_directories_lookup [OF F1(1)]
  show "\<forall>d\<in>{''log'', ''packages'', ''crs'', ''databases''}. map_of F' (home @ [d]) = Some FDir"
    using l(1) by (auto simp: pl)
  assume ch: "map_of F' q \<noteq> map_of F q"
  have b: "below q home \<Longrightarrow> below q (home @ [''log''])" using below_trans below_append by blast
  show "map_of F' q = Some FDir \<and> (\<exists>d\<in>{''log'', ''packages'', ''crs'', ''databases''}. below q (home @ [d]))"
    using l(1) [of q] l(2) [of q] ch b by (auto simp: pl split: if_splits)
qed

subsection \<open>Endpoints on the configuration and the log\<close>

definition contains_text :: "string \<Rightarrow> string \<Rightarrow> bool" where
  "contains_text p s = list_ex (\<lambda>k. take (length p) (drop k s) = p) [0..<length s + 1]"

(* src/main.cpp:123-134 is_textual_content_type *)
definition is_textual_content_type :: "string \<Rightarrow> bool" where
  "is_textual_content_type raw =
     (let t = lower (takeWhile (\<lambda>c. c \<noteq> CHR '';'') raw) in
      starts_with t ''text/'' \<or> contains_text ''json'' t \<or> contains_text ''xml'' t \<or> contains_text ''javascript'' t
      \<or> contains_text ''urlencoded'' t)"

text \<open>What the log shows of the body of a request: a text as it came, line breaks and all.\<close>

(* src/main.cpp:323-339 request logger (body) *)
definition logged_body :: "string \<Rightarrow> string \<Rightarrow> string" where
  "logged_body content_type body =
     (if body = [] then ''(empty)''
      else if is_textual_content_type content_type then body
      else ''<binary, '' @ dec (length body) @ '' bytes>'')"

datatype reply_body = PlainText string | JsonDoc json

text \<open>\<open>why\<close> is the text of the exception that parsing, or printing a text that is no UTF-8, throws.\<close>

(* src/main.cpp:148-169 build_api_config *)
definition api_config :: "config_env \<Rightarrow> yaml_lib \<Rightarrow> string \<Rightarrow> string \<Rightarrow> string \<Rightarrow> nat \<times> reply_body" where
  "api_config E Y why home config_file =
     (let p = config_path home config_file; failed = (500, PlainText (''failed to parse config: '' @ why)) in
      case ce_file E p of
        NoFile \<Rightarrow> (404, PlainText (''config file not exist: '' @ p))
      | NotRegular \<Rightarrow> failed
      | Regular content \<Rightarrow>
          (case ce_load E content of
             None \<Rightarrow> failed
           | Some y \<Rightarrow> if json_utf8 (yaml_to_json Y y) then (200, JsonDoc (yaml_to_json Y y)) else failed))"

definition log_names :: "string list" where
  "log_names = [''AbilityFramework-cpp.INFO'', ''AbilityFramework-cpp.WARNING'', ''AbilityFramework-cpp.ERROR'']"

(* src/main.cpp:175-180 build_api_log (lines) *)
definition log_line_count :: "string \<Rightarrow> nat" where
  "log_line_count param =
     (if param = [] then 100
      else nat (max 1 (min 5000 (case stoi param of Inr n \<Rightarrow> n | Inl _ \<Rightarrow> 100))))"

(* src/main.cpp:181-202 build_api_log (file) *)
definition log_file :: "fs \<Rightarrow> path \<Rightarrow> string \<Rightarrow> path option" where
  "log_file F dir level_param =
     (let level = (if level_param = [] then ''INFO'' else level_param);
          fits = (\<lambda>name. level = ''INFO'' \<or> (level = ''WARNING'' \<and> \<not> contains_text ''INFO'' name)
                     \<or> (level = ''ERROR'' \<and> contains_text ''ERROR'' name));
          there = (\<lambda>name. fs_exists F (dir @ [name])) in
      case find (\<lambda>name. fits name \<and> there name) log_names of
        Some name \<Rightarrow> Some (dir @ [name])
      | None \<Rightarrow> if there (hd log_names) then Some (dir @ [hd log_names]) else None)"

text \<open>The lines pass through a queue that keeps the last ones.\<close>

(* src/main.cpp:214-219 build_api_log (tail) *)
fun tail_lines :: "nat \<Rightarrow> string list \<Rightarrow> string list \<Rightarrow> string list" where
  "tail_lines n q [] = q"
| "tail_lines n q (l # ls) = tail_lines n (if length (q @ [l]) > n then tl (q @ [l]) else q @ [l]) ls"

text \<open>A directory in place of the file opens and gives no lines. Printing throws for a line that is no UTF-8.\<close>

(* src/main.cpp:171-225 build_api_log *)
definition api_log :: "fs \<Rightarrow> path \<Rightarrow> string \<Rightarrow> string \<Rightarrow> exn + json" where
  "api_log F dir lines_param level_param =
     (case log_file F dir level_param of
        None \<Rightarrow> Inr (JArr [])
      | Some p \<Rightarrow>
          (let content = (case read_file F p of Some c \<Rightarrow> c | None \<Rightarrow> []);
               j = JArr (map JStr (tail_lines (log_line_count lines_param) [] (getlines (CHR 10) content))) in
           if json_utf8 j then Inr j else Inl (JsonError ''[json.exception.type_error.316] invalid UTF-8 byte'')))"

lemma tail_lines_drop:
  "length q \<le> n \<Longrightarrow> tail_lines n q ls = drop (length (q @ ls) - n) (q @ ls)"
proof (induction ls arbitrary: q)
  case (Cons l ls)
  show ?case
  proof (cases "length (q @ [l]) > n")
    case True
    then have n: "length q = n" using Cons.prems by simp
    have "tail_lines n (tl (q @ [l])) ls = drop (length (tl (q @ [l]) @ ls) - n) (tl (q @ [l]) @ ls)"
      using n by (intro Cons.IH) simp
    also have "\<dots> = drop (length (q @ l # ls) - n) (q @ l # ls)"
      using n by (cases q) (simp_all add: Suc_diff_le)
    finally show ?thesis using True by simp
  next
    case False
    then have "tail_lines n (q @ [l]) ls = drop (length ((q @ [l]) @ ls) - n) ((q @ [l]) @ ls)"
      by (intro Cons.IH) simp
    then show ?thesis using False by simp
  qed
qed simp

lemma log_line_count_bounds: "1 \<le> log_line_count p" "log_line_count p \<le> 5000"
  by (auto simp: log_line_count_def)

text \<open>The log endpoint answers with the last lines of the log file, as many as asked for within 1 and 5000, unless one of
  them is no UTF-8: then it fails, whatever the level and the number asked for that reach that line.\<close>

theorem api_log_exact:
  assumes "log_file F dir level_param = Some p" "read_file F p = Some content"
  shows "let ls = getlines (CHR 10) content; n = log_line_count lines_param; last_lines = drop (length ls - n) ls in
    1 \<le> n \<and> n \<le> 5000 \<and>
    (api_log F dir lines_param level_param = Inr (JArr (map JStr last_lines)) \<longleftrightarrow> list_all utf8 last_lines) \<and>
    (is_ok (api_log F dir lines_param level_param) \<longleftrightarrow> list_all utf8 last_lines)"
  using assms log_line_count_bounds [of lines_param]
  by (simp add: api_log_def Let_def tail_lines_drop list_all_iff)

text \<open>One request with a text type and a byte that is no UTF-8 in its body is logged as it came, and the log cannot be read
  while that line is among the last ones.\<close>

lemma api_log_exact_witness:
  "\<not> is_ok (api_log [([''log''], FDir), ([''log'', ''AbilityFramework-cpp.INFO''],
        FFile (''POST '' @ logged_body ''text/plain'' [char_of (255 :: nat)]))] [''log''] ''7'' [])"
proof -
  let ?c = "''POST '' @ logged_body ''text/plain'' [char_of (255 :: nat)]"
  let ?F = "[([''log''], FDir), ([''log'', ''AbilityFramework-cpp.INFO''], FFile ?c)]"
  have "log_file ?F [''log''] [] = Some [''log'', ''AbilityFramework-cpp.INFO'']" by code_simp
  moreover have "read_file ?F [''log'', ''AbilityFramework-cpp.INFO''] = Some ?c" by code_simp
  moreover have "\<not> list_all utf8 (let ls = getlines (CHR 10) ?c in drop (length ls - log_line_count ''7'') ls)" by code_simp
  ultimately show ?thesis using api_log_exact [of ?F "[''log'']" "[]" _ ?c "''7''"] by (simp add: Let_def)
qed

subsection \<open>Modules and the end\<close>

datatype fw_module = ModTask | ModLifecycle | ModResource | ModSubprocess | ModTaskStatus | ModController

fun fw_module_name :: "fw_module \<Rightarrow> string" where
  "fw_module_name ModTask = ''TaskMgr''"
| "fw_module_name ModLifecycle = ''LifecycleMgr''"
| "fw_module_name ModResource = ''ResourceMgr''"
| "fw_module_name ModSubprocess = ''SubprocessMgr''"
| "fw_module_name ModTaskStatus = ''TaskStatusMgr''"
| "fw_module_name ModController = ''ControllerMgr''"

(* src/main.cpp:299-302 main (add_modules) *)
definition framework_modules :: "fw_module list" where
  "framework_modules = [ModTask, ModLifecycle, ModResource, ModSubprocess, ModTaskStatus, ModController]"

datatype stop_event = StopTimers | StopHttp | ExitModule fw_module | StopLoop | CloseDatabase

text \<open>What the handler of \<open>SIGINT\<close> does, as the list of its steps.\<close>

(* src/main.cpp:388-401 main (signal handler) *)
definition on_sigint :: "fw_module bus \<Rightarrow> stop_event list" where
  "on_sigint B = snd (stop_all_modules (\<lambda>m w. w @ [ExitModule m]) B [StopTimers, StopHttp]) @ [StopLoop, CloseDatabase]"

text \<open>The server stops before the first module and the database closes after the last one; the modules exit in the reverse
  of the order of their registration, so that the manager of tasks, on which the others rely, is the last.\<close>

lemma shutdown_order:
  "on_sigint (fst (add_modules fw_module_name (\<lambda>m w. w) framework_modules (empty_bus, ())))
     = [StopTimers, StopHttp] @ map ExitModule (rev framework_modules) @ [StopLoop, CloseDatabase]"
  by (simp add: on_sigint_def stop_all_modules_def stop_loop_rev empty_bus_def framework_modules_def)

text \<open>Every name of a message of the framework is registered.\<close>

lemma framework_names:
  "dom (bus_map (fst (add_modules fw_module_name (\<lambda>m w. w) framework_modules (empty_bus, ()))))
     = {''TaskMgr'', ''LifecycleMgr'', ''ResourceMgr'', ''SubprocessMgr'', ''TaskStatusMgr'', ''ControllerMgr''}"
  by (auto simp: add_modules_def framework_modules_def add_module_def empty_bus_def)

subsection \<open>The test endpoint of the bus\<close>

(* src/messagebus/add_test_api.cpp:23-32 ExternalMessage *)
record external_message =
  xm_source :: string
  xm_destination :: string
  xm_operation :: string
  xm_payload :: string
  xm_synchronous :: bool

definition external_message_from_json :: "json \<Rightarrow> exn + external_message" where
  "external_message_from_json j =
     rbind (read_required ''source'' get_string j) (\<lambda>s.
     rbind (read_required ''destination'' get_string j) (\<lambda>d.
     rbind (read_required ''operation'' get_string j) (\<lambda>op.
     rbind (read_required ''payload'' get_string j) (\<lambda>p.
     rbind (read_required ''synchronous'' get_bool j) (\<lambda>b.
       Inr \<lparr>xm_source = s, xm_destination = d, xm_operation = op, xm_payload = p, xm_synchronous = b\<rparr>)))))"

(* src/messagebus/add_test_api.cpp:33-58 ExternalMessage::submit_sync, submit *)
definition external_to_message :: "uuid \<Rightarrow> time \<Rightarrow> external_message \<Rightarrow> 'x message" where
  "external_to_message i now x = make_message i now (xm_source x) (xm_destination x) (xm_operation x) (xm_payload x)"

(* src/messagebus/add_test_api.cpp:62-95 POST /api/internal/test-message *)
definition api_test_message ::
  "text_lib \<Rightarrow> ('m \<Rightarrow> ('x, 'w) handler) \<Rightarrow> 'm bus \<Rightarrow> uuid \<Rightarrow> uuid \<Rightarrow> time \<Rightarrow> time \<Rightarrow> time \<Rightarrow> string \<Rightarrow> 'w
     \<Rightarrow> (exn + (nat \<times> string)) \<times> 'w" where
  "api_test_message L rcv B i i2 now elapsed timeout body w =
     (case rbind (parse L body) external_message_from_json of
        Inl e \<Rightarrow> (Inl e, w)
      | Inr x \<Rightarrow>
          if xm_synchronous x
          then (case send_sync L rcv B i2 now elapsed timeout (external_to_message i now x) w of
                  (Inl e, w') \<Rightarrow> (Inl e, w')
                | (Inr (Inr m), w') \<Rightarrow> (Inr (200, msg_content m), w')
                | (Inr (Inl e), w') \<Rightarrow> (Inr (500, e), w'))
          else (case send rcv B (external_to_message i now x) w of
                  (Inr u, w') \<Rightarrow> (Inr (200, ''OK''), w')
                | (Inl e, w') \<Rightarrow> (Inr (500, e), w')))"

text \<open>Any client reaches every operation of every module through this endpoint: it hands on the message unchecked.\<close>

lemma test_message_reaches_modules:
  assumes "rbind (parse L body) external_message_from_json = Inr x" "\<not> xm_synchronous x" "xm_destination x \<noteq> []"
    and "bus_map B (xm_destination x) = Some md"
  shows "snd (api_test_message L rcv B i i2 now elapsed timeout body w) = snd (rcv md (external_to_message i now x) w)"
  using assms by (simp add: api_test_message_def send_def external_to_message_def make_message_def Let_def split: prod.split sum.split ending.split)

end
