(* ===== verification/ResourceHttp.thy ===== *)
theory ResourceHttp
  imports Launch
begin

section \<open>The HTTP interface of the resource manager\<close>

text \<open>
  \<open>src/resourcemgr/resource_mgr_http_apis.cpp\<close>, without the endpoints for occupation (\<open>Ownership\<close>) and the tasks it
  builds (\<open>Launch\<close>). A handler reads or changes the world and gives a status with a body, or an exception, which
  \<open>handle_error_to_http\<close> answers. The indentation of a printed document is not modelled.
\<close>

datatype reply_body = JsonBody json | TextBody string

type_synonym answer = "nat \<times> reply_body"

abbreviation ok_json :: "json \<Rightarrow> exn + answer" where "ok_json j \<equiv> Inr (200, JsonBody j)"

definition error_doc :: "string \<Rightarrow> json" where "error_doc m = jobject [(''error'', JStr m)]"

subsection \<open>Resources\<close>

text \<open>A missing label \<open>fwk.io/onNode/id\<close> throws; a missing specification is undefined.\<close>

definition differs :: "string \<Rightarrow> (string, string) omap \<Rightarrow> string \<Rightarrow> bool" where
  "differs k params v = (case map_of params k of None \<Rightarrow> False | Some w \<Rightarrow> v \<noteq> w)"

definition null_spec :: exn where "null_spec = Undefined ''dereference of a null specification''"

(* src/resourcemgr/resource_mgr_http_apis.cpp:32-54 filter_cr *)
definition filter_cr :: "(string, string) omap \<Rightarrow> ability_cr \<Rightarrow> exn + bool" where
  "filter_cr params cr =
     (let labels = md_labels (acr_metadata cr);
          spec = (\<lambda>k f g. if map_of params k = None then g
                          else case acr_spec cr of None \<Rightarrow> Inl null_spec
                             | Some sp \<Rightarrow> if differs k params (f (spec_own sp)) then Inr False else g)
      in spec ''abilityName'' sf_abilityName
        (spec ''version'' (\<lambda>s. version_to_string (sf_version s))
        (spec ''package'' sf_package
        (if map_of params ''nodeId'' \<noteq> None \<and> map_of labels ''fwk.io/onNode/id'' = None
         then Inl (OutOfRange ''_Map_base::at'')
         else if map_of params ''nodeId'' \<noteq> None \<and> map_of labels ''fwk.io/onNode/id'' \<noteq> map_of params ''nodeId''
         then Inr False
         else if map_of params ''nodeName'' \<noteq> None \<and> map_of labels ''fwk.io/onNode/name'' \<noteq> None
                 \<and> map_of labels ''fwk.io/onNode/name'' \<noteq> map_of params ''nodeName''
         then Inr False
         else spec ''nodeAddr'' sf_position (Inr True)))))"

fun filter_r :: "('a \<Rightarrow> 'e + bool) \<Rightarrow> 'a list \<Rightarrow> 'e + 'a list" where
  "filter_r f [] = Inr []"
| "filter_r f (x # xs) = rbind (f x) (\<lambda>b. rbind (filter_r f xs) (\<lambda>ys. Inr (if b then x # ys else ys)))"

(* src/resourcemgr/resource_mgr_http_apis.cpp:306-310 has_kind_device *)
definition has_kind_device :: "(string, string) omap \<Rightarrow> bool" where
  "has_kind_device params =
     (case map_of params ''kind'' of None \<Rightarrow> False | Some k \<Rightarrow> k = ''device'' \<or> k = ''Device'')"

definition device_list :: "text_lib \<Rightarrow> rdb \<Rightarrow> exn + answer" where
  "device_list L T = rbind (get_all_device_cr L T) (\<lambda>crs. ok_json (JArr (map (device_cr_to_json L) crs)))"

(* src/resourcemgr/resource_mgr_http_apis.cpp:320-340 GET /api/cr/:id *)
definition api_cr_get :: "text_lib \<Rightarrow> string \<Rightarrow> rdb \<Rightarrow> exn + answer" where
  "api_cr_get L id_str T =
     (case read_uuid L id_str of
        None \<Rightarrow> Inl (InvalidArgument ''invalid uuid'')
      | Some i \<Rightarrow>
          rbind (resolve_ability_cr_by_id L T i) (\<lambda>a. case a of
            Some cr \<Rightarrow> ok_json (ability_cr_to_json L cr)
          | None \<Rightarrow> rbind (get_device_cr L T i) (\<lambda>d. case d of
              Some cr \<Rightarrow> ok_json (device_cr_to_json L cr)
            | None \<Rightarrow> Inl (ProblemEx 404 ''non_exist_cr'' ''cr does not exist'' [] (show_uuid L i)))))"

(* src/resourcemgr/resource_mgr_http_apis.cpp:342-362 GET /api/cr *)
definition api_cr_list :: "text_lib \<Rightarrow> (string, string) omap \<Rightarrow> rdb \<Rightarrow> exn + answer" where
  "api_cr_list L params T =
     (if has_kind_device params then device_list L T
      else rbind (get_all_ability_cr L T) (\<lambda>crs.
           rbind (filter_r (filter_cr params) crs) (\<lambda>r. ok_json (JArr (map (ability_cr_to_json L) r)))))"

(* src/resourcemgr/resource_mgr_http_apis.cpp:364-368 GET /api/device_crs *)
definition api_device_crs :: "text_lib \<Rightarrow> rdb \<Rightarrow> exn + answer" where
  "api_device_crs L T = device_list L T"

text \<open>Templates come from packages and files only; the two endpoints that changed them are gone. The details are
  sentences for the reader and left out.\<close>

(* src/resourcemgr/resource_mgr_http_apis.cpp:372-389 POST /api/cr, DELETE /api/cr/:id *)
definition api_cr_removed :: answer where
  "api_cr_removed = (410, JsonBody (error_doc ''endpoint removed''))"

(* src/resourcemgr/resource_mgr_http_apis.cpp:391-399 GET /ability/:id/adjust-status *)
definition api_adjust_status :: "exn + answer" where
  "api_adjust_status = Inl (LogicError ''Get(/ability/:id/adjust-status) is not implemented'')"

subsection \<open>Resource files\<close>

(* src/resourcemgr/resource_mgr_http_apis.cpp:200-218 GET /api/crs *)
definition api_crs :: "store_ext \<Rightarrow> fs \<Rightarrow> exn + answer" where
  "api_crs X F =
     (let dir = se_home X @ [''crs''] in
      if \<not> fs_exists F dir then ok_json (error_doc ''crs directory not found'')
      else if \<not> is_directory F dir then Inl (fs_error ''directory iterator cannot open directory'' dir)
      else
        (let names = concat (map (\<lambda>(p, n). case n of FDir \<Rightarrow> [] | FFile _ \<Rightarrow> if extension_is_yaml p then [filename p] else [])
                            (fs_children F dir))
         in ok_json (jobject [(''files'', JArr (map JStr names)), (''total'', JNum (int (length names)))])))"

text \<open>Assigning to \<open>node[k]\<close> turns null into a mapping and a sequence into a mapping of its indices.\<close>

fun yput :: "string \<Rightarrow> yaml \<Rightarrow> (string \<times> yaml) list \<Rightarrow> (string \<times> yaml) list" where
  "yput k v [] = [(k, v)]"
| "yput k v ((k', v') # m) = (if k = k' then (k, v) # m else (k', v') # yput k v m)"

fun yentries :: "yaml \<Rightarrow> exn + (string \<times> yaml) list" where
  "yentries (YMap m) = Inr m"
| "yentries YNull = Inr []"
| "yentries (YSeq xs) = Inr (zip (map dec [0..<length xs]) xs)"
| "yentries (YScalar s) = Inl (RuntimeError ''operator[] call on a scalar'')"

definition set_autostart :: "bool \<Rightarrow> yaml \<Rightarrow> exn + yaml" where
  "set_autostart b y =
     rbind (yentries y) (\<lambda>m.
     rbind (yentries (case map_of m ''spec'' of None \<Rightarrow> YNull | Some s \<Rightarrow> s)) (\<lambda>sp.
       Inr (YMap (yput ''spec'' (YMap (yput ''autoStart'' (YScalar (if b then ''true'' else ''false'')) sp)) m))))"

text \<open>The new text goes to a temporary file beside the old one, which then takes its place; \<open>emit\<close> prints the document.
  Renaming is tried three times, with the same result here.\<close>

definition replace_text :: "path \<Rightarrow> string \<Rightarrow> fs \<Rightarrow> (exn + unit) \<times> fs" where
  "replace_text p c F =
     (let tmp = butlast (resolve p) @ [filename (resolve p) @ ''.tmp''] in
      case write_file tmp c F of
        None \<Rightarrow> (Inl (RuntimeError ''Failed to create temporary file''), F)
      | Some F1 \<Rightarrow>
          (case write_file p c (remove_all tmp F1) of
             None \<Rightarrow> (Inl (RuntimeError ''Failed to replace original file after 3 attempts''), remove_all tmp F1)
           | Some F2 \<Rightarrow> (Inr (), F2)))"

definition file_problem :: "string \<Rightarrow> exn \<Rightarrow> exn" where
  "file_problem name e =
     ProblemEx 500 ''file_operation_error'' ''File operation error'' (''Failed to modify CR file: '' @ what e) name"

(* src/resourcemgr/resource_mgr_http_apis.cpp:220-303 POST /api/crs/autostart *)
definition api_crs_autostart :: "store_ext \<Rightarrow> text_lib \<Rightarrow> (yaml \<Rightarrow> string) \<Rightarrow> string \<Rightarrow> fs \<Rightarrow> (exn + answer) \<times> fs" where
  "api_crs_autostart X L emit body F =
     (case parse L body of
        Inl e \<Rightarrow> (Inl e, F)
      | Inr j \<Rightarrow>
          (case (jfind ''filename'' j, jfind ''autoStart'' j) of
             (Some (JStr name), Some (JBool b)) \<Rightarrow>
               (let p = path_div (se_home X @ [''crs'']) name in
                if \<not> fs_exists F p then (Inl (InvalidArgument (''CR file not found: '' @ Files.path_text p)), F)
                else
                  (case (case read_yaml_from_path X F p of
                           Inl _ \<Rightarrow> Inl (RuntimeError ''failed to read yaml file'')
                         | Inr y \<Rightarrow> set_autostart b y) of
                     Inl e \<Rightarrow> (Inl (file_problem name e), F)
                   | Inr y \<Rightarrow>
                       (case replace_text p (emit y) F of
                          (Inl e, F1) \<Rightarrow> (Inl (file_problem name e), F1)
                        | (Inr _, F1) \<Rightarrow>
                            (ok_json (jobject [(''success'', JBool True), (''filename'', JStr name), (''autoStart'', JBool b)]), F1))))
           | (Some (JStr name), _) \<Rightarrow>
               (Inl (InvalidArgument (''request body must contain boolean '' @ quoted ''autoStart'' @ '' field'')), F)
           | _ \<Rightarrow> (Inl (InvalidArgument (''request body must contain string '' @ quoted ''filename'' @ '' field'')), F)))"

subsection \<open>Definitions\<close>

text \<open>An absent parameter reads as the empty text, and asks for nothing.\<close>

definition param :: "string \<Rightarrow> (string, string) omap \<Rightarrow> string" where
  "param k params = (case map_of params k of None \<Rightarrow> [] | Some v \<Rightarrow> v)"

(* src/resourcemgr/resource_mgr_http_apis.cpp:546-552 filter_crd_by_item *)
definition filter_crd_by_item :: "string \<Rightarrow> (ability_crd \<Rightarrow> string) \<Rightarrow> (ability_crd \<Rightarrow> bool) option" where
  "filter_crd_by_item v f = (if v = [] then None else Some (\<lambda>crd. f crd = v))"

(* src/resourcemgr/resource_mgr_http_apis.cpp:554-566 make_crd_filters *)
definition make_crd_filters :: "(string, string) omap \<Rightarrow> (ability_crd \<Rightarrow> bool) list" where
  "make_crd_filters params =
     List.map_filter (\<lambda>f. f)
       [filter_crd_by_item (param ''abilityName'' params) (\<lambda>crd. md_name (crd_metadata crd)),
        filter_crd_by_item (param ''package'' params) crd_packageName]"

(* src/resourcemgr/resource_mgr_http_apis.cpp:568-572 test_crd_filters *)
definition test_crd_filters :: "(ability_crd \<Rightarrow> bool) list \<Rightarrow> ability_crd \<Rightarrow> bool" where
  "test_crd_filters fs crd = list_all (\<lambda>f. f crd) fs"

(* src/resourcemgr/resource_mgr_http_apis.cpp:637-655 GET /api/crd *)
definition api_crd_list :: "text_lib \<Rightarrow> (string, string) omap \<Rightarrow> rdb \<Rightarrow> exn + answer" where
  "api_crd_list L params T =
     (if has_kind_device params
      then rbind (get_all_device_crd L T) (\<lambda>crds. ok_json (JArr (map (device_crd_to_json L) crds)))
      else
        (let fs = make_crd_filters params in
         rbind (get_all_ability_crd L T) (\<lambda>crds.
         rbind (mapM_r (ability_crd_to_json L) (if fs = [] then crds else filter (test_crd_filters fs) crds))
           (\<lambda>docs. ok_json (JArr docs)))))"

(* src/resourcemgr/resource_mgr_http_apis.cpp:615-630 handle_find_crd_by_name *)
definition handle_find_crd_by_name :: "text_lib \<Rightarrow> string \<Rightarrow> string \<Rightarrow> rdb \<Rightarrow> exn + answer option" where
  "handle_find_crd_by_name L name version T =
     rbind (get_ability_crd L T name version) (\<lambda>a. case a of
       Some crd \<Rightarrow> rbind (ability_crd_to_json L crd) (\<lambda>j. Inr (Some (200, JsonBody j)))
     | None \<Rightarrow> rbind (get_device_crd L T name version) (\<lambda>d. case d of
         Some crd \<Rightarrow> Inr (Some (200, JsonBody (device_crd_to_json L crd)))
       | None \<Rightarrow> Inr None))"

definition path_param :: "string \<Rightarrow> (string, string) omap \<Rightarrow> exn + string" where
  "path_param k ps = (case map_of ps k of None \<Rightarrow> Inl (OutOfRange ''_Map_base::at'') | Some v \<Rightarrow> Inr v)"

text \<open>The log line at the start reads a parameter \<open>id\<close>, which the pattern \<open>/api/crd/:name/:version\<close> does not bind.\<close>

(* src/resourcemgr/resource_mgr_http_apis.cpp:657-674 GET /api/crd/:name/:version *)
definition api_crd_get :: "text_lib \<Rightarrow> (string, string) omap \<Rightarrow> rdb \<Rightarrow> exn + answer" where
  "api_crd_get L ps T =
     rbind (path_param ''id'' ps) (\<lambda>_.
     rbind (path_param ''name'' ps) (\<lambda>name.
     rbind (path_param ''version'' ps) (\<lambda>version.
     rbind (handle_find_crd_by_name L name version T) (\<lambda>r. case r of
       Some a \<Rightarrow> Inr a
     | None \<Rightarrow>
         Inl (ProblemEx 400 ''invalid_argument'' ''invalid argument''
               (''name '' @ name @ '' version '' @ version @ '' is neither a device name nor an abiility name'')
               (''name '' @ name @ '' version '' @ version))))))"

subsection \<open>Manifests\<close>

(* src/resourcemgr/resource_mgr_http_apis.cpp:686-699 GET /api/manifest/:name/:version *)
definition api_manifest_get :: "ability_package list \<Rightarrow> string \<Rightarrow> string \<Rightarrow> exn + answer" where
  "api_manifest_get pkgs name version =
     (case get_ability_manifest pkgs name version of
        None \<Rightarrow> Inr (404, JsonBody (error_doc ''manifest not found''))
      | Some m \<Rightarrow> rbind (manifest_to_json m) ok_json)"

definition manifest_entry :: "ability_package \<Rightarrow> manifest \<Rightarrow> json" where
  "manifest_entry pkg m =
     (let sch = si_openAPIV3Schema (mf_schema m) in
      jobject [(''abilityName'', JStr (mf_abilityName m)), (''kind'', JStr (mf_kind m)), (''package'', JStr (ap_name pkg)),
        (''version'', JStr (version_to_string (ap_version pkg))),
        (''taskCount'', JNum (case mf_tasks m of JArr xs \<Rightarrow> int (length xs) | _ \<Rightarrow> 0)),
        (''hasConfigSchema'', JBool (sch \<noteq> JNull \<and> \<not> jempty sch))])"

(* src/resourcemgr/resource_mgr_http_apis.cpp:704-721 GET /api/manifest *)
definition api_manifest_list :: "ability_package list \<Rightarrow> exn + answer" where
  "api_manifest_list pkgs =
     ok_json (JArr (concat (map (\<lambda>pkg. map (\<lambda>p. manifest_entry pkg (snd p)) (ap_manifests pkg)) pkgs)))"

subsection \<open>Packages and skills\<close>

(* src/resourcemgr/resource_mgr_http_apis.cpp:574-585 check_package_media_type *)
definition check_package_media_type :: "string \<Rightarrow> exn + string" where
  "check_package_media_type ty =
     (if ty = ''application/zip'' then Inr ''zip''
      else Inl (ProblemEx 400 ''invalid_application_type'' ''invalid application type''
             (''currently only application/zip is supported, but found '' @ ty) []))"

(* include/resourcemgr/store_mgr.hpp:57-61 StoreManager::AddPackageRes to_json *)
definition add_res_to_json :: "add_package_res \<Rightarrow> json" where
  "add_res_to_json r = jobject [(''actually_installed'', JBool (ap_installed r)), (''spec'', pkg_spec_to_json (ap_spec r))]"

text \<open>An upload is a body with its media type, or a form whose part \<open>file\<close>, if present, has both.\<close>

datatype upload = SingleFile string string | FormData "(string \<times> string) option"

definition add_upload :: "store_ext \<Rightarrow> path \<Rightarrow> bool \<Rightarrow> string \<Rightarrow> string \<Rightarrow> fs \<Rightarrow> (exn + answer) \<times> fs" where
  "add_upload X tmp force ty data F =
     (case check_package_media_type ty of
        Inl e \<Rightarrow> (Inl e, F)
      | Inr ft \<Rightarrow>
          (case add_package X tmp ft data force F of
             (Inl e, F1) \<Rightarrow> (Inl e, F1)
           | (Inr (Inl m), F1) \<Rightarrow> (Inl (RuntimeError m), F1)
           | (Inr (Inr r), F1) \<Rightarrow> (ok_json (add_res_to_json r), F1)))"

(* src/resourcemgr/resource_mgr_http_apis.cpp:586-614 handle_upload_package_single_file, handle_upload_package_form_data *)
fun handle_upload :: "store_ext \<Rightarrow> path \<Rightarrow> bool \<Rightarrow> upload \<Rightarrow> fs \<Rightarrow> (exn + answer) \<times> fs" where
  "handle_upload X tmp force (SingleFile ty data) F = add_upload X tmp force ty data F"
| "handle_upload X tmp force (FormData None) F =
     (Inl (InvalidArgument (''need '' @ quoted ''file'' @ '' entry in form data'')), F)"
| "handle_upload X tmp force (FormData (Some (ty, data))) F = add_upload X tmp force ty data F"

text \<open>A round of the manager follows; its exceptions are logged.\<close>

definition world_update :: "launch_ext \<Rightarrow> launch_world \<Rightarrow> (exn + unit) \<times> launch_world" where
  "world_update X w = (let (r, A) = update (lx_load X) (lw_env w) (lw_mgr w) in (r, w\<lparr>lw_mgr := A\<rparr>))"

(* src/resourcemgr/resource_mgr_http_apis.cpp:795-807 POST /api/package *)
definition api_package_post ::
  "launch_ext \<Rightarrow> (string, string) omap \<Rightarrow> upload \<Rightarrow> launch_world \<Rightarrow> (exn + answer) \<times> launch_world" where
  "api_package_post X params u w =
     (let (r, F) = handle_upload (lx_store X) (lx_tmp X) (param ''force'' params = ''true'') u (world_files w);
          w1 = with_files F w
      in case r of Inl e \<Rightarrow> (Inl e, w1) | Inr a \<Rightarrow> (Inr a, snd (world_update X w1)))"

(* src/resourcemgr/resource_mgr_http_apis.cpp:809-812 GET /api/package *)
definition api_package_list :: "exn + answer" where
  "api_package_list = ok_json (JArr [])"

(* src/resourcemgr/resource_mgr_http_apis.cpp:814-825 DELETE /api/package/:name/:version *)
definition api_package_delete :: "launch_ext \<Rightarrow> string \<Rightarrow> string \<Rightarrow> launch_world \<Rightarrow> (exn + answer) \<times> launch_world" where
  "api_package_delete X name version w =
     (let (r, F) = remove_package (lx_store X) \<lparr>ps_package = name, ps_version = version, ps_arch = []\<rparr> (world_files w);
          w1 = with_files F w
      in case r of
           Inl m \<Rightarrow> (Inl (RuntimeError m), w1)
         | Inr s \<Rightarrow> (ok_json (jobject [(''result'', JStr s)]), snd (world_update X w1)))"

(* src/resourcemgr/resource_mgr_http_apis.cpp:724-739 POST /api/internal/test-download-package *)
definition api_test_download :: "launch_ext \<Rightarrow> string \<Rightarrow> launch_world \<Rightarrow> (exn + answer) \<times> launch_world" where
  "api_test_download X body w =
     (case rbind (parse (lx_text X) body) pkg_spec_from_json of
        Inl e \<Rightarrow> (Inl e, w)
      | Inr spec \<Rightarrow>
          (case download_action X spec w of
             (Inl e, w1) \<Rightarrow> (Inl e, w1)
           | (Inr _, w1) \<Rightarrow> (Inr (200, TextBody ''OK''), w1)))"

(* src/resourcemgr/resource_mgr_http_apis.cpp:837-849 GET /api/skill *)
definition api_skill_list :: "path \<Rightarrow> fs \<Rightarrow> exn + answer" where
  "api_skill_list home F =
     ok_json (JArr (map (\<lambda>s. jobject [(''package'', JStr (sk_package s)), (''version'', JStr (sk_version s)),
         (''filename'', JStr (sk_filename s)), (''size'', JNum (int (sk_size s))), (''title'', JStr (sk_title s))])
       (list_all_skills home F)))"

(* src/resourcemgr/resource_mgr_http_apis.cpp:852-871 GET /api/skill/:package/:version/:filename *)
definition api_skill_get :: "path \<Rightarrow> string \<Rightarrow> string \<Rightarrow> string \<Rightarrow> fs \<Rightarrow> exn + answer" where
  "api_skill_get home pkg version name F =
     (case read_skill home pkg version name F of
        None \<Rightarrow> Inr (404, JsonBody (jobject [(''error'', JStr ''skill not found''), (''package'', JStr pkg),
                  (''version'', JStr version), (''filename'', JStr name)]))
      | Some c \<Rightarrow> Inr (200, TextBody c))"

subsection \<open>Instances\<close>

(* src/resourcemgr/resource_mgr_http_apis.cpp:879-894 instance_info_to_json *)
definition instance_info_to_json :: "text_lib \<Rightarrow> instance_info \<Rightarrow> json" where
  "instance_info_to_json L info = jput ''spec_snapshot'' (ii_spec_snapshot info) (instance_summary_to_json L info)"

(* src/resourcemgr/resource_mgr_http_apis.cpp:897-908 find_template *)
definition find_template :: "text_lib \<Rightarrow> rdb \<Rightarrow> string \<Rightarrow> exn + ability_cr option" where
  "find_template L T ref =
     rbind (case read_uuid L ref of None \<Rightarrow> Inr None | Some i \<Rightarrow> get_ability_cr L T i) (\<lambda>r. case r of
       Some cr \<Rightarrow> Inr (Some cr)
     | None \<Rightarrow> rbind (get_all_ability_cr L T) (\<lambda>crs. Inr (find (\<lambda>cr. md_name (acr_metadata cr) = ref) crs)))"

(* src/resourcemgr/resource_mgr_http_apis.cpp:916-922 GET /api/instance *)
definition api_instance_list :: "text_lib \<Rightarrow> rdb \<Rightarrow> exn + answer" where
  "api_instance_list L T = ok_json (JArr (map (instance_info_to_json L) (get_all_ability_instances L T)))"

abbreviation bad_uuid :: "exn + answer" where "bad_uuid \<equiv> Inr (400, JsonBody (error_doc ''invalid uuid''))"
abbreviation no_instance :: "exn + answer" where "no_instance \<equiv> Inr (404, JsonBody (error_doc ''instance not found''))"

(* src/resourcemgr/resource_mgr_http_apis.cpp:925-940 GET /api/instance/:id *)
definition api_instance_get :: "text_lib \<Rightarrow> string \<Rightarrow> rdb \<Rightarrow> exn + answer" where
  "api_instance_get L id_str T =
     (case read_uuid L id_str of
        None \<Rightarrow> bad_uuid
      | Some i \<Rightarrow> (case get_ability_instance L T i of None \<Rightarrow> no_instance | Some info \<Rightarrow> ok_json (instance_info_to_json L info)))"

(* src/resourcemgr/resource_mgr_http_apis.cpp:188-196 parse_json_from_req *)
definition parse_json_from_req :: "cr_env \<Rightarrow> string \<Rightarrow> string \<Rightarrow> exn + json" where
  "parse_json_from_req E content_type body =
     (if content_type = ''application/json'' then parse (ce_text E) body
      else if content_type = ''application/yaml''
      then rbind (se_load_yaml (ce_store E) body) (\<lambda>y. Inr (yaml_to_json (ce_yaml E) y))
      else parse (ce_text E) body)"

text \<open>The running instance that bars a new one of its ability.\<close>

definition singleton_bar :: "text_lib \<Rightarrow> rdb \<Rightarrow> ability_cr \<Rightarrow> instance_info option" where
  "singleton_bar L T cr =
     (case acr_spec cr of
        None \<Rightarrow> None
      | Some sp \<Rightarrow>
          if \<not> opt_or True (sf_singleton (spec_own sp)) then None
          else (case get_active_instances_by_ability_name L T (sf_abilityName (spec_own sp)) of [] \<Rightarrow> None | x # _ \<Rightarrow> Some x))"

definition singleton_doc :: "text_lib \<Rightarrow> ability_cr \<Rightarrow> instance_info \<Rightarrow> json" where
  "singleton_doc L cr x =
     jobject [(''error'', JStr ''singleton constraint''),
       (''detail'', JStr (''ability '' @ (case acr_spec cr of None \<Rightarrow> [] | Some sp \<Rightarrow> sf_abilityName (spec_own sp))
                          @ '' is singleton and already has a running instance'')),
       (''running_instance_id'', JStr (show_uuid L (ii_instance_id x)))]"

text \<open>The ids a task chain draws: of the download, of the chain, and of its other tasks.\<close>

record chain_ids =
  ci_download :: uuid
  ci_chain :: uuid
  ci_tasks :: "uuid list"

(* src/resourcemgr/resource_mgr_http_apis.cpp:980-985 POST /api/instance (task) *)
definition start_task ::
  "launch_ext \<Rightarrow> task_env \<Rightarrow> chain_ids \<Rightarrow> ability_package list \<Rightarrow> ability_cr \<Rightarrow> ability_spec \<Rightarrow> bool \<Rightarrow> bool \<Rightarrow> launch_world task" where
  "start_task X E ids pkgs cr sp start connect =
     (case get_ability_manifest pkgs (sf_abilityName (spec_own sp)) (version_to_string (sf_version (spec_own sp))) of
        Some _ \<Rightarrow> make_task_start_ability X E (ci_tasks ids) (ci_chain ids) cr start connect
      | None \<Rightarrow> make_task_download_pkg_and_start_ability X E (ci_tasks ids) (ci_download ids) (ci_chain ids) cr sp start connect)"

text \<open>\<open>submit\<close> hands the task to the task manager and gives its id.\<close>

(* src/resourcemgr/resource_mgr_http_apis.cpp:945-994 POST /api/instance *)
definition api_instance_post ::
  "launch_ext \<Rightarrow> chain_ids \<Rightarrow> (launch_world task \<Rightarrow> string + string) \<Rightarrow> string \<Rightarrow> string \<Rightarrow> launch_world \<Rightarrow> exn + answer" where
  "api_instance_post X ids submit content_type body_text w =
     rbind (parse_json_from_req (rx_env (lx_load X)) content_type body_text) (\<lambda>body.
       case jfind ''template'' body of
         Some (JStr ref) \<Rightarrow>
           rbind (find_template (lx_text X) (world_db w) ref) (\<lambda>t. case t of
             None \<Rightarrow> Inr (404, JsonBody (jobject [(''error'', JStr ''template not found''), (''template'', JStr ref)]))
           | Some cr \<Rightarrow>
               (case singleton_bar (lx_text X) (world_db w) cr of
                  Some x \<Rightarrow> Inr (409, JsonBody (singleton_doc (lx_text X) cr x))
                | None \<Rightarrow>
                    rbind (rbind (jvalue ''start'' (JBool True) body) get_bool) (\<lambda>start.
                    rbind (if start then rbind (jvalue ''connect'' (JBool True) body) get_bool else Inr False) (\<lambda>connect.
                      case acr_spec cr of
                        None \<Rightarrow> Inl null_spec
                      | Some sp \<Rightarrow>
                          (case submit (start_task X (lw_env w) ids (rm_packages (am_rm (lw_mgr w))) cr sp start connect) of
                             Inl e \<Rightarrow> Inl (RuntimeError (''submit start-instance task failed: '' @ e))
                           | Inr i \<Rightarrow> ok_json (jobject [(''taskId'', JStr i),
                                        (''template'', JStr (md_name (acr_metadata cr)))]))))))
       | _ \<Rightarrow> Inl (InvalidArgument (''body must contain string '' @ quoted ''template'' @ '' (CR name or id)'')))"

definition set_world_db :: "rdb \<Rightarrow> launch_world \<Rightarrow> launch_world" where
  "set_world_db T w = w\<lparr>lw_mgr := set_db T (lw_mgr w)\<rparr>"

(* src/resourcemgr/resource_mgr_http_apis.cpp:997-1024 DELETE /api/instance/:id *)
definition api_instance_delete :: "launch_ext \<Rightarrow> string \<Rightarrow> launch_world \<Rightarrow> (exn + answer) \<times> launch_world" where
  "api_instance_delete X id_str w =
     (case read_uuid (lx_text X) id_str of
        None \<Rightarrow> (bad_uuid, w)
      | Some i \<Rightarrow>
          (case get_ability_instance (lx_text X) (world_db w) i of
             None \<Rightarrow> (no_instance, w)
           | Some info \<Rightarrow>
               (let active = (ii_state info \<noteq> ''Inactive'' \<and> ii_state info \<noteq> ''Terminated'');
                    w1 = (if active then send_lifecycle i ''terminate'' w else w)
                in (ok_json (jobject [(''status'', JStr ''ok'')]),
                    set_world_db (delete_ability_instance i (world_db w1)) w1))))"

subsection \<open>Services\<close>

(* src/resourcemgr/resource_mgr_http_apis.cpp:1032-1035 GET /api/service-cr *)
definition api_service_list :: "text_lib \<Rightarrow> rdb \<Rightarrow> exn + answer" where
  "api_service_list L T = rbind (get_all_service_cr L T) (\<lambda>crs. ok_json (JArr (map (service_cr_to_json L) crs)))"

(* src/resourcemgr/resource_mgr_http_apis.cpp:1037-1053 GET /api/service-cr/:id *)
definition api_service_get :: "text_lib \<Rightarrow> string \<Rightarrow> rdb \<Rightarrow> exn + answer" where
  "api_service_get L id_str T =
     (case read_uuid L id_str of
        None \<Rightarrow> bad_uuid
      | Some i \<Rightarrow>
          rbind (get_service_cr L T i) (\<lambda>r. case r of
            None \<Rightarrow> Inr (404, JsonBody (error_doc ''service not found''))
          | Some cr \<Rightarrow> ok_json (service_cr_to_json L cr)))"

text \<open>The check against the framework's schema is made and its result is not used.\<close>

(* src/resourcemgr/resource_mgr_http_apis.cpp:1055-1076 POST /api/service-cr *)
definition api_service_post :: "load_ext \<Rightarrow> time \<Rightarrow> string \<Rightarrow> rdb \<Rightarrow> (exn + answer) \<times> rdb" where
  "api_service_post X now body T =
     (let r = rbind (rbind (parse (rx_text X) body) (service_cr_from_json (rx_text X))) (\<lambda>cr.
              rbind (if scr_id cr \<noteq> 0 then Inr cr
                     else (case scr_spec cr of
                             None \<Rightarrow> Inl null_spec
                           | Some sp \<Rightarrow> Inr (cr\<lparr>scr_id := rx_make_uuid X
                               [ss_package sp, version_to_string (ss_version sp), ss_serviceName sp, md_name (scr_metadata cr)]\<rparr>)))
               (\<lambda>cr. rbind (add_service_cr (rx_text X) now cr T) (\<lambda>T'. Inr (scr_id cr, T'))))
      in case r of
           Inl e \<Rightarrow> (Inl e, T)
         | Inr (i, T') \<Rightarrow>
             (ok_json (jobject [(''id'', JStr (show_uuid (rx_text X) i)), (''status'', JStr ''created'')]), T'))"

(* src/resourcemgr/resource_mgr_http_apis.cpp:1078-1090 DELETE /api/service-cr/:id *)
definition api_service_delete :: "text_lib \<Rightarrow> string \<Rightarrow> rdb \<Rightarrow> (exn + answer) \<times> rdb" where
  "api_service_delete L id_str T =
     (case read_uuid L id_str of
        None \<Rightarrow> (bad_uuid, T)
      | Some i \<Rightarrow> (ok_json (jobject [(''status'', JStr ''deleted'')]), remove_service_cr i T))"

subsection \<open>What the endpoints guarantee\<close>

text \<open>Reading templates does not look at instances.\<close>

lemma find_template_instances: "find_template L (T\<lparr>rt_instances := rows\<rparr>) ref = find_template L T ref"
  by (simp add: find_template_def get_ability_cr_def get_all_ability_cr_def append_ability_kv_def cong: option.case_cong)

lemma active_append_inactive:
  "ir_state r = ''Inactive'' \<Longrightarrow>
     get_active_instances_by_ability_name L (T\<lparr>rt_instances := rt_instances T @ [r]\<rparr>) name
       = get_active_instances_by_ability_name L T name"
  by (simp add: get_active_instances_by_ability_name_def active_row_def)

text \<open>What the first task of a start chain does.\<close>

lemma create_instance_action_ok:
  assumes "create_instance_action X key cr w = (Inr v, w')"
  obtains sp r where "acr_spec cr = Some sp" "ir_state r = ''Inactive''" "ir_ability_name r = sf_abilityName (spec_own sp)"
    "world_db w' = (world_db w)\<lparr>rt_instances := rt_instances (world_db w) @ [r]\<rparr>" "lw_env w' = lw_env w"
    "rm_packages (am_rm (lw_mgr w')) = rm_packages (am_rm (lw_mgr w))" "lw_requests w' = lw_requests w"
proof -
  obtain T where T: "create_ability_instance (lx_text X) (te_sys_now (lw_env w)) (rx_fresh (lx_load X) (rm_drawn (am_rm (lw_mgr w)))) cr
      (rm_db (am_rm (lw_mgr w))) = Inr T"
    and w': "w' = w\<lparr>lw_mgr := (lw_mgr w)\<lparr>am_rm := (am_rm (lw_mgr w))\<lparr>rm_db := T, rm_drawn := Suc (rm_drawn (am_rm (lw_mgr w)))\<rparr>\<rparr>,
          lw_entries := (key, rx_fresh (lx_load X) (rm_drawn (am_rm (lw_mgr w)))) # lw_entries w\<rparr>"
    using assms by (auto simp: create_instance_action_def Let_def split: sum.splits)
  obtain sp where sp: "acr_spec cr = Some sp" using T by (auto simp: create_ability_instance_def split: option.splits)
  show thesis
    by (rule that [OF sp, of "last (rt_instances T)"])
      (use T sp in \<open>auto simp: w' create_ability_instance_def world_db_def am_db_def split: if_splits\<close>)
qed

text \<open>C35: The check for a running instance of a singleton ability does not see an instance that was just created: after
  the chain of one accepted request has created its instance, the same request gets the same answer as before, so a
  second instance of the singleton is started as long as no heartbeat of the first has arrived.\<close>

theorem singleton_admits_second:
  assumes "create_instance_action X key cr w = (Inr v, w')" "acr_spec cr = Some sp"
  shows "api_instance_post X ids submit content_type body w' = api_instance_post X ids submit content_type body w
    \<and> length (filter (\<lambda>r. ir_ability_name r = sf_abilityName (spec_own sp)) (rt_instances (world_db w')))
        = Suc (length (filter (\<lambda>r. ir_ability_name r = sf_abilityName (spec_own sp)) (rt_instances (world_db w))))"
proof -
  obtain r where r: "ir_state r = ''Inactive''" "ir_ability_name r = sf_abilityName (spec_own sp)"
    "world_db w' = (world_db w)\<lparr>rt_instances := rt_instances (world_db w) @ [r]\<rparr>" "lw_env w' = lw_env w"
    "rm_packages (am_rm (lw_mgr w')) = rm_packages (am_rm (lw_mgr w))"
    using create_instance_action_ok [OF assms(1)] assms(2) by (metis option.inject)
  have bar: "singleton_bar L (world_db w') c = singleton_bar L (world_db w) c" for L c
    unfolding singleton_bar_def r(3) active_append_inactive [OF r(1)] ..
  have tmpl: "find_template L (world_db w') ref = find_template L (world_db w) ref" for L ref
    unfolding r(3) by (rule find_template_instances)
  show ?thesis unfolding api_instance_post_def bar tmpl r(4,5) using r(2,3) by simp
qed

lemma find_instance_deleted:
  "get_ability_instance L (delete_ability_instance i T) k = (if k = i then None else get_ability_instance L T k)"
  by (simp add: get_ability_instance_def delete_ability_instance_def db_simps)

text \<open>C26: Deleting an instance removes its row and no other; a lifecycle request \<open>terminate\<close> is sent exactly when its state
  is neither \<open>Inactive\<close> nor \<open>Terminated\<close>, so the process of an instance that was started but has not reported yet is not
  told to end: its next heartbeat is refused, which is what makes it end.\<close>

theorem delete_instance_exact:
  assumes "read_uuid (lx_text X) id_str = Some i" "get_ability_instance (lx_text X) (world_db w) i = Some info"
  shows "\<exists>w'. api_instance_delete X id_str w = (ok_json (jobject [(''status'', JStr ''ok'')]), w')
    \<and> (\<forall>k. get_ability_instance (lx_text X) (world_db w') k
            = (if k = i then None else get_ability_instance (lx_text X) (world_db w) k))
    \<and> lw_requests w' = lw_requests w
        @ (if ii_state info \<in> {''Inactive'', ''Terminated''} then [] else [(i, ''terminate'')])
    \<and> (\<forall>L hb. hb_id hb = i \<and> hb_state hb \<noteq> LsTerminated \<longrightarrow> \<not> fst (on_event_heartbeat L hb (world_db w')))"
proof -
  let ?w1 = "if ii_state info \<noteq> ''Inactive'' \<and> ii_state info \<noteq> ''Terminated'' then send_lifecycle i ''terminate'' w else w"
  let ?w' = "set_world_db (delete_ability_instance i (world_db ?w1)) ?w1"
  have db1: "world_db ?w1 = world_db w" by (simp add: world_db_def send_lifecycle_def)
  have db: "world_db ?w' = delete_ability_instance i (world_db w)"
    unfolding db1 by (simp add: world_db_def set_world_db_def set_db_def am_db_def)
  have gone: "\<not> registered (world_db ?w') i"
    unfolding db by (auto simp: delete_ability_instance_def set_delete_where)
  have "\<not> fst (on_event_heartbeat L hb (world_db ?w'))" if "hb_id hb = i \<and> hb_state hb \<noteq> LsTerminated" for L hb
    using heartbeat_accept [of hb L "world_db ?w'"] that gone by (cases "on_event_heartbeat L hb (world_db ?w')") auto
  moreover have "lw_requests ?w' = lw_requests w @ (if ii_state info \<in> {''Inactive'', ''Terminated''} then [] else [(i, ''terminate'')])"
    by (auto simp: set_world_db_def send_lifecycle_def)
  moreover have "api_instance_delete X id_str w = (ok_json (jobject [(''status'', JStr ''ok'')]), ?w')"
    using assms by (simp add: api_instance_delete_def Let_def)
  ultimately show ?thesis unfolding db by (intro exI [of _ ?w']) (simp add: db find_instance_deleted)
qed

text \<open>The endpoint for one definition never answers: its pattern binds no parameter \<open>id\<close>.\<close>

lemma crd_endpoint_throws:
  "api_crd_get L [(''name'', n), (''version'', v)] T = Inl (OutOfRange ''_Map_base::at'')"
  by (simp add: api_crd_get_def path_param_def)

text \<open>Both on the sample world: an instance of the sample ability is created, and deleted again.\<close>

definition created_world :: launch_world where
  "created_world = snd (create_instance_action sample_launch 1 sample_cr sample_world)"

lemma created_world: "create_instance_action sample_launch 1 sample_cr sample_world = (Inr JNull, created_world)"
proof -
  have "case fst (create_instance_action sample_launch 1 sample_cr sample_world) of Inr JNull \<Rightarrow> True | _ \<Rightarrow> False" by code_simp
  then show ?thesis unfolding created_world_def
    by (cases "create_instance_action sample_launch 1 sample_cr sample_world") (auto split: sum.splits json.splits)
qed

lemma singleton_admits_second_witness:
  "\<exists>sp. acr_spec sample_cr = Some sp
    \<and> api_instance_post sample_launch \<lparr>ci_download = 1, ci_chain = 2, ci_tasks = [3, 4, 5, 6]\<rparr> (\<lambda>t. Inr ''t'') [] ''{}'' created_world
       = api_instance_post sample_launch \<lparr>ci_download = 1, ci_chain = 2, ci_tasks = [3, 4, 5, 6]\<rparr> (\<lambda>t. Inr ''t'') [] ''{}'' sample_world
    \<and> length (filter (\<lambda>r. ir_ability_name r = sf_abilityName (spec_own sp)) (rt_instances (world_db created_world))) = 1"
proof -
  have "acr_spec sample_cr \<noteq> None" by code_simp
  then obtain sp where sp: "acr_spec sample_cr = Some sp" by auto
  have "rt_instances (world_db sample_world) = []" by (simp add: sample_world_def start_mgr_def world_db_def am_db_def grasp_mgr_def empty_rdb_def)
  then show ?thesis using singleton_admits_second [OF created_world sp] sp by auto
qed

lemma delete_instance_exact_witness:
  "\<exists>w'. api_instance_delete sample_launch ''0'' created_world = (ok_json (jobject [(''status'', JStr ''ok'')]), w')
     \<and> get_ability_instance (lx_text sample_launch) (world_db w') 0 = None \<and> lw_requests w' = lw_requests created_world"
proof -
  have i: "read_uuid (lx_text sample_launch) ''0'' = Some 0" by code_simp
  have "case get_ability_instance (lx_text sample_launch) (world_db created_world) 0 of
      Some info \<Rightarrow> ii_state info = ''Inactive'' | None \<Rightarrow> False" by code_simp
  then obtain info where info: "get_ability_instance (lx_text sample_launch) (world_db created_world) 0 = Some info"
      "ii_state info = ''Inactive''" by (auto split: option.splits)
  show ?thesis using delete_instance_exact [where X = sample_launch and w = created_world, OF i info(1)] info(2) by auto
qed

end
