(* ===== verification/Spec2Isabelle.thy ===== *)
theory Spec2Isabelle
  imports TaskMgr ConcurrentMap Lifecycle ServiceLifecycle Definitions DeviceCR Ownership Bully Discovery Packages Launch Tables
    Models Startup Server ResourceHttp Alerts Processes
begin

text \<open>
  AbilityFramework, a runtime for robots: it stores what abilities, services and devices there are (resources, \<open>CR\<close>, and
  their definitions, \<open>CRD\<close>), starts and watches their processes, installs their packages and models, lets abilities occupy
  one another, and finds and leads the other frameworks of its network. This library models its C++ sources, \<open>src/\<close> and
  \<open>include/\<close>, and proves what makes the parts correct, or shows where they are not.

  \<^bold>\<open>How the parts work together.\<close> \<open>main\<close> registers six modules on a message bus and serves HTTP. A client creates an instance
  of an ability over HTTP; a chain of tasks (TaskMgr) writes its row (ResourceMgr), asks LifecycleMgr to start it, which asks
  SubprocessMgr for a process; the process reports by heartbeats, LifecycleMgr passes each to ResourceMgr, which accepts
  those of instances it knows, and keeps them in a sharded map, from which a timer drops the stale ones. A second timer
  makes the tables agree with the files of packages and resources and starts the templates marked for it. ControllerMgr
  starts the controllers of running abilities. DiscoveryMgr exchanges datagrams with the other nodes, joins teams and
  elects a leader.

  \<^bold>\<open>Theories, from the bottom up.\<close>

  \<^item> Prelude: exceptions as values (\<open>exn\<close>), results as sums with \<open>rbind\<close> and \<open>mapM_r\<close>, \<open>std::map\<close> as key-sorted lists, text helpers;
    the collections \<open>result_simps\<close> and \<open>omap_simps\<close>.
  \<^item> Json: \<open>nlohmann::json\<close> with its accessors and exceptions, and the field macros of \<open>util/json_codec_macros.hpp\<close>
    (\<open>json_simps\<close>). Semver: versions (\<open>util/semver.hpp\<close>), an instance of \<open>linorder\<close>. Files: \<open>std::filesystem\<close> on a tree
    (\<open>fs_simps\<close>). Config: \<open>util/yaml_to_json.cpp\<close>, \<open>util/global_vars.cpp\<close>.
  \<^item> TaskStatus, Tasks, TaskMgr: \<open>taskmgr/\<close>. A task is a tree of records, \<open>resume\<close> its one step, \<open>tm_update\<close> the loop of the
    manager. Loops that may not end are \<open>partial_function (option)\<close>, so that not returning is \<open>None\<close>: the theorems say when
    \<open>update\<close> returns, that a sequence does its actions in order, and which parallel task hangs.
  \<^item> MessageBus: \<open>messagebus/\<close>. ConcurrentMap: \<open>util/concurrent_map.*\<close>; the locale \<open>kv_store\<close> states what a store promises
    and is interpreted by the ordered, the sharded and the double-buffered map.
  \<^item> Heartbeat, Lifecycle: \<open>lifecyclemgr/\<close>, with the reachable states \<open>lm_reach\<close>. ServiceCR, ServiceLifecycle: services with
    restart policies and health checks.
  \<^item> AbilityCR, DeviceCR, Definitions: the resources and definitions of \<open>resourcemgr/\<close> and their codecs. ResourceDb: the tables of
    \<open>resource_mgr.cpp\<close> as lists of rows with one operation per method (\<open>db_simps\<close>). Instances: the rows of running instances;
    the locale \<open>instance_registry\<close> states what LifecycleMgr relies on and is interpreted by these rows, and the two modules
    are composed. Ownership: occupation; the locale \<open>shared_lock\<close> is the contract of a lock with one owner or many sharers,
    interpreted by the table (\<open>own_simps\<close>). Tables: every operation on the tables as one step relation, which keeps all keys.
  \<^item> Schema: \<open>json_schema_utils.cpp\<close>, \<open>builtin_crds.cpp\<close> and the framework-level checks. Reconcile: loading packages and files and
    the round that makes the tables agree with them. Launch: \<open>autoStart\<close>, \<open>keepAlive\<close>, the tasks that start instances and that
    install and remove packages, their factories. ResourceHttp: the HTTP interface.
  \<^item> Packages: unpacking, installing, mirroring and removing packages (\<open>store_mgr.cpp\<close>, \<open>store_client_impl.cpp\<close>). Models:
    \<open>model_mgr.cpp\<close>, \<open>model_info.cpp\<close>, \<open>install_model.cpp\<close>.
  \<^item> Network, Bully, Discovery: addresses and election messages, the Bully election, teams and broadcasts (\<open>discoverymgr/\<close>).
  \<^item> Processes: \<open>subprocessmgr/\<close>, \<open>controllermgr/\<close>. Alerts: \<open>abilityalertmgr/\<close>. Server: errors of HTTP handlers. Startup:
    \<open>main.cpp\<close>, the command line, the machine's addresses and load, the test endpoint.

  \<^bold>\<open>Reading the model.\<close> A function that may throw returns a sum with \<open>exn\<close>; a value of the code's \<open>expected\<close> is a second sum
  inside. State is passed and returned; where the code mutates before it throws, the state after the failure is returned
  beside the exception. A lock makes what it protects one step, a timer or a message is one call. Clocks, fresh uuids and
  random numbers are arguments. Integers are kept at their width where the width shows: ports are 16-bit words, uuids
  128-bit words, permission bits a 32-bit word, JSON integers are narrowed by \<open>to_int32\<close> where the code narrows. \<open>Undefined\<close>
  stands for undefined behaviour, and nothing is claimed about what follows it. Comments before a definition name the
  source lines it translates.

  \<^bold>\<open>Parameters and their hypotheses.\<close> The text libraries for uuids and JSON (\<open>text_lib\<close>; what is printed is read back), YAML,
  archives, the validator of JSON schemas, the URL parser, HMAC and JWT primitives, the HTTP client, the operating system
  (\<open>os_ext\<close>), the repositories. Each theorem with such a hypothesis has a witness on a concrete instance.

  \<^bold>\<open>Bounds and fuel.\<close> No theorem rests on fuel: recursion is structural or has a measure; the two loops that may run for ever
  are partial functions whose termination is proved or refuted. \<open>drive\<close> and the round functions take the list of instants or
  events they are run with.

  \<^bold>\<open>What the properties show.\<close> Safety and invariants: one owner at a time, no heartbeat without an instance, keys unique, restarts
  and starts bounded, members of a team authenticated, the leader never below oneself. Functional exactness: what a
  heartbeat, a reconciliation round, an installation, a removal, an occupation changes, and that nothing else changes.
  Refinement: lock, maps, alerts, sequences. Liveness and termination: update, waiting, election, autostart. Round trips of the
  codecs. Error behaviour and defects: what the code does where it does not what it means to; the findings of the manifest
  name the theorem or lemma.

  \<^bold>\<open>Not modelled.\<close> Vendored code (\<open>util/ada_url.*\<close>, \<open>util/mdns.h\<close>, \<open>util/expected.hpp\<close>, \<open>util/generator.hpp\<close>, \<open>util/jthread.hpp\<close>),
  which the sources call as libraries; version ranges of \<open>util/semver.hpp\<close>, which nothing uses; \<open>webui_embedded.cpp\<close>, embedded
  text; the worker threads of the bus, the timers of libuv, sockets, \<open>mdns.cpp\<close> and \<open>ftp_client.cpp\<close>, which are input and
  output; opening the SQLite database and its locking, where the tables are lists of rows and a statement is one step; logging;
  the branches for Windows and macOS; symbolic links and modes of files other than the execution check.
\<close>

end
